(* ===== verification/Prelude.thy ===== *)
theory Prelude
  imports "HOL-Library.Word"
begin

text \<open>
  Shared vocabulary of the development: Go's fixed-width integers, the standard-library string
  functions the source calls, the collections of facts the component proofs use, and the
  generic lemmas on lists and words.

  Go's \<open>int32\<close> is a 32-bit two's-complement word; every comparison of the source is on the
  signed value, written \<open>sint\<close> here. Go's \<open>int\<close> and \<open>uint\<close> are 64 bits wide. A Go string
  is a byte sequence, the HOL type \<open>string\<close>.
\<close>

named_theorems act "the definitions of the action primitives"
named_theorems wf_intros "preservation of a component's well-formedness by its operations"

type_synonym int32 = "32 word"
type_synonym go_int = "64 word"
type_synonym go_uint = "64 word"
type_synonym byte = "8 word"

subsection \<open>Signed words\<close>

lemma sint_word_of_int_32 [simp]:
  "- (2 ^ 31) \<le> i \<Longrightarrow> i < 2 ^ 31 \<Longrightarrow> sint (word_of_int i :: int32) = i"
  by (simp add: signed_take_bit_int_eq_self sint_sbintrunc')

lemma sint_word_of_int_mod: "sint (word_of_int i :: int32) = (i + 2 ^ 31) mod 2 ^ 32 - 2 ^ 31"
  by (simp add: sint_sbintrunc' signed_take_bit_eq_take_bit_shift take_bit_eq_mod)

lemma sint_int32_bounds: "- (2 ^ 31) \<le> sint (x :: int32)" "sint (x :: int32) < 2 ^ 31"
  using sint_range_size [of x] by (auto simp: word_size)

lemma sint_eq_iff [simp]: "sint (x :: int32) = sint y \<longleftrightarrow> x = y"
  by (auto intro: signed_word_eqI)

lemma inj_sint_int32: "inj (sint :: int32 \<Rightarrow> int)"
  by (rule injI) simp

lemma inj_on_sint_int32 [simp]: "inj_on (sint :: int32 \<Rightarrow> int) A"
  using inj_sint_int32 by (rule inj_on_subset) simp

subsection \<open>Strings\<close>

fun strings_HasPrefix :: "string \<Rightarrow> string \<Rightarrow> bool" where
  "strings_HasPrefix s [] = True"
| "strings_HasPrefix [] (p # ps) = False"
| "strings_HasPrefix (c # s) (p # ps) = (c = p \<and> strings_HasPrefix s ps)"

fun strings_Contains :: "string \<Rightarrow> string \<Rightarrow> bool" where
  "strings_Contains [] sub = (sub = [])"
| "strings_Contains (c # s) sub = (strings_HasPrefix (c # s) sub \<or> strings_Contains s sub)"

lemma HasPrefix_append [simp]: "strings_HasPrefix (p @ s) p"
  by (induction p) auto

lemma HasPrefix_iff: "strings_HasPrefix s p \<longleftrightarrow> (\<exists>r. s = p @ r)"
  by (induction s p rule: strings_HasPrefix.induct) auto

lemma Contains_iff: "strings_Contains s sub \<longleftrightarrow> (\<exists>l r. s = l @ sub @ r)"
proof (induction s)
  case Nil
  show ?case by simp
next
  case (Cons c s)
  have "(\<exists>l r. c # s = l @ sub @ r) \<longleftrightarrow> (\<exists>r. c # s = sub @ r) \<or> (\<exists>l r. s = l @ sub @ r)"
    by (metis append_Cons append_Nil list.exhaust list.inject)
  then show ?case
    using Cons.IH by (simp add: HasPrefix_iff del: strings_HasPrefix.simps)
qed

subsection \<open>Lists of rows\<close>

text \<open>
  A table is a list of rows. \<open>update_where\<close> is the effect of an UPDATE on the rows, a DELETE
  is a filter.
\<close>

definition update_where :: "('r \<Rightarrow> bool) \<Rightarrow> ('r \<Rightarrow> 'r) \<Rightarrow> 'r list \<Rightarrow> 'r list" where
  "update_where p f rs = map (\<lambda>r. if p r then f r else r) rs"

lemma length_update_where [simp]: "length (update_where p f rs) = length rs"
  by (simp add: update_where_def)

lemma set_update_where: "set (update_where p f rs) = (\<lambda>r. if p r then f r else r) ` set rs"
  by (simp add: update_where_def)

lemma map_update_where_same:
  "(\<And>r. r \<in> set rs \<Longrightarrow> p r \<Longrightarrow> g (f r) = g r) \<Longrightarrow> map g (update_where p f rs) = map g rs"
  by (auto simp: update_where_def)

lemma filter_update_where_key:
  assumes "\<And>r. r \<in> set rs \<Longrightarrow> p r \<Longrightarrow> q (f r) = q r"
  shows "filter q (update_where p f rs) = update_where p f (filter q rs)"
  using assms by (induction rs) (auto simp: update_where_def)

lemma filter_update_where_disjoint:
  assumes "\<And>r. r \<in> set rs \<Longrightarrow> p r \<Longrightarrow> q (f r) = q r"
    and "\<And>r. r \<in> set rs \<Longrightarrow> q r \<Longrightarrow> \<not> p r"
  shows "filter q (update_where p f rs) = filter q rs"
  using assms by (induction rs) (auto simp: update_where_def)

text \<open>
  A primary key is a projection that is \<open>distinct\<close> on the table: a lookup by the key then has
  at most one row, and is determined by membership.
\<close>

lemma find_distinct_key:
  assumes "distinct (map k rs)" and "r \<in> set rs"
  shows "find (\<lambda>x. k x = k r) rs = Some r"
  using assms by (induction rs) (auto simp: rev_image_eqI)

lemma find_None_set: "find p rs = None \<longleftrightarrow> (\<forall>r \<in> set rs. \<not> p r)"
  by (auto simp: find_None_iff)

lemma find_SomeD: "find p rs = Some r \<Longrightarrow> r \<in> set rs \<and> p r"
  by (auto simp: find_Some_iff)

lemma distinct_key_filter: "distinct (map k rs) \<Longrightarrow> distinct (map k (filter p rs))"
  by (rule distinct_map_filter)

lemma distinct_key_inj:
  assumes "distinct (map k rs)" "r \<in> set rs" "r' \<in> set rs" "k r = k r'"
  shows "r = r'"
  using assms by (meson distinct_map inj_onD)

lemma find_update_where_key:
  assumes "\<And>r. k (f r) = k r"
  shows "find (\<lambda>r. k r = x) (update_where (\<lambda>r. k r = y) f rs) =
     (if x = y then map_option f (find (\<lambda>r. k r = x) rs) else find (\<lambda>r. k r = x) rs)"
  using assms by (induction rs) (auto simp: update_where_def)

lemma find_filter_key:
  "find (\<lambda>r. k r = x) (filter (\<lambda>r. k r \<noteq> y) rs) =
     (if x = y then None else find (\<lambda>r. k r = x) rs)"
  by (induction rs) auto

lemma find_snoc:
  "find p (rs @ [r]) = (case find p rs of None \<Rightarrow> if p r then Some r else None | Some y \<Rightarrow> Some y)"
  by (induction rs) auto

lemma find_cong_key: "(\<And>r. r \<in> set rs \<Longrightarrow> p r = q r) \<Longrightarrow> find p rs = find q rs"
  by (induction rs) auto

lemma length_filter_0_iff: "length (filter p rs) = 0 \<longleftrightarrow> find p rs = None"
  by (induction rs) auto

lemma length_filter_plus:
  "(\<And>r. r \<in> set rs \<Longrightarrow> \<not> (p r \<and> q r)) \<Longrightarrow>
   length (filter p rs) + length (filter q rs) = length (filter (\<lambda>r. p r \<or> q r) rs)"
  by (induction rs) auto

end
