(* ===== verification/Errors.thy ===== *)
theory Errors
  imports Prelude
begin

text \<open>
  The error values of the program and their two translations: to an HTTP status
  (\<open>domain.MapErrorToHTTP\<close>) and through a gRPC call (\<open>domain.ToGrpcError\<close> in the server,
  \<open>domain.FromGrpcError\<close> in the client). Source: src/domain/errors.go.

  A sentinel error variable is a constructor of its own; \<open>Wrapf p e\<close> is
  \<open>fmt.Errorf("p%w", e)\<close>, \<open>Plain s\<close> is an error with text \<open>s\<close> that wraps nothing (the
  database driver's errors among them), and \<open>GrpcStatus c m\<close> is a gRPC status error.
\<close>

datatype grpc_code =
  Code_OK | Code_Canceled | Code_Unknown | Code_InvalidArgument | Code_DeadlineExceeded
| Code_NotFound | Code_AlreadyExists | Code_PermissionDenied | Code_ResourceExhausted
| Code_FailedPrecondition | Code_Aborted | Code_OutOfRange | Code_Unimplemented | Code_Internal
| Code_Unavailable | Code_DataLoss | Code_Unauthenticated

datatype go_error =
  ErrNotFound | ErrAccessDenied | ErrInvalidInput | ErrNotExist | ErrDB | ErrAlreadyExists
| ErrService | ErrInvalidParams
| ErrPostNotFound | ErrPostTextTooLong | ErrPostInvalidAuthor
| ErrFriendshipNotFound
| ErrUserNotFound | ErrEmailTaken | ErrInvalidEmail
| ErrNoRows | ErrNil
| Plain string | Wrapf string go_error | GrpcStatus grpc_code string

definition sentinels :: "go_error list" where
  "sentinels = [ErrNotFound, ErrAccessDenied, ErrInvalidInput, ErrNotExist, ErrDB,
     ErrAlreadyExists, ErrService, ErrInvalidParams, ErrPostNotFound, ErrPostTextTooLong,
     ErrPostInvalidAuthor, ErrFriendshipNotFound, ErrUserNotFound, ErrEmailTaken,
     ErrInvalidEmail]"

subsection \<open>The standard library's view of an error\<close>

fun errors_Is :: "go_error \<Rightarrow> go_error \<Rightarrow> bool" where
  "errors_Is (Wrapf p e) t = (Wrapf p e = t \<or> errors_Is e t)"
| "errors_Is e t = (e = t)"

fun code_name :: "grpc_code \<Rightarrow> string" where
  "code_name Code_OK = ''OK''"
| "code_name Code_Canceled = ''Canceled''"
| "code_name Code_Unknown = ''Unknown''"
| "code_name Code_DeadlineExceeded = ''DeadlineExceeded''"
| "code_name Code_ResourceExhausted = ''ResourceExhausted''"
| "code_name Code_Aborted = ''Aborted''"
| "code_name Code_OutOfRange = ''OutOfRange''"
| "code_name Code_Unimplemented = ''Unimplemented''"
| "code_name Code_DataLoss = ''DataLoss''"
| "code_name Code_InvalidArgument = ''InvalidArgument''"
| "code_name Code_NotFound = ''NotFound''"
| "code_name Code_AlreadyExists = ''AlreadyExists''"
| "code_name Code_PermissionDenied = ''PermissionDenied''"
| "code_name Code_FailedPrecondition = ''FailedPrecondition''"
| "code_name Code_Internal = ''Internal''"
| "code_name Code_Unavailable = ''Unavailable''"
| "code_name Code_Unauthenticated = ''Unauthenticated''"

fun Error_text :: "go_error \<Rightarrow> string" where
  "Error_text ErrNotFound = ''not found''"
| "Error_text ErrAccessDenied = ''access denied''"
| "Error_text ErrInvalidInput = ''invalid input''"
| "Error_text ErrNotExist = ''not exist''"
| "Error_text ErrDB = ''dbconn error''"
| "Error_text ErrAlreadyExists = ''already exist''"
| "Error_text ErrService = ''service error''"
| "Error_text ErrInvalidParams = ''invalid params''"
| "Error_text ErrPostNotFound = ''post not found''"
| "Error_text ErrPostTextTooLong = ''post text too long''"
| "Error_text ErrPostInvalidAuthor = ''invalid author''"
| "Error_text ErrFriendshipNotFound = ''friendship not found''"
| "Error_text ErrUserNotFound = ''user not found''"
| "Error_text ErrEmailTaken = ''email already taken''"
| "Error_text ErrInvalidEmail = ''invalid email''"
| "Error_text ErrNoRows = ''sql: no rows in result set''"
| "Error_text ErrNil = ''redigo: nil returned''"
| "Error_text (Plain s) = s"
| "Error_text (Wrapf p e) = p @ Error_text e"
| "Error_text (GrpcStatus c m) = ''rpc error: code = '' @ code_name c @ '' desc = '' @ m"

text \<open>
  \<open>status.FromError\<close>: the status an error carries, looking through wrapped errors (the
  message is then the whole text); \<open>None\<close> is its \<open>ok = false\<close>.
\<close>

fun status_FromError :: "go_error \<Rightarrow> (grpc_code \<times> string) option" where
  "status_FromError (GrpcStatus c m) = Some (c, m)"
| "status_FromError (Wrapf p e) =
     map_option (\<lambda>(c, _). (c, Error_text (Wrapf p e))) (status_FromError e)"
| "status_FromError e = None"

subsection \<open>The user-facing messages\<close>

abbreviation msg_NotFound :: string where "msg_NotFound \<equiv> ''Resource Not found''"
abbreviation msg_ServerErr :: string where "msg_ServerErr \<equiv> ''Internal Server error''"
abbreviation msg_InvalidData :: string where "msg_InvalidData \<equiv> ''Invalid data''"
abbreviation msg_InvalidParams :: string where "msg_InvalidParams \<equiv> ''Invalid query parameters''"
abbreviation msg_Forbidden :: string where "msg_Forbidden \<equiv> ''Access denied''"
abbreviation msg_AlreadyExist :: string where "msg_AlreadyExist \<equiv> ''Already exist''"

abbreviation http_OK :: int32 where "http_OK \<equiv> 200"
abbreviation http_BadRequest :: int32 where "http_BadRequest \<equiv> 400"
abbreviation http_Forbidden :: int32 where "http_Forbidden \<equiv> 403"
abbreviation http_NotFound :: int32 where "http_NotFound \<equiv> 404"
abbreviation http_Conflict :: int32 where "http_Conflict \<equiv> 409"
abbreviation http_InternalServerError :: int32 where "http_InternalServerError \<equiv> 500"

subsection \<open>The three translations\<close>

definition MapErrorToHTTP :: "go_error \<Rightarrow> int32 \<times> string" where
  "MapErrorToHTTP err =
     (if errors_Is err ErrNotFound \<or> errors_Is err ErrPostNotFound
        then (http_NotFound, msg_NotFound)
      else if errors_Is err ErrAccessDenied then (http_Forbidden, msg_Forbidden)
      else if errors_Is err ErrService then (http_InternalServerError, msg_ServerErr)
      else if errors_Is err ErrInvalidInput then (http_BadRequest, msg_InvalidData)
      else if errors_Is err ErrNotExist then (http_BadRequest, msg_InvalidData)
      else if errors_Is err ErrAlreadyExists then (http_Conflict, msg_AlreadyExist)
      else if errors_Is err ErrDB then (http_InternalServerError, msg_ServerErr)
      else if errors_Is err ErrInvalidParams then (http_BadRequest, msg_InvalidParams)
      else (http_InternalServerError, msg_ServerErr))"

definition ToGrpcError :: "go_error \<Rightarrow> go_error" where
  "ToGrpcError err =
     (if errors_Is err ErrNotFound \<or> errors_Is err ErrNotExist
        then GrpcStatus Code_NotFound (Error_text err)
      else if errors_Is err ErrAccessDenied
        then GrpcStatus Code_PermissionDenied (Error_text err)
      else if errors_Is err ErrInvalidInput
        then GrpcStatus Code_InvalidArgument (Error_text err)
      else if errors_Is err ErrAlreadyExists
        then GrpcStatus Code_AlreadyExists (Error_text err)
      else if errors_Is err ErrDB then GrpcStatus Code_Internal ''database error''
      else if errors_Is err ErrService then GrpcStatus Code_Internal ''internal service error''
      else GrpcStatus Code_Unknown (Error_text err))"

definition FromGrpcError :: "go_error \<Rightarrow> go_error" where
  "FromGrpcError err =
     (case status_FromError err of
        None \<Rightarrow> ErrService
      | Some (code, message) \<Rightarrow>
          (case code of
             Code_NotFound \<Rightarrow> ErrNotFound
           | Code_PermissionDenied \<Rightarrow> ErrAccessDenied
           | Code_InvalidArgument \<Rightarrow> ErrInvalidInput
           | Code_AlreadyExists \<Rightarrow> ErrAlreadyExists
           | Code_Unauthenticated \<Rightarrow> ErrAccessDenied
           | Code_FailedPrecondition \<Rightarrow> ErrInvalidInput
           | Code_Internal \<Rightarrow>
               (if strings_Contains message ''database error'' then ErrDB else ErrService)
           | Code_Unavailable \<Rightarrow> ErrService
           | _ \<Rightarrow> ErrService))"

subsection \<open>How errors survive a gRPC hop\<close>

lemma errors_Is_refl [simp]: "errors_Is e e"
  by (cases e) auto

lemma FromGrpc_ToGrpc:
  "FromGrpcError (ToGrpcError e) =
     (if errors_Is e ErrNotFound \<or> errors_Is e ErrNotExist then ErrNotFound
      else if errors_Is e ErrAccessDenied then ErrAccessDenied
      else if errors_Is e ErrInvalidInput then ErrInvalidInput
      else if errors_Is e ErrAlreadyExists then ErrAlreadyExists
      else if errors_Is e ErrDB then ErrDB
      else ErrService)"
  by (simp add: FromGrpcError_def ToGrpcError_def)

lemma FromGrpcError_range:
  "FromGrpcError e \<in> {ErrNotFound, ErrAccessDenied, ErrInvalidInput, ErrAlreadyExists, ErrDB,
     ErrService}"
  by (auto simp: FromGrpcError_def split: option.splits grpc_code.splits)

lemma FromGrpcError_sentinels [simp]:
  "FromGrpcError (ToGrpcError ErrNotFound) = ErrNotFound"
  "FromGrpcError (ToGrpcError ErrNotExist) = ErrNotFound"
  "FromGrpcError (ToGrpcError ErrAccessDenied) = ErrAccessDenied"
  "FromGrpcError (ToGrpcError ErrInvalidInput) = ErrInvalidInput"
  "FromGrpcError (ToGrpcError ErrAlreadyExists) = ErrAlreadyExists"
  "FromGrpcError (ToGrpcError ErrDB) = ErrDB"
  "FromGrpcError (ToGrpcError ErrService) = ErrService"
  "FromGrpcError (ToGrpcError ErrInvalidParams) = ErrService"
  by (simp_all add: FromGrpc_ToGrpc)

end
