(* ===== verification/Schema.thy ===== *)
theory Schema
  imports Errors
begin

text \<open>
  The tables of the PostgreSQL schema (src/db/migrations/20251008113339_init_db.up.sql) that the
  modelled components read and write, one record per row type, with the CHECK constraints the
  schema puts on a row. A table is the list of its rows; NULL is \<open>None\<close>; a TIMESTAMP is a number
  of seconds; an enum value is its label. PRIMARY KEY, UNIQUE and FOREIGN KEY constraints are
  checked by the statements that can break them, in the theory of the store that issues them.
\<close>

record user_row =
  u_id :: int32
  u_email :: string
  u_role :: string
  u_password :: string
  u_created_at :: int
  u_updated_at :: int

record profile_row =
  p_user_id :: int32
  p_first_name :: string
  p_last_name :: string
  p_avatar_path :: "string option"
  p_header_path :: "string option"
  p_about_myself :: "string option"
  p_gender :: string
  p_dob :: int

record friend_row =
  fr_first_user_id :: int32
  fr_second_user_id :: int32
  fr_action_user_id :: int32
  fr_status :: string
  fr_created_at :: int
  fr_updated_at :: int

record post_row =
  po_id :: int32
  po_author_id :: int32
  po_community_id :: "int32 option"
  po_text :: string
  po_created_at :: int
  po_updated_at :: int

record comment_row =
  co_id :: int32
  co_post_id :: int32
  co_author_id :: int32
  co_parent_id :: "int32 option"
  co_text :: string
  co_created_at :: int
  co_updated_at :: int

record post_like_row =
  pl_post_id :: int32
  pl_user_id :: int32
  pl_created_at :: int
  pl_updated_at :: int

text \<open>\<open>post_attachments\<close> and \<open>post_photos\<close> have the same columns the code reads.\<close>

record post_file_row =
  pf_id :: int32
  pf_post_id :: int32
  pf_file_path :: string
  pf_created_at :: int

record community_row =
  cm_id :: int32
  cm_name :: string
  cm_description :: string
  cm_creator_id :: int32
  cm_avatar_path :: "string option"
  cm_cover_path :: "string option"
  cm_created_at :: int
  cm_updated_at :: int

record subscription_row =
  sb_community_id :: int32
  sb_user_id :: int32
  sb_created_at :: int

record chat_row =
  ch_id :: int32
  ch_name :: "string option"
  ch_is_group :: bool
  ch_avatar :: "string option"
  ch_created_at :: int

record chat_member_row =
  cb_chat_id :: int32
  cb_member_id :: int32
  cb_last_read_message_id :: int32

record message_row =
  ms_id :: int32
  ms_author_id :: int32
  ms_chat_id :: int32
  ms_text :: string
  ms_sticker_id :: "int32 option"
  ms_created_at :: int

text \<open>The rows of the table attachments, here \<open>object_attachments\<close>.\<close>

record attachment_row =
  at_id :: int32
  at_obj_id :: int32
  at_obj_type :: string
  at_file_path :: string
  at_created_at :: int

record sticker_pack_row =
  pk_id :: int32
  pk_name :: string
  pk_cover_path :: string
  pk_created_at :: int

record sticker_row =
  sk_id :: int32
  sk_pack_id :: int32
  sk_file_path :: string
  sk_position :: int32
  sk_created_at :: int

record application_row =
  ap_id :: int32
  ap_author_id :: "int32 option"
  ap_temp_session_id :: "string option"
  ap_text :: string
  ap_category :: string
  ap_status :: string
  ap_created_at :: int
  ap_updated_at :: int
  ap_email_req :: string
  ap_email_feedback :: string

record database =
  users :: "user_row list"
  profiles :: "profile_row list"
  friend_relationships :: "friend_row list"
  posts :: "post_row list"
  comments :: "comment_row list"
  post_likes :: "post_like_row list"
  post_attachments :: "post_file_row list"
  post_photos :: "post_file_row list"
  communities :: "community_row list"
  community_subscriptions :: "subscription_row list"
  chats :: "chat_row list"
  chat_members :: "chat_member_row list"
  messages :: "message_row list"
  object_attachments :: "attachment_row list"
  sticker_packs :: "sticker_pack_row list"
  stickers :: "sticker_row list"
  applications :: "application_row list"

definition empty_database :: database where
  "empty_database = \<lparr>users = [], profiles = [], friend_relationships = [], posts = [],
     comments = [], post_likes = [], post_attachments = [], post_photos = [], communities = [],
     community_subscriptions = [], chats = [], chat_members = [], messages = [], object_attachments = [],
     sticker_packs = [], stickers = [], applications = []\<rparr>"

text \<open>
  LENGTH counts the characters of a TEXT value. For the UTF-8 encoded byte string a TEXT column
  holds, a character is a byte that is not a continuation byte (10xxxxxx).
\<close>

definition sql_LENGTH :: "string \<Rightarrow> nat" where
  "sql_LENGTH s = length (filter (\<lambda>c. of_char c div (64 :: nat) \<noteq> 2) s)"

lemma sql_LENGTH_le: "sql_LENGTH s \<le> length s"
  by (simp add: sql_LENGTH_def)

lemma sql_LENGTH_append [simp]: "sql_LENGTH (s @ t) = sql_LENGTH s + sql_LENGTH t"
  by (simp add: sql_LENGTH_def)

definition users_check :: "user_row \<Rightarrow> bool" where
  "users_check r \<longleftrightarrow> 8 \<le> sql_LENGTH (u_password r) \<and> sql_LENGTH (u_email r) \<le> 254"

definition profiles_check :: "profile_row \<Rightarrow> bool" where
  "profiles_check r \<longleftrightarrow>
     1 \<le> sql_LENGTH (p_first_name r) \<and> sql_LENGTH (p_first_name r) \<le> 64 \<and>
     1 \<le> sql_LENGTH (p_last_name r) \<and> sql_LENGTH (p_last_name r) \<le> 64 \<and>
     (case p_about_myself r of None \<Rightarrow> True | Some t \<Rightarrow> sql_LENGTH t \<le> 256) \<and>
     (case p_avatar_path r of None \<Rightarrow> True | Some t \<Rightarrow> sql_LENGTH t \<le> 512) \<and>
     (case p_header_path r of None \<Rightarrow> True | Some t \<Rightarrow> sql_LENGTH t \<le> 512)"

definition friendship_status_enum :: "string list" where
  "friendship_status_enum = [''pending'', ''accepted'', ''rejected'', ''blocked'']"

definition friend_relationships_check :: "friend_row \<Rightarrow> bool" where
  "friend_relationships_check r \<longleftrightarrow>
     fr_status r \<in> set friendship_status_enum \<and>
     fr_first_user_id r \<noteq> fr_second_user_id r \<and>
     sint (fr_first_user_id r) < sint (fr_second_user_id r) \<and>
     (fr_action_user_id r = fr_first_user_id r \<or> fr_action_user_id r = fr_second_user_id r)"

definition comments_check :: "comment_row \<Rightarrow> bool" where
  "comments_check r \<longleftrightarrow> 1 \<le> sql_LENGTH (co_text r) \<and> sql_LENGTH (co_text r) \<le> 4096"

definition posts_check :: "post_row \<Rightarrow> bool" where
  "posts_check r \<longleftrightarrow> sql_LENGTH (po_text r) \<le> 4096"

definition post_files_check :: "post_file_row \<Rightarrow> bool" where
  "post_files_check r \<longleftrightarrow> 1 \<le> sql_LENGTH (pf_file_path r) \<and> sql_LENGTH (pf_file_path r) \<le> 512"

definition communities_check :: "community_row \<Rightarrow> bool" where
  "communities_check r \<longleftrightarrow> 3 \<le> sql_LENGTH (cm_name r) \<and> sql_LENGTH (cm_name r) \<le> 48 \<and>
     sql_LENGTH (cm_description r) \<le> 512"

definition user_exists :: "database \<Rightarrow> int32 \<Rightarrow> bool" where
  "user_exists d i \<longleftrightarrow> (\<exists>u \<in> set (users d). u_id u = i)"

definition post_exists :: "database \<Rightarrow> int32 \<Rightarrow> bool" where
  "post_exists d i \<longleftrightarrow> (\<exists>p \<in> set (posts d). po_id p = i)"

definition chat_exists :: "database \<Rightarrow> int32 \<Rightarrow> bool" where
  "chat_exists d i \<longleftrightarrow> (\<exists>c \<in> set (chats d). ch_id c = i)"

definition sticker_exists :: "database \<Rightarrow> int32 \<Rightarrow> bool" where
  "sticker_exists d i \<longleftrightarrow> (\<exists>k \<in> set (stickers d). sk_id k = i)"

definition attachments_check :: "attachment_row \<Rightarrow> bool" where
  "attachments_check r \<longleftrightarrow> 1 \<le> sql_LENGTH (at_file_path r) \<and> sql_LENGTH (at_file_path r) \<le> 512"

definition application_category_enum :: "string list" where
  "application_category_enum = [''app_freezing'', ''page_not_loading'', ''chat_not_working'',
     ''profile_not_working'', ''messenger_not_working'', ''friend_not_working'', ''auth_problem'']"

definition application_status_enum :: "string list" where
  "application_status_enum = [''open'', ''inWork'', ''closed'']"

definition applications_check :: "application_row \<Rightarrow> bool" where
  "applications_check r \<longleftrightarrow>
     ap_category r \<in> set application_category_enum \<and> ap_status r \<in> set application_status_enum"

definition community_exists :: "database \<Rightarrow> int32 \<Rightarrow> bool" where
  "community_exists d i \<longleftrightarrow> (\<exists>c \<in> set (communities d). cm_id c = i)"

text \<open>
  ON DELETE CASCADE of the comments' own parent_id: the replies to what was deleted are deleted, and
  the replies to those. Every round that deletes something makes the table shorter, so that as many
  rounds as there are rows are enough.
\<close>

fun cascade_replies :: "nat \<Rightarrow> int32 list \<Rightarrow> comment_row list \<Rightarrow> comment_row list" where
  "cascade_replies 0 deleted rows = rows"
| "cascade_replies (Suc rounds) deleted rows =
     (let is_reply = (\<lambda>r. case co_parent_id r of None \<Rightarrow> False | Some i \<Rightarrow> i \<in> set deleted);
          replies = filter is_reply rows
      in if replies = [] then rows
         else cascade_replies rounds (map co_id replies) (filter (\<lambda>r. \<not> is_reply r) rows))"

definition delete_comments :: "(comment_row \<Rightarrow> bool) \<Rightarrow> comment_row list \<Rightarrow> comment_row list" where
  "delete_comments p rows =
     cascade_replies (length rows) (map co_id (filter p rows)) (filter (\<lambda>r. \<not> p r) rows)"

text \<open>A deleted post takes its likes, files and comments along.\<close>

definition delete_posts :: "(post_row \<Rightarrow> bool) \<Rightarrow> database \<Rightarrow> database" where
  "delete_posts p d =
     (let gone = map po_id (filter p (posts d))
      in d\<lparr>posts := filter (\<lambda>r. \<not> p r) (posts d),
           post_likes := filter (\<lambda>r. pl_post_id r \<notin> set gone) (post_likes d),
           post_attachments := filter (\<lambda>r. pf_post_id r \<notin> set gone) (post_attachments d),
           post_photos := filter (\<lambda>r. pf_post_id r \<notin> set gone) (post_photos d),
           comments := delete_comments (\<lambda>r. co_post_id r \<in> set gone) (comments d)\<rparr>)"

end
