(* ===== verification/Effects.thy ===== *)
theory Effects
  imports Schema
begin

text \<open>
  Actions: the effects of the program as explicit state passing.

  A Go call that can fail is an \<open>action\<close>: from a world to a result and the next world. The result
  is a value (\<open>Ret\<close>), an error value (\<open>Fail\<close>), or the panic of a nil dereference (\<open>Panic\<close>), which
  no caller of the source recovers from. The idiom
    \<^verbatim>\<open>x, err := m(); if err != nil { h } ; k\<close>
  is \<open>call m (\<lambda>err. h) (\<lambda>x. k)\<close>. Logging and timing are not part of an action.

  The world holds what the program keeps outside its own memory (the database, Redis, the working
  directory and the files by absolute path, the two search indexes), the clock, the randomness source, the values that the next
  calls of \<open>uuid.New().String()\<close> return, and \<open>faults\<close>: the outcome of the next calls to an
  external system, in order. A call with the entry \<open>Some msg\<close> fails with that message and has no
  other effect; with \<open>None\<close>, or past the end of the list, it is served. A theorem about all worlds
  is therefore a theorem about every combination of failing calls.
\<close>

datatype 'a res = Ret 'a | Fail go_error | Panic

record ProfileDocument =
  pd_UserID :: int32
  pd_FullName :: string
  pd_FullNameTranslit :: string

record CommunityDocument =
  cd_CommunityID :: int32
  cd_CommunityName :: string
  cd_CommunityNameTranslit :: string

datatype fs_entry = Directory | RegularFile "byte list"

record world =
  clock :: int
  faults :: "string option list"
  entropy :: "nat \<Rightarrow> byte"
  uuids :: "nat \<Rightarrow> string"
  seqs :: "string \<Rightarrow> int"
  db :: database
  redis :: "string \<Rightarrow> (string \<times> int) option"
  cwd :: string
  filesystem :: "string \<Rightarrow> fs_entry option"
  profile_index :: "string \<Rightarrow> ProfileDocument option"
  community_index :: "string \<Rightarrow> CommunityDocument option"
  torn :: "string \<Rightarrow> nat option"

type_synonym 'a action = "world \<Rightarrow> 'a res \<times> world"

definition empty_world :: world where
  "empty_world = \<lparr>clock = 0, faults = [], entropy = (\<lambda>_. 0), uuids = (\<lambda>_. []), seqs = (\<lambda>_. 0),
     db = empty_database, redis = (\<lambda>_. None), cwd = ''/'',
     filesystem = (\<lambda>_. None), profile_index = (\<lambda>_. None),
     community_index = (\<lambda>_. None), torn = (\<lambda>_. None)\<rparr>"

subsection \<open>Control flow\<close>

definition ret :: "'a \<Rightarrow> 'a action" where
  [act]: "ret x w = (Ret x, w)"

definition throw :: "go_error \<Rightarrow> 'a action" where
  [act]: "throw e w = (Fail e, w)"

definition nil_dereference :: "'a action" where
  [act]: "nil_dereference w = (Panic, w)"

definition call :: "'a action \<Rightarrow> (go_error \<Rightarrow> 'b action) \<Rightarrow> ('a \<Rightarrow> 'b action) \<Rightarrow> 'b action" where
  [act]: "call m h k w =
     (case m w of
        (Ret x, w') \<Rightarrow> k x w'
      | (Fail e, w') \<Rightarrow> h e w'
      | (Panic, w') \<Rightarrow> (Panic, w'))"

definition deref :: "'a option \<Rightarrow> ('a \<Rightarrow> 'b action) \<Rightarrow> 'b action" where
  [act]: "deref p k = (case p of None \<Rightarrow> nil_dereference | Some x \<Rightarrow> k x)"

subsection \<open>Calls that leave the process\<close>

definition next_fault :: "world \<Rightarrow> string option" where
  "next_fault w = (case faults w of [] \<Rightarrow> None | f # _ \<Rightarrow> f)"

definition tick :: "world \<Rightarrow> world" where
  "tick w = w\<lparr>faults := tl (faults w)\<rparr>"

definition external :: "(string \<Rightarrow> go_error) \<Rightarrow> 'a action \<Rightarrow> 'a action" where
  [act]: "external mk m w =
     (case next_fault w of Some msg \<Rightarrow> (Fail (mk msg), tick w) | None \<Rightarrow> m (tick w))"

text \<open>
  Statements sent to PostgreSQL. \<open>query_row\<close> is \<open>QueryRow(..).Scan(..)\<close>: no row is
  \<open>sql.ErrNoRows\<close>. \<open>exec\<close> computes the new tables and the number of affected rows from the clock
  and the tables, \<open>None\<close> when a constraint is violated.
\<close>

definition query_row :: "(database \<Rightarrow> 'a option) \<Rightarrow> 'a action" where
  [act]: "query_row q = external Plain (\<lambda>w.
     (case q (db w) of None \<Rightarrow> (Fail ErrNoRows, w) | Some x \<Rightarrow> (Ret x, w)))"

definition query :: "(database \<Rightarrow> 'a list) \<Rightarrow> 'a list action" where
  [act]: "query q = external Plain (\<lambda>w. (Ret (q (db w)), w))"

text \<open>
  LIMIT and OFFSET cut a window out of the ordered rows; PostgreSQL refuses a negative value.
\<close>

definition window :: "int32 \<Rightarrow> int32 \<Rightarrow> 'a list \<Rightarrow> 'a list" where
  "window limit offset rows = take (nat (sint limit)) (drop (nat (sint offset)) rows)"

definition query_page :: "(database \<Rightarrow> 'a list) \<Rightarrow> int32 \<Rightarrow> int32 \<Rightarrow> 'a list action" where
  [act]: "query_page q limit offset = external Plain (\<lambda>w.
     if sint limit < 0 then (Fail (Plain ''pq: LIMIT must not be negative''), w)
     else if sint offset < 0 then (Fail (Plain ''pq: OFFSET must not be negative''), w)
     else (Ret (window limit offset (q (db w))), w))"

definition exec :: "(int \<Rightarrow> database \<Rightarrow> (database \<times> nat) option) \<Rightarrow> nat action" where
  [act]: "exec f = external Plain (\<lambda>w.
     (case f (clock w) (db w) of
        None \<Rightarrow> (Fail (Plain ''pq: constraint violation''), w)
      | Some (d, n) \<Rightarrow> (Ret n, w\<lparr>db := d\<rparr>)))"

text \<open>
  The result of an executed statement: \<open>driver.RowsAffected\<close> of database/sql returns its count
  and no error.
\<close>

definition RowsAffected :: "nat \<Rightarrow> nat action" where
  [act]: "RowsAffected n = ret n"

text \<open>
  The loop over the rows of a result. Each \<open>rows.Scan\<close> can fail, and so can the iteration as a
  whole (\<open>rows.Err\<close>); \<open>wrap_scan\<close> and \<open>wrap_err\<close> are what the code makes of those errors.
\<close>

fun scan_rows :: "(go_error \<Rightarrow> go_error) \<Rightarrow> 'a list \<Rightarrow> 'a list action" where
  "scan_rows wrap_scan [] = ret []"
| "scan_rows wrap_scan (r # rs) =
     call (external Plain (ret r)) (\<lambda>e. throw (wrap_scan e)) (\<lambda>x.
     call (scan_rows wrap_scan rs) throw (\<lambda>xs.
     ret (x # xs)))"

definition rows_Err :: "unit action" where
  [act]: "rows_Err = external Plain (ret ())"

text \<open>
  The next value of a table's identity column: sequences are not rolled back, and a sequence of
  type INT ends at the largest int32.
\<close>

definition nextval :: "string \<Rightarrow> world \<Rightarrow> int32 option \<times> world" where
  "nextval t w =
     (if seqs w t + 1 > 2147483647 then (None, w)
      else (Some (word_of_int (seqs w t + 1)), w\<lparr>seqs := (seqs w)(t := seqs w t + 1)\<rparr>))"

text \<open>
  A call through a gRPC connection: the transport can fail, with status Unavailable; else the
  server's handler runs, and the status it returns is the client's error.
\<close>

definition grpc_call :: "'a action \<Rightarrow> 'a action" where
  [act]: "grpc_call handler = external (GrpcStatus Code_Unavailable) handler"

definition grpc_serve :: "'a action \<Rightarrow> 'a action" where
  [act]: "grpc_serve m = call m (\<lambda>e. throw (ToGrpcError e)) ret"

text \<open>
  A statement that returns a value from the changed tables (\<open>INSERT ... RETURNING\<close>,
  \<open>UPDATE ... RETURNING\<close>): a violated constraint is an error, no row is \<open>sql.ErrNoRows\<close>.
\<close>

definition exec_returning :: "(int \<Rightarrow> database \<Rightarrow> (database \<times> 'a option) option) \<Rightarrow> 'a action" where
  [act]: "exec_returning f = external Plain (\<lambda>w.
     (case f (clock w) (db w) of
        None \<Rightarrow> (Fail (Plain ''pq: constraint violation''), w)
      | Some (d, None) \<Rightarrow> (Fail ErrNoRows, w\<lparr>db := d\<rparr>)
      | Some (d, Some x) \<Rightarrow> (Ret x, w\<lparr>db := d\<rparr>)))"

text \<open>
  \<open>INSERT ... RETURNING\<close> into a table whose id is an identity column: the id is the next value of
  the sequence, which is used up even when the insert then fails.
\<close>

definition insert_returning ::
    "string \<Rightarrow> (int32 \<Rightarrow> int \<Rightarrow> database \<Rightarrow> (database \<times> 'a) option) \<Rightarrow> 'a action" where
  [act]: "insert_returning table f = external Plain (\<lambda>w.
     (case nextval table w of
        (None, w1) \<Rightarrow> (Fail (Plain ''pq: nextval: reached maximum value of sequence''), w1)
      | (Some i, w1) \<Rightarrow>
          (case f i (clock w1) (db w1) of
             None \<Rightarrow> (Fail (Plain ''pq: constraint violation''), w1)
           | Some (d, x) \<Rightarrow> (Ret x, w1\<lparr>db := d\<rparr>))))"

text \<open>
  Transactions. \<open>tx_Begin\<close> returns the tables as the transaction finds them; a rollback, or a commit
  that fails, restores them (sequences are not rolled back).
\<close>

definition tx_Begin :: "database action" where
  [act]: "tx_Begin = external Plain (\<lambda>w. (Ret (db w), w))"

definition tx_Rollback :: "database \<Rightarrow> unit action" where
  [act]: "tx_Rollback snapshot w = (Ret (), w\<lparr>db := snapshot\<rparr>)"

definition tx_Commit :: "database \<Rightarrow> unit action" where
  [act]: "tx_Commit snapshot w =
     (case next_fault w of
        Some msg \<Rightarrow> (Fail (Plain msg), (tick w)\<lparr>db := snapshot\<rparr>)
      | None \<Rightarrow> (Ret (), tick w))"

text \<open>
  A transaction that the code leaves without commit or rollback: nobody else ever sees its changes,
  and database/sql rolls it back when the context of the request ends.
\<close>

definition tx_Abandon :: "database \<Rightarrow> unit action" where
  [act]: "tx_Abandon snapshot w = (Ret (), w\<lparr>db := snapshot\<rparr>)"

text \<open>
  Loops over rows with a body. In \<open>rows_loop\<close> the iteration itself does not fail: the code checks
  \<open>rows.Err\<close> afterwards. Code that does not check it is \<open>rows_loop_unchecked\<close>: a \<open>rows.Next\<close> that
  fails ends the loop, and what was read so far passes for the whole result.
\<close>

fun rows_loop :: "('a \<Rightarrow> 'b action) \<Rightarrow> 'a list \<Rightarrow> 'b list action" where
  "rows_loop body [] = ret []"
| "rows_loop body (r # rs) =
     call (body r) throw (\<lambda>x. call (rows_loop body rs) throw (\<lambda>xs. ret (x # xs)))"

fun rows_loop_unchecked :: "('a \<Rightarrow> 'b action) \<Rightarrow> 'a list \<Rightarrow> 'b list action" where
  "rows_loop_unchecked body [] w = (Ret [], tick w)"
| "rows_loop_unchecked body (r # rs) w =
     (if next_fault w \<noteq> None then (Ret [], tick w)
      else call (body r) throw
        (\<lambda>x. call (rows_loop_unchecked body rs) throw (\<lambda>xs. ret (x # xs))) (tick w))"

text \<open>
  Go's \<open>uint\<close> against the INT columns: a parameter outside the range of the column cannot be
  encoded, and a negative value cannot be scanned.
\<close>

definition pg_int4 :: "go_uint \<Rightarrow> int32 option" where
  "pg_int4 u = (if uint u < 2 ^ 31 then Some (ucast u) else None)"

definition with_int4 :: "go_uint \<Rightarrow> (int32 \<Rightarrow> 'a action) \<Rightarrow> 'a action" where
  "with_int4 u k =
     (case pg_int4 u of
        None \<Rightarrow> throw (Plain ''unable to encode: greater than maximum value for int4'')
      | Some i \<Rightarrow> k i)"

definition scan_uint :: "int32 \<Rightarrow> go_uint option" where
  "scan_uint i = (if sint i < 0 then None else Some (ucast i))"

definition scan_count :: "nat \<Rightarrow> int32 option" where
  "scan_count n = (if int n < 2 ^ 31 then Some (word_of_nat n) else None)"

subsection \<open>Generic facts\<close>

definition no_faults :: "world \<Rightarrow> bool" where
  "no_faults w \<longleftrightarrow> (\<forall>f \<in> set (faults w). f = None)"

lemma no_faults_next [simp]: "no_faults w \<Longrightarrow> next_fault w = None"
  by (auto simp: no_faults_def next_fault_def split: list.splits)

lemma no_faults_tick [simp]: "no_faults w \<Longrightarrow> no_faults (tick w)"
  by (cases "faults w") (auto simp: no_faults_def tick_def)

lemma tick_sel [simp]:
  "clock (tick w) = clock w" "entropy (tick w) = entropy w" "uuids (tick w) = uuids w"
  "seqs (tick w) = seqs w" "db (tick w) = db w" "redis (tick w) = redis w"
  "cwd (tick w) = cwd w" "filesystem (tick w) = filesystem w" "profile_index (tick w) = profile_index w"
  "community_index (tick w) = community_index w" "torn (tick w) = torn w"
  "faults (tick w) = tl (faults w)"
  by (simp_all add: tick_def)

text \<open>
  \<open>quiet w w'\<close>: at most the fault schedule has moved on. A read leaves a quiet world.
\<close>

definition quiet :: "world \<Rightarrow> world \<Rightarrow> bool" where
  "quiet w w' \<longleftrightarrow> (\<exists>fs. w' = w\<lparr>faults := fs\<rparr>)"

lemma quiet_refl [simp]: "quiet w w"
  by (metis quiet_def world.surjective world.update_convs(2))

lemma quiet_tick [simp]: "quiet w (tick w)"
  by (auto simp: quiet_def tick_def)

lemma quiet_trans: "quiet w w' \<Longrightarrow> quiet w' w'' \<Longrightarrow> quiet w w''"
  by (auto simp: quiet_def)

lemma quiet_sel:
  assumes "quiet w w'"
  shows "clock w' = clock w" "entropy w' = entropy w" "uuids w' = uuids w" "seqs w' = seqs w"
    "db w' = db w" "redis w' = redis w" "cwd w' = cwd w"
    "filesystem w' = filesystem w" "profile_index w' = profile_index w"
    "community_index w' = community_index w" "torn w' = torn w"
  using assms by (auto simp: quiet_def)

definition reads :: "'a action \<Rightarrow> bool" where
  "reads m \<longleftrightarrow> (\<forall>w. quiet w (snd (m w)))"

lemma readsD: "reads m \<Longrightarrow> m w = (r, w') \<Longrightarrow> quiet w w'"
  by (metis reads_def snd_conv)

lemma reads_ret [simp, intro]: "reads (ret x)"
  and reads_throw [simp, intro]: "reads (throw e)"
  and reads_nil [simp, intro]: "reads nil_dereference"
  by (simp_all add: reads_def act)

lemma reads_call [intro]:
  assumes "reads m" "\<And>e. reads (h e)" "\<And>x. reads (k x)"
  shows "reads (call m h k)"
  unfolding reads_def
proof
  fix w
  obtain r w1 where m: "m w = (r, w1)" by (cases "m w")
  with assms(1) have 1: "quiet w w1" by (rule readsD)
  show "quiet w (snd (call m h k w))"
  proof (cases r)
    case (Ret x)
    with m assms(3)[of x] 1 show ?thesis
      by (auto simp: call_def reads_def intro: quiet_trans)
  next
    case (Fail e)
    with m assms(2)[of e] 1 show ?thesis
      by (auto simp: call_def reads_def intro: quiet_trans)
  qed (use m 1 in \<open>auto simp: call_def\<close>)
qed

lemma reads_external [intro]: "reads m \<Longrightarrow> reads (external mk m)"
  using quiet_trans [OF quiet_tick] by (auto simp: reads_def external_def split: option.splits)

lemma reads_query [simp, intro]:
  "reads (query_row q1)" "reads (query q2)" "reads (query_page q2 l off)" "reads rows_Err"
  "reads (RowsAffected n)"
  by (auto simp: query_row_def query_def query_page_def rows_Err_def RowsAffected_def reads_def act
      split: option.splits)

lemma reads_scan_rows [simp, intro]: "reads (scan_rows f rs)"
  by (induction rs) auto

lemma reads_grpc [intro]: "reads m \<Longrightarrow> reads (grpc_call m)" "reads m \<Longrightarrow> reads (grpc_serve m)"
  by (auto simp: grpc_call_def grpc_serve_def)

lemma scan_rows_Ret: "scan_rows f rs w = (Ret xs, w') \<Longrightarrow> xs = rs"
  by (induction rs arbitrary: w w' xs)
     (auto simp: act split: prod.splits res.splits option.splits)

lemma scan_rows_not_Panic: "scan_rows f rs w \<noteq> (Panic, w')"
  by (induction rs arbitrary: w w')
     (auto simp: act split: prod.splits res.splits option.splits)

lemma scan_rows_Fail: "scan_rows f rs w = (Fail e, w') \<Longrightarrow> \<exists>m. e = f (Plain m)"
  by (induction rs arbitrary: w w')
     (auto simp: act split: prod.splits res.splits option.splits)

lemma scan_rows_no_faults:
  "no_faults w \<Longrightarrow> \<exists>w'. scan_rows f rs w = (Ret rs, w') \<and> no_faults w'"
proof (induction rs arbitrary: w)
  case Nil
  then show ?case by (simp add: act)
next
  case (Cons r rs)
  obtain w' where "scan_rows f rs (tick w) = (Ret rs, w')" "no_faults w'"
    using Cons.IH [OF no_faults_tick [OF Cons.prems]] by blast
  then show ?case
    using Cons.prems by (simp add: act)
qed

lemma case_fst_Ret:
  "(\<And>x w'. m = (Ret x, w') \<Longrightarrow> P x) \<Longrightarrow>
   (case fst m of Ret x \<Rightarrow> P x | Fail e \<Rightarrow> True | Panic \<Rightarrow> True)"
  by (cases m) (auto split: res.split)

lemma reads_rows_loop [intro]: "(\<And>r. reads (body r)) \<Longrightarrow> reads (rows_loop body rs)"
  by (induction rs) auto

lemma quiet_tick_trans: "quiet (tick w) w' \<Longrightarrow> quiet w w'"
  by (rule quiet_trans [OF quiet_tick])

lemma reads_rows_loop_unchecked [intro]:
  assumes "\<And>r. reads (body r)"
  shows "reads (rows_loop_unchecked body rs)"
proof (induction rs)
  case Nil
  show ?case by (simp add: reads_def)
next
  case (Cons r rs)
  have "reads (call (body r) throw
      (\<lambda>x. call (rows_loop_unchecked body rs) throw (\<lambda>xs. ret (x # xs))))"
    using assms Cons.IH by (intro reads_call) auto
  then show ?case by (auto simp: reads_def intro: quiet_tick_trans)
qed

lemma reads_with_int4 [intro]: "(\<And>i. reads (k i)) \<Longrightarrow> reads (with_int4 u k)"
  by (auto simp: with_int4_def split: option.splits)

lemma reads_branch [intro]:
  "reads m \<Longrightarrow> reads m' \<Longrightarrow> reads (if b then m else m')"
  "reads m \<Longrightarrow> (\<And>x. reads (k x)) \<Longrightarrow> reads (case q of None \<Rightarrow> m | Some x \<Rightarrow> k x)"
  "(\<And>x y. reads (f x y)) \<Longrightarrow> reads (case p of (x, y) \<Rightarrow> f x y)"
  by (auto split: option.splits prod.splits)

subsection \<open>Actions that do not panic\<close>

definition no_panic :: "'a action \<Rightarrow> bool" where
  "no_panic m \<longleftrightarrow> (\<forall>w. fst (m w) \<noteq> Panic)"

lemma no_panicD: "no_panic m \<Longrightarrow> m w = (r, w') \<Longrightarrow> r \<noteq> Panic"
  by (metis fst_conv no_panic_def)

lemma no_panic_pure [intro!]: "no_panic (ret x)" "no_panic (throw e)"
  by (simp_all add: no_panic_def act)

lemma no_panic_call [intro!]:
  "no_panic m \<Longrightarrow> (\<And>e. no_panic (h e)) \<Longrightarrow> (\<And>x. no_panic (k x)) \<Longrightarrow> no_panic (call m h k)"
  by (auto simp: no_panic_def call_def split: prod.splits res.splits) (metis fst_conv)+

lemma no_panic_external [intro!]: "no_panic m \<Longrightarrow> no_panic (external mk m)"
  by (simp add: no_panic_def external_def split: option.splits)

lemma no_panic_database [intro!]:
  "no_panic (query_row q1)" "no_panic (query q2)" "no_panic (query_page q2 l off)"
  "no_panic rows_Err" "no_panic (RowsAffected n)" "no_panic (exec f)" "no_panic (exec_returning g)"
  "no_panic (insert_returning t i)" "no_panic tx_Begin" "no_panic (tx_Rollback d)"
  "no_panic (tx_Commit d)" "no_panic (tx_Abandon d)"
  by (auto simp: no_panic_def act split: option.splits prod.splits)

lemma no_panic_scan_rows [intro!]: "no_panic (scan_rows f rs)"
  by (induction rs) auto

lemma no_panic_rows_loop [intro!]:
  assumes "\<And>r. no_panic (body r)"
  shows "no_panic (rows_loop body rs)" "no_panic (rows_loop_unchecked body rs)"
proof -
  show "no_panic (rows_loop body rs)"
    using assms by (induction rs) auto
  show "no_panic (rows_loop_unchecked body rs)"
  proof (induction rs)
    case Nil
    show ?case by (simp add: no_panic_def)
  next
    case (Cons r rs)
    have "no_panic (call (body r) throw
        (\<lambda>x. call (rows_loop_unchecked body rs) throw (\<lambda>xs. ret (x # xs))))"
      using assms Cons.IH by (intro no_panic_call) auto
    then show ?case by (auto simp: no_panic_def)
  qed
qed

lemma no_panic_branch [intro!]:
  "no_panic m \<Longrightarrow> no_panic m' \<Longrightarrow> no_panic (if b then m else m')"
  "no_panic m \<Longrightarrow> (\<And>x. no_panic (k x)) \<Longrightarrow> no_panic (case q of None \<Rightarrow> m | Some x \<Rightarrow> k x)"
  "(\<And>x y. no_panic (f x y)) \<Longrightarrow> no_panic (case p of (x, y) \<Rightarrow> f x y)"
  by (auto split: option.splits prod.splits)

lemma no_panic_with_int4 [intro!]: "(\<And>i. no_panic (k i)) \<Longrightarrow> no_panic (with_int4 u k)"
  by (auto simp: with_int4_def split: option.splits)

lemma no_panic_grpc [intro!]: "no_panic m \<Longrightarrow> no_panic (grpc_call m)"
  by (auto simp: grpc_call_def)

subsection \<open>Invariants of the tables\<close>

text \<open>\<open>keeps I m\<close>: whatever calls fail, \<open>m\<close> takes tables in \<open>I\<close> to tables in \<open>I\<close>.\<close>

definition keeps :: "(database \<Rightarrow> bool) \<Rightarrow> 'a action \<Rightarrow> bool" where
  "keeps I m \<longleftrightarrow> (\<forall>w :: world. I (db w) \<longrightarrow> I (db (snd (m w))))"

lemma keepsD: "keeps I m \<Longrightarrow> I (db w) \<Longrightarrow> m w = (r, w') \<Longrightarrow> I (db w')"
  by (metis keeps_def snd_conv)

lemma keeps_reads: "reads m \<Longrightarrow> keeps I m"
  by (metis keeps_def reads_def quiet_sel(5))

lemmas keeps_pure [wf_intros] =
  keeps_reads [OF reads_ret] keeps_reads [OF reads_throw] keeps_reads [OF reads_nil]
  reads_query [THEN keeps_reads] keeps_reads [OF reads_scan_rows]

lemma keeps_call [wf_intros]:
  assumes "keeps I m" "\<And>e. keeps I (h e)" "\<And>x. keeps I (k x)"
  shows "keeps I (call m h k)"
  unfolding keeps_def
proof (intro allI impI)
  fix w :: world assume I: "I (db w)"
  obtain r w1 where m: "m w = (r, w1)" by fastforce
  then have "I (db w1)" using assms(1) I keepsD by blast
  then show "I (db (snd (call m h k w)))"
    using assms(2,3) m by (cases r) (auto simp: call_def keeps_def)
qed

lemma keeps_external [wf_intros]: "keeps I m \<Longrightarrow> keeps I (external mk m)"
  by (auto simp: keeps_def external_def split: option.splits)

lemma keeps_exec [wf_intros]:
  assumes "\<And>now d d' n. f now d = Some (d', n) \<Longrightarrow> I d \<Longrightarrow> I d'"
  shows "keeps I (exec f)"
  using assms by (auto simp: keeps_def exec_def external_def split: option.splits prod.splits)

lemma keeps_exec_returning [wf_intros]:
  assumes "\<And>now d d' x. f now d = Some (d', x) \<Longrightarrow> I d \<Longrightarrow> I d'"
  shows "keeps I (exec_returning f)"
  using assms
  by (auto simp: keeps_def exec_returning_def external_def split: option.splits prod.splits)

lemma keeps_insert_returning [wf_intros]:
  assumes "\<And>i now d d' x. f i now d = Some (d', x) \<Longrightarrow> I d \<Longrightarrow> I d'"
  shows "keeps I (insert_returning t f)"
  using assms
  by (auto simp: keeps_def insert_returning_def external_def nextval_def
      split: option.splits prod.splits if_splits)

text \<open>A transaction: what it finds satisfies the invariant, and so does what it restores.\<close>

lemma keeps_tx_Begin:
  assumes "\<And>tx. I tx \<Longrightarrow> keeps I (k tx)" "\<And>e. keeps I (h e)"
  shows "keeps I (call tx_Begin h k)"
  using assms by (auto simp: keeps_def tx_Begin_def call_def external_def split: option.splits)

lemma keeps_tx_end [wf_intros]:
  "I tx \<Longrightarrow> keeps I (tx_Rollback tx)" "I tx \<Longrightarrow> keeps I (tx_Commit tx)"
  by (auto simp: keeps_def tx_Rollback_def tx_Commit_def split: option.splits)

lemma keeps_tx_Abandon [wf_intros]: "I tx \<Longrightarrow> keeps I (tx_Abandon tx)"
  by (simp add: keeps_def tx_Abandon_def)

lemma keeps_with_int4 [wf_intros]: "(\<And>i. keeps I (k i)) \<Longrightarrow> keeps I (with_int4 u k)"
  by (auto simp: with_int4_def intro: keeps_pure split: option.splits)

lemma keeps_grpc [wf_intros]: "keeps I m \<Longrightarrow> keeps I (grpc_call m)"
  by (simp add: grpc_call_def keeps_external)

lemma keeps_branch [wf_intros]:
  "keeps I m \<Longrightarrow> keeps I m' \<Longrightarrow> keeps I (if b then m else m')"
  "keeps I m \<Longrightarrow> (\<And>x. keeps I (k x)) \<Longrightarrow> keeps I (case q of None \<Rightarrow> m | Some x \<Rightarrow> k x)"
  "(\<And>x y. keeps I (f x y)) \<Longrightarrow> keeps I (case p of (x, y) \<Rightarrow> f x y)"
  by (auto split: option.splits prod.splits)

end
