(* ===== verification/Paginate.thy ===== *)
theory Paginate
  imports Effects
begin

text \<open>
  Page parameters (src/domain/paginate.go). \<open>ValidatePaginationParams\<close> repairs the page and the
  limit and computes the OFFSET in \<open>int32\<close> arithmetic, which wraps.
\<close>

record PaginateQueryParams =
  Limit :: int32
  Page :: int32

definition defaultLimit :: int32 where "defaultLimit = 20"
definition maxLimit :: int32 where "maxLimit = 100"

definition valid_page :: "PaginateQueryParams \<Rightarrow> int32" where
  "valid_page params = (if sint (Page params) < 1 then 1 else Page params)"

definition valid_limit :: "PaginateQueryParams \<Rightarrow> int32" where
  "valid_limit params =
     (if sint (Limit params) < 1 \<or> sint (Limit params) > sint maxLimit then defaultLimit
      else Limit params)"

definition ValidatePaginationParams :: "PaginateQueryParams \<Rightarrow> int32 \<times> int32" where
  "ValidatePaginationParams params =
     (let page = valid_page params;
          limit = valid_limit params;
          offset = (page - 1) * limit
      in (offset, limit))"

lemma valid_page_pos: "1 \<le> sint (valid_page params)"
  by (simp add: valid_page_def)

lemma valid_limit_range: "1 \<le> sint (valid_limit params)" "sint (valid_limit params) \<le> 100"
  by (auto simp: valid_limit_def maxLimit_def defaultLimit_def)

text \<open>Within the range of int32 the computed offset is the exact product.\<close>

lemma offset_exact:
  assumes "(sint (valid_page params) - 1) * sint (valid_limit params) < 2 ^ 31"
  shows "sint (fst (ValidatePaginationParams params))
     = (sint (valid_page params) - 1) * sint (valid_limit params)"
proof -
  let ?p = "sint (valid_page params)" and ?l = "sint (valid_limit params)"
  have nonneg: "0 \<le> (?p - 1) * ?l"
    using valid_page_pos [of params] valid_limit_range [of params] by simp
  have "fst (ValidatePaginationParams params) = word_of_int ((?p - 1) * ?l)"
    by (simp add: ValidatePaginationParams_def Let_def)
  moreover have "sint (word_of_int ((?p - 1) * ?l) :: int32) = (?p - 1) * ?l"
    by (rule sint_word_of_int_32 [OF order_trans [OF _ nonneg] assms]) simp
  ultimately show ?thesis
    by (simp only:)
qed

lemma offset_nonneg:
  assumes "(sint (valid_page params) - 1) * sint (valid_limit params) < 2 ^ 31"
  shows "0 \<le> sint (fst (ValidatePaginationParams params))"
  using offset_exact [OF assms] valid_page_pos [of params] valid_limit_range [of params] by simp

text \<open>The window of page \<open>p\<close>, and what consecutive windows cover.\<close>

definition page_window :: "int32 \<Rightarrow> 'a list \<Rightarrow> nat \<Rightarrow> 'a list" where
  "page_window limit rows p =
     (let ol = ValidatePaginationParams \<lparr>Limit = limit, Page = word_of_nat p\<rparr>
      in window (snd ol) (fst ol) rows)"

lemma page_window_eq:
  assumes "1 \<le> sint limit" "sint limit \<le> 100" "1 \<le> p" "int p * sint limit < 2 ^ 31"
  shows "page_window limit rows p
     = take (nat (sint limit)) (drop ((p - 1) * nat (sint limit)) rows)"
proof -
  let ?ps = "\<lparr>Limit = limit, Page = word_of_nat p\<rparr>"
  have "int p \<le> int p * sint limit"
    using assms(1) by (simp add: mult_le_cancel_left1)
  with assms(4) have p: "int p < 2 ^ 31" by linarith
  then have sp: "sint (word_of_nat p :: int32) = int p"
    using sint_word_of_int_32 [of "int p"] by simp
  with assms have vp: "valid_page ?ps = word_of_nat p" and vl: "valid_limit ?ps = limit"
    by (auto simp: valid_page_def valid_limit_def maxLimit_def)
  have less: "(int p - 1) * sint limit < 2 ^ 31"
    using assms by (simp add: left_diff_distrib)
  have "sint (fst (ValidatePaginationParams ?ps)) = (int p - 1) * sint limit"
    using offset_exact [of ?ps] less by (simp only: vp vl sp)
  moreover have "nat ((int p - 1) * sint limit) = (p - 1) * nat (sint limit)"
    using assms by (simp add: nat_mult_distrib of_nat_diff)
  moreover have "snd (ValidatePaginationParams ?ps) = limit"
    using vl by (simp add: ValidatePaginationParams_def Let_def)
  ultimately show ?thesis
    by (simp add: page_window_def window_def Let_def)
qed

lemma take_add_window: "take (k * m) xs @ take m (drop (k * m) xs) = take (Suc k * m) xs"
  by (metis add.commute mult_Suc take_add)

end
