(* ===== verification/Strconv.thy ===== *)
theory Strconv
  imports Effects
begin

text \<open>
  The two conversions of Go's \<open>strconv\<close> between integers and decimal text that the source uses,
  the test for white space and \<open>hex.EncodeToString\<close>: their definitions, and the facts that a decoded number is the encoded
  one and that encoding is injective.
\<close>

subsection \<open>Decimal digits\<close>

definition digit :: "nat \<Rightarrow> char" where
  "digit n = char_of (48 + n)"

definition digit_value :: "char \<Rightarrow> nat option" where
  "digit_value c =
     (let n = of_char c in if 48 \<le> n \<and> n \<le> (57 :: nat) then Some (n - 48) else None)"

fun decimal :: "nat \<Rightarrow> string" where
  "decimal n = (if n < 10 then [digit n] else decimal (n div 10) @ [digit (n mod 10)])"

declare decimal.simps [simp del]

fun parse_digits :: "nat \<Rightarrow> string \<Rightarrow> nat option" where
  "parse_digits acc [] = Some acc"
| "parse_digits acc (c # cs) =
     (case digit_value c of None \<Rightarrow> None | Some d \<Rightarrow> parse_digits (10 * acc + d) cs)"

definition strconv_Itoa :: "int \<Rightarrow> string" where
  "strconv_Itoa i = (if i < 0 then CHR ''-'' # decimal (nat (- i)) else decimal (nat i))"

definition unsigned_value :: "string \<Rightarrow> nat option" where
  "unsigned_value s = (if s = [] then None else parse_digits 0 s)"

text \<open>\<open>strconv.Atoi\<close>: an optional sign and decimal digits, an error outside 64 bits.\<close>

definition strconv_Atoi :: "string \<Rightarrow> int option" where
  "strconv_Atoi s =
     (let (neg, ds) =
        (case s of [] \<Rightarrow> (False, s)
         | c # cs \<Rightarrow> if c = CHR ''-'' then (True, cs)
                     else if c = CHR ''+'' then (False, cs) else (False, s))
      in case unsigned_value ds of
           None \<Rightarrow> None
         | Some n \<Rightarrow>
             (let i = (if neg then - int n else int n)
              in if - (2 ^ 63) \<le> i \<and> i < 2 ^ 63 then Some i else None))"

lemma digit_value_digit: "n < 10 \<Longrightarrow> digit_value (digit n) = Some n"
  by (simp add: digit_value_def digit_def Let_def)

lemma parse_digits_append:
  "parse_digits acc (s @ t) = Option.bind (parse_digits acc s) (\<lambda>a. parse_digits a t)"
  by (induction acc s rule: parse_digits.induct) (auto split: option.splits)

lemma parse_decimal: "parse_digits 0 (decimal n) = Some n"
proof (induction n rule: decimal.induct)
  case (1 n)
  show ?case
    using 1 by (subst decimal.simps) (simp add: parse_digits_append digit_value_digit)
qed

lemma decimal_not_Nil [simp]: "decimal n \<noteq> []"
  by (subst decimal.simps) simp

lemma decimal_hd: "digit_value (hd (decimal n)) \<noteq> None"
proof (induction n rule: decimal.induct)
  case (1 n)
  show ?case
    using 1 by (subst decimal.simps) (simp add: digit_value_digit)
qed

lemma decimal_hd_sign: "hd (decimal n) \<noteq> CHR ''-''" "hd (decimal n) \<noteq> CHR ''+''"
  using decimal_hd [of n] by (auto simp: digit_value_def Let_def split: if_splits)

lemma Atoi_Itoa:
  assumes "- (2 ^ 63) \<le> i" "i < 2 ^ 63"
  shows "strconv_Atoi (strconv_Itoa i) = Some i"
proof (cases "i < 0")
  case True
  then show ?thesis
    using assms
    by (simp add: strconv_Atoi_def strconv_Itoa_def unsigned_value_def parse_decimal)
next
  case False
  then obtain c cs where d: "decimal (nat i) = c # cs" "c \<noteq> CHR ''-''" "c \<noteq> CHR ''+''"
    using decimal_hd_sign [of "nat i"] decimal_not_Nil [of "nat i"]
    by (cases "decimal (nat i)") auto
  then have "unsigned_value (c # cs) = Some (nat i)"
    using parse_decimal [of "nat i"] by (simp add: unsigned_value_def)
  with False assms d show ?thesis
    by (simp add: strconv_Atoi_def strconv_Itoa_def)
qed

lemma Atoi_range: "strconv_Atoi s = Some i \<Longrightarrow> - (2 ^ 63) \<le> i \<and> i < 2 ^ 63"
  by (auto simp: strconv_Atoi_def Let_def split: option.splits if_splits prod.splits)

lemma Atoi_Itoa_int32 [simp]: "strconv_Atoi (strconv_Itoa (sint (x :: int32))) = Some (sint x)"
  using sint_int32_bounds [of x] by (intro Atoi_Itoa) auto

lemma Itoa_inject_int32 [simp]:
  "strconv_Itoa (sint (x :: int32)) = strconv_Itoa (sint y) \<longleftrightarrow> x = y"
  by (metis Atoi_Itoa_int32 option.inject sint_eq_iff)

subsection \<open>White space\<close>

text \<open>
  \<open>strings.TrimSpace(s) == ""\<close>: every character is Unicode white space. The text is UTF-8: besides
  the ASCII spaces, these are U+0085 and U+00A0 (C2), U+1680 (E1 9A 80), U+2000 to U+200A, U+2028,
  U+2029, U+202F (E2 80), U+205F (E2 81 9F) and U+3000 (E3 80 80).
\<close>

fun only_space :: "string \<Rightarrow> bool" where
  "only_space [] = True"
| "only_space (c # cs) =
     (let n = (of_char c :: int)
      in if n = 32 \<or> (9 \<le> n \<and> n \<le> 13) then only_space cs
         else case cs of
           d # ds \<Rightarrow>
             if n = 194 \<and> (of_char d = (133 :: int) \<or> of_char d = (160 :: int)) then only_space ds
             else (case ds of
                e # es \<Rightarrow>
                  if (n = 225 \<and> of_char d = (154 :: int) \<and> of_char e = (128 :: int)) \<or>
                     (n = 226 \<and> of_char d = (128 :: int) \<and>
                       (128 \<le> (of_char e :: int) \<and> (of_char e :: int) \<le> 138 \<or>
                        of_char e \<in> {168, 169, 175 :: int})) \<or>
                     (n = 226 \<and> of_char d = (129 :: int) \<and> of_char e = (159 :: int)) \<or>
                     (n = 227 \<and> of_char d = (128 :: int) \<and> of_char e = (128 :: int))
                  then only_space es else False
              | [] \<Rightarrow> False)
         | [] \<Rightarrow> False)"

subsection \<open>Hexadecimal text\<close>

definition hex_digit :: "byte \<Rightarrow> char" where
  "hex_digit b = (if unat b < 10 then char_of (48 + unat b) else char_of (87 + unat b))"

definition hex_EncodeToString :: "byte list \<Rightarrow> string" where
  "hex_EncodeToString bs = concat (map (\<lambda>b. [hex_digit (b div 16), hex_digit (b mod 16)]) bs)"

lemma length_hex [simp]: "length (hex_EncodeToString bs) = 2 * length bs"
  by (induction bs) (simp_all add: hex_EncodeToString_def)

lemma unat_nibble: "unat (b div 16) < 16" "unat (b mod 16) < 16" for b :: byte
  using unsigned_less [of b, where 'a = nat] by (simp_all add: unat_div unat_mod)

lemma hex_digit_inject:
  assumes "unat a < 16" "unat b < 16" "hex_digit a = hex_digit b"
  shows "a = b"
proof -
  have val: "of_char (hex_digit c) = (if unat c < 10 then 48 + unat c else 87 + unat c)"
    if "unat c < 16" for c :: byte
    using that by (simp add: hex_digit_def)
  have "unat a = unat b"
    using val [OF assms(1)] val [OF assms(2)] assms by (auto split: if_splits)
  then show ?thesis by (simp add: word_unat_eq_iff)
qed

lemma hex_inject [simp]: "hex_EncodeToString bs = hex_EncodeToString cs \<longleftrightarrow> bs = cs"
proof
  show "hex_EncodeToString bs = hex_EncodeToString cs \<Longrightarrow> bs = cs"
  proof (induction bs arbitrary: cs)
    case Nil
    then show ?case by (cases cs) (simp_all add: hex_EncodeToString_def)
  next
    case (Cons b bs)
    then obtain c cs' where cs: "cs = c # cs'"
      by (cases cs) (simp_all add: hex_EncodeToString_def)
    with Cons have "b div 16 = c div 16" "b mod 16 = c mod 16" "bs = cs'"
      by (auto simp: hex_EncodeToString_def intro: hex_digit_inject unat_nibble)
    then show ?case
      using cs by (metis div_mult_mod_eq)
  qed
qed simp

end
