(* ===== verification/Domain.thy ===== *)
theory Domain
  imports Paginate Strconv
begin

text \<open>
  The domain types (src/domain/*.go) and the interfaces the services are written against. A Go
  struct is a record; a pointer that may be nil is an option; an interface is a record of its
  methods, as the services receive it. \<open>time.Time\<close> is a number of seconds relative to the Unix
  epoch, with Go's zero time as \<open>zero_time\<close>.
\<close>

type_synonym time = int

definition zero_time :: time where "zero_time = - 62135596800"

subsection \<open>Friends\<close>

type_synonym FriendshipStatus = string
type_synonym FriendshipCountType = string

abbreviation FriendshipPending :: FriendshipStatus where "FriendshipPending \<equiv> ''pending''"
abbreviation FriendshipAccepted :: FriendshipStatus where "FriendshipAccepted \<equiv> ''accepted''"
abbreviation FriendshipRejected :: FriendshipStatus where "FriendshipRejected \<equiv> ''rejected''"
abbreviation FriendshipBlocked :: FriendshipStatus where "FriendshipBlocked \<equiv> ''blocked''"

abbreviation CountPending :: FriendshipCountType where "CountPending \<equiv> ''pending''"
abbreviation CountAccepted :: FriendshipCountType where "CountAccepted \<equiv> ''accepted''"
abbreviation CountRejected :: FriendshipCountType where "CountRejected \<equiv> ''rejected''"
abbreviation CountBlocked :: FriendshipCountType where "CountBlocked \<equiv> ''blocked''"
abbreviation CountSent :: FriendshipCountType where "CountSent \<equiv> ''sent''"
abbreviation CountNotFriends :: FriendshipCountType where "CountNotFriends \<equiv> ''notFriends''"

record UserRelationsCounts =
  rc_Accepted :: int32
  rc_Pending :: int32
  rc_Sent :: int32
  rc_Blocked :: int32

record Friendship =
  f_ID :: int32
  f_FirstUserID :: int32
  f_SecondUserID :: int32
  f_ActionUserID :: int32
  f_Status :: FriendshipStatus
  f_CreatedAt :: time
  f_UpdatedAt :: time

record FriendStore =
  fs_CreateFriendship :: "int32 \<Rightarrow> int32 \<Rightarrow> unit action"
  fs_GetFriendship :: "int32 \<Rightarrow> int32 \<Rightarrow> Friendship action"
  fs_UpdateFriendshipStatus :: "int32 \<Rightarrow> int32 \<Rightarrow> FriendshipStatus \<Rightarrow> unit action"
  fs_DeleteFriendship :: "int32 \<Rightarrow> int32 \<Rightarrow> unit action"
  fs_GetUserFriends :: "int32 \<Rightarrow> int32 \<Rightarrow> int32 \<Rightarrow> int32 list action"
  fs_GetAllUsers :: "int32 \<Rightarrow> int32 list action"
  fs_GetFriendshipRequests :: "int32 \<Rightarrow> int32 \<Rightarrow> int32 \<Rightarrow> int32 list action"
  fs_GetSentRequests :: "int32 \<Rightarrow> int32 \<Rightarrow> int32 \<Rightarrow> int32 list action"
  fs_GetUserIDsByFriendType :: "int32 \<Rightarrow> FriendshipCountType \<Rightarrow> int32 list action"
  fs_AreFriends :: "int32 \<Rightarrow> int32 \<Rightarrow> bool action"
  fs_GetFriendshipStatus :: "int32 \<Rightarrow> int32 \<Rightarrow> FriendshipStatus action"
  fs_CountUserRelations :: "int32 \<Rightarrow> UserRelationsCounts action"

subsection \<open>Profiles\<close>

record ShortProfile =
  sp_UserID :: int32
  sp_FullName :: string
  sp_AvatarPath :: "string option"
  sp_Dob :: time

record Profile =
  pr_UserID :: int32
  pr_FirstName :: string
  pr_LastName :: string
  pr_AvatarPath :: "string option"
  pr_HeaderPath :: "string option"
  pr_AboutMyself :: "string option"
  pr_Gender :: string
  pr_Dob :: time
  pr_RelationsCount :: UserRelationsCounts
  pr_RelationStatus :: FriendshipStatus

record File =
  file_Filename :: string
  file_ContentType :: string
  file_Data :: "byte list"

record ProfileStore =
  ps_CreateProfile :: "Profile \<Rightarrow> unit action"
  ps_UpdateProfile :: "Profile \<Rightarrow> int32 \<Rightarrow> unit action"
  ps_UpdateAvatar :: "string \<Rightarrow> int32 \<Rightarrow> unit action"
  ps_UpdateHeader :: "string \<Rightarrow> int32 \<Rightarrow> unit action"
  ps_GetProfileByUserID :: "int32 \<Rightarrow> Profile action"
  ps_GetShortProfileMapByUserIDs :: "int32 list \<Rightarrow> (int32 \<Rightarrow> ShortProfile option) action"
  ps_GetShortProfileByUserIDs :: "int32 list \<Rightarrow> ShortProfile list action"
  ps_GetOtherShortProfileByUserIDs ::
    "int32 list \<Rightarrow> int32 \<Rightarrow> int32 \<Rightarrow> ShortProfile list action"
  ps_GetAvatarByUserID :: "int32 \<Rightarrow> string option action"
  ps_GetHeaderByUserID :: "int32 \<Rightarrow> string option action"
  ps_DeleteAvatarByUserID :: "int32 \<Rightarrow> string option action"

record ElasticProfileStore =
  es_CreateProfile :: "string \<Rightarrow> int32 \<Rightarrow> unit action"
  es_UpdateProfile :: "string \<Rightarrow> int32 \<Rightarrow> unit action"
  es_DeleteProfile :: "int32 \<Rightarrow> unit action"
  es_SearchUserIDsByFullNameWithFilter ::
    "string \<Rightarrow> int32 list \<Rightarrow> bool \<Rightarrow> int32 \<Rightarrow> int32 \<Rightarrow> int32 list action"

subsection \<open>Users and sessions\<close>

record User =
  usr_ID :: int32
  usr_Email :: string
  usr_Password :: string
  usr_Role :: string

record RegisterRequest =
  rr_FirstName :: string
  rr_LastName :: string
  rr_Email :: string
  rr_Password :: string
  rr_ConfirmPassword :: string
  rr_Dob :: time
  rr_Gender :: string

record Session =
  se_UserID :: int32
  se_CSRFToken :: string

record SIDAndSCRFToken =
  st_CSRFToken :: string
  st_SID :: string

text \<open>What the temporary-session middleware puts into the request context.\<close>

record TempSessionInfo =
  ts_UserID :: "int32 option"
  ts_TempSessionID :: "string option"

record UserStore =
  us_GetUserByEmail :: "string \<Rightarrow> User action"
  us_CreateUser :: "User \<Rightarrow> int32 action"
  us_GetUserByID :: "int32 \<Rightarrow> User action"
  us_IsUserExists :: "int32 \<Rightarrow> bool action"
  us_IsUserAdmin :: "TempSessionInfo option \<Rightarrow> bool action"

record SessionStore =
  ss_AddSession :: "int32 \<Rightarrow> SIDAndSCRFToken action"
  ss_GetSessionBySessionID :: "string \<Rightarrow> Session action"
  ss_DeleteSession :: "string \<Rightarrow> unit action"

end
