(* ===== verification/Mapper.thy ===== *)
theory Mapper
  imports Domain
begin

text \<open>
  The messages of the gRPC interfaces and the converters between them and the domain types
  (src/shared/mapper, src/shared/mapper/generated). A protobuf message behind a pointer is an
  option; a \<open>timestamppb.Timestamp\<close> is a number of seconds, and Go's zero time is sent as a nil
  timestamp.
\<close>

subsection \<open>Messages and clients\<close>

record pb_UserRelationsCounts =
  pb_Accepted :: int32
  pb_Pending :: int32
  pb_Sent :: int32
  pb_Blocked :: int32

record pb_Profile =
  pbp_UserID :: int32
  pbp_FirstName :: string
  pbp_LastName :: string
  pbp_AvatarPath :: "string option"
  pbp_HeaderPath :: "string option"
  pbp_AboutMyself :: "string option"
  pbp_Gender :: string
  pbp_Dob :: "time option"
  pbp_RelationsCount :: "pb_UserRelationsCounts option"
  pbp_RelationStatus :: string

record pb_ShortProfile =
  pbs_UserID :: int32
  pbs_FullName :: string
  pbs_AvatarPath :: "string option"
  pbs_Dob :: "time option"

record pb_FileData =
  pbf_Filename :: string
  pbf_MimeType :: string
  pbf_Content :: "byte list"

record pb_RegisterRequest =
  pbr_FirstName :: string
  pbr_LastName :: string
  pbr_Email :: string
  pbr_Password :: string
  pbr_ConfirmPassword :: string
  pbr_Dob :: "time option"
  pbr_Gender :: string

record pb_User =
  pbu_Id :: int32
  pbu_Email :: string
  pbu_Password :: string
  pbu_Role :: string

record pb_SessionResponse =
  pb_UserId :: int32
  pb_CsrfToken :: string

record pb_SIDAndCSRFToken =
  pb_Sid :: string
  pb_Csrf :: string

record AuthServiceClient =
  ac_Register :: "pb_RegisterRequest \<Rightarrow> int32 action"
  ac_Login :: "string \<Rightarrow> string \<Rightarrow> int32 action"
  ac_Logout :: "string \<Rightarrow> unit action"
  ac_IsLoggedIn :: "string \<Rightarrow> pb_SessionResponse action"
  ac_AddSession :: "int32 \<Rightarrow> pb_SIDAndCSRFToken action"
  ac_GetUserRole :: "int32 \<Rightarrow> string action"
  ac_IsUserExists :: "int32 \<Rightarrow> bool action"

record ProfileServiceClient =
  pc_CreateProfile :: "pb_Profile option \<Rightarrow> unit action"
  pc_UpdateProfile :: "pb_Profile option \<Rightarrow> int32 \<Rightarrow> pb_FileData list \<Rightarrow> unit action"
  pc_UpdateAvatar :: "int32 \<Rightarrow> pb_FileData list \<Rightarrow> unit action"
  pc_UpdateHeader :: "int32 \<Rightarrow> pb_FileData list \<Rightarrow> unit action"
  pc_GetProfileByUserID :: "int32 \<Rightarrow> int32 \<Rightarrow> pb_Profile option action"
  pc_DeleteAvatarByUserID :: "int32 \<Rightarrow> unit action"
  pc_GetShortProfileMapByUserIDs :: "int32 list \<Rightarrow> (int32 \<Rightarrow> pb_ShortProfile option) action"
  pc_GetShortProfileByUserIDs :: "int32 list \<Rightarrow> pb_ShortProfile list action"
  pc_GetOtherShortProfileByUserIDs ::
    "int32 list \<Rightarrow> int32 \<Rightarrow> int32 \<Rightarrow> pb_ShortProfile list action"

subsection \<open>Hand-written converters\<close>

definition Conv_TimeToProto :: "time \<Rightarrow> time option" where
  "Conv_TimeToProto t = (if t = zero_time then None else Some t)"

definition Conv_ProtoToTime :: "time option \<Rightarrow> time" where
  "Conv_ProtoToTime ts = (case ts of None \<Rightarrow> zero_time | Some t \<Rightarrow> t)"

definition Conv_Int32ToInt :: "int32 \<Rightarrow> int32" where
  "Conv_Int32ToInt i = i"

definition Conv_IntToInt32 :: "int32 \<Rightarrow> int32" where
  "Conv_IntToInt32 i = i"

text \<open>A copy of a map with its keys converted; the values are of any type.\<close>

definition Conv_MapIntToInt32 :: "(int32 \<Rightarrow> 'a option) \<Rightarrow> int32 \<Rightarrow> 'a option" where
  "Conv_MapIntToInt32 m = (\<lambda>k. m (Conv_IntToInt32 k))"

definition Conv_MapInt32ToInt :: "(int32 \<Rightarrow> 'a option) \<Rightarrow> int32 \<Rightarrow> 'a option" where
  "Conv_MapInt32ToInt m = (\<lambda>k. m (Conv_Int32ToInt k))"

subsection \<open>Converters of the messages\<close>

definition zero_counts :: UserRelationsCounts where
  "zero_counts = \<lparr>rc_Accepted = 0, rc_Pending = 0, rc_Sent = 0, rc_Blocked = 0\<rparr>"

definition ToProtoUserRelationsCounts :: "UserRelationsCounts \<Rightarrow> pb_UserRelationsCounts option" where
  "ToProtoUserRelationsCounts source =
     Some \<lparr>pb_Accepted = rc_Accepted source, pb_Pending = rc_Pending source,
           pb_Sent = rc_Sent source, pb_Blocked = rc_Blocked source\<rparr>"

definition FromProtoUserRelationsCounts :: "pb_UserRelationsCounts option \<Rightarrow> UserRelationsCounts" where
  "FromProtoUserRelationsCounts source =
     (case source of
        None \<Rightarrow> zero_counts
      | Some s \<Rightarrow> \<lparr>rc_Accepted = pb_Accepted s, rc_Pending = pb_Pending s,
                   rc_Sent = pb_Sent s, rc_Blocked = pb_Blocked s\<rparr>)"

definition ToProtoProfile :: "Profile \<Rightarrow> pb_Profile option" where
  "ToProtoProfile source =
     Some \<lparr>pbp_UserID = pr_UserID source, pbp_FirstName = pr_FirstName source,
       pbp_LastName = pr_LastName source, pbp_AvatarPath = pr_AvatarPath source,
       pbp_HeaderPath = pr_HeaderPath source, pbp_AboutMyself = pr_AboutMyself source,
       pbp_Gender = pr_Gender source, pbp_Dob = Conv_TimeToProto (pr_Dob source),
       pbp_RelationsCount = ToProtoUserRelationsCounts (pr_RelationsCount source),
       pbp_RelationStatus = pr_RelationStatus source\<rparr>"

definition FromProtoProfile :: "pb_Profile option \<Rightarrow> Profile" where
  "FromProtoProfile source =
     (case source of
        None \<Rightarrow> \<lparr>pr_UserID = 0, pr_FirstName = [], pr_LastName = [], pr_AvatarPath = None,
          pr_HeaderPath = None, pr_AboutMyself = None, pr_Gender = [], pr_Dob = zero_time,
          pr_RelationsCount = zero_counts, pr_RelationStatus = []\<rparr>
      | Some s \<Rightarrow> \<lparr>pr_UserID = pbp_UserID s, pr_FirstName = pbp_FirstName s,
          pr_LastName = pbp_LastName s, pr_AvatarPath = pbp_AvatarPath s,
          pr_HeaderPath = pbp_HeaderPath s, pr_AboutMyself = pbp_AboutMyself s,
          pr_Gender = pbp_Gender s, pr_Dob = Conv_ProtoToTime (pbp_Dob s),
          pr_RelationsCount = FromProtoUserRelationsCounts (pbp_RelationsCount s),
          pr_RelationStatus = pbp_RelationStatus s\<rparr>)"

definition ToProtoShortProfile :: "ShortProfile \<Rightarrow> pb_ShortProfile option" where
  "ToProtoShortProfile source =
     Some \<lparr>pbs_UserID = sp_UserID source, pbs_FullName = sp_FullName source,
       pbs_AvatarPath = sp_AvatarPath source, pbs_Dob = Conv_TimeToProto (sp_Dob source)\<rparr>"

definition FromProtoShortProfile :: "pb_ShortProfile option \<Rightarrow> ShortProfile" where
  "FromProtoShortProfile source =
     (case source of
        None \<Rightarrow> \<lparr>sp_UserID = 0, sp_FullName = [], sp_AvatarPath = None, sp_Dob = zero_time\<rparr>
      | Some s \<Rightarrow> \<lparr>sp_UserID = pbs_UserID s, sp_FullName = pbs_FullName s,
          sp_AvatarPath = pbs_AvatarPath s, sp_Dob = Conv_ProtoToTime (pbs_Dob s)\<rparr>)"

text \<open>
  Repeated fields and map fields of a message: the elements are sent as messages, never nil.
\<close>

definition ToProtoShortProfileSlice :: "ShortProfile list \<Rightarrow> pb_ShortProfile list" where
  "ToProtoShortProfileSlice ps = map (\<lambda>p. the (ToProtoShortProfile p)) ps"

definition FromProtoShortProfileSlice :: "pb_ShortProfile list \<Rightarrow> ShortProfile list" where
  "FromProtoShortProfileSlice ps = map (\<lambda>p. FromProtoShortProfile (Some p)) ps"

definition ToProtoOtherShortProfileSlice :: "ShortProfile list \<Rightarrow> pb_ShortProfile list" where
  "ToProtoOtherShortProfileSlice ps = map (\<lambda>p. the (ToProtoShortProfile p)) ps"

definition FromProtoOtherShortProfileSlice :: "pb_ShortProfile list \<Rightarrow> ShortProfile list" where
  "FromProtoOtherShortProfileSlice ps = map (\<lambda>p. FromProtoShortProfile (Some p)) ps"

definition ToProtoShortProfileMap ::
    "(int32 \<Rightarrow> ShortProfile option) \<Rightarrow> (int32 \<Rightarrow> pb_ShortProfile option)" where
  "ToProtoShortProfileMap m = (\<lambda>k. case m k of None \<Rightarrow> None | Some p \<Rightarrow> ToProtoShortProfile p)"

definition FromProtoShortProfileMap ::
    "(int32 \<Rightarrow> pb_ShortProfile option) \<Rightarrow> (int32 \<Rightarrow> ShortProfile option)" where
  "FromProtoShortProfileMap m =
     (\<lambda>k. case m k of None \<Rightarrow> None | Some p \<Rightarrow> Some (FromProtoShortProfile (Some p)))"

definition ToPbShortProfileList :: "ShortProfile list \<Rightarrow> pb_ShortProfile list" where
  "ToPbShortProfileList ps =
     map (\<lambda>p. \<lparr>pbs_UserID = sp_UserID p, pbs_FullName = sp_FullName p,
                pbs_AvatarPath = sp_AvatarPath p, pbs_Dob = Conv_TimeToProto (sp_Dob p)\<rparr>) ps"

definition FromPbShortProfileList :: "pb_ShortProfile list option \<Rightarrow> ShortProfile list" where
  "FromPbShortProfileList pbList =
     (case pbList of None \<Rightarrow> []
      | Some ps \<Rightarrow> map (\<lambda>p. \<lparr>sp_UserID = pbs_UserID p, sp_FullName = pbs_FullName p,
          sp_AvatarPath = pbs_AvatarPath p, sp_Dob = Conv_ProtoToTime (pbs_Dob p)\<rparr>) ps)"

definition FileToProto :: "File \<Rightarrow> pb_FileData" where
  "FileToProto f = \<lparr>pbf_Filename = file_Filename f, pbf_MimeType = file_ContentType f,
     pbf_Content = file_Data f\<rparr>"

definition ProtoToFile :: "pb_FileData \<Rightarrow> File" where
  "ProtoToFile p = \<lparr>file_Filename = pbf_Filename p, file_ContentType = pbf_MimeType p,
     file_Data = pbf_Content p\<rparr>"

definition FilesToProto :: "File list \<Rightarrow> pb_FileData list" where
  "FilesToProto files = map FileToProto files"

definition ProtoToFiles :: "pb_FileData list \<Rightarrow> File list" where
  "ProtoToFiles ps = map ProtoToFile ps"

definition RegisterRequestToProto :: "RegisterRequest \<Rightarrow> pb_RegisterRequest" where
  "RegisterRequestToProto req = \<lparr>pbr_FirstName = rr_FirstName req,
     pbr_LastName = rr_LastName req, pbr_Email = rr_Email req, pbr_Password = rr_Password req,
     pbr_ConfirmPassword = rr_ConfirmPassword req, pbr_Dob = Conv_TimeToProto (rr_Dob req),
     pbr_Gender = rr_Gender req\<rparr>"

definition ProtoToRegisterRequest :: "pb_RegisterRequest \<Rightarrow> RegisterRequest" where
  "ProtoToRegisterRequest p = \<lparr>rr_FirstName = pbr_FirstName p, rr_LastName = pbr_LastName p,
     rr_Email = pbr_Email p, rr_Password = pbr_Password p,
     rr_ConfirmPassword = pbr_ConfirmPassword p, rr_Dob = Conv_ProtoToTime (pbr_Dob p),
     rr_Gender = pbr_Gender p\<rparr>"

definition UserToProto :: "User \<Rightarrow> pb_User" where
  "UserToProto u = \<lparr>pbu_Id = usr_ID u, pbu_Email = usr_Email u, pbu_Password = usr_Password u,
     pbu_Role = usr_Role u\<rparr>"

definition ProtoToUser :: "pb_User \<Rightarrow> User" where
  "ProtoToUser p = \<lparr>usr_ID = pbu_Id p, usr_Email = pbu_Email p, usr_Password = pbu_Password p,
     usr_Role = pbu_Role p\<rparr>"

subsection \<open>Round trips\<close>

lemma user_roundtrip [simp]: "ProtoToUser (UserToProto u) = u"
  by (simp add: ProtoToUser_def UserToProto_def)

lemma key_map_roundtrip [simp]: "Conv_MapInt32ToInt (Conv_MapIntToInt32 m) = m"
  by (simp add: Conv_MapInt32ToInt_def Conv_MapIntToInt32_def Conv_Int32ToInt_def Conv_IntToInt32_def)

lemma time_roundtrip [simp]: "Conv_ProtoToTime (Conv_TimeToProto t) = t"
  by (simp add: Conv_ProtoToTime_def Conv_TimeToProto_def)

lemma counts_roundtrip [simp]:
  "FromProtoUserRelationsCounts (ToProtoUserRelationsCounts c) = c"
  by (simp add: FromProtoUserRelationsCounts_def ToProtoUserRelationsCounts_def)

lemma profile_roundtrip [simp]: "FromProtoProfile (ToProtoProfile p) = p"
  by (simp add: FromProtoProfile_def ToProtoProfile_def)

lemma short_profile_roundtrip [simp]: "FromProtoShortProfile (ToProtoShortProfile p) = p"
  by (simp add: FromProtoShortProfile_def ToProtoShortProfile_def)

lemma short_profile_the [simp]: "FromProtoShortProfile (Some (the (ToProtoShortProfile p))) = p"
  by (simp add: FromProtoShortProfile_def ToProtoShortProfile_def)

lemma slice_roundtrip [simp]:
  "FromProtoShortProfileSlice (ToProtoShortProfileSlice ps) = ps"
  "FromProtoOtherShortProfileSlice (ToProtoOtherShortProfileSlice ps) = ps"
  by (simp_all add: FromProtoShortProfileSlice_def ToProtoShortProfileSlice_def
      FromProtoOtherShortProfileSlice_def ToProtoOtherShortProfileSlice_def comp_def)

lemma map_roundtrip [simp]: "FromProtoShortProfileMap (ToProtoShortProfileMap m) = m"
  by (rule ext) (simp add: FromProtoShortProfileMap_def ToProtoShortProfileMap_def
      FromProtoShortProfile_def ToProtoShortProfile_def split: option.split)

lemma list_roundtrip [simp]: "FromPbShortProfileList (Some (ToPbShortProfileList ps)) = ps"
  by (induction ps) (simp_all add: FromPbShortProfileList_def ToPbShortProfileList_def)

lemma files_roundtrip [simp]: "ProtoToFiles (FilesToProto fs) = fs"
  by (induction fs) (simp_all add: ProtoToFiles_def FilesToProto_def ProtoToFile_def FileToProto_def)

lemma register_roundtrip [simp]: "ProtoToRegisterRequest (RegisterRequestToProto r) = r"
  by (simp add: ProtoToRegisterRequest_def RegisterRequestToProto_def)

end
