(* ===== verification/Friend_Store.thy ===== *)
theory Friend_Store
  imports Mapper
begin

text \<open>
  The PostgreSQL store of friendships (src/internal/repository/db/friend.go): one definition per
  method, the SQL statement of each as a function of the tables, and the record \<open>DBFriendStore\<close>
  that implements the interface \<open>domain.FriendStore\<close>. The laws the friend service relies on are
  collected at the end of the theory.
\<close>

subsection \<open>Rows\<close>

definition ensureUserOrder :: "int32 \<Rightarrow> int32 \<Rightarrow> int32 \<times> int32" where
  "ensureUserOrder userID1 userID2 =
     (if sint userID1 < sint userID2 then (userID1, userID2) else (userID2, userID1))"

definition fr_key :: "friend_row \<Rightarrow> int32 \<times> int32" where
  "fr_key r = (fr_first_user_id r, fr_second_user_id r)"

definition involves :: "int32 \<Rightarrow> friend_row \<Rightarrow> bool" where
  "involves u r \<longleftrightarrow> fr_first_user_id r = u \<or> fr_second_user_id r = u"

text \<open>\<open>CASE WHEN fr.first_user_id = $1 THEN fr.second_user_id ELSE fr.first_user_id END\<close>\<close>

definition other_user :: "int32 \<Rightarrow> friend_row \<Rightarrow> int32" where
  "other_user u r = (if fr_first_user_id r = u then fr_second_user_id r else fr_first_user_id r)"

text \<open>The status clauses of the listing queries.\<close>

definition is_accepted :: "int32 \<Rightarrow> friend_row \<Rightarrow> bool" where
  "is_accepted u r \<longleftrightarrow> fr_status r = ''accepted''"

definition is_incoming :: "int32 \<Rightarrow> friend_row \<Rightarrow> bool" where
  "is_incoming u r \<longleftrightarrow> (fr_status r = ''pending'' \<and> fr_action_user_id r \<noteq> u) \<or>
     (fr_status r = ''rejected'' \<and> fr_action_user_id r = u)"

definition is_sent :: "int32 \<Rightarrow> friend_row \<Rightarrow> bool" where
  "is_sent u r \<longleftrightarrow> (fr_status r = ''pending'' \<and> fr_action_user_id r = u) \<or>
     (fr_status r = ''rejected'' \<and> fr_action_user_id r \<noteq> u)"

definition is_blocked :: "int32 \<Rightarrow> friend_row \<Rightarrow> bool" where
  "is_blocked u r \<longleftrightarrow> fr_status r = ''blocked''"

subsection \<open>Statements\<close>

text \<open>
  \<open>INSERT ... ON CONFLICT (first_user_id, second_user_id) DO UPDATE\<close>: the CHECK constraints are
  tested on the proposed row, the foreign keys on what is written.
\<close>

definition upsert_friendship ::
    "int32 \<Rightarrow> int32 \<Rightarrow> int32 \<Rightarrow> string \<Rightarrow> int \<Rightarrow> database \<Rightarrow> (database \<times> nat) option" where
  "upsert_friendship first second action status now d =
     (let row = \<lparr>fr_first_user_id = first, fr_second_user_id = second,
                 fr_action_user_id = action, fr_status = status,
                 fr_created_at = now, fr_updated_at = now\<rparr>;
          rs = friend_relationships d
      in if \<not> friend_relationships_check row then None
         else if \<exists>r \<in> set rs. fr_key r = (first, second) then
           (if user_exists d action
            then Some (d\<lparr>friend_relationships :=
                   update_where (\<lambda>r. fr_key r = (first, second))
                     (\<lambda>r. r\<lparr>fr_status := status, fr_action_user_id := action,
                            fr_updated_at := now\<rparr>) rs\<rparr>, 1)
            else None)
         else if user_exists d first \<and> user_exists d second \<and> user_exists d action
           then Some (d\<lparr>friend_relationships := rs @ [row]\<rparr>, 1)
           else None)"

definition update_friendship ::
    "int32 \<Rightarrow> string \<Rightarrow> int32 \<Rightarrow> int32 \<Rightarrow> int \<Rightarrow> database \<Rightarrow> (database \<times> nat) option" where
  "update_friendship action status first second now d =
     (let rs = friend_relationships d;
          hit = (\<lambda>r. fr_key r = (first, second));
          new = (\<lambda>r. r\<lparr>fr_action_user_id := action, fr_status := status, fr_updated_at := now\<rparr>)
      in if status \<notin> set friendship_status_enum then None
         else if \<exists>r \<in> set rs. hit r \<and>
                (\<not> friend_relationships_check (new r) \<or> \<not> user_exists d action) then None
         else Some (d\<lparr>friend_relationships := update_where hit new rs\<rparr>,
                length (filter hit rs)))"

definition delete_friendship ::
    "int32 \<Rightarrow> int32 \<Rightarrow> int \<Rightarrow> database \<Rightarrow> (database \<times> nat) option" where
  "delete_friendship first second now d =
     (let rs = friend_relationships d; hit = (\<lambda>r. fr_key r = (first, second))
      in Some (d\<lparr>friend_relationships := filter (\<lambda>r. \<not> hit r) rs\<rparr>, length (filter hit rs)))"

text \<open>
  The listing queries. Where \<open>ORDER BY created_at DESC\<close> leaves the order of equal timestamps
  open, the rows come in table order.
\<close>

definition select_related :: "(int32 \<Rightarrow> friend_row \<Rightarrow> bool) \<Rightarrow> int32 \<Rightarrow> database \<Rightarrow> friend_row list" where
  "select_related p u d = filter (\<lambda>r. involves u r \<and> p u r) (friend_relationships d)"

definition select_ordered_by_id :: "(int32 \<Rightarrow> friend_row \<Rightarrow> bool) \<Rightarrow> int32 \<Rightarrow> database \<Rightarrow> int32 list" where
  "select_ordered_by_id p u d = sort_key sint (map (other_user u) (select_related p u d))"

definition select_ordered_by_created :: "(int32 \<Rightarrow> friend_row \<Rightarrow> bool) \<Rightarrow> int32 \<Rightarrow> database \<Rightarrow> int32 list" where
  "select_ordered_by_created p u d =
     map (other_user u) (sort_key (\<lambda>r. - fr_created_at r) (select_related p u d))"

definition count_related :: "(int32 \<Rightarrow> friend_row \<Rightarrow> bool) \<Rightarrow> int32 \<Rightarrow> database \<Rightarrow> nat" where
  "count_related p u d = length (select_related p u d)"

subsection \<open>The methods of DBFriendStore\<close>

definition DBFriendStore_CreateFriendship :: "int32 \<Rightarrow> int32 \<Rightarrow> unit action" where
  "DBFriendStore_CreateFriendship actionUserID targetUserID =
     (let (firstUserID, secondUserID) = ensureUserOrder actionUserID targetUserID
      in call (exec (upsert_friendship firstUserID secondUserID actionUserID FriendshipPending))
           (\<lambda>err. throw (Wrapf ''failed to create friendship: '' err))
           (\<lambda>_. ret ()))"

definition friendship_of :: "friend_row \<Rightarrow> Friendship" where
  "friendship_of r =
     \<lparr>f_ID = 0, f_FirstUserID = fr_first_user_id r, f_SecondUserID = fr_second_user_id r,
      f_ActionUserID = fr_action_user_id r, f_Status = fr_status r,
      f_CreatedAt = fr_created_at r, f_UpdatedAt = fr_updated_at r\<rparr>"

definition DBFriendStore_GetFriendship :: "int32 \<Rightarrow> int32 \<Rightarrow> Friendship action" where
  "DBFriendStore_GetFriendship userID1 userID2 =
     (let key = ensureUserOrder userID1 userID2
      in call (query_row (\<lambda>d. find (\<lambda>r. fr_key r = key) (friend_relationships d)))
           (\<lambda>err. if errors_Is err ErrNoRows then throw ErrFriendshipNotFound
                  else throw (Wrapf ''failed to get friendship: '' err))
           (\<lambda>r. ret (friendship_of r)))"

definition DBFriendStore_UpdateFriendshipStatus ::
    "int32 \<Rightarrow> int32 \<Rightarrow> FriendshipStatus \<Rightarrow> unit action" where
  "DBFriendStore_UpdateFriendshipStatus actionUserID targetUserID status =
     (let (firstUserID, secondUserID) = ensureUserOrder actionUserID targetUserID
      in call (exec (update_friendship actionUserID status firstUserID secondUserID))
           (\<lambda>err. throw (Wrapf ''Failed to update friendship status: '' err))
           (\<lambda>result. call (RowsAffected result)
             (\<lambda>err. throw (Wrapf ''Failed to get rows affected: '' err))
             (\<lambda>rowsAffected.
                if rowsAffected = 0 then throw ErrFriendshipNotFound else ret ())))"

definition DBFriendStore_GetUserFriends :: "int32 \<Rightarrow> int32 \<Rightarrow> int32 \<Rightarrow> int32 list action" where
  "DBFriendStore_GetUserFriends userID limit offset =
     call (query_page (select_ordered_by_id is_accepted userID) limit offset)
       (\<lambda>err. throw (Wrapf ''failed to query user friends: '' err))
       (\<lambda>rows. call (scan_rows (Wrapf ''failed to scan friend profile: '') rows) throw
       (\<lambda>friendIDs. call rows_Err (\<lambda>err. throw (Wrapf ''Error iterating friend rows:'' err))
       (\<lambda>_. ret friendIDs)))"

definition DBFriendStore_GetAllUsers :: "int32 \<Rightarrow> int32 list action" where
  "DBFriendStore_GetAllUsers userID =
     call (query (select_ordered_by_id (\<lambda>_ _. True) userID))
       (\<lambda>err. throw (Wrapf ''failed to query all users: '' err))
       (\<lambda>rows. call (scan_rows (Wrapf ''failed to scan friend profile: '') rows) throw
       (\<lambda>friendIDs. call rows_Err (\<lambda>err. throw (Wrapf ''error iterating user rows: '' err))
       (\<lambda>_. ret friendIDs)))"

definition DBFriendStore_GetFriendshipRequests ::
    "int32 \<Rightarrow> int32 \<Rightarrow> int32 \<Rightarrow> int32 list action" where
  "DBFriendStore_GetFriendshipRequests userID limit offset =
     call (query_page (select_ordered_by_created is_incoming userID) limit offset)
       (\<lambda>err. throw (Wrapf ''Failed to query friendship requests:'' err))
       (\<lambda>rows. call (scan_rows (Wrapf ''failed to scan friend profile: '') rows) throw
       (\<lambda>friendIDs. call rows_Err (\<lambda>err. throw (Wrapf ''error iterating request rows: '' err))
       (\<lambda>_. ret friendIDs)))"

definition DBFriendStore_GetSentRequests ::
    "int32 \<Rightarrow> int32 \<Rightarrow> int32 \<Rightarrow> int32 list action" where
  "DBFriendStore_GetSentRequests userID limit offset =
     call (query_page (select_ordered_by_created is_sent userID) limit offset)
       (\<lambda>err. throw (Wrapf ''failed to query sent requests: '' err))
       (\<lambda>rows. call (scan_rows (Wrapf ''failed to scan friend profile: '') rows) throw
       (\<lambda>friendIDs. call rows_Err
         (\<lambda>err. throw (Wrapf ''error iterating sent request rows: '' err))
       (\<lambda>_. ret friendIDs)))"

definition DBFriendStore_DeleteFriendship :: "int32 \<Rightarrow> int32 \<Rightarrow> unit action" where
  "DBFriendStore_DeleteFriendship userID1 userID2 =
     (let (firstUserID, secondUserID) = ensureUserOrder userID1 userID2
      in call (exec (delete_friendship firstUserID secondUserID))
           (\<lambda>err. throw (Wrapf ''failed to delete friendship: '' err))
           (\<lambda>result. call (RowsAffected result)
             (\<lambda>err. throw (Wrapf ''failed to get rows affected: '' err))
             (\<lambda>rowsAffected.
                if rowsAffected = 0 then throw ErrFriendshipNotFound else ret ())))"

definition DBFriendStore_AreFriends :: "int32 \<Rightarrow> int32 \<Rightarrow> bool action" where
  "DBFriendStore_AreFriends userID1 userID2 =
     (let key = ensureUserOrder userID1 userID2
      in call (query_row (\<lambda>d. Some
             (\<exists>r \<in> set (friend_relationships d). fr_key r = key \<and> fr_status r = ''accepted'')))
           (\<lambda>err. throw (Wrapf ''failed to check friendship: '' err))
           (\<lambda>exists. ret exists))"

definition DBFriendStore_GetFriendshipStatus :: "int32 \<Rightarrow> int32 \<Rightarrow> FriendshipStatus action" where
  "DBFriendStore_GetFriendshipStatus userID1 userID2 =
     call (DBFriendStore_GetFriendship userID1 userID2)
       (\<lambda>err. if errors_Is err ErrFriendshipNotFound then ret [] else throw err)
       (\<lambda>friendship. ret (f_Status friendship))"

text \<open>A COUNT is a bigint; scanning it into an \<open>int32\<close> fails out of range.\<close>

definition scan_counts :: "nat \<times> nat \<times> nat \<times> nat \<Rightarrow> UserRelationsCounts action" where
  "scan_counts c =
     (case c of (acc, pen, sen, blo) \<Rightarrow>
        if int acc < 2 ^ 31 \<and> int pen < 2 ^ 31 \<and> int sen < 2 ^ 31 \<and> int blo < 2 ^ 31
        then ret \<lparr>rc_Accepted = word_of_nat acc, rc_Pending = word_of_nat pen,
                  rc_Sent = word_of_nat sen, rc_Blocked = word_of_nat blo\<rparr>
        else throw (Plain ''sql: Scan error: value out of range''))"

definition DBFriendStore_CountUserRelations :: "int32 \<Rightarrow> UserRelationsCounts action" where
  "DBFriendStore_CountUserRelations userID =
     call (call (query_row (\<lambda>d. Some
              (count_related is_accepted userID d,
               count_related (\<lambda>u r. fr_status r = ''pending'' \<and> fr_action_user_id r \<noteq> u) userID d
                 + count_related (\<lambda>u r. fr_status r = ''rejected'' \<and> fr_action_user_id r = u) userID d,
               count_related (\<lambda>u r. fr_status r = ''pending'' \<and> fr_action_user_id r = u) userID d
                 + count_related (\<lambda>u r. fr_status r = ''rejected'' \<and> fr_action_user_id r \<noteq> u) userID d,
               count_related is_blocked userID d)))
            throw scan_counts)
       (\<lambda>err. throw (Wrapf ''failed to count user relations: '' err))
       (\<lambda>counts. ret counts)"

definition status_clause :: "FriendshipCountType \<Rightarrow> (int32 \<Rightarrow> friend_row \<Rightarrow> bool) option" where
  "status_clause fType =
     (if fType = CountNotFriends then Some (\<lambda>_ _. True)
      else if fType = CountAccepted then Some is_accepted
      else if fType = CountPending then Some is_incoming
      else if fType = CountSent then Some is_sent
      else if fType = CountBlocked then Some is_blocked
      else None)"

definition DBFriendStore_GetUserIDsByFriendType ::
    "int32 \<Rightarrow> FriendshipCountType \<Rightarrow> int32 list action" where
  "DBFriendStore_GetUserIDsByFriendType userID fType =
     (case status_clause fType of
        None \<Rightarrow> throw (Plain (''unknown statusType: '' @ fType))
      | Some clause \<Rightarrow>
          call (query (\<lambda>d. map (other_user userID) (select_related clause userID d))) throw
          (\<lambda>rows. call (scan_rows (\<lambda>err. err) rows) throw
          (\<lambda>ids. call rows_Err throw
          (\<lambda>_. ret ids))))"

definition DBFriendStore :: FriendStore where
  "DBFriendStore =
     \<lparr>fs_CreateFriendship = DBFriendStore_CreateFriendship,
      fs_GetFriendship = DBFriendStore_GetFriendship,
      fs_UpdateFriendshipStatus = DBFriendStore_UpdateFriendshipStatus,
      fs_DeleteFriendship = DBFriendStore_DeleteFriendship,
      fs_GetUserFriends = DBFriendStore_GetUserFriends,
      fs_GetAllUsers = DBFriendStore_GetAllUsers,
      fs_GetFriendshipRequests = DBFriendStore_GetFriendshipRequests,
      fs_GetSentRequests = DBFriendStore_GetSentRequests,
      fs_GetUserIDsByFriendType = DBFriendStore_GetUserIDsByFriendType,
      fs_AreFriends = DBFriendStore_AreFriends,
      fs_GetFriendshipStatus = DBFriendStore_GetFriendshipStatus,
      fs_CountUserRelations = DBFriendStore_CountUserRelations\<rparr>"

subsection \<open>The laws of the store\<close>

text \<open>
  What the store says about a pair of users: the friendship record it returns for the pair, or
  \<open>None\<close>. The pair is unordered.
\<close>

definition friend_view :: "world \<Rightarrow> int32 \<Rightarrow> int32 \<Rightarrow> Friendship option" where
  "friend_view w a b =
     map_option friendship_of
       (find (\<lambda>r. fr_key r = ensureUserOrder a b) (friend_relationships (db w)))"

definition pair_upd :: "(int32 \<Rightarrow> int32 \<Rightarrow> 'a option) \<Rightarrow> int32 \<Rightarrow> int32 \<Rightarrow> 'a option \<Rightarrow>
    (int32 \<Rightarrow> int32 \<Rightarrow> 'a option)" where
  "pair_upd v a b x = (\<lambda>c d. if (c = a \<and> d = b) \<or> (c = b \<and> d = a) then x else v c d)"

lemma pair_upd_same [simp]: "pair_upd v a b x a b = x" "pair_upd v a b x b a = x"
  by (simp_all add: pair_upd_def)

lemma ensureUserOrder_sym: "ensureUserOrder a b = ensureUserOrder b a"
  by (cases "a = b") (auto simp: ensureUserOrder_def dest: antisym)

lemma ensureUserOrder_eq_iff:
  "ensureUserOrder a b = ensureUserOrder c d \<longleftrightarrow> (a = c \<and> b = d) \<or> (a = d \<and> b = c)"
  by (auto simp: ensureUserOrder_def split: if_splits)

lemma friend_view_sym: "friend_view w a b = friend_view w b a"
  by (simp add: friend_view_def ensureUserOrder_sym [of a b])

lemma friend_view_quiet: "quiet w w' \<Longrightarrow> friend_view w' = friend_view w"
  by (intro ext) (simp add: friend_view_def quiet_sel)

lemma fr_key_upd [simp]:
  "fr_key (r\<lparr>fr_status := s\<rparr>) = fr_key r" "fr_key (r\<lparr>fr_action_user_id := a\<rparr>) = fr_key r"
  "fr_key (r\<lparr>fr_updated_at := t\<rparr>) = fr_key r"
  by (simp_all add: fr_key_def)

text \<open>The effect of each statement on the view.\<close>

lemma upsert_friendship_view:
  assumes "upsert_friendship (fst (ensureUserOrder a b)) (snd (ensureUserOrder a b)) act st now (db w)
     = Some (d, n)"
  shows "\<exists>f. f_Status f = st \<and> f_ActionUserID f = act \<and>
     friend_view (w\<lparr>db := d\<rparr>) = pair_upd (friend_view w) a b (Some f)"
proof -
  let ?rs = "friend_relationships (db w)" and ?k = "ensureUserOrder a b"
  show ?thesis
  proof (cases "find (\<lambda>r. fr_key r = ?k) ?rs")
    case None
    then have "\<not> (\<exists>r \<in> set ?rs. fr_key r = ?k)" by (auto simp: find_None_set)
    with assms obtain row where
      d: "friend_relationships d = ?rs @ [row]" and
      row: "fr_key row = ?k" "fr_status row = st" "fr_action_user_id row = act"
      by (auto simp: upsert_friendship_def Let_def fr_key_def split: if_splits)
    have "friend_view (w\<lparr>db := d\<rparr>) = pair_upd (friend_view w) a b (Some (friendship_of row))"
      using None row(1)
      by (intro ext) (auto simp: friend_view_def d find_snoc pair_upd_def ensureUserOrder_eq_iff
          ensureUserOrder_sym split: option.splits)
    with row show ?thesis by (intro exI [of _ "friendship_of row"]) (simp add: friendship_of_def)
  next
    case (Some r)
    let ?f = "\<lambda>r. r\<lparr>fr_status := st, fr_action_user_id := act, fr_updated_at := now\<rparr>"
    from Some have "\<exists>r \<in> set ?rs. fr_key r = ?k" by (auto dest: find_SomeD)
    with assms have d: "friend_relationships d = update_where (\<lambda>r. fr_key r = ?k) ?f ?rs"
      by (auto simp: upsert_friendship_def Let_def split: if_splits)
    have "friend_view (w\<lparr>db := d\<rparr>) = pair_upd (friend_view w) a b (Some (friendship_of (?f r)))"
      using Some
      by (intro ext) (auto simp: friend_view_def d find_update_where_key pair_upd_def
          ensureUserOrder_eq_iff ensureUserOrder_sym split: option.splits)
    then show ?thesis
      by (intro exI [of _ "friendship_of (?f r)"]) (simp add: friendship_of_def)
  qed
qed

lemma update_friendship_view:
  assumes "update_friendship act st (fst (ensureUserOrder a b)) (snd (ensureUserOrder a b)) now (db w)
     = Some (d, n)"
  shows "(n = 0 \<and> friend_view w a b = None \<and> friend_view (w\<lparr>db := d\<rparr>) = friend_view w) \<or>
    (n \<noteq> 0 \<and> (\<exists>f. friend_view w a b = Some f \<and>
       friend_view (w\<lparr>db := d\<rparr>) = pair_upd (friend_view w) a b
         (Some (f\<lparr>f_ActionUserID := act, f_Status := st, f_UpdatedAt := now\<rparr>))))"
proof -
  let ?rs = "friend_relationships (db w)" and ?k = "ensureUserOrder a b"
  let ?f = "\<lambda>r. r\<lparr>fr_action_user_id := act, fr_status := st, fr_updated_at := now\<rparr>"
  from assms have d: "friend_relationships d = update_where (\<lambda>r. fr_key r = ?k) ?f ?rs"
    and n: "n = length (filter (\<lambda>r. fr_key r = ?k) ?rs)"
    by (auto simp: update_friendship_def Let_def split: if_splits)
  have view: "friend_view (w\<lparr>db := d\<rparr>) x y =
      (if ensureUserOrder x y = ?k
       then map_option friendship_of (map_option ?f (find (\<lambda>r. fr_key r = ?k) ?rs))
       else friend_view w x y)" for x y
    by (simp add: friend_view_def d find_update_where_key)
  show ?thesis
  proof (cases "find (\<lambda>r. fr_key r = ?k) ?rs")
    case None
    then have "n = 0" using n length_filter_0_iff by metis
    with None view show ?thesis
      by (intro disjI1) (auto simp: friend_view_def intro!: ext split: if_splits)
  next
    case (Some r)
    then have "n \<noteq> 0" using n length_filter_0_iff by (metis option.distinct(1))
    moreover have "friendship_of (?f r) =
        (friendship_of r)\<lparr>f_ActionUserID := act, f_Status := st, f_UpdatedAt := now\<rparr>"
      by (simp add: friendship_of_def)
    ultimately show ?thesis using Some view
      by (intro disjI2 conjI exI [of _ "friendship_of r"])
         (auto simp: friend_view_def pair_upd_def ensureUserOrder_eq_iff intro!: ext)
  qed
qed

lemma delete_friendship_view:
  assumes "delete_friendship (fst (ensureUserOrder a b)) (snd (ensureUserOrder a b)) now (db w)
     = Some (d, n)"
  shows "friend_view (w\<lparr>db := d\<rparr>) = pair_upd (friend_view w) a b None \<and>
    (n = 0 \<longleftrightarrow> friend_view w a b = None)"
proof -
  let ?rs = "friend_relationships (db w)" and ?k = "ensureUserOrder a b"
  from assms have d: "friend_relationships d = filter (\<lambda>r. fr_key r \<noteq> ?k) ?rs"
    and n: "n = length (filter (\<lambda>r. fr_key r = ?k) ?rs)"
    by (auto simp: delete_friendship_def Let_def)
  have "friend_view (w\<lparr>db := d\<rparr>) = pair_upd (friend_view w) a b None"
    by (intro ext) (auto simp: friend_view_def d find_filter_key pair_upd_def ensureUserOrder_eq_iff)
  then show ?thesis
    unfolding n by (simp add: friend_view_def length_filter_0_iff del: length_0_conv)
qed

subsection \<open>The contract of the store\<close>

text \<open>
  What a client of \<open>domain.FriendStore\<close> may rely on, whatever calls fail: \<open>view w a b\<close> is the
  friendship of the pair in world \<open>w\<close>. An operation that fails leaves every pair as it was, and
  absence is reported with \<open>ErrFriendshipNotFound\<close>, never with an error that wraps \<open>ErrNotFound\<close>.
\<close>

locale friend_store =
  fixes fs :: FriendStore
    and view :: "world \<Rightarrow> int32 \<Rightarrow> int32 \<Rightarrow> Friendship option"
  assumes view_sym: "view w a b = view w b a"
    and view_quiet: "quiet w w' \<Longrightarrow> view w' = view w"
    and get: "fs_GetFriendship fs a b w = (g, w') \<Longrightarrow> quiet w w' \<and>
      (case g of Ret f \<Rightarrow> view w a b = Some f
       | Fail e \<Rightarrow> \<not> errors_Is e ErrNotFound | Panic \<Rightarrow> False)"
    and status: "fs_GetFriendshipStatus fs a b w = (t, w') \<Longrightarrow> quiet w w' \<and>
      (case t of Ret s \<Rightarrow> s = (case view w a b of None \<Rightarrow> [] | Some f \<Rightarrow> f_Status f)
       | Fail e \<Rightarrow> \<not> errors_Is e ErrNotFound | Panic \<Rightarrow> False)"
    and create: "fs_CreateFriendship fs a b w = (r, w') \<Longrightarrow>
      (case r of Ret _ \<Rightarrow> \<exists>f. f_Status f = FriendshipPending \<and> f_ActionUserID f = a \<and>
           view w' = pair_upd (view w) a b (Some f)
       | Fail e \<Rightarrow> view w' = view w | Panic \<Rightarrow> False)"
    and update: "fs_UpdateFriendshipStatus fs a b st w = (r, w') \<Longrightarrow>
      (case r of Ret _ \<Rightarrow> view w a b \<noteq> None \<and>
           (\<exists>f. f_Status f = st \<and> f_ActionUserID f = a \<and>
             view w' = pair_upd (view w) a b (Some f))
       | Fail e \<Rightarrow> view w' = view w | Panic \<Rightarrow> False)"
    and delete: "fs_DeleteFriendship fs a b w = (r, w') \<Longrightarrow>
      (case r of Ret _ \<Rightarrow> view w a b \<noteq> None \<and> view w' = pair_upd (view w) a b None
       | Fail e \<Rightarrow> view w' = view w | Panic \<Rightarrow> False)"

text \<open>Each law for the PostgreSQL store.\<close>

lemma db_GetFriendship:
  assumes "DBFriendStore_GetFriendship a b w = (r, w')"
  shows "quiet w w' \<and> (case r of Ret f \<Rightarrow> friend_view w a b = Some f
       | Fail e \<Rightarrow> \<not> errors_Is e ErrNotFound \<and>
           (e = ErrFriendshipNotFound \<longrightarrow> friend_view w a b = None) | Panic \<Rightarrow> False)"
  using assms
  by (auto simp: DBFriendStore_GetFriendship_def friend_view_def act
      split: option.splits if_splits)

lemma db_GetFriendshipStatus:
  assumes "DBFriendStore_GetFriendshipStatus a b w = (r, w')"
  shows "quiet w w' \<and>
      (case r of Ret s \<Rightarrow> s = (case friend_view w a b of None \<Rightarrow> [] | Some f \<Rightarrow> f_Status f)
       | Fail e \<Rightarrow> \<not> errors_Is e ErrNotFound | Panic \<Rightarrow> False)"
proof -
  obtain r1 w1 where g: "DBFriendStore_GetFriendship a b w = (r1, w1)"
    by (cases "DBFriendStore_GetFriendship a b w")
  have f: "errors_Is e ErrFriendshipNotFound \<Longrightarrow> r1 = Fail e \<Longrightarrow> e = ErrFriendshipNotFound" for e
    using g by (auto simp: DBFriendStore_GetFriendship_def act split: option.splits if_splits)
  show ?thesis
    using assms db_GetFriendship [OF g] f
    by (auto simp: DBFriendStore_GetFriendshipStatus_def call_def g throw_def ret_def
        split: res.splits if_splits)
qed

lemma db_CreateFriendship:
  assumes "DBFriendStore_CreateFriendship a b w = (r, w')"
  shows "case r of Ret _ \<Rightarrow> \<exists>f. f_Status f = FriendshipPending \<and> f_ActionUserID f = a \<and>
           friend_view w' = pair_upd (friend_view w) a b (Some f)
       | Fail e \<Rightarrow> quiet w w' | Panic \<Rightarrow> False"
  using assms upsert_friendship_view [of a b a FriendshipPending _ "tick w"]
  by (auto simp: DBFriendStore_CreateFriendship_def act friend_view_quiet [OF quiet_tick]
      case_prod_beta split: option.splits prod.splits)

lemma db_UpdateFriendshipStatus:
  assumes "DBFriendStore_UpdateFriendshipStatus a b st w = (r, w')"
  shows "case r of Ret _ \<Rightarrow> friend_view w a b \<noteq> None \<and>
           (\<exists>f. f_Status f = st \<and> f_ActionUserID f = a \<and>
             friend_view w' = pair_upd (friend_view w) a b (Some f))
       | Fail e \<Rightarrow> friend_view w' = friend_view w | Panic \<Rightarrow> False"
proof -
  have q: "friend_view (tick w) = friend_view w" by (rule friend_view_quiet [OF quiet_tick])
  show ?thesis
  proof (cases "next_fault w = None")
    case True
    let ?o = "ensureUserOrder a b"
    show ?thesis
    proof (cases "update_friendship a st (fst ?o) (snd ?o) (clock w) (db w)")
      case None
      then show ?thesis
        using assms True q
        by (auto simp: DBFriendStore_UpdateFriendshipStatus_def act case_prod_beta)
    next
      case (Some dn)
      then obtain d n where dn: "update_friendship a st (fst ?o) (snd ?o) (clock w) (db w) = Some (d, n)"
        by (cases dn) auto
      show ?thesis
        using assms True dn update_friendship_view [of a st a b _ "tick w" d n]
        by (force simp: DBFriendStore_UpdateFriendshipStatus_def act q case_prod_beta
            split: if_splits)
    qed
  qed (use assms q in \<open>auto simp: DBFriendStore_UpdateFriendshipStatus_def act case_prod_beta\<close>)
qed

lemma db_DeleteFriendship:
  assumes "DBFriendStore_DeleteFriendship a b w = (r, w')"
  shows "case r of Ret _ \<Rightarrow> friend_view w a b \<noteq> None \<and>
             friend_view w' = pair_upd (friend_view w) a b None
       | Fail e \<Rightarrow> friend_view w' = friend_view w | Panic \<Rightarrow> False"
proof -
  have q: "friend_view (tick w) = friend_view w" by (rule friend_view_quiet [OF quiet_tick])
  have none: "friend_view w a b = None \<Longrightarrow> pair_upd (friend_view w) a b None = friend_view w"
    by (intro ext) (auto simp: pair_upd_def friend_view_sym [of w b a])
  show ?thesis
    using assms delete_friendship_view [of a b _ "tick w"] none unfolding q
    by (fastforce simp: DBFriendStore_DeleteFriendship_def act q case_prod_beta
        split: option.splits prod.splits if_splits)
qed

interpretation db_friends: friend_store DBFriendStore friend_view
proof unfold_locales
  show "friend_view w a b = friend_view w b a" for w a b by (rule friend_view_sym)
  show "quiet w w' \<Longrightarrow> friend_view w' = friend_view w" for w w' by (rule friend_view_quiet)
qed (fastforce simp: DBFriendStore_def friend_view_quiet split: res.splits
      dest: db_GetFriendship db_GetFriendshipStatus db_CreateFriendship
        db_UpdateFriendshipStatus db_DeleteFriendship)+

end
