(* ===== verification/Friend_Service.thy ===== *)
theory Friend_Service
  imports Friend_Store
begin

text \<open>
  The friend service (src/internal/service/friend.go): one definition per method over the record of
  its dependencies. The contract it needs from the store is the locale \<open>friend_store\<close>; the
  service's own contract, a state machine over the relation of a pair of users, is proved inside it
  and holds for the PostgreSQL store by the interpretation \<open>db_friends\<close>.
\<close>

record FriendService =
  frs_friendStore :: FriendStore
  frs_authService :: AuthServiceClient
  frs_elasticProfileStore :: ElasticProfileStore
  frs_profileService :: ProfileServiceClient

subsection \<open>Commands\<close>

definition FriendService_SendFriendRequest :: "FriendService \<Rightarrow> int32 \<Rightarrow> int32 \<Rightarrow> unit action" where
  "FriendService_SendFriendRequest s actionUserID targetUserID =
     (if actionUserID = targetUserID then throw ErrInvalidInput
      else call (ac_IsUserExists (frs_authService s) targetUserID) (\<lambda>err. throw ErrDB)
      (\<lambda>isUserExist. if \<not> isUserExist then throw ErrNotExist
      else let dispatch = (\<lambda>currentStatus.
        if currentStatus = FriendshipAccepted then throw ErrAlreadyExists
        else if currentStatus = FriendshipPending then
          call (fs_GetFriendship (frs_friendStore s) actionUserID targetUserID)
            (\<lambda>err. throw ErrDB)
            (\<lambda>friendship. if f_FirstUserID friendship = actionUserID then throw ErrAlreadyExists
                          else throw ErrAlreadyExists)
        else if currentStatus = FriendshipBlocked then throw ErrAccessDenied
        else call (fs_CreateFriendship (frs_friendStore s) actionUserID targetUserID)
            (\<lambda>err. throw ErrDB)
            (\<lambda>_. ret ()))
      in call (fs_GetFriendshipStatus (frs_friendStore s) actionUserID targetUserID)
           (\<lambda>err. if \<not> errors_Is err ErrNotFound then throw ErrDB else dispatch [])
           dispatch))"

definition FriendService_AcceptFriendRequest :: "FriendService \<Rightarrow> int32 \<Rightarrow> int32 \<Rightarrow> unit action" where
  "FriendService_AcceptFriendRequest s userID friendID =
     call (fs_GetFriendship (frs_friendStore s) userID friendID)
       (\<lambda>err. if errors_Is err ErrNotFound then throw ErrNotFound else throw ErrDB)
       (\<lambda>friendship.
          if f_Status friendship \<noteq> FriendshipPending \<or> f_ActionUserID friendship = userID
          then throw ErrNotFound
          else call (fs_UpdateFriendshipStatus (frs_friendStore s) userID friendID
                       FriendshipAccepted)
                 (\<lambda>err. throw ErrDB)
                 (\<lambda>_. ret ()))"

definition FriendService_RejectFriendRequest :: "FriendService \<Rightarrow> int32 \<Rightarrow> int32 \<Rightarrow> unit action" where
  "FriendService_RejectFriendRequest s userID friendID =
     call (fs_GetFriendship (frs_friendStore s) userID friendID)
       (\<lambda>err. if errors_Is err ErrNotFound then throw ErrNotFound else throw ErrDB)
       (\<lambda>friendship.
          if f_Status friendship \<noteq> FriendshipPending \<or> f_ActionUserID friendship = userID
          then throw ErrNotFound
          else call (fs_UpdateFriendshipStatus (frs_friendStore s) userID friendID
                       FriendshipRejected)
                 (\<lambda>err. throw ErrDB)
                 (\<lambda>_. ret ()))"

definition FriendService_RemoveFriend :: "FriendService \<Rightarrow> int32 \<Rightarrow> int32 \<Rightarrow> unit action" where
  "FriendService_RemoveFriend s userID friendID =
     call (fs_DeleteFriendship (frs_friendStore s) userID friendID)
       (\<lambda>err. throw ErrDB)
       (\<lambda>_. ret ())"

subsection \<open>Queries\<close>

definition FriendService_GetFriends ::
    "FriendService \<Rightarrow> int32 \<Rightarrow> PaginateQueryParams \<Rightarrow> ShortProfile list action" where
  "FriendService_GetFriends s userID params =
     (let (offset, limit) = ValidatePaginationParams params
      in call (fs_GetUserFriends (frs_friendStore s) userID limit offset) (\<lambda>err. throw ErrDB)
      (\<lambda>friendIDs. call (pc_GetShortProfileByUserIDs (frs_profileService s) friendIDs)
        (\<lambda>err. throw ErrDB)
      (\<lambda>friends. ret (FromProtoShortProfileSlice friends))))"

definition FriendService_GetAllUsers ::
    "FriendService \<Rightarrow> int32 \<Rightarrow> PaginateQueryParams \<Rightarrow> ShortProfile list action" where
  "FriendService_GetAllUsers s userID params =
     (let (offset, limit) = ValidatePaginationParams params
      in call (fs_GetAllUsers (frs_friendStore s) userID) (\<lambda>err. throw ErrDB)
      (\<lambda>userIDs. let userIDs = userIDs @ [userID]
        in call (pc_GetOtherShortProfileByUserIDs (frs_profileService s) userIDs limit offset)
        (\<lambda>err. throw ErrDB)
      (\<lambda>friends. ret (FromProtoOtherShortProfileSlice friends))))"

definition FriendService_GetFriendRequests ::
    "FriendService \<Rightarrow> int32 \<Rightarrow> PaginateQueryParams \<Rightarrow> ShortProfile list action" where
  "FriendService_GetFriendRequests s userID params =
     (let (offset, limit) = ValidatePaginationParams params
      in call (fs_GetFriendshipRequests (frs_friendStore s) userID limit offset)
        (\<lambda>err. throw ErrDB)
      (\<lambda>requestIDs. call (pc_GetShortProfileByUserIDs (frs_profileService s) requestIDs)
        (\<lambda>err. throw ErrDB)
      (\<lambda>friends. ret (FromProtoShortProfileSlice friends))))"

definition FriendService_GetSentRequests ::
    "FriendService \<Rightarrow> int32 \<Rightarrow> PaginateQueryParams \<Rightarrow> ShortProfile list action" where
  "FriendService_GetSentRequests s userID params =
     (let (offset, limit) = ValidatePaginationParams params
      in call (fs_GetSentRequests (frs_friendStore s) userID limit offset)
        (\<lambda>err. throw ErrDB)
      (\<lambda>requestIDs. call (pc_GetShortProfileByUserIDs (frs_profileService s) requestIDs)
        (\<lambda>err. throw ErrDB)
      (\<lambda>friends. ret (FromProtoShortProfileSlice friends))))"

definition FriendService_GetFriendshipStatus ::
    "FriendService \<Rightarrow> int32 \<Rightarrow> int32 \<Rightarrow> FriendshipStatus action" where
  "FriendService_GetFriendshipStatus s userID friendID =
     call (fs_GetFriendshipStatus (frs_friendStore s) userID friendID)
       (\<lambda>err. if \<not> errors_Is err ErrNotFound then throw ErrDB else ret [])
       (\<lambda>status. ret status)"

definition FriendService_CountUserRelations ::
    "FriendService \<Rightarrow> int32 \<Rightarrow> UserRelationsCounts action" where
  "FriendService_CountUserRelations s userID =
     call (ac_IsUserExists (frs_authService s) userID) (\<lambda>err. throw ErrDB)
       (\<lambda>isUserExist. if \<not> isUserExist then throw ErrNotExist
        else call (fs_CountUserRelations (frs_friendStore s) userID) (\<lambda>err. throw ErrDB)
       (\<lambda>count. ret count))"

definition FriendService_isValidCountType :: "FriendshipCountType \<Rightarrow> bool" where
  "FriendService_isValidCountType countType \<longleftrightarrow>
     countType \<in> set [CountAccepted, CountPending, CountSent, CountBlocked, CountRejected]"

definition FriendService_SearchShortProfilesByFullNameAndRelationType ::
    "FriendService \<Rightarrow> int32 \<Rightarrow> PaginateQueryParams \<Rightarrow> string \<Rightarrow> FriendshipCountType \<Rightarrow>
     ShortProfile list action" where
  "FriendService_SearchShortProfilesByFullNameAndRelationType s userID params fullName fType =
     (let (offset, limit) = ValidatePaginationParams params;
          isTerms = (fType \<noteq> CountNotFriends)
      in call (fs_GetUserIDsByFriendType (frs_friendStore s) userID fType) (\<lambda>err. throw ErrDB)
      (\<lambda>filterIDs. call (es_SearchUserIDsByFullNameWithFilter (frs_elasticProfileStore s)
          fullName filterIDs isTerms limit offset) (\<lambda>err. throw ErrDB)
      (\<lambda>foundIDs. call (pc_GetShortProfileByUserIDs (frs_profileService s) foundIDs)
        (\<lambda>err. throw ErrDB)
      (\<lambda>resp. ret (FromProtoShortProfileSlice resp)))))"

subsection \<open>The abstract state machine\<close>

text \<open>
  The relation of a pair of users: none, or a status with the user who acted last. A request is a
  pending relation whose actor sent it.
\<close>

type_synonym relation = "(FriendshipStatus \<times> int32) option"

datatype friend_op =
  Send int32 int32 | Accept int32 int32 | Reject int32 int32 | Remove int32 int32

fun actor :: "friend_op \<Rightarrow> int32" where
  "actor (Send a b) = a"
| "actor (Accept a b) = a"
| "actor (Reject a b) = a"
| "actor (Remove a b) = a"

fun target :: "friend_op \<Rightarrow> int32" where
  "target (Send a b) = b"
| "target (Accept a b) = b"
| "target (Reject a b) = b"
| "target (Remove a b) = b"

text \<open>
  \<open>friend_spec op ex r\<close>: the answer to \<open>op\<close> on a pair in relation \<open>r\<close>, and the next relation;
  \<open>ex\<close> says whether the target is a registered user.
\<close>

fun friend_spec :: "friend_op \<Rightarrow> bool \<Rightarrow> relation \<Rightarrow> unit res \<times> relation" where
  "friend_spec (Send a b) ex r =
     (if a = b then (Fail ErrInvalidInput, r)
      else if \<not> ex then (Fail ErrNotExist, r)
      else case r of
        None \<Rightarrow> (Ret (), Some (FriendshipPending, a))
      | Some (st, by) \<Rightarrow>
          if st = FriendshipAccepted \<or> st = FriendshipPending then (Fail ErrAlreadyExists, r)
          else if st = FriendshipBlocked then (Fail ErrAccessDenied, r)
          else (Ret (), Some (FriendshipPending, a)))"
| "friend_spec (Accept a b) ex r =
     (case r of
        None \<Rightarrow> (Fail ErrDB, r)
      | Some (st, by) \<Rightarrow>
          if st = FriendshipPending \<and> by \<noteq> a then (Ret (), Some (FriendshipAccepted, a))
          else (Fail ErrNotFound, r))"
| "friend_spec (Reject a b) ex r =
     (case r of
        None \<Rightarrow> (Fail ErrDB, r)
      | Some (st, by) \<Rightarrow>
          if st = FriendshipPending \<and> by \<noteq> a then (Ret (), Some (FriendshipRejected, a))
          else (Fail ErrNotFound, r))"
| "friend_spec (Remove a b) ex r =
     (case r of None \<Rightarrow> (Fail ErrDB, r) | Some _ \<Rightarrow> (Ret (), None))"

fun perform :: "FriendService \<Rightarrow> friend_op \<Rightarrow> unit action" where
  "perform s (Send a b) = FriendService_SendFriendRequest s a b"
| "perform s (Accept a b) = FriendService_AcceptFriendRequest s a b"
| "perform s (Reject a b) = FriendService_RejectFriendRequest s a b"
| "perform s (Remove a b) = FriendService_RemoveFriend s a b"

definition rel_of :: "(int32 \<Rightarrow> int32 \<Rightarrow> Friendship option) \<Rightarrow> int32 \<Rightarrow> int32 \<Rightarrow> relation" where
  "rel_of v a b = map_option (\<lambda>f. (f_Status f, f_ActionUserID f)) (v a b)"

lemma rel_of_upd:
  "rel_of (pair_upd v a b x) =
     pair_upd (rel_of v) a b (map_option (\<lambda>f. (f_Status f, f_ActionUserID f)) x)"
  by (intro ext) (simp add: rel_of_def pair_upd_def)

text \<open>
  One operation on the relations of all pairs: it does what the specification says on the pair of
  its two users and nothing elsewhere, or it fails with ErrDB and changes nothing.
\<close>

definition friend_step ::
    "friend_op \<Rightarrow> bool \<Rightarrow> (int32 \<Rightarrow> int32 \<Rightarrow> relation) \<Rightarrow> unit res \<Rightarrow> (int32 \<Rightarrow> int32 \<Rightarrow> relation) \<Rightarrow> bool"
  where
  "friend_step op ex R r R' \<longleftrightarrow>
     (r = Fail ErrDB \<and> R' = R) \<or>
     (case friend_spec op ex (R (actor op) (target op)) of
        (r1, x) \<Rightarrow> r = r1 \<and> R' = pair_upd R (actor op) (target op) x)"

text \<open>
  A history of the service: operations with their answers, and in between anything else that leaves
  the relations alone. \<open>effective tr a b\<close> are the operations on the pair that were accepted, in
  order.
\<close>

inductive friend_history ::
    "FriendService \<Rightarrow> (world \<Rightarrow> int32 \<Rightarrow> int32 \<Rightarrow> Friendship option) \<Rightarrow> world \<Rightarrow>
     (friend_op \<times> unit res) list \<Rightarrow> world \<Rightarrow> bool"
  for s view w0 where
  start: "friend_history s view w0 [] w0"
| operation: "friend_history s view w0 tr w \<Longrightarrow> perform s op w = (r, w') \<Longrightarrow>
    friend_history s view w0 (tr @ [(op, r)]) w'"
| elsewhere: "friend_history s view w0 tr w \<Longrightarrow> view w' = view w \<Longrightarrow>
    friend_history s view w0 tr w'"

definition effective :: "(friend_op \<times> unit res) list \<Rightarrow> int32 \<Rightarrow> int32 \<Rightarrow> friend_op list" where
  "effective tr a b =
     map fst (filter (\<lambda>(op, r). r = Ret () \<and> {actor op, target op} = {a, b}) tr)"

text \<open>What a relation says about the operations that led to it.\<close>

definition explains :: "friend_op list \<Rightarrow> int32 \<Rightarrow> int32 \<Rightarrow> relation \<Rightarrow> bool" where
  "explains E a b R \<longleftrightarrow>
     (case R of
        None \<Rightarrow> E = [] \<or> (\<exists>es x y. E = es @ [Remove x y])
      | Some (st, by) \<Rightarrow> (\<exists>es other. {by, other} = {a, b} \<and> by \<noteq> other \<and>
          ((st = FriendshipPending \<and> E = es @ [Send by other]) \<or>
           (st = FriendshipAccepted \<and> E = es @ [Send other by, Accept by other]) \<or>
           (st = FriendshipRejected \<and> E = es @ [Send other by, Reject by other]))))"

lemma explains_step:
  assumes "explains E a b R" "friend_spec op ex R = (Ret (), x)"
    and "{actor op, target op} = {a, b}"
  shows "explains (E @ [op]) a b x"
proof (cases op)
  case (Send u v)
  with assms(2,3) have "x = Some (FriendshipPending, u)" "u \<noteq> v"
    by (auto split: if_splits option.splits)
  with Send assms(3) show ?thesis by (auto simp: explains_def)
next
  case (Accept u v)
  with assms(2) obtain by' where R: "R = Some (FriendshipPending, by')" "by' \<noteq> u"
    and x: "x = Some (FriendshipAccepted, u)"
    by (auto split: if_splits option.splits)
  from assms(1) R(1) obtain es other where E: "E = es @ [Send by' other]" "{by', other} = {a, b}"
    "by' \<noteq> other" by (auto simp: explains_def)
  with R(2) Accept assms(3) have "other = u" "v = by'" by (auto simp: doubleton_eq_iff)
  with E x Accept assms(3) show ?thesis
    by (auto simp: explains_def intro!: exI [of _ es] exI [of _ by'])
next
  case (Reject u v)
  with assms(2) obtain by' where R: "R = Some (FriendshipPending, by')" "by' \<noteq> u"
    and x: "x = Some (FriendshipRejected, u)"
    by (auto split: if_splits option.splits)
  from assms(1) R(1) obtain es other where E: "E = es @ [Send by' other]" "{by', other} = {a, b}"
    "by' \<noteq> other" by (auto simp: explains_def)
  with R(2) Reject assms(3) have "other = u" "v = by'" by (auto simp: doubleton_eq_iff)
  with E x Reject assms(3) show ?thesis
    by (auto simp: explains_def intro!: exI [of _ es] exI [of _ by'])
next
  case (Remove u v)
  with assms(2) have "x = None" by (auto split: option.splits)
  with Remove show ?thesis by (auto simp: explains_def)
qed

lemma friend_spec_refusal: "friend_spec op ex R = (r, x) \<Longrightarrow> r \<noteq> Ret () \<Longrightarrow> x = R"
  by (cases op) (auto split: if_splits option.splits)

locale friendship_service =
  store: friend_store "frs_friendStore s" view
  for s :: FriendService and view :: "world \<Rightarrow> int32 \<Rightarrow> int32 \<Rightarrow> Friendship option" +
  fixes registered :: "world \<Rightarrow> int32 \<Rightarrow> bool"
  assumes directory: "ac_IsUserExists (frs_authService s) u w = (rb, w') \<Longrightarrow> quiet w w' \<and>
    (case rb of Ret b \<Rightarrow> b = registered w u | Fail e \<Rightarrow> True | Panic \<Rightarrow> False)"
begin

lemma rel_sym: "rel_of (view w) a b = rel_of (view w) b a"
  unfolding rel_of_def by (subst store.view_sym) (rule refl)

lemma rel_same: "pair_upd (rel_of (view w)) a b (rel_of (view w) a b) = rel_of (view w)"
  by (intro ext) (auto simp: pair_upd_def rel_sym)

lemma rel_same': "pair_upd (rel_of (view w)) a b (Some x) = rel_of (view w)"
  if "rel_of (view w) a b = Some x" for x
  using rel_same [of w a b] that by simp

lemma rel_none: "pair_upd (rel_of (view w)) a b None = rel_of (view w)"
  if "rel_of (view w) a b = None"
  using rel_same [of w a b] that by simp

lemma respond_step:
  assumes "call (fs_GetFriendship (frs_friendStore s) a b)
      (\<lambda>err. if errors_Is err ErrNotFound then throw ErrNotFound else throw ErrDB)
      (\<lambda>friendship.
        if f_Status friendship \<noteq> FriendshipPending \<or> f_ActionUserID friendship = a
        then throw ErrNotFound
        else call (fs_UpdateFriendshipStatus (frs_friendStore s) a b st) (\<lambda>err. throw ErrDB)
               (\<lambda>_. ret ())) w = (r, w')"
  shows "(r = Fail ErrDB \<and> rel_of (view w') = rel_of (view w)) \<or>
     (\<exists>t by. rel_of (view w) a b = Some (t, by) \<and>
        (if t = FriendshipPending \<and> by \<noteq> a
         then r = Ret () \<and> rel_of (view w') = pair_upd (rel_of (view w)) a b (Some (st, a))
         else r = Fail ErrNotFound \<and> rel_of (view w') = rel_of (view w)))"
proof -
  obtain r1 w1 where g: "fs_GetFriendship (frs_friendStore s) a b w = (r1, w1)" by fastforce
  have v: "view w1 = view w" using store.get [OF g] store.view_quiet by blast
  show ?thesis
  proof (cases r1)
    case (Ret f)
    obtain r2 w2 where u: "fs_UpdateFriendshipStatus (frs_friendStore s) a b st w1 = (r2, w2)"
      by fastforce
    have f: "rel_of (view w) a b = Some (f_Status f, f_ActionUserID f)"
      using store.get [OF g] Ret by (simp add: rel_of_def)
    show ?thesis
      using assms store.update [OF u] Ret f v
      by (auto simp: call_def g u throw_def ret_def rel_of_upd split: res.splits if_splits)
  next
    case (Fail e)
    then show ?thesis
      using assms store.get [OF g] v by (auto simp: call_def g throw_def)
  next
    case Panic
    then show ?thesis using store.get [OF g] by simp
  qed
qed

lemma Accept_step:
  assumes "FriendService_AcceptFriendRequest s a b w = (r, w')"
  shows "friend_step (Accept a b) ex (rel_of (view w)) r (rel_of (view w'))"
  using respond_step [OF assms [unfolded FriendService_AcceptFriendRequest_def]]
  by (auto simp: friend_step_def rel_same' split: if_splits)

lemma Reject_step:
  assumes "FriendService_RejectFriendRequest s a b w = (r, w')"
  shows "friend_step (Reject a b) ex (rel_of (view w)) r (rel_of (view w'))"
  using respond_step [OF assms [unfolded FriendService_RejectFriendRequest_def]]
  by (auto simp: friend_step_def rel_same' split: if_splits)

lemma Remove_step:
  assumes "FriendService_RemoveFriend s a b w = (r, w')"
  shows "friend_step (Remove a b) ex (rel_of (view w)) r (rel_of (view w'))"
proof -
  obtain r1 w1 where d: "fs_DeleteFriendship (frs_friendStore s) a b w = (r1, w1)" by fastforce
  show ?thesis
    using assms store.delete [OF d]
    by (auto simp: friend_step_def FriendService_RemoveFriend_def call_def d throw_def ret_def
        rel_of_upd split: res.splits) (auto simp: rel_of_def)
qed

text \<open>Sending a request, from the status that was read.\<close>

lemma Send_dispatch:
  assumes "(if st = FriendshipAccepted then throw ErrAlreadyExists
        else if st = FriendshipPending then
          call (fs_GetFriendship (frs_friendStore s) a b) (\<lambda>err. throw ErrDB)
            (\<lambda>f. if f_FirstUserID f = a then throw ErrAlreadyExists
                  else throw ErrAlreadyExists)
        else if st = FriendshipBlocked then throw ErrAccessDenied
        else call (fs_CreateFriendship (frs_friendStore s) a b) (\<lambda>err. throw ErrDB)
            (\<lambda>_. ret ())) w = (r, w')"
    and st: "st = (case view w a b of None \<Rightarrow> [] | Some f \<Rightarrow> f_Status f)"
    and "a \<noteq> b"
  shows "friend_step (Send a b) True (rel_of (view w)) r (rel_of (view w'))"
proof -
  have R: "rel_of (view w) a b = map_option (\<lambda>f. (f_Status f, f_ActionUserID f)) (view w a b)"
    by (simp add: rel_of_def)
  consider "st = FriendshipAccepted \<or> st = FriendshipBlocked" | "st = FriendshipPending"
    | "st \<notin> {FriendshipAccepted, FriendshipBlocked, FriendshipPending}" by blast
  then show ?thesis
  proof cases
    case 1
    with st obtain f where f: "view w a b = Some f" "f_Status f = st" by (auto split: option.splits)
    from 1 assms(1) have "w' = w"
      "r = Fail (if st = FriendshipAccepted then ErrAlreadyExists else ErrAccessDenied)"
      by (auto simp: throw_def)
    moreover have "friend_spec (Send a b) True (rel_of (view w) a b)
        = (Fail (if st = FriendshipAccepted then ErrAlreadyExists else ErrAccessDenied),
           rel_of (view w) a b)"
      using 1 f R \<open>a \<noteq> b\<close> by auto
    ultimately show ?thesis using rel_same by (simp add: friend_step_def)
  next
    case 2
    with st obtain f where f: "view w a b = Some f" "f_Status f = st" by (auto split: option.splits)
    obtain r1 w1 where g: "fs_GetFriendship (frs_friendStore s) a b w = (r1, w1)" by fastforce
    have v1: "view w1 = view w" using store.get [OF g] store.view_quiet by blast
    from 2 assms(1) store.get [OF g] have "w' = w1" "r = Fail ErrDB \<or> r = Fail ErrAlreadyExists"
      by (auto simp: call_def g throw_def split: res.splits)
    moreover have "friend_spec (Send a b) True (rel_of (view w) a b)
        = (Fail ErrAlreadyExists, rel_of (view w) a b)"
      using 2 f R \<open>a \<noteq> b\<close> by auto
    ultimately show ?thesis using rel_same v1 by (auto simp: friend_step_def)
  next
    case 3
    obtain r1 w1 where c: "fs_CreateFriendship (frs_friendStore s) a b w = (r1, w1)" by fastforce
    have spec: "friend_spec (Send a b) True (rel_of (view w) a b)
        = (Ret (), Some (FriendshipPending, a))"
      using 3 st \<open>a \<noteq> b\<close> R by (cases "view w a b") auto
    show ?thesis
      using 3 assms(1) store.create [OF c] spec
      by (auto simp: friend_step_def call_def c throw_def ret_def rel_of_upd split: res.splits)
  qed
qed

lemma Send_step:
  assumes "FriendService_SendFriendRequest s a b w = (r, w')"
  shows "friend_step (Send a b) (registered w b) (rel_of (view w)) r (rel_of (view w'))"
proof (cases "a = b")
  case True
  then show ?thesis
    using assms rel_same
    by (auto simp: FriendService_SendFriendRequest_def friend_step_def throw_def)
next
  case ne: False
  obtain r1 w1 where d: "ac_IsUserExists (frs_authService s) b w = (r1, w1)" by fastforce
  note D = directory [OF d]
  then have v1: "view w1 = view w" using store.view_quiet by blast
  show ?thesis
  proof (cases "r1 = Ret True")
    case False
    then have "w' = w1 \<and> (r = Fail ErrDB \<or> (r = Fail ErrNotExist \<and> \<not> registered w b))"
      using D assms ne
      by (auto simp: FriendService_SendFriendRequest_def call_def d throw_def split: res.splits if_splits)
    then show ?thesis using ne v1 rel_same by (auto simp: friend_step_def)
  next
    case True
    with D have ex: "registered w b" by simp
    obtain r2 w2 where g: "fs_GetFriendshipStatus (frs_friendStore s) a b w1 = (r2, w2)"
      by fastforce
    have v2: "view w2 = view w" using store.status [OF g] store.view_quiet v1 by metis
    show ?thesis
    proof (cases r2)
      case (Ret st)
      then have st: "st = (case view w2 a b of None \<Rightarrow> [] | Some f \<Rightarrow> f_Status f)"
        using store.status [OF g] v1 v2 by simp
      show ?thesis
        using assms ne True Ret Send_dispatch [OF _ st ne, of r w'] ex
        by (simp add: FriendService_SendFriendRequest_def call_def d g v2)
    next
      case (Fail e)
      then have "w' = w2 \<and> r = Fail ErrDB"
        using assms ne True store.status [OF g]
        by (auto simp: FriendService_SendFriendRequest_def call_def d g throw_def)
      then show ?thesis using v2 by (simp add: friend_step_def)
    qed (use store.status [OF g] in simp)
  qed
qed

theorem perform_refines:
  assumes "perform s op w = (r, w')"
  shows "friend_step op (registered w (target op)) (rel_of (view w)) r (rel_of (view w'))"
  using assms by (cases op) (auto dest: Send_step Accept_step Reject_step Remove_step)

text \<open>Every operation is accepted as specified, or leaves all relations as they were.\<close>

lemma perform_cases:
  assumes "perform s op w = (r, w')"
  obtains "r \<noteq> Ret ()" "rel_of (view w') = rel_of (view w)"
  | x where "r = Ret ()"
      "friend_spec op (registered w (target op)) (rel_of (view w) (actor op) (target op)) = (Ret (), x)"
      "rel_of (view w') = pair_upd (rel_of (view w)) (actor op) (target op) x"
proof -
  obtain r1 x where sp: "friend_spec op (registered w (target op))
      (rel_of (view w) (actor op) (target op)) = (r1, x)" by fastforce
  show thesis
    using perform_refines [OF assms] sp rel_same friend_spec_refusal [OF sp] that
    by (cases "r1 = Ret ()") (auto simp: friend_step_def)
qed

theorem history_explains:
  assumes "friend_history s view w0 tr w" and "view w0 = (\<lambda>_ _. None)"
  shows "explains (effective tr a b) a b (rel_of (view w) a b)"
  using assms(1)
proof induction
  case start
  then show ?case using assms(2) by (simp add: effective_def explains_def rel_of_def)
next
  case (operation tr w op r w')
  show ?case
  proof (cases rule: perform_cases [OF operation.hyps(2)])
    case 1
    then have "effective (tr @ [(op, r)]) a b = effective tr a b" by (simp add: effective_def)
    then show ?thesis using operation.IH 1 by simp
  next
    case (2 x)
    show ?thesis
    proof (cases "{actor op, target op} = {a, b}")
      case True
      then have R: "rel_of (view w) (actor op) (target op) = rel_of (view w) a b"
        using rel_sym by (auto simp: doubleton_eq_iff)
      have "rel_of (view w') a b = x"
        using True 2(3) by (auto simp: pair_upd_def doubleton_eq_iff)
      moreover have "effective (tr @ [(op, r)]) a b = effective tr a b @ [op]"
        using True 2(1) by (simp add: effective_def)
      ultimately show ?thesis
        using explains_step [OF operation.IH _ True] 2(2) R by simp
    next
      case False
      then have "rel_of (view w') a b = rel_of (view w) a b"
        using 2(3) by (auto simp: pair_upd_def doubleton_eq_iff)
      moreover have "effective (tr @ [(op, r)]) a b = effective tr a b"
        using False by (simp add: effective_def)
      ultimately show ?thesis using operation.IH by simp
    qed
  qed
next
  case (elsewhere tr w w')
  then show ?case by simp
qed

end

end
