(* ===== verification/Friend_Grpc.thy ===== *)
theory Friend_Grpc
  imports Friend_Service
begin

text \<open>
  The gRPC handler of the friend service (src/internal/grpc/friend.go) and the client its callers
  hold. A reply message is the value of its fields; \<open>ShortProfileList\<close> is sent as a message and
  arrives non-nil.
\<close>

record FriendServiceClient =
  fc_SendFriendRequest :: "int32 \<Rightarrow> int32 \<Rightarrow> unit action"
  fc_AcceptFriendRequest :: "int32 \<Rightarrow> int32 \<Rightarrow> unit action"
  fc_RejectFriendRequest :: "int32 \<Rightarrow> int32 \<Rightarrow> unit action"
  fc_RemoveFriend :: "int32 \<Rightarrow> int32 \<Rightarrow> unit action"
  fc_GetFriends :: "int32 \<Rightarrow> PaginateQueryParams \<Rightarrow> pb_ShortProfile list action"
  fc_GetAllUsers :: "int32 \<Rightarrow> PaginateQueryParams \<Rightarrow> pb_ShortProfile list action"
  fc_SearchShortProfilesByFullNameAndRelationType ::
    "int32 \<Rightarrow> PaginateQueryParams \<Rightarrow> string \<Rightarrow> string \<Rightarrow> pb_ShortProfile list action"
  fc_GetFriendRequests :: "int32 \<Rightarrow> PaginateQueryParams \<Rightarrow> pb_ShortProfile list action"
  fc_GetSentRequests :: "int32 \<Rightarrow> PaginateQueryParams \<Rightarrow> pb_ShortProfile list action"
  fc_GetFriendshipStatus :: "int32 \<Rightarrow> int32 \<Rightarrow> string action"
  fc_CountUserRelations :: "int32 \<Rightarrow> pb_UserRelationsCounts action"

definition GrpcFriendHandler_SendFriendRequest :: "FriendService \<Rightarrow> int32 \<Rightarrow> int32 \<Rightarrow> unit action" where
  "GrpcFriendHandler_SendFriendRequest ser actionUserID targetUserID =
     call (FriendService_SendFriendRequest ser actionUserID targetUserID)
       (\<lambda>err. throw (ToGrpcError err)) (\<lambda>_. ret ())"

definition GrpcFriendHandler_AcceptFriendRequest :: "FriendService \<Rightarrow> int32 \<Rightarrow> int32 \<Rightarrow> unit action" where
  "GrpcFriendHandler_AcceptFriendRequest ser userID friendID =
     call (FriendService_AcceptFriendRequest ser userID friendID)
       (\<lambda>err. throw (ToGrpcError err)) (\<lambda>_. ret ())"

definition GrpcFriendHandler_RejectFriendRequest :: "FriendService \<Rightarrow> int32 \<Rightarrow> int32 \<Rightarrow> unit action" where
  "GrpcFriendHandler_RejectFriendRequest ser userID friendID =
     call (FriendService_RejectFriendRequest ser userID friendID)
       (\<lambda>err. throw (ToGrpcError err)) (\<lambda>_. ret ())"

definition GrpcFriendHandler_RemoveFriend :: "FriendService \<Rightarrow> int32 \<Rightarrow> int32 \<Rightarrow> unit action" where
  "GrpcFriendHandler_RemoveFriend ser userID friendID =
     call (FriendService_RemoveFriend ser userID friendID)
       (\<lambda>err. throw (ToGrpcError err)) (\<lambda>_. ret ())"

definition GrpcFriendHandler_GetFriends ::
    "FriendService \<Rightarrow> int32 \<Rightarrow> PaginateQueryParams \<Rightarrow> pb_ShortProfile list action" where
  "GrpcFriendHandler_GetFriends ser userID params =
     call (FriendService_GetFriends ser userID params)
       (\<lambda>err. throw (ToGrpcError err)) (\<lambda>profiles. ret (ToPbShortProfileList profiles))"

definition GrpcFriendHandler_GetAllUsers ::
    "FriendService \<Rightarrow> int32 \<Rightarrow> PaginateQueryParams \<Rightarrow> pb_ShortProfile list action" where
  "GrpcFriendHandler_GetAllUsers ser userID params =
     call (FriendService_GetAllUsers ser userID params)
       (\<lambda>err. throw (ToGrpcError err)) (\<lambda>profiles. ret (ToPbShortProfileList profiles))"

definition GrpcFriendHandler_SearchShortProfilesByFullNameAndRelationType ::
    "FriendService \<Rightarrow> int32 \<Rightarrow> PaginateQueryParams \<Rightarrow> string \<Rightarrow> string \<Rightarrow>
     pb_ShortProfile list action" where
  "GrpcFriendHandler_SearchShortProfilesByFullNameAndRelationType ser userID params fullName fType =
     call (FriendService_SearchShortProfilesByFullNameAndRelationType ser userID params fullName fType)
       (\<lambda>err. throw (ToGrpcError err)) (\<lambda>profiles. ret (ToPbShortProfileList profiles))"

definition GrpcFriendHandler_GetFriendRequests ::
    "FriendService \<Rightarrow> int32 \<Rightarrow> PaginateQueryParams \<Rightarrow> pb_ShortProfile list action" where
  "GrpcFriendHandler_GetFriendRequests ser userID params =
     call (FriendService_GetFriendRequests ser userID params)
       (\<lambda>err. throw (ToGrpcError err)) (\<lambda>profiles. ret (ToPbShortProfileList profiles))"

definition GrpcFriendHandler_GetSentRequests ::
    "FriendService \<Rightarrow> int32 \<Rightarrow> PaginateQueryParams \<Rightarrow> pb_ShortProfile list action" where
  "GrpcFriendHandler_GetSentRequests ser userID params =
     call (FriendService_GetSentRequests ser userID params)
       (\<lambda>err. throw (ToGrpcError err)) (\<lambda>profiles. ret (ToPbShortProfileList profiles))"

definition GrpcFriendHandler_GetFriendshipStatus :: "FriendService \<Rightarrow> int32 \<Rightarrow> int32 \<Rightarrow> string action" where
  "GrpcFriendHandler_GetFriendshipStatus ser userID friendID =
     call (FriendService_GetFriendshipStatus ser userID friendID)
       (\<lambda>err. throw (ToGrpcError err)) (\<lambda>statusValue. ret statusValue)"

definition GrpcFriendHandler_CountUserRelations ::
    "FriendService \<Rightarrow> int32 \<Rightarrow> pb_UserRelationsCounts action" where
  "GrpcFriendHandler_CountUserRelations ser userID =
     call (FriendService_CountUserRelations ser userID)
       (\<lambda>err. throw (ToGrpcError err))
       (\<lambda>counts. ret \<lparr>pb_Accepted = rc_Accepted counts, pb_Pending = rc_Pending counts,
                       pb_Sent = rc_Sent counts, pb_Blocked = rc_Blocked counts\<rparr>)"

text \<open>The generated client, connected to a server with this handler.\<close>

definition friend_client :: "FriendService \<Rightarrow> FriendServiceClient" where
  "friend_client ser =
     \<lparr>fc_SendFriendRequest = (\<lambda>a b. grpc_call (GrpcFriendHandler_SendFriendRequest ser a b)),
      fc_AcceptFriendRequest = (\<lambda>a b. grpc_call (GrpcFriendHandler_AcceptFriendRequest ser a b)),
      fc_RejectFriendRequest = (\<lambda>a b. grpc_call (GrpcFriendHandler_RejectFriendRequest ser a b)),
      fc_RemoveFriend = (\<lambda>a b. grpc_call (GrpcFriendHandler_RemoveFriend ser a b)),
      fc_GetFriends = (\<lambda>u p. grpc_call (GrpcFriendHandler_GetFriends ser u p)),
      fc_GetAllUsers = (\<lambda>u p. grpc_call (GrpcFriendHandler_GetAllUsers ser u p)),
      fc_SearchShortProfilesByFullNameAndRelationType = (\<lambda>u p n t. grpc_call
        (GrpcFriendHandler_SearchShortProfilesByFullNameAndRelationType ser u p n t)),
      fc_GetFriendRequests = (\<lambda>u p. grpc_call (GrpcFriendHandler_GetFriendRequests ser u p)),
      fc_GetSentRequests = (\<lambda>u p. grpc_call (GrpcFriendHandler_GetSentRequests ser u p)),
      fc_GetFriendshipStatus = (\<lambda>a b. grpc_call (GrpcFriendHandler_GetFriendshipStatus ser a b)),
      fc_CountUserRelations = (\<lambda>u. grpc_call (GrpcFriendHandler_CountUserRelations ser u))\<rparr>"

end
