(* ===== verification/Profile_Store.thy ===== *)
theory Profile_Store
  imports Mapper
begin

text \<open>
  The PostgreSQL store of profiles (src/internal/repository/db/profile.go) and the Elasticsearch
  index of profile names (src/internal/repository/dbElastic/profile.go). Transliteration
  (\<open>unidecode\<close>) and the search engine's answer to a query are third-party code: parameters.
\<close>

subsection \<open>Statements\<close>

definition insert_profile :: "Profile \<Rightarrow> int \<Rightarrow> database \<Rightarrow> (database \<times> nat) option" where
  "insert_profile profile now d =
     (let row = \<lparr>p_user_id = pr_UserID profile, p_first_name = pr_FirstName profile,
                 p_last_name = pr_LastName profile, p_avatar_path = None, p_header_path = None,
                 p_about_myself = None, p_gender = pr_Gender profile, p_dob = pr_Dob profile\<rparr>
      in if \<not> profiles_check row \<or> \<not> user_exists d (pr_UserID profile) \<or>
            (\<exists>r \<in> set (profiles d). p_user_id r = pr_UserID profile) then None
         else Some (d\<lparr>profiles := profiles d @ [row]\<rparr>, 1))"

text \<open>\<open>UPDATE profiles SET ... WHERE user_id = $1\<close>: the CHECK constraints hold of the new rows.\<close>

definition update_profiles ::
    "int32 \<Rightarrow> (profile_row \<Rightarrow> profile_row) \<Rightarrow> int \<Rightarrow> database \<Rightarrow> (database \<times> nat) option" where
  "update_profiles userID f now d =
     (let hit = (\<lambda>r. p_user_id r = userID)
      in if \<exists>r \<in> set (profiles d). hit r \<and> \<not> profiles_check (f r) then None
         else Some (d\<lparr>profiles := update_where hit f (profiles d)\<rparr>,
                length (filter hit (profiles d))))"

definition find_profile :: "int32 \<Rightarrow> database \<Rightarrow> profile_row option" where
  "find_profile userID d = find (\<lambda>r. p_user_id r = userID) (profiles d)"

text \<open>\<open>first_name || ' ' || last_name\<close>\<close>

definition full_name :: "profile_row \<Rightarrow> string" where
  "full_name r = p_first_name r @ '' '' @ p_last_name r"

definition short_profile_of :: "profile_row \<Rightarrow> ShortProfile" where
  "short_profile_of r = \<lparr>sp_UserID = p_user_id r, sp_FullName = full_name r,
     sp_AvatarPath = p_avatar_path r, sp_Dob = p_dob r\<rparr>"

definition profile_of :: "profile_row \<Rightarrow> Profile" where
  "profile_of r = \<lparr>pr_UserID = p_user_id r, pr_FirstName = p_first_name r,
     pr_LastName = p_last_name r, pr_AvatarPath = p_avatar_path r,
     pr_HeaderPath = p_header_path r, pr_AboutMyself = p_about_myself r,
     pr_Gender = p_gender r, pr_Dob = p_dob r, pr_RelationsCount = zero_counts,
     pr_RelationStatus = []\<rparr>"

subsection \<open>The methods of DBProfileStore\<close>

definition DBProfileStore_CreateProfile :: "Profile \<Rightarrow> unit action" where
  "DBProfileStore_CreateProfile profile =
     call (exec (insert_profile profile)) (\<lambda>err. throw (Wrapf ''insert profile: '' err))
     (\<lambda>_. ret ())"

definition DBProfileStore_UpdateProfile :: "Profile \<Rightarrow> int32 \<Rightarrow> unit action" where
  "DBProfileStore_UpdateProfile profile userID =
     call (exec (update_profiles userID (\<lambda>r. r\<lparr>p_first_name := pr_FirstName profile,
         p_last_name := pr_LastName profile, p_gender := pr_Gender profile,
         p_dob := pr_Dob profile, p_about_myself := pr_AboutMyself profile\<rparr>)))
       throw (\<lambda>_. ret ())"

definition DBProfileStore_UpdateAvatar :: "string \<Rightarrow> int32 \<Rightarrow> unit action" where
  "DBProfileStore_UpdateAvatar avatarPath userID =
     call (exec (update_profiles userID (\<lambda>r. r\<lparr>p_avatar_path := Some avatarPath\<rparr>)))
       throw (\<lambda>_. ret ())"

definition DBProfileStore_UpdateHeader :: "string \<Rightarrow> int32 \<Rightarrow> unit action" where
  "DBProfileStore_UpdateHeader headerPath userID =
     call (exec (update_profiles userID (\<lambda>r. r\<lparr>p_header_path := Some headerPath\<rparr>)))
       throw (\<lambda>_. ret ())"

definition select_profiles :: "int32 list \<Rightarrow> database \<Rightarrow> ShortProfile list" where
  "select_profiles userIDs d =
     map short_profile_of (filter (\<lambda>r. p_user_id r \<in> set userIDs) (profiles d))"

definition DBProfileStore_GetShortProfileMapByUserIDs ::
    "int32 list \<Rightarrow> (int32 \<Rightarrow> ShortProfile option) action" where
  "DBProfileStore_GetShortProfileMapByUserIDs userIDs =
     (if userIDs = [] then ret Map.empty
      else call (query (\<lambda>d. map (\<lambda>u. u\<lparr>sp_Dob := zero_time\<rparr>) (select_profiles userIDs d))) throw
      (\<lambda>rows. call (scan_rows (\<lambda>err. err) rows) throw
      (\<lambda>us. let usersMap = foldl (\<lambda>m u. m(sp_UserID u \<mapsto> u)) Map.empty us
        in call rows_Err throw
      (\<lambda>_. ret usersMap))))"

definition DBProfileStore_GetShortProfileByUserIDs :: "int32 list \<Rightarrow> ShortProfile list action" where
  "DBProfileStore_GetShortProfileByUserIDs userIDs =
     (if userIDs = [] then ret []
      else call (query (select_profiles userIDs)) throw
      (\<lambda>rows. call (scan_rows (\<lambda>err. err) rows) throw
      (\<lambda>profiles. call rows_Err throw
      (\<lambda>_. ret profiles))))"

definition DBProfileStore_GetOtherShortProfileByUserIDs ::
    "int32 list \<Rightarrow> int32 \<Rightarrow> int32 \<Rightarrow> ShortProfile list action" where
  "DBProfileStore_GetOtherShortProfileByUserIDs userIDs limit offset =
     (if userIDs = [] then ret []
      else call (query_page (\<lambda>d. map short_profile_of
               (filter (\<lambda>r. \<not> p_user_id r \<in> set userIDs) (profiles d))) limit offset) throw
      (\<lambda>rows. call (scan_rows (\<lambda>err. err) rows) throw
      (\<lambda>profiles. call rows_Err throw
      (\<lambda>_. ret profiles))))"

definition DBProfileStore_GetProfileByUserID :: "int32 \<Rightarrow> Profile action" where
  "DBProfileStore_GetProfileByUserID userID =
     call (query_row (find_profile userID))
       (\<lambda>err. if errors_Is err ErrNoRows then throw ErrNotFound else throw err)
       (\<lambda>r. ret (profile_of r))"

definition DBProfileStore_GetAvatarByUserID :: "int32 \<Rightarrow> string option action" where
  "DBProfileStore_GetAvatarByUserID userID =
     call (query_row (find_profile userID))
       (\<lambda>err. if errors_Is err ErrNoRows then throw ErrNotFound else throw err)
       (\<lambda>r. ret (p_avatar_path r))"

definition DBProfileStore_GetHeaderByUserID :: "int32 \<Rightarrow> string option action" where
  "DBProfileStore_GetHeaderByUserID userID =
     call (query_row (find_profile userID))
       (\<lambda>err. if errors_Is err ErrNoRows then throw ErrNotFound else throw err)
       (\<lambda>r. ret (p_header_path r))"

text \<open>Scanning a NULL into a Go string is an error.\<close>

definition scan_string :: "string option \<Rightarrow> string action" where
  "scan_string v =
     (case v of None \<Rightarrow> throw (Plain ''sql: Scan error: converting NULL to string is unsupported'')
      | Some s \<Rightarrow> ret s)"

definition DBProfileStore_DeleteAvatarByUserID :: "int32 \<Rightarrow> string option action" where
  "DBProfileStore_DeleteAvatarByUserID userID =
     call tx_Begin throw
     (\<lambda>tx. let fail = (\<lambda>err. call (tx_Rollback tx) throw (\<lambda>_. throw err))
      in call (call (query_row (find_profile userID)) throw (\<lambda>r. scan_string (p_avatar_path r)))
        (\<lambda>err. if errors_Is err ErrNoRows then fail ErrNotFound else fail err)
     (\<lambda>oldAvatarPath.
        call (exec (update_profiles userID (\<lambda>r. r\<lparr>p_avatar_path := None\<rparr>))) fail
     (\<lambda>_. call (tx_Commit tx) throw
     (\<lambda>_. ret (Some oldAvatarPath)))))"

definition DBProfileStore :: ProfileStore where
  "DBProfileStore =
     \<lparr>ps_CreateProfile = DBProfileStore_CreateProfile,
      ps_UpdateProfile = DBProfileStore_UpdateProfile,
      ps_UpdateAvatar = DBProfileStore_UpdateAvatar,
      ps_UpdateHeader = DBProfileStore_UpdateHeader,
      ps_GetProfileByUserID = DBProfileStore_GetProfileByUserID,
      ps_GetShortProfileMapByUserIDs = DBProfileStore_GetShortProfileMapByUserIDs,
      ps_GetShortProfileByUserIDs = DBProfileStore_GetShortProfileByUserIDs,
      ps_GetOtherShortProfileByUserIDs = DBProfileStore_GetOtherShortProfileByUserIDs,
      ps_GetAvatarByUserID = DBProfileStore_GetAvatarByUserID,
      ps_GetHeaderByUserID = DBProfileStore_GetHeaderByUserID,
      ps_DeleteAvatarByUserID = DBProfileStore_DeleteAvatarByUserID\<rparr>"

subsection \<open>Deleting an avatar\<close>

text \<open>The transaction clears the path and returns the old one, or changes nothing.\<close>

lemma DeleteAvatar_atomic:
  assumes "DBProfileStore_DeleteAvatarByUserID u w = (r, w')"
  shows "case r of
      Ret p \<Rightarrow> \<exists>row path. find_profile u (db w) = Some row \<and> p_avatar_path row = Some path \<and>
         p = Some path \<and> (\<forall>row'. find_profile u (db w') = Some row' \<longrightarrow> p_avatar_path row' = None)
    | Fail e \<Rightarrow> db w' = db w | Panic \<Rightarrow> False"
  using assms
  by (auto simp: DBProfileStore_DeleteAvatarByUserID_def Let_def act scan_string_def
      update_profiles_def find_profile_def update_where_def
      dest!: find_SomeD split: option.splits prod.splits if_splits res.splits)

end
