(* ===== verification/Elastic_Profile_Store.thy ===== *)
theory Elastic_Profile_Store
  imports Mapper
begin

text \<open>
  The Elasticsearch index of profile names (src/internal/repository/dbElastic/profile.go): one
  document per user, under the decimal text of the user's id. Two third-party functions are
  parameters: \<open>unidecode\<close>, the transliteration, and \<open>engine\<close>, the answer of the search engine to a
  query over the documents (\<open>None\<close> is an error response, whose body has no hits).
\<close>

record es_bool_query =
  eq_should :: "string list"
  eq_filter :: "int32 list option"
  eq_must_not :: "int32 list option"

type_synonym es_engine =
  "(string \<Rightarrow> ProfileDocument option) \<Rightarrow> es_bool_query \<Rightarrow> int32 \<Rightarrow> int32 \<Rightarrow> ProfileDocument list option"

text \<open>
  A write request: the transport can fail (\<open>req.Do\<close>), and the server can refuse it
  (\<open>res.IsError()\<close>).
\<close>

definition es_request :: "string \<Rightarrow> 'a action \<Rightarrow> 'a action" where
  [act]: "es_request message m = external Plain (external (\<lambda>res. Plain (message @ res)) m)"

definition ElasticProfileStore_CreateProfile ::
    "(string \<Rightarrow> string) \<Rightarrow> string \<Rightarrow> int32 \<Rightarrow> unit action" where
  "ElasticProfileStore_CreateProfile unidecode fullName userID =
     (let translit = unidecode fullName;
          doc = \<lparr>pd_UserID = userID, pd_FullName = fullName, pd_FullNameTranslit = translit\<rparr>
      in es_request ''error indexing profile: '' (\<lambda>w. (Ret (),
           w\<lparr>profile_index := (profile_index w)(strconv_Itoa (sint userID) \<mapsto> doc)\<rparr>)))"

text \<open>A partial update of a document that is not there is refused.\<close>

definition ElasticProfileStore_UpdateProfile ::
    "(string \<Rightarrow> string) \<Rightarrow> string \<Rightarrow> int32 \<Rightarrow> unit action" where
  "ElasticProfileStore_UpdateProfile unidecode fullName userID =
     (let translit = unidecode fullName; key = strconv_Itoa (sint userID)
      in es_request ''error updating profile: '' (\<lambda>w.
           (case profile_index w key of
              None \<Rightarrow> (Fail (Plain ''error updating profile: document missing''), w)
            | Some doc \<Rightarrow> (Ret (), w\<lparr>profile_index := (profile_index w)(key \<mapsto>
                doc\<lparr>pd_FullName := fullName, pd_FullNameTranslit := translit\<rparr>)\<rparr>))))"

definition ElasticProfileStore_DeleteProfile :: "int32 \<Rightarrow> unit action" where
  "ElasticProfileStore_DeleteProfile userID =
     (let key = strconv_Itoa (sint userID)
      in es_request ''error deleting profile: '' (\<lambda>w.
           (case profile_index w key of
              None \<Rightarrow> (Fail (Plain ''profile not found''), w)
            | Some doc \<Rightarrow> (Ret (), w\<lparr>profile_index := (profile_index w)(key := None)\<rparr>))))"

definition profile_query ::
    "(string \<Rightarrow> string) \<Rightarrow> string \<Rightarrow> int32 list \<Rightarrow> bool \<Rightarrow> es_bool_query" where
  "profile_query unidecode fullName filterIDs isTerms =
     (let qEn = unidecode fullName; queries = [fullName, qEn]
      in \<lparr>eq_should = map (\<lambda>q. ''*'' @ q @ ''*'') queries,
          eq_filter = (if filterIDs \<noteq> [] \<and> isTerms then Some filterIDs else None),
          eq_must_not = (if filterIDs \<noteq> [] \<and> \<not> isTerms then Some filterIDs else None)\<rparr>)"

definition ElasticProfileStore_SearchUserIDsByFullNameWithFilter ::
    "(string \<Rightarrow> string) \<Rightarrow> es_engine \<Rightarrow> string \<Rightarrow> int32 list \<Rightarrow> bool \<Rightarrow> int32 \<Rightarrow> int32 \<Rightarrow>
     int32 list action" where
  "ElasticProfileStore_SearchUserIDsByFullNameWithFilter unidecode engine
       fullName filterIDs isTerms limit offset =
     (if isTerms \<and> filterIDs = [] then ret []
      else call (external Plain (\<lambda>w. (Ret (engine (profile_index w)
               (profile_query unidecode fullName filterIDs isTerms) limit offset), w))) throw
      (\<lambda>res. let hits = (case res of None \<Rightarrow> [] | Some hits \<Rightarrow> hits)
        in ret (map pd_UserID hits)))"

definition ElasticProfileStore_of :: "(string \<Rightarrow> string) \<Rightarrow> es_engine \<Rightarrow> ElasticProfileStore" where
  "ElasticProfileStore_of unidecode engine =
     \<lparr>es_CreateProfile = ElasticProfileStore_CreateProfile unidecode,
      es_UpdateProfile = ElasticProfileStore_UpdateProfile unidecode,
      es_DeleteProfile = ElasticProfileStore_DeleteProfile,
      es_SearchUserIDsByFullNameWithFilter =
        ElasticProfileStore_SearchUserIDsByFullNameWithFilter unidecode engine\<rparr>"

text \<open>
  The documented behaviour of a bool query's filters: every hit is a document of the index, meets
  the \<open>terms\<close> filter and no \<open>must_not\<close> clause, and there are at most \<open>size\<close> of them.
\<close>

definition honours_filters :: "es_engine \<Rightarrow> bool" where
  "honours_filters engine \<longleftrightarrow> (\<forall>docs q size from hits.
     engine docs q size from = Some hits \<longrightarrow>
       length hits \<le> nat (sint size) \<and>
       (\<forall>h \<in> set hits. h \<in> ran docs \<and>
          (case eq_filter q of None \<Rightarrow> True | Some ids \<Rightarrow> pd_UserID h \<in> set ids) \<and>
          (case eq_must_not q of None \<Rightarrow> True | Some ids \<Rightarrow> pd_UserID h \<notin> set ids)))"

text \<open>
  A search with a terms filter finds only users of the filter, a search without one none of the
  excluded users.
\<close>

lemma search_respects_filter:
  assumes "honours_filters engine"
    and "ElasticProfileStore_SearchUserIDsByFullNameWithFilter unidecode engine
      fullName filterIDs isTerms limit offset w = (Ret ids, w')"
  shows "quiet w w' \<and> length ids \<le> nat (sint limit) \<and>
     (\<forall>i \<in> set ids. if isTerms then i \<in> set filterIDs else i \<notin> set filterIDs)"
proof (cases "isTerms \<and> filterIDs = []")
  case True
  with assms(2) show ?thesis
    by (simp add: ElasticProfileStore_SearchUserIDsByFullNameWithFilter_def act)
next
  case False
  let ?q = "profile_query unidecode fullName filterIDs isTerms"
  have q: "eq_filter ?q = (if filterIDs \<noteq> [] \<and> isTerms then Some filterIDs else None)"
    "eq_must_not ?q = (if filterIDs \<noteq> [] \<and> \<not> isTerms then Some filterIDs else None)"
    by (simp_all add: profile_query_def Let_def)
  from False assms(2) have w': "w' = tick w"
    and ids: "ids = map pd_UserID (case engine (profile_index w) ?q limit offset of
      None \<Rightarrow> [] | Some hits \<Rightarrow> hits)"
    by (auto simp: ElasticProfileStore_SearchUserIDsByFullNameWithFilter_def act
        split: option.splits)
  show ?thesis
  proof (cases "engine (profile_index w) ?q limit offset")
    case None
    with w' ids show ?thesis by simp
  next
    case (Some hits)
    with assms(1) have "length hits \<le> nat (sint limit)"
      and hit: "\<And>h. h \<in> set hits \<Longrightarrow>
        (case eq_filter ?q of None \<Rightarrow> True | Some ids \<Rightarrow> pd_UserID h \<in> set ids) \<and>
        (case eq_must_not ?q of None \<Rightarrow> True | Some ids \<Rightarrow> pd_UserID h \<notin> set ids)"
      unfolding honours_filters_def by blast+
    then show ?thesis
      using w' ids Some False unfolding q by (cases "filterIDs = []") auto
  qed
qed

end
