(* ===== verification/Uploads.thy ===== *)
theory Uploads
  imports Domain
begin

text \<open>
  Stored files (src/internal/service/upload.go), with the path functions of Go's standard library
  they rest on: a path is split at slashes, cleaned by a stack of components, and joined again.
\<close>

subsection \<open>Paths\<close>

fun split_slash :: "string \<Rightarrow> string list" where
  "split_slash [] = [[]]"
| "split_slash (c # cs) =
     (if c = CHR ''/'' then [] # split_slash cs
      else case split_slash cs of [] \<Rightarrow> [[c]] | x # xs \<Rightarrow> (c # x) # xs)"

fun join_slash :: "string list \<Rightarrow> string" where
  "join_slash [] = []"
| "join_slash [x] = x"
| "join_slash (x # xs) = x @ ''/'' @ join_slash xs"

text \<open>The loop of \<open>path.Clean\<close> over the components, with the kept ones on a stack.\<close>

fun clean_stack :: "bool \<Rightarrow> string list \<Rightarrow> string list \<Rightarrow> string list" where
  "clean_stack rooted acc [] = rev acc"
| "clean_stack rooted acc (c # cs) =
     (if c = [] \<or> c = ''.'' then clean_stack rooted acc cs
      else if c = ''..'' then
        (case acc of
           a # as \<Rightarrow> if a \<noteq> ''..'' then clean_stack rooted as cs
                      else clean_stack rooted (c # acc) cs
         | [] \<Rightarrow> if rooted then clean_stack rooted [] cs else clean_stack rooted [c] cs)
      else clean_stack rooted (c # acc) cs)"

definition path_IsAbs :: "string \<Rightarrow> bool" where
  "path_IsAbs p = strings_HasPrefix p ''/''"

definition path_Clean :: "string \<Rightarrow> string" where
  "path_Clean p =
     (let rooted = path_IsAbs p; cs = clean_stack rooted [] (split_slash p)
      in if rooted then ''/'' @ join_slash cs else if cs = [] then ''.'' else join_slash cs)"

definition filepath_Join :: "string \<Rightarrow> string \<Rightarrow> string" where
  "filepath_Join a b =
     (if a = [] then (if b = [] then [] else path_Clean b)
      else if b = [] then path_Clean a else path_Clean (a @ ''/'' @ b))"

text \<open>\<open>filepath.Ext\<close>: from the last dot of the last component.\<close>

definition filepath_Ext :: "string \<Rightarrow> string" where
  "filepath_Ext p =
     (let last_rev = takeWhile (\<lambda>c. c \<noteq> CHR ''/'') (rev p)
      in if CHR ''.'' \<in> set last_rev
         then CHR ''.'' # rev (takeWhile (\<lambda>c. c \<noteq> CHR ''.'') last_rev) else [])"

definition absolute :: "world \<Rightarrow> string \<Rightarrow> string" where
  "absolute w p = (if path_IsAbs p then path_Clean p else filepath_Join (cwd w) p)"

definition filepath_Abs :: "string \<Rightarrow> string action" where
  [act]: "filepath_Abs p =
     (if path_IsAbs p then ret (path_Clean p)
      else external Plain (\<lambda>w. (Ret (filepath_Join (cwd w) p), w)))"

definition strings_TrimPrefix :: "string \<Rightarrow> string \<Rightarrow> string" where
  "strings_TrimPrefix s p = (if strings_HasPrefix s p then drop (length p) s else s)"

subsection \<open>Percent decoding\<close>

definition unhex :: "char \<Rightarrow> nat option" where
  "unhex c =
     (let n = of_char c
      in if 48 \<le> n \<and> n \<le> (57 :: nat) then Some (n - 48)
         else if 97 \<le> n \<and> n \<le> 102 then Some (n - 87)
         else if 65 \<le> n \<and> n \<le> 70 then Some (n - 55) else None)"

fun url_PathUnescape :: "string \<Rightarrow> string option" where
  "url_PathUnescape [] = Some []"
| "url_PathUnescape (c # cs) =
     (if c = CHR ''%'' then
        (case cs of
           a # b # rest \<Rightarrow>
             (case (unhex a, unhex b) of
                (Some x, Some y) \<Rightarrow>
                  map_option (\<lambda>r. char_of (16 * x + y) # r) (url_PathUnescape rest)
              | _ \<Rightarrow> None)
         | _ \<Rightarrow> None)
      else map_option (\<lambda>r. c # r) (url_PathUnescape cs))"

subsection \<open>The operating system's files\<close>

text \<open>
  A call to the operating system can fail with an error of its own (\<open>external\<close>). Files are kept by
  absolute path; a directory that was created stays.
\<close>

definition os_MkdirAll :: "string \<Rightarrow> unit action" where
  [act]: "os_MkdirAll p = external Plain (\<lambda>w.
     (case filesystem w (absolute w p) of
        Some (RegularFile _) \<Rightarrow> (Fail (Plain ''mkdir: not a directory''), w)
      | _ \<Rightarrow> (Ret (), w\<lparr>filesystem := (filesystem w)(absolute w p \<mapsto> Directory)\<rparr>)))"

text \<open>
  \<open>os.WriteFile\<close> needs several system calls. One that fails can leave nothing behind (the file could not
  be opened), or the file with what had been written by then: \<open>torn\<close> gives, for a path, the number of
  bytes that reach the disk there when a write fails.
\<close>

definition os_WriteFile :: "string \<Rightarrow> byte list \<Rightarrow> unit action" where
  [act]: "os_WriteFile p data w =
     (let path = absolute w p;
          stored = (\<lambda>d. (tick w)\<lparr>filesystem := (filesystem w)(path \<mapsto> RegularFile d)\<rparr>)
      in case next_fault w of
           None \<Rightarrow> if filesystem w path = Some Directory then (Fail (Plain ''open: is a directory''), tick w)
                   else (Ret (), stored data)
         | Some msg \<Rightarrow> (Fail (Plain msg),
             case torn w path of
               None \<Rightarrow> tick w
             | Some n \<Rightarrow> if filesystem w path = Some Directory then tick w else stored (take n data)))"

text \<open>The error of an absent file is \<open>os.ErrNotExist\<close>.\<close>

abbreviation os_ErrNotExist :: go_error where "os_ErrNotExist \<equiv> Plain ''file does not exist''"

definition os_Remove :: "string \<Rightarrow> unit action" where
  [act]: "os_Remove p = external (\<lambda>m. Plain (''remove: '' @ m)) (\<lambda>w.
     (case filesystem w (absolute w p) of
        None \<Rightarrow> (Fail (Wrapf ''remove: '' os_ErrNotExist), w)
      | Some Directory \<Rightarrow> (Fail (Plain ''remove: directory not empty''), w)
      | Some (RegularFile _) \<Rightarrow>
          (Ret (), w\<lparr>filesystem := (filesystem w)(absolute w p := None)\<rparr>)))"

definition os_Stat :: "string \<Rightarrow> fs_entry action" where
  [act]: "os_Stat p = external (\<lambda>m. Plain (''stat: '' @ m)) (\<lambda>w.
     (case filesystem w (absolute w p) of
        None \<Rightarrow> (Fail (Wrapf ''stat: '' os_ErrNotExist), w)
      | Some e \<Rightarrow> (Ret e, w)))"

definition uuid_New :: "string action" where
  [act]: "uuid_New w = (Ret (uuids w 0), w\<lparr>uuids := (\<lambda>n. uuids w (Suc n))\<rparr>)"

subsection \<open>The functions of upload.go\<close>

definition uploadDir :: string where "uploadDir = ''./uploads''"

definition UploadFile :: "File \<Rightarrow> string action" where
  "UploadFile file =
     (let ext = filepath_Ext (file_Filename file)
      in call uuid_New throw
      (\<lambda>uuid. let fileName = uuid @ ext
        in call (os_MkdirAll uploadDir) throw
      (\<lambda>_. let filePath = filepath_Join uploadDir fileName
        in call (os_WriteFile filePath (file_Data file)) throw
      (\<lambda>_. ret fileName))))"

definition DeleteFile :: "string \<Rightarrow> unit action" where
  "DeleteFile fileName =
     (let fullPath = filepath_Join uploadDir fileName
      in call (os_Remove fullPath)
           (\<lambda>err. if \<not> errors_Is err os_ErrNotExist then throw err else ret ())
           (\<lambda>_. ret ()))"

text \<open>Deleting what was uploaded, with the errors ignored.\<close>

fun delete_uploaded :: "string list \<Rightarrow> unit action" where
  "delete_uploaded [] = ret ()"
| "delete_uploaded (f # fs) =
     call (DeleteFile f) (\<lambda>_. delete_uploaded fs) (\<lambda>_. delete_uploaded fs)"

fun upload_loop :: "string list \<Rightarrow> File list \<Rightarrow> string list action" where
  "upload_loop fileNames [] = ret fileNames"
| "upload_loop fileNames (file # files) =
     call (UploadFile file)
       (\<lambda>err. call (delete_uploaded fileNames) throw (\<lambda>_. throw err))
       (\<lambda>fileName. upload_loop (fileNames @ [fileName]) files)"

definition UploadFiles :: "File list \<Rightarrow> string list action" where
  "UploadFiles files = upload_loop [] files"

fun DeleteFiles :: "string option list \<Rightarrow> unit action" where
  "DeleteFiles [] = ret ()"
| "DeleteFiles (fileName # fileNames) =
     (case fileName of
        Some f \<Rightarrow>
          if f \<noteq> [] then call (DeleteFile f) throw (\<lambda>_. DeleteFiles fileNames)
          else DeleteFiles fileNames
      | None \<Rightarrow> DeleteFiles fileNames)"

definition HandleFileUpload :: "File list \<Rightarrow> string option list \<Rightarrow> string list action" where
  "HandleFileUpload files oldPaths =
     call (UploadFiles files) throw
     (\<lambda>newPaths. call (DeleteFiles oldPaths) (\<lambda>_. ret newPaths) (\<lambda>_. ret newPaths))"

definition service_Uploads :: "string \<Rightarrow> string \<Rightarrow> string \<Rightarrow> string action" where
  "service_Uploads absStaticDir prefix URLPath =
     (if \<not> strings_HasPrefix URLPath prefix then throw ErrNotExist
      else case url_PathUnescape (strings_TrimPrefix URLPath prefix) of
        None \<Rightarrow> throw ErrService
      | Some relPath \<Rightarrow>
          let cleanPath = path_Clean (''/'' @ relPath);
              cleanPath = strings_TrimPrefix cleanPath ''/''
          in if strings_Contains cleanPath ''..'' then throw ErrAccessDenied
             else let fullPath = filepath_Join absStaticDir cleanPath
             in call (filepath_Abs fullPath) (\<lambda>err. throw ErrAccessDenied)
             (\<lambda>absFullPath.
                if \<not> strings_HasPrefix absFullPath absStaticDir then throw ErrAccessDenied
                else call (os_Stat fullPath)
                  (\<lambda>err. if errors_Is err os_ErrNotExist then throw ErrNotExist
                         else throw ErrService)
                  (\<lambda>info. if info = Directory then throw ErrNotExist else ret fullPath)))"

subsection \<open>Clean paths\<close>

text \<open>A component that \<open>path.Clean\<close> keeps: a name, without slashes.\<close>

definition plain_name :: "string \<Rightarrow> bool" where
  "plain_name c \<longleftrightarrow> c \<noteq> [] \<and> c \<noteq> ''.'' \<and> c \<noteq> ''..'' \<and> CHR ''/'' \<notin> set c"

lemma split_slash_not_Nil [simp]: "split_slash s \<noteq> []"
  by (induction s) (auto split: list.splits)

lemma split_slash_no_slash: "c \<in> set (split_slash s) \<Longrightarrow> CHR ''/'' \<notin> set c"
  by (induction s arbitrary: c) (auto split: if_splits list.splits)

lemma split_slash_append: "split_slash (a @ CHR ''/'' # b) = split_slash a @ split_slash b"
  by (induction a) (auto split: list.splits)

lemma split_slash_name: "CHR ''/'' \<notin> set c \<Longrightarrow> split_slash c = [c]"
  by (induction c) auto

lemma split_join:
  "cs \<noteq> [] \<Longrightarrow> \<forall>c \<in> set cs. CHR ''/'' \<notin> set c \<Longrightarrow> split_slash (join_slash cs) = cs"
proof (induction cs rule: join_slash.induct)
  case (3 x y ys)
  then show ?case
    by (simp add: split_slash_append split_slash_name)
qed (simp_all add: split_slash_name)

lemma clean_stack_skip:
  "c = [] \<or> c = ''.'' \<Longrightarrow> clean_stack r acc (c # cs) = clean_stack r acc cs"
  by auto

lemma clean_stack_up:
  "\<forall>c \<in> set acc. plain_name c \<Longrightarrow>
   clean_stack True acc (''..'' # cs) = clean_stack True (tl acc) cs"
  by (cases acc)
     (simp_all only: clean_stack.simps list.case list.sel plain_name_def list.set, simp_all)

lemma clean_stack_push:
  "plain_name c \<Longrightarrow> clean_stack r acc (c # cs) = clean_stack r (c # acc) cs"
  by (simp add: plain_name_def)

lemma clean_stack_names:
  "\<forall>c \<in> set acc. plain_name c \<Longrightarrow> \<forall>c \<in> set cs. CHR ''/'' \<notin> set c \<Longrightarrow>
   \<forall>c \<in> set (clean_stack True acc cs). plain_name c"
proof (induction cs arbitrary: acc)
  case Nil
  then show ?case by simp
next
  case (Cons c cs)
  then have cs: "\<forall>c \<in> set cs. CHR ''/'' \<notin> set c" by auto
  consider "c = [] \<or> c = ''.''" | "c = ''..''" | "plain_name c"
    using Cons.prems(2) by (auto simp: plain_name_def)
  then show ?case
  proof cases
    case 1
    show ?thesis unfolding clean_stack_skip [OF 1] by (rule Cons.IH [OF Cons.prems(1) cs])
  next
    case 2
    have "\<forall>c \<in> set (tl acc). plain_name c"
      using Cons.prems(1) by (cases acc) simp_all
    then show ?thesis
      unfolding 2 clean_stack_up [OF Cons.prems(1)] by (rule Cons.IH [OF _ cs])
  next
    case 3
    then have "\<forall>c' \<in> set (c # acc). plain_name c'" using Cons.prems(1) by simp
    then show ?thesis
      unfolding clean_stack_push [OF 3] by (rule Cons.IH [OF _ cs])
  qed
qed

lemma clean_stack_id:
  "\<forall>c \<in> set cs. plain_name c \<Longrightarrow> clean_stack r acc (cs @ ds) = clean_stack r (rev cs @ acc) ds"
  by (induction cs arbitrary: acc) (simp_all add: clean_stack_push del: clean_stack.simps)

lemma path_Clean_rooted:
  assumes "path_IsAbs p"
  obtains cs where "path_Clean p = ''/'' @ join_slash cs" "\<forall>c \<in> set cs. plain_name c"
proof
  let ?cs = "clean_stack True [] (split_slash p)"
  show "path_Clean p = ''/'' @ join_slash ?cs"
    using assms by (simp add: path_Clean_def)
  show "\<forall>c \<in> set ?cs. plain_name c"
    by (rule clean_stack_names) (auto dest: split_slash_no_slash)
qed

lemma split_slash_Cons [simp]: "split_slash (CHR ''/'' # s) = [] # split_slash s"
  by simp

lemma path_Clean_names:
  assumes "\<forall>c \<in> set cs. plain_name c"
  shows "path_Clean (''/'' @ join_slash cs) = ''/'' @ join_slash cs"
proof (cases "cs = []")
  case False
  with assms have "split_slash (join_slash cs) = cs"
    by (intro split_join) (auto simp: plain_name_def)
  with clean_stack_id [OF assms, of True "[]" "[]"] show ?thesis
    by (simp add: path_Clean_def path_IsAbs_def)
qed (simp add: path_Clean_def path_IsAbs_def)

lemma join_slash_append:
  "ds \<noteq> [] \<Longrightarrow> cs \<noteq> [] \<Longrightarrow> join_slash (ds @ cs) = join_slash ds @ ''/'' @ join_slash cs"
proof (induction ds rule: join_slash.induct)
  case (2 x)
  then show ?case by (cases cs) auto
qed auto

lemma filepath_Join_names:
  assumes "\<forall>c \<in> set ds. plain_name c" "ds \<noteq> []" "\<forall>c \<in> set cs. plain_name c" "cs \<noteq> []"
  shows "filepath_Join (''/'' @ join_slash ds) (join_slash cs) = ''/'' @ join_slash ds @ ''/'' @ join_slash cs"
proof -
  have "join_slash cs \<noteq> []"
    using assms(3,4) by (cases cs rule: join_slash.cases) (auto simp: plain_name_def)
  then have "filepath_Join (''/'' @ join_slash ds) (join_slash cs)
      = path_Clean (''/'' @ join_slash (ds @ cs))"
    using assms by (simp add: filepath_Join_def join_slash_append)
  also have "\<dots> = ''/'' @ join_slash (ds @ cs)"
    using assms by (intro path_Clean_names) auto
  finally show ?thesis
    using assms by (simp add: join_slash_append)
qed

text \<open>A path below a directory: names only, so no way up.\<close>

definition below :: "string \<Rightarrow> string \<Rightarrow> bool" where
  "below dir p \<longleftrightarrow> (\<exists>cs. cs \<noteq> [] \<and> (\<forall>c \<in> set cs. plain_name c) \<and> p = dir @ ''/'' @ join_slash cs)"

lemma Uploads_Ret:
  assumes "service_Uploads dir prefix url w = (Ret p, w')"
    and "path_IsAbs dir" "path_Clean dir = dir" "dir \<noteq> ''/''"
  shows "quiet w w' \<and> (p = dir \<or> below dir p) \<and> (\<exists>data. filesystem w p = Some (RegularFile data))"
proof -
  obtain ds where ds: "dir = ''/'' @ join_slash ds" "\<forall>c \<in> set ds. plain_name c"
    using path_Clean_rooted [OF assms(2)] assms(3) by metis
  with assms(4) have "ds \<noteq> []" by auto
  obtain rel where rel: "url_PathUnescape (strings_TrimPrefix url prefix) = Some rel"
    using assms(1) by (auto simp: service_Uploads_def act split: if_splits option.splits)
  obtain cs where cs: "path_Clean (''/'' @ rel) = ''/'' @ join_slash cs" "\<forall>c \<in> set cs. plain_name c"
    using path_Clean_rooted [of "''/'' @ rel"] by (auto simp: path_IsAbs_def)
  let ?p = "filepath_Join dir (join_slash cs)"
  have p: "?p = (if cs = [] then dir else dir @ ''/'' @ join_slash cs)"
    using filepath_Join_names [OF ds(2) \<open>ds \<noteq> []\<close> cs(2)] ds(1) assms(3)
    by (simp add: filepath_Join_def)
  have abs: "path_IsAbs ?p" "path_Clean ?p = ?p"
  proof -
    show "path_IsAbs ?p" using p ds(1) by (simp add: path_IsAbs_def)
    show "path_Clean ?p = ?p"
    proof (cases "cs = []")
      case False
      then have "?p = ''/'' @ join_slash (ds @ cs)"
        using p ds(1) \<open>ds \<noteq> []\<close> by (simp add: join_slash_append)
      then show ?thesis using ds(2) cs(2) path_Clean_names [of "ds @ cs"] by auto
    qed (use p assms(3) in simp)
  qed
  then have ab: "absolute v ?p = ?p" for v by (simp add: absolute_def)
  have "p = ?p \<and> quiet w w' \<and> (\<exists>data. filesystem w ?p = Some (RegularFile data))"
    using assms(1) rel cs(1) abs ab
    by (auto simp: service_Uploads_def Let_def strings_TrimPrefix_def act
        split: if_splits option.splits fs_entry.splits) (metis fs_entry.exhaust)+
  with p cs(2) show ?thesis by (auto simp: below_def)
qed

subsection \<open>Files and tables\<close>

lemma db_files [simp]: "db (w\<lparr>filesystem := f\<rparr>) = db w" "db (w\<lparr>uuids := g\<rparr>) = db w"
  by simp_all

lemma keeps_os [wf_intros]:
  "keeps I (os_MkdirAll p)" "keeps I (os_WriteFile p data)" "keeps I (os_Remove p)" "keeps I uuid_New"
  by (auto simp: keeps_def act Let_def split: option.splits fs_entry.splits)

lemma keeps_DeleteFile [wf_intros]: "keeps I (DeleteFile f)"
  by (auto simp: DeleteFile_def Let_def intro!: wf_intros)

lemma keeps_UploadFile [wf_intros]: "keeps I (UploadFile f)"
  by (auto simp: UploadFile_def Let_def intro!: wf_intros)

lemma keeps_delete_uploaded [wf_intros]: "keeps I (delete_uploaded fs)"
  by (induction fs) (auto intro!: wf_intros)

lemma keeps_upload_loop [wf_intros]: "keeps I (upload_loop ns fs)"
  by (induction fs arbitrary: ns) (auto intro!: wf_intros)

lemma keeps_DeleteFiles [wf_intros]: "keeps I (DeleteFiles fs)"
  by (induction fs) (auto intro!: wf_intros split: option.splits)

lemma keeps_HandleFileUpload [wf_intros]: "keeps I (HandleFileUpload fs ps)"
  by (auto simp: HandleFileUpload_def UploadFiles_def intro!: wf_intros)

subsection \<open>Uploading several files\<close>

text \<open>
  Where a stored name lives, and a world in which no name the upload can choose is taken.
\<close>

definition stored_at :: "world \<Rightarrow> string \<Rightarrow> string" where
  "stored_at w fileName = absolute w (filepath_Join uploadDir fileName)"

definition fresh_names :: "File list \<Rightarrow> world \<Rightarrow> bool" where
  "fresh_names files w \<longleftrightarrow> (\<forall>n. \<forall>f \<in> set files.
     let p = stored_at w (uuids w n @ filepath_Ext (file_Filename f))
     in filesystem w p = None \<and> p \<noteq> absolute w uploadDir)"

definition one_fault :: "world \<Rightarrow> bool" where
  "one_fault w \<longleftrightarrow> length (filter (\<lambda>f. f \<noteq> None) (faults w)) \<le> 1"

lemma one_fault_tick:
  assumes "one_fault w"
  shows "one_fault (tick w)" "next_fault w = Some m \<Longrightarrow> no_faults (tick w)"
proof -
  have "length (filter (\<lambda>f. f \<noteq> None) fs) \<le> length (filter (\<lambda>f. f \<noteq> None) (f # fs))" for f fs
    by simp
  then show "one_fault (tick w)"
    using assms unfolding one_fault_def tick_sel
    by (cases "faults w") (auto intro: order_trans simp del: filter.simps)
  show "no_faults (tick w)" if "next_fault w = Some m"
  proof -
    from that obtain fs where "faults w = Some m # fs"
      by (auto simp: next_fault_def split: list.splits)
    then have "filter (\<lambda>f. f \<noteq> None) fs = []" using assms by (simp add: one_fault_def)
    then show ?thesis
      using \<open>faults w = Some m # fs\<close> by (simp add: no_faults_def filter_empty_conv)
  qed
qed

text \<open>
  \<open>partly_uploaded v names w\<close>: the files of \<open>w\<close> are those of \<open>v\<close> and the named new ones.
\<close>

definition partly_uploaded :: "world \<Rightarrow> string list \<Rightarrow> world \<Rightarrow> bool" where
  "partly_uploaded v names w \<longleftrightarrow> cwd w = cwd v \<and> torn w = torn v \<and>
     (\<forall>p. p \<noteq> absolute v uploadDir \<and> p \<notin> stored_at v ` set names \<longrightarrow> filesystem w p = filesystem v p) \<and>
     (\<forall>n \<in> set names. filesystem v (stored_at v n) = None \<and> stored_at v n \<noteq> absolute v uploadDir \<and>
        filesystem w (stored_at v n) \<noteq> Some Directory)"

lemma absolute_cwd: "cwd w = cwd v \<Longrightarrow> absolute w p = absolute v p"
  by (simp add: absolute_def)

lemma DeleteFile_step:
  assumes "no_faults w" "filesystem w (stored_at w n) \<noteq> Some Directory"
  shows "DeleteFile n w = (Ret (), (tick w)\<lparr>filesystem := (filesystem w)(stored_at w n := None)\<rparr>)"
proof -
  have a: "absolute (tick w) = absolute w" by (intro ext absolute_cwd) simp
  have i: "w\<lparr>filesystem := (filesystem w)(p := None)\<rparr> = w" if "filesystem w p = None" for p and w :: world
    using that by (metis fun_upd_idem_iff world.surjective world.update_convs(9))
  show ?thesis
    using assms i [of "tick w"]
    by (auto simp: DeleteFile_def stored_at_def Let_def act a split: option.splits fs_entry.splits)
qed

lemma delete_uploaded_restores:
  assumes "no_faults w" "partly_uploaded v (names @ extra) w"
  shows "\<exists>w'. delete_uploaded names w = (Ret (), w') \<and> partly_uploaded v extra w' \<and>
    (\<forall>p. filesystem w' p = (if p \<in> stored_at v ` set names then None else filesystem w p))"
  using assms
proof (induction names arbitrary: w)
  case Nil
  then show ?case by (simp add: act)
next
  case (Cons n names)
  have at: "stored_at w n = stored_at v n"
    using Cons.prems(2) absolute_cwd [of w v] by (simp add: stored_at_def partly_uploaded_def)
  let ?w = "(tick w)\<lparr>filesystem := (filesystem w)(stored_at v n := None)\<rparr>"
  have "filesystem w (stored_at w n) \<noteq> Some Directory"
    using Cons.prems(2) by (simp add: at partly_uploaded_def)
  then have d: "DeleteFile n w = (Ret (), ?w)"
    using DeleteFile_step [OF Cons.prems(1)] by (simp add: at)
  have "partly_uploaded v (names @ extra) ?w"
    using Cons.prems(2) by (auto simp: partly_uploaded_def)
  moreover have "no_faults ?w" using Cons.prems(1) no_faults_tick by (auto simp: no_faults_def)
  ultimately obtain w' where "delete_uploaded names ?w = (Ret (), w')" "partly_uploaded v extra w'"
    "\<forall>p. filesystem w' p = (if p \<in> stored_at v ` set names then None else filesystem ?w p)"
    using Cons.IH by blast
  then show ?case by (intro exI [of _ w']) (simp add: call_def d)
qed

text \<open>One file: stored under its new name, or nothing but the directory has changed.\<close>

lemma faults_update [simp]:
  "next_fault (w\<lparr>uuids := g\<rparr>) = next_fault w" "next_fault (w\<lparr>filesystem := h\<rparr>) = next_fault w"
  "no_faults (w\<lparr>uuids := g\<rparr>) = no_faults w" "no_faults (w\<lparr>filesystem := h\<rparr>) = no_faults w"
  "one_fault (w\<lparr>uuids := g\<rparr>) = one_fault w" "one_fault (w\<lparr>filesystem := h\<rparr>) = one_fault w"
  by (simp_all add: next_fault_def no_faults_def one_fault_def)

lemma MkdirAll_step:
  assumes "partly_uploaded v names w" "one_fault w" "os_MkdirAll uploadDir w = (r, w')"
  shows "partly_uploaded v names w' \<and> uuids w' = uuids w \<and>
    (case r of Ret _ \<Rightarrow> one_fault w' \<and> filesystem w' (absolute v uploadDir) = Some Directory
     | Fail e \<Rightarrow> no_faults w' \<or> filesystem w (absolute v uploadDir) \<noteq> Some Directory
     | Panic \<Rightarrow> False)"
proof -
  have "absolute (tick w) uploadDir = absolute v uploadDir"
    using assms(1) by (intro absolute_cwd) (simp add: partly_uploaded_def)
  then show ?thesis
    using assms one_fault_tick [OF assms(2)]
    by (auto simp: act partly_uploaded_def split: option.splits fs_entry.splits)
qed

text \<open>\<open>left_torn v f n w\<close>: the write of \<open>f\<close> under the name \<open>n\<close> left a part of it.\<close>

definition left_torn :: "world \<Rightarrow> File \<Rightarrow> string \<Rightarrow> world \<Rightarrow> bool" where
  "left_torn v f n w \<longleftrightarrow> (\<exists>k. torn v (stored_at v n) = Some k \<and>
     filesystem w (stored_at v n) = Some (RegularFile (take k (file_Data f))))"

lemma WriteFile_step:
  assumes "partly_uploaded v names w" "one_fault w"
    and "filesystem v (stored_at v n) = None" "stored_at v n \<noteq> absolute v uploadDir"
    and "os_WriteFile (filepath_Join uploadDir n) (file_Data f) w = (r, w')"
  shows "case r of
      Ret _ \<Rightarrow> partly_uploaded v (names @ [n]) w' \<and> one_fault w' \<and> uuids w' = uuids w \<and>
        filesystem w' (absolute v uploadDir) = filesystem w (absolute v uploadDir)
    | Fail e \<Rightarrow> no_faults w' \<and>
        (partly_uploaded v names w' \<or> partly_uploaded v (names @ [n]) w' \<and> left_torn v f n w')
    | Panic \<Rightarrow> False"
proof -
  have a: "absolute w (filepath_Join uploadDir n) = stored_at v n"
    unfolding stored_at_def
    using assms(1) by (intro absolute_cwd) (simp add: partly_uploaded_def)
  have nd: "filesystem w (stored_at v n) \<noteq> Some Directory"
    using assms(1,3,4) unfolding partly_uploaded_def by (metis image_iff option.distinct(1))
  have t: "torn w = torn v" using assms(1) by (simp add: partly_uploaded_def)
  show ?thesis
  proof (cases "next_fault w")
    case None
    then have "r = Ret ()" "w' = (tick w)\<lparr>filesystem := (filesystem w)(stored_at v n \<mapsto> RegularFile (file_Data f))\<rparr>"
      using assms(5) nd by (auto simp: os_WriteFile_def Let_def a)
    then show ?thesis
      using assms(1-4) one_fault_tick [OF assms(2)] by (auto simp: partly_uploaded_def)
  next
    case (Some m)
    note nf = one_fault_tick(2) [OF assms(2) Some]
    have r: "r = Fail (Plain m)" using assms(5) Some by (simp add: os_WriteFile_def Let_def)
    show ?thesis
    proof (cases "torn w (stored_at v n)")
      case None
      then have "w' = tick w" using assms(5) Some by (simp add: os_WriteFile_def Let_def a)
      then show ?thesis using assms(1) nf r by (simp add: partly_uploaded_def)
    next
      case (Some k)
      then have "w' = (tick w)\<lparr>filesystem :=
          (filesystem w)(stored_at v n \<mapsto> RegularFile (take k (file_Data f)))\<rparr>"
        using assms(5) nd \<open>next_fault w = Some m\<close> by (simp add: os_WriteFile_def Let_def a)
      then show ?thesis
        using assms(1,3,4) nf r Some t by (auto simp: partly_uploaded_def left_torn_def)
    qed
  qed
qed

text \<open>The name of a file that was being stored when the upload failed.\<close>

definition upload_name :: "world \<Rightarrow> File \<Rightarrow> string \<Rightarrow> bool" where
  "upload_name v f n \<longleftrightarrow> (\<exists>k. n = uuids v k @ filepath_Ext (file_Filename f))"

lemma UploadFile_step:
  assumes P: "partly_uploaded v names w" and O: "one_fault w" and U: "UploadFile f w = (r, w')"
    and k: "uuids w = (\<lambda>n. uuids v (n + k))" and F: "fresh_names (f # fs) v"
  shows "case r of
      Ret name \<Rightarrow> partly_uploaded v (names @ [name]) w' \<and> one_fault w' \<and>
        uuids w' = (\<lambda>n. uuids v (n + Suc k)) \<and> filesystem w' (absolute v uploadDir) = Some Directory
    | Fail e \<Rightarrow> partly_uploaded v names w' \<and>
        (no_faults w' \<or> filesystem w (absolute v uploadDir) \<noteq> Some Directory) \<or>
        no_faults w' \<and> (\<exists>n. upload_name v f n \<and> partly_uploaded v (names @ [n]) w' \<and> left_torn v f n w')
    | Panic \<Rightarrow> False"
proof -
  let ?name = "uuids v k @ filepath_Ext (file_Filename f)"
  let ?w1 = "w\<lparr>uuids := (\<lambda>n. uuids v (Suc (n + k)))\<rparr>"
  have fresh: "filesystem v (stored_at v ?name) = None" "stored_at v ?name \<noteq> absolute v uploadDir"
    using F by (auto simp: fresh_names_def Let_def)
  have name: "upload_name v f ?name" by (auto simp: upload_name_def)
  have P1: "partly_uploaded v names ?w1" using P by (simp add: partly_uploaded_def)
  have O1: "one_fault ?w1" using O by simp
  obtain r2 w2 where m: "os_MkdirAll uploadDir ?w1 = (r2, w2)" by fastforce
  note M = MkdirAll_step [OF P1 O1 m]
  obtain r3 w3 where wr: "os_WriteFile (filepath_Join uploadDir ?name) (file_Data f) w2 = (r3, w3)"
    by fastforce
  show ?thesis
  proof (cases r2)
    case (Ret x)
    then have "partly_uploaded v names w2" "one_fault w2" using M by simp_all
    note W = WriteFile_step [OF this fresh wr]
    have "r = (case r3 of Ret _ \<Rightarrow> Ret ?name | Fail e \<Rightarrow> Fail e | Panic \<Rightarrow> Panic)" "w' = w3"
      using U k Ret
      by (auto simp: UploadFile_def Let_def call_def uuid_New_def m wr throw_def ret_def split: res.splits)
    then show ?thesis using W M Ret k name by (cases r3) auto
  qed (use U k M in \<open>auto simp: UploadFile_def Let_def call_def uuid_New_def m throw_def\<close>)
qed

lemma upload_loop_restores:
  assumes "partly_uploaded v names w" "one_fault w" "upload_loop names fs w = (Fail e, w')"
    and "uuids w = (\<lambda>n. uuids v (n + k))" "fresh_names fs v"
    and "names = [] \<or> filesystem w (absolute v uploadDir) = Some Directory"
  shows "partly_uploaded v [] w' \<or>
    (\<exists>f \<in> set fs. \<exists>n. upload_name v f n \<and> partly_uploaded v [n] w' \<and> left_torn v f n w')"
  using assms
proof (induction fs arbitrary: names w k)
  case Nil
  then show ?case by (simp add: act)
next
  case (Cons f fs)
  obtain r1 w1 where u: "UploadFile f w = (r1, w1)" by fastforce
  note S = UploadFile_step [OF Cons.prems(1,2) u Cons.prems(4,5)]
  show ?case
  proof (cases r1)
    case (Ret name)
    have "fresh_names fs v" using Cons.prems(5) by (simp add: fresh_names_def)
    then show ?thesis
      using Cons.IH [of "names @ [name]" w1 "Suc k"] S Cons.prems(3) Ret
      by (auto simp: call_def u)
  next
    case (Fail e1)
    then consider "partly_uploaded v names w1" "no_faults w1"
      | "partly_uploaded v names w1" "filesystem w (absolute v uploadDir) \<noteq> Some Directory"
      | n where "no_faults w1" "upload_name v f n" "partly_uploaded v (names @ [n]) w1" "left_torn v f n w1"
      using S by auto
    then show ?thesis
    proof cases
      case 1
      then have "partly_uploaded v (names @ []) w1" by simp
      from delete_uploaded_restores [OF 1(2) this]
      obtain w2 where "delete_uploaded names w1 = (Ret (), w2)" "partly_uploaded v [] w2" by blast
      then show ?thesis
        using Cons.prems(3) Fail by (simp add: call_def u throw_def)
    next
      case 2
      then have "names = []" using Cons.prems(6) by auto
      then show ?thesis
        using 2(1) Cons.prems(3) Fail by (simp add: call_def u throw_def ret_def)
    next
      case (3 n)
      from delete_uploaded_restores [OF 3(1,3)]
      obtain w2 where w2: "delete_uploaded names w1 = (Ret (), w2)" "partly_uploaded v [n] w2"
        "\<forall>p. filesystem w2 p = (if p \<in> stored_at v ` set names then None else filesystem w1 p)" by blast
      have w': "w' = w2" using Cons.prems(3) Fail w2(1) by (simp add: call_def u throw_def)
      show ?thesis
      proof (cases "stored_at v n \<in> stored_at v ` set names")
        case True
        then have "partly_uploaded v [] w2" using w2(2,3) by (auto simp: partly_uploaded_def)
        then show ?thesis by (simp add: w')
      next
        case False
        then have "left_torn v f n w2" using 3(4) w2(3) by (simp add: left_torn_def)
        then show ?thesis using 3(2) w2(2) by (auto simp: w')
      qed
    qed
  qed (use S in simp)
qed

end
