(* ===== verification/Profile_Service.thy ===== *)
theory Profile_Service
  imports Profile_Store Elastic_Profile_Store Friend_Store Uploads
begin

text \<open>
  The profile service (src/internal/service/profile.go) and its gRPC handler
  (src/internal/grpc/profile.go). Tag validation of a profile (govalidator) is the parameter
  \<open>valid\<close>.
\<close>

record ProfileService =
  prs_profileStore :: ProfileStore
  prs_friendStore :: FriendStore
  prs_elasticProfileStore :: ElasticProfileStore

subsection \<open>The methods of ProfileService\<close>

definition ProfileService_CreateProfile ::
    "(Profile \<Rightarrow> bool) \<Rightarrow> ProfileService \<Rightarrow> Profile \<Rightarrow> unit action" where
  "ProfileService_CreateProfile valid api profile =
     (if \<not> valid profile then throw ErrInvalidInput
      else call (ps_CreateProfile (prs_profileStore api) profile) (\<lambda>err. throw ErrDB)
      (\<lambda>_. ret ()))"

text \<open>\<open>newfilePath[0]\<close>: indexing an empty slice panics.\<close>

definition first_path :: "string list \<Rightarrow> (string \<Rightarrow> 'a action) \<Rightarrow> 'a action" where
  "first_path paths k = (case paths of [] \<Rightarrow> nil_dereference | p # _ \<Rightarrow> k p)"

definition ProfileService_UpdateProfile ::
    "(Profile \<Rightarrow> bool) \<Rightarrow> ProfileService \<Rightarrow> Profile \<Rightarrow> int32 \<Rightarrow> File list \<Rightarrow> unit action" where
  "ProfileService_UpdateProfile valid api profile userID files =
     (if \<not> valid profile then throw ErrInvalidInput
      else
      let continue =
        call (ps_UpdateProfile (prs_profileStore api) profile userID) (\<lambda>err. throw ErrDB)
        (\<lambda>_. let fullName = pr_FirstName profile @ '' '' @ pr_LastName profile
          in call (es_UpdateProfile (prs_elasticProfileStore api) fullName userID)
               (\<lambda>err. throw ErrDB)
        (\<lambda>_. ret ()))
      in if length files = 1 then
           call (ps_GetAvatarByUserID (prs_profileStore api) userID) (\<lambda>err. throw ErrDB)
           (\<lambda>avatarOldPath. call (HandleFileUpload files [avatarOldPath])
             (\<lambda>err. throw ErrService)
           (\<lambda>newfilePath. first_path newfilePath (\<lambda>path.
             call (ps_UpdateAvatar (prs_profileStore api) path userID) (\<lambda>err. throw ErrDB)
           (\<lambda>_. continue))))
         else continue)"

definition ProfileService_UpdateAvatar ::
    "ProfileService \<Rightarrow> int32 \<Rightarrow> File list \<Rightarrow> unit action" where
  "ProfileService_UpdateAvatar api userID files =
     (if length files = 1 then
        call (ps_GetAvatarByUserID (prs_profileStore api) userID) (\<lambda>err. throw ErrDB)
        (\<lambda>avatarOldPath. call (HandleFileUpload files [avatarOldPath])
          (\<lambda>err. throw ErrService)
        (\<lambda>newfilePath. first_path newfilePath (\<lambda>path.
          call (ps_UpdateAvatar (prs_profileStore api) path userID) (\<lambda>err. throw ErrDB)
        (\<lambda>_. ret ()))))
      else throw ErrInvalidInput)"

definition ProfileService_UpdateHeader ::
    "ProfileService \<Rightarrow> int32 \<Rightarrow> File list \<Rightarrow> unit action" where
  "ProfileService_UpdateHeader api userID files =
     (if length files = 1 then
        call (ps_GetHeaderByUserID (prs_profileStore api) userID) (\<lambda>err. throw ErrDB)
        (\<lambda>headerOldPath. call (HandleFileUpload files [headerOldPath])
          (\<lambda>err. throw ErrService)
        (\<lambda>newfilePath. first_path newfilePath (\<lambda>path.
          call (ps_UpdateHeader (prs_profileStore api) path userID) (\<lambda>err. throw ErrService)
        (\<lambda>_. ret ()))))
      else throw ErrInvalidInput)"

definition ProfileService_GetProfileByUserID ::
    "ProfileService \<Rightarrow> int32 \<Rightarrow> int32 \<Rightarrow> Profile action" where
  "ProfileService_GetProfileByUserID api selfUserID userID =
     call (ps_GetProfileByUserID (prs_profileStore api) userID)
       (\<lambda>err. if errors_Is err ErrNotFound then throw ErrNotFound else throw ErrDB)
     (\<lambda>profile. call (fs_CountUserRelations (prs_friendStore api) userID) (\<lambda>err. throw ErrDB)
     (\<lambda>relationsCount.
        call (fs_GetFriendshipStatus (prs_friendStore api) selfUserID userID)
          (\<lambda>err. throw ErrDB)
     (\<lambda>status. ret (profile\<lparr>pr_RelationsCount := relationsCount,
                            pr_RelationStatus := status\<rparr>))))"

definition ProfileService_DeleteAvatarByUserID :: "ProfileService \<Rightarrow> int32 \<Rightarrow> unit action" where
  "ProfileService_DeleteAvatarByUserID api userID =
     call (ps_DeleteAvatarByUserID (prs_profileStore api) userID) (\<lambda>err. throw ErrDB)
     (\<lambda>avatar_path. deref avatar_path (\<lambda>path.
        call (DeleteFile path) (\<lambda>err. throw ErrDB) (\<lambda>_. ret ())))"

definition ProfileService_GetShortProfileMapByUserIDs ::
    "ProfileService \<Rightarrow> int32 list \<Rightarrow> (int32 \<Rightarrow> ShortProfile option) action" where
  "ProfileService_GetShortProfileMapByUserIDs api userIDs =
     call (ps_GetShortProfileMapByUserIDs (prs_profileStore api) userIDs)
       (\<lambda>err. if errors_Is err ErrNotFound then throw ErrNotFound else throw ErrDB)
       (\<lambda>profiles. ret profiles)"

definition ProfileService_GetShortProfileByUserIDs ::
    "ProfileService \<Rightarrow> int32 list \<Rightarrow> ShortProfile list action" where
  "ProfileService_GetShortProfileByUserIDs api userIDs =
     call (ps_GetShortProfileByUserIDs (prs_profileStore api) userIDs)
       (\<lambda>err. if errors_Is err ErrNotFound then throw ErrNotFound else throw ErrDB)
       (\<lambda>profiles. ret profiles)"

definition ProfileService_GetOtherShortProfileByUserIDs ::
    "ProfileService \<Rightarrow> int32 list \<Rightarrow> int32 \<Rightarrow> int32 \<Rightarrow> ShortProfile list action" where
  "ProfileService_GetOtherShortProfileByUserIDs api userIDs limit offset =
     call (ps_GetOtherShortProfileByUserIDs (prs_profileStore api) userIDs limit offset)
       (\<lambda>err. if errors_Is err ErrNotFound then throw ErrNotFound else throw ErrDB)
       (\<lambda>profiles. ret profiles)"

subsection \<open>The gRPC handler\<close>

definition GrpcProfileHandler_CreateProfile ::
    "(Profile \<Rightarrow> bool) \<Rightarrow> ProfileService \<Rightarrow> pb_Profile option \<Rightarrow> unit action" where
  "GrpcProfileHandler_CreateProfile valid ser m =
     call (ProfileService_CreateProfile valid ser (FromProtoProfile m))
       (\<lambda>err. throw (ToGrpcError err)) (\<lambda>_. ret ())"

definition GrpcProfileHandler_UpdateProfile ::
    "(Profile \<Rightarrow> bool) \<Rightarrow> ProfileService \<Rightarrow> pb_Profile option \<Rightarrow> int32 \<Rightarrow> pb_FileData list \<Rightarrow>
     unit action" where
  "GrpcProfileHandler_UpdateProfile valid ser m userID files =
     call (ProfileService_UpdateProfile valid ser (FromProtoProfile m) userID (ProtoToFiles files))
       (\<lambda>err. throw (ToGrpcError err)) (\<lambda>_. ret ())"

definition GrpcProfileHandler_UpdateAvatar ::
    "ProfileService \<Rightarrow> int32 \<Rightarrow> pb_FileData list \<Rightarrow> unit action" where
  "GrpcProfileHandler_UpdateAvatar ser userID avatar =
     call (ProfileService_UpdateAvatar ser userID (ProtoToFiles avatar))
       (\<lambda>err. throw (ToGrpcError err)) (\<lambda>_. ret ())"

text \<open>As in the source, the header's handler calls the avatar's operation.\<close>

definition GrpcProfileHandler_UpdateHeader ::
    "ProfileService \<Rightarrow> int32 \<Rightarrow> pb_FileData list \<Rightarrow> unit action" where
  "GrpcProfileHandler_UpdateHeader ser userID header =
     call (ProfileService_UpdateAvatar ser userID (ProtoToFiles header))
       (\<lambda>err. throw (ToGrpcError err)) (\<lambda>_. ret ())"

definition GrpcProfileHandler_GetProfileByUserID ::
    "ProfileService \<Rightarrow> int32 \<Rightarrow> int32 \<Rightarrow> pb_Profile option action" where
  "GrpcProfileHandler_GetProfileByUserID ser selfUserID userID =
     call (ProfileService_GetProfileByUserID ser selfUserID userID)
       (\<lambda>err. throw (ToGrpcError err)) (\<lambda>profile. ret (ToProtoProfile profile))"

definition GrpcProfileHandler_DeleteAvatarByUserID :: "ProfileService \<Rightarrow> int32 \<Rightarrow> unit action" where
  "GrpcProfileHandler_DeleteAvatarByUserID ser userID =
     call (ProfileService_DeleteAvatarByUserID ser userID)
       (\<lambda>err. throw (ToGrpcError err)) (\<lambda>_. ret ())"

definition GrpcProfileHandler_GetShortProfileMapByUserIDs ::
    "ProfileService \<Rightarrow> int32 list \<Rightarrow> (int32 \<Rightarrow> pb_ShortProfile option) action" where
  "GrpcProfileHandler_GetShortProfileMapByUserIDs ser userIDs =
     call (ProfileService_GetShortProfileMapByUserIDs ser userIDs)
       (\<lambda>err. throw (ToGrpcError err)) (\<lambda>profiles. ret (ToProtoShortProfileMap profiles))"

definition GrpcProfileHandler_GetShortProfileByUserIDs ::
    "ProfileService \<Rightarrow> int32 list \<Rightarrow> pb_ShortProfile list action" where
  "GrpcProfileHandler_GetShortProfileByUserIDs ser userIDs =
     call (ProfileService_GetShortProfileByUserIDs ser userIDs)
       (\<lambda>err. throw (ToGrpcError err)) (\<lambda>profiles. ret (ToProtoShortProfileSlice profiles))"

definition GrpcProfileHandler_GetOtherShortProfileByUserIDs ::
    "ProfileService \<Rightarrow> int32 list \<Rightarrow> int32 \<Rightarrow> int32 \<Rightarrow> pb_ShortProfile list action" where
  "GrpcProfileHandler_GetOtherShortProfileByUserIDs ser userIDs limit offset =
     call (ProfileService_GetOtherShortProfileByUserIDs ser userIDs limit offset)
       (\<lambda>err. throw (ToGrpcError err)) (\<lambda>profiles. ret (ToProtoOtherShortProfileSlice profiles))"

text \<open>The generated client, connected to a server with this handler.\<close>

definition profile_client :: "(Profile \<Rightarrow> bool) \<Rightarrow> ProfileService \<Rightarrow> ProfileServiceClient" where
  "profile_client valid ser =
     \<lparr>pc_CreateProfile = (\<lambda>m. grpc_call (GrpcProfileHandler_CreateProfile valid ser m)),
      pc_UpdateProfile = (\<lambda>m i fs. grpc_call (GrpcProfileHandler_UpdateProfile valid ser m i fs)),
      pc_UpdateAvatar = (\<lambda>i fs. grpc_call (GrpcProfileHandler_UpdateAvatar ser i fs)),
      pc_UpdateHeader = (\<lambda>i fs. grpc_call (GrpcProfileHandler_UpdateHeader ser i fs)),
      pc_GetProfileByUserID =
        (\<lambda>self i. grpc_call (GrpcProfileHandler_GetProfileByUserID ser self i)),
      pc_DeleteAvatarByUserID = (\<lambda>i. grpc_call (GrpcProfileHandler_DeleteAvatarByUserID ser i)),
      pc_GetShortProfileMapByUserIDs =
        (\<lambda>is. grpc_call (GrpcProfileHandler_GetShortProfileMapByUserIDs ser is)),
      pc_GetShortProfileByUserIDs =
        (\<lambda>is. grpc_call (GrpcProfileHandler_GetShortProfileByUserIDs ser is)),
      pc_GetOtherShortProfileByUserIDs =
        (\<lambda>is l off. grpc_call (GrpcProfileHandler_GetOtherShortProfileByUserIDs ser is l off))\<rparr>"

end
