(* ===== verification/User_Store.thy ===== *)
theory User_Store
  imports Mapper
begin

text \<open>
  The PostgreSQL store of users (src/internal/repository/db/user.go), the contract a client of
  \<open>domain.UserStore\<close> relies on (locale \<open>user_store\<close>), and the proof that the store keeps it.
\<close>

definition user_of :: "user_row \<Rightarrow> User" where
  "user_of r = \<lparr>usr_ID = u_id r, usr_Email = u_email r, usr_Password = u_password r,
     usr_Role = u_role r\<rparr>"

text \<open>\<open>INSERT INTO users (email, password) VALUES ($1, $2) RETURNING id\<close>\<close>

definition insert_user ::
    "string \<Rightarrow> string \<Rightarrow> int32 \<Rightarrow> int \<Rightarrow> database \<Rightarrow> (database \<times> int32) option" where
  "insert_user email password i now d =
     (let row = \<lparr>u_id = i, u_email = email, u_role = ''member'', u_password = password,
                 u_created_at = now, u_updated_at = now\<rparr>
      in if \<not> users_check row \<or> (\<exists>r \<in> set (users d). u_id r = i \<or> u_email r = email) then None
         else Some (d\<lparr>users := users d @ [row]\<rparr>, i))"

subsection \<open>The methods of DBUserStore\<close>

definition DBUserStore_CreateUser :: "User \<Rightarrow> int32 action" where
  "DBUserStore_CreateUser user =
     call tx_Begin (\<lambda>err. throw (Wrapf ''begin tx: '' err))
     (\<lambda>tx. call (insert_returning ''users'' (insert_user (usr_Email user) (usr_Password user)))
        (\<lambda>err. call (tx_Rollback tx) throw (\<lambda>_. throw (Wrapf ''insert user: '' err)))
     (\<lambda>userID. call (tx_Commit tx) (\<lambda>err. throw (Wrapf ''commit tx: '' err))
     (\<lambda>_. ret userID)))"

definition DBUserStore_GetUserByEmail :: "string \<Rightarrow> User action" where
  "DBUserStore_GetUserByEmail email =
     call (query_row (\<lambda>d. find (\<lambda>r. u_email r = email) (users d)))
       (\<lambda>err. if errors_Is err ErrNoRows then throw ErrNotFound else throw err)
       (\<lambda>r. ret ((user_of r)\<lparr>usr_Role := []\<rparr>))"

definition DBUserStore_GetUserByID :: "int32 \<Rightarrow> User action" where
  "DBUserStore_GetUserByID userID =
     call (query_row (\<lambda>d. find (\<lambda>r. u_id r = userID) (users d)))
       (\<lambda>err. if errors_Is err ErrNoRows then throw ErrNotFound else throw err)
       (\<lambda>r. ret (user_of r))"

definition DBUserStore_IsUserExists :: "int32 \<Rightarrow> bool action" where
  "DBUserStore_IsUserExists userID =
     call (query_row (\<lambda>d. Some (user_exists d userID))) throw (\<lambda>exists. ret exists)"

definition DBUserStore_IsUserAdmin :: "TempSessionInfo option \<Rightarrow> bool action" where
  "DBUserStore_IsUserAdmin tempSessionInfo =
     (case (case tempSessionInfo of None \<Rightarrow> None | Some info \<Rightarrow> ts_UserID info) of
        Some userID \<Rightarrow>
          call (DBUserStore_GetUserByID userID) throw
            (\<lambda>user. if usr_Role user = ''admin'' then ret True else ret False)
      | None \<Rightarrow> ret False)"

definition DBUserStore :: UserStore where
  "DBUserStore =
     \<lparr>us_GetUserByEmail = DBUserStore_GetUserByEmail, us_CreateUser = DBUserStore_CreateUser,
      us_GetUserByID = DBUserStore_GetUserByID, us_IsUserExists = DBUserStore_IsUserExists,
      us_IsUserAdmin = DBUserStore_IsUserAdmin\<rparr>"

subsection \<open>The contract of the store\<close>

text \<open>The registered users, as a set.\<close>

definition user_view :: "world \<Rightarrow> User set" where
  "user_view w = user_of ` set (users (db w))"

definition same_account :: "User \<Rightarrow> User \<Rightarrow> bool" where
  "same_account u v \<longleftrightarrow> usr_ID u = usr_ID v \<and> usr_Email u = usr_Email v \<and>
     usr_Password u = usr_Password v"

locale user_store =
  fixes us :: UserStore
    and view :: "world \<Rightarrow> User set"
  assumes view_quiet: "quiet w w' \<Longrightarrow> view w' = view w"
    and by_email: "us_GetUserByEmail us email w = (r, w') \<Longrightarrow> quiet w w' \<and>
      (case r of Ret u \<Rightarrow> usr_Email u = email \<and> (\<exists>v \<in> view w. same_account u v)
       | Fail e \<Rightarrow> errors_Is e ErrNotFound \<longrightarrow> (\<forall>v \<in> view w. usr_Email v \<noteq> email)
       | Panic \<Rightarrow> False)"
    and by_id: "us_GetUserByID us i w = (r, w') \<Longrightarrow> quiet w w' \<and>
      (case r of Ret u \<Rightarrow> usr_ID u = i \<and> u \<in> view w
       | Fail e \<Rightarrow> errors_Is e ErrNotFound \<longrightarrow> (\<forall>v \<in> view w. usr_ID v \<noteq> i) | Panic \<Rightarrow> False)"
    and exists: "us_IsUserExists us i w = (b, w') \<Longrightarrow> quiet w w' \<and>
      (case b of Ret b \<Rightarrow> b \<longleftrightarrow> (\<exists>v \<in> view w. usr_ID v = i) | Fail e \<Rightarrow> True | Panic \<Rightarrow> False)"
    and create: "us_CreateUser us u w = (c, w') \<Longrightarrow>
      (case c of
         Ret i \<Rightarrow> (\<forall>v \<in> view w. usr_ID v \<noteq> i \<and> usr_Email v \<noteq> usr_Email u) \<and>
           (\<exists>v. same_account v (u\<lparr>usr_ID := i\<rparr>) \<and> view w' = insert v (view w))
       | Fail e \<Rightarrow> view w' = view w | Panic \<Rightarrow> False)"

lemma user_view_quiet: "quiet w w' \<Longrightarrow> user_view w' = user_view w"
  by (simp add: user_view_def quiet_sel)

lemma user_of_sel [simp]:
  "usr_ID (user_of r) = u_id r" "usr_Email (user_of r) = u_email r"
  "usr_Password (user_of r) = u_password r" "usr_Role (user_of r) = u_role r"
  by (simp_all add: user_of_def)

lemma db_GetUserByEmail:
  assumes "DBUserStore_GetUserByEmail email w = (r, w')"
  shows "quiet w w' \<and>
    (case r of Ret u \<Rightarrow> usr_Email u = email \<and> (\<exists>v \<in> user_view w. same_account u v)
     | Fail e \<Rightarrow> errors_Is e ErrNotFound \<longrightarrow> (\<forall>v \<in> user_view w. usr_Email v \<noteq> email)
     | Panic \<Rightarrow> False)"
  using assms
  by (auto simp: DBUserStore_GetUserByEmail_def act user_view_def same_account_def find_None_set
      dest!: find_SomeD split: option.splits)

lemma db_GetUserByID:
  assumes "DBUserStore_GetUserByID i w = (r, w')"
  shows "quiet w w' \<and>
    (case r of Ret u \<Rightarrow> usr_ID u = i \<and> u \<in> user_view w
     | Fail e \<Rightarrow> errors_Is e ErrNotFound \<longrightarrow> (\<forall>v \<in> user_view w. usr_ID v \<noteq> i) | Panic \<Rightarrow> False)"
  using assms
  by (auto simp: DBUserStore_GetUserByID_def act user_view_def find_None_set
      dest!: find_SomeD split: option.splits)

lemma user_exists_view: "user_exists (db w) i \<longleftrightarrow> (\<exists>v \<in> user_view w. usr_ID v = i)"
  by (auto simp: user_exists_def user_view_def)

lemma db_IsUserExists:
  assumes "DBUserStore_IsUserExists i w = (b, w')"
  shows "quiet w w' \<and>
    (case b of Ret b \<Rightarrow> b \<longleftrightarrow> (\<exists>v \<in> user_view w. usr_ID v = i) | Fail e \<Rightarrow> True | Panic \<Rightarrow> False)"
  using assms
  by (auto simp: DBUserStore_IsUserExists_def act user_exists_view [symmetric] split: option.splits)

lemma insert_account:
  "usr_ID u = i \<Longrightarrow> usr_Email u = e \<Longrightarrow> usr_Password u = p \<Longrightarrow>
   \<exists>v. usr_ID v = i \<and> usr_Email v = e \<and> usr_Password v = p \<and> insert u A = insert v A"
  by blast

lemma db_CreateUser:
  assumes "DBUserStore_CreateUser u w = (i, w')"
  shows "case i of
         Ret i \<Rightarrow> (\<forall>v \<in> user_view w. usr_ID v \<noteq> i \<and> usr_Email v \<noteq> usr_Email u) \<and>
           (\<exists>v. same_account v (u\<lparr>usr_ID := i\<rparr>) \<and> user_view w' = insert v (user_view w))
       | Fail e \<Rightarrow> user_view w' = user_view w | Panic \<Rightarrow> False"
  using assms
  by (auto simp: DBUserStore_CreateUser_def act user_view_def same_account_def nextval_def
      insert_user_def Let_def intro!: insert_account split: option.splits prod.splits if_splits)

interpretation db_users: user_store DBUserStore user_view
  by unfold_locales
     (use user_view_quiet db_GetUserByEmail db_GetUserByID db_IsUserExists db_CreateUser
      in \<open>auto simp: DBUserStore_def\<close>)

end
