(* ===== verification/Session_Store.thy ===== *)
theory Session_Store
  imports Domain
begin

text \<open>
  The Redis store of sessions (src/internal/repository/dbRedis/sesssionRedis.go) and the contract of
  \<open>domain.SessionStore\<close> (locale \<open>session_store\<close>). The JSON text of a session is produced and read
  by a third-party package: the codec is the pair of parameters \<open>enc\<close> and \<open>dec\<close>, with
  \<open>dec s = None\<close> for its error.

  A Redis key with an expiry time is live strictly before that time.
\<close>

definition sessionTTL :: int where "sessionTTL = 86400"

subsection \<open>Commands sent to Redis\<close>

definition redis_SET :: "string \<Rightarrow> string \<Rightarrow> int \<Rightarrow> string action" where
  [act]: "redis_SET key val ttl =
     external Plain (\<lambda>w. (Ret ''OK'', w\<lparr>redis := (redis w)(key \<mapsto> (val, clock w + ttl))\<rparr>))"

fun live_value :: "int \<Rightarrow> (string \<times> int) option \<Rightarrow> string option" where
  "live_value now None = None"
| "live_value now (Some (val, expiry)) = (if now < expiry then Some val else None)"

definition redis_live :: "world \<Rightarrow> string \<Rightarrow> string option" where
  "redis_live w key = live_value (clock w) (redis w key)"

definition redis_GET :: "string \<Rightarrow> string action" where
  [act]: "redis_GET key = external Plain (\<lambda>w.
     (case redis_live w key of None \<Rightarrow> (Fail ErrNil, w) | Some val \<Rightarrow> (Ret val, w)))"

definition redis_DEL :: "string \<Rightarrow> nat action" where
  [act]: "redis_DEL key = external Plain (\<lambda>w.
     (Ret (if redis_live w key = None then 0 else 1), w\<lparr>redis := (redis w)(key := None)\<rparr>))"

subsection \<open>The methods of RedisSessionStore\<close>

text \<open>The reader of \<open>crypto/rand\<close> fills the buffer or fails; the world's randomness moves on.\<close>

definition rand_Read :: "nat \<Rightarrow> byte list action" where
  [act]: "rand_Read n = external Plain (\<lambda>w.
     (Ret (map (entropy w) [0..<n]), w\<lparr>entropy := (\<lambda>i. entropy w (i + n))\<rparr>))"

definition generateRandomToken :: "string action" where
  "generateRandomToken =
     call (rand_Read 32) (\<lambda>err. throw (Wrapf ''failed to read random bytes: '' err))
     (\<lambda>bytes. ret (hex_EncodeToString bytes))"

definition RedisSessionStore_AddSession ::
    "(Session \<Rightarrow> string) \<Rightarrow> int32 \<Rightarrow> SIDAndSCRFToken action" where
  "RedisSessionStore_AddSession enc userID =
     call generateRandomToken throw
     (\<lambda>ID. call generateRandomToken throw
     (\<lambda>CSRFToken.
        let session = \<lparr>se_UserID = userID, se_CSRFToken = CSRFToken\<rparr>;
            dataSerialized = enc session;
            mkey = ''sessions:'' @ ID
        in call (redis_SET mkey dataSerialized sessionTTL) throw
     (\<lambda>result.
        if result \<noteq> ''OK'' then throw (Plain ''result not OK'')
        else ret \<lparr>st_CSRFToken = CSRFToken, st_SID = ID\<rparr>)))"

definition RedisSessionStore_GetSessionBySessionID ::
    "(string \<Rightarrow> Session option) \<Rightarrow> string \<Rightarrow> Session action" where
  "RedisSessionStore_GetSessionBySessionID dec sessionID =
     (let mkey = ''sessions:'' @ sessionID
      in call (redis_GET mkey)
           (\<lambda>err. if errors_Is err ErrNil then throw ErrNotFound else throw err)
           (\<lambda>data. case dec data of
              None \<Rightarrow> throw (Plain ''invalid session json'')
            | Some sess \<Rightarrow> ret sess))"

definition RedisSessionStore_DeleteSession :: "string \<Rightarrow> unit action" where
  "RedisSessionStore_DeleteSession sessionID =
     (let mkey = ''sessions:'' @ sessionID in call (redis_DEL mkey) throw (\<lambda>_. ret ()))"

definition RedisSessionStore ::
    "(Session \<Rightarrow> string) \<Rightarrow> (string \<Rightarrow> Session option) \<Rightarrow> SessionStore" where
  "RedisSessionStore enc dec =
     \<lparr>ss_AddSession = RedisSessionStore_AddSession enc,
      ss_GetSessionBySessionID = RedisSessionStore_GetSessionBySessionID dec,
      ss_DeleteSession = RedisSessionStore_DeleteSession\<rparr>"

subsection \<open>The contract of the store\<close>

text \<open>
  \<open>view w sid\<close> is the session that \<open>sid\<close> names in world \<open>w\<close>; \<open>stored s\<close> is what a stored session
  reads back as.
\<close>

definition session_view :: "(string \<Rightarrow> Session option) \<Rightarrow> world \<Rightarrow> string \<Rightarrow> Session option" where
  "session_view dec w sid = Option.bind (redis_live w (''sessions:'' @ sid)) dec"

locale session_store =
  fixes ss :: SessionStore
    and view :: "world \<Rightarrow> string \<Rightarrow> Session option"
    and stored :: "Session \<Rightarrow> Session option"
  assumes view_quiet: "quiet w w' \<Longrightarrow> view w' = view w"
    and add: "ss_AddSession ss u w = (a, w') \<Longrightarrow>
      (case a of
         Ret t \<Rightarrow> view w' = (view w)(st_SID t := stored \<lparr>se_UserID = u, se_CSRFToken = st_CSRFToken t\<rparr>)
       | Fail e \<Rightarrow> view w' = view w | Panic \<Rightarrow> False)"
    and lookup: "ss_GetSessionBySessionID ss sid w = (g, w') \<Longrightarrow> quiet w w' \<and>
      (case g of Ret s \<Rightarrow> view w sid = Some s
       | Fail e \<Rightarrow> errors_Is e ErrNotFound \<longrightarrow> view w sid = None | Panic \<Rightarrow> False)"
    and remove: "ss_DeleteSession ss sid w = (d, w') \<Longrightarrow>
      (case d of Ret _ \<Rightarrow> view w' = (view w)(sid := None)
       | Fail e \<Rightarrow> view w' = view w | Panic \<Rightarrow> False)"

lemma session_view_quiet: "quiet w w' \<Longrightarrow> session_view dec w' = session_view dec w"
  by (intro ext) (simp add: session_view_def redis_live_def quiet_sel)

lemma redis_live_world [simp]:
  "redis_live (tick w) = redis_live w"
  "redis_live (w\<lparr>entropy := g\<rparr>) = redis_live w"
  by (simp_all add: redis_live_def fun_eq_iff)

lemma redis_live_set:
  "redis_live (w\<lparr>redis := (redis w)(k \<mapsto> (v, t))\<rparr>) =
     (redis_live w)(k := if clock w < t then Some v else None)"
  "redis_live (w\<lparr>redis := (redis w)(k := None)\<rparr>) = (redis_live w)(k := None)"
  by (auto simp: redis_live_def fun_eq_iff)

lemma generateRandomToken_result:
  "generateRandomToken w = (r, w') \<Longrightarrow> redis w' = redis w \<and> clock w' = clock w \<and> r \<noteq> Panic \<and>
     (\<forall>t. r = Ret t \<longrightarrow> length t = 64)"
  by (auto simp: generateRandomToken_def act split: option.splits)

lemma redis_AddSession:
  assumes "RedisSessionStore_AddSession enc u w = (r, w')"
  shows "case r of
         Ret t \<Rightarrow> session_view dec w' = (session_view dec w)
           (st_SID t := dec (enc \<lparr>se_UserID = u, se_CSRFToken = st_CSRFToken t\<rparr>))
       | Fail e \<Rightarrow> session_view dec w' = session_view dec w | Panic \<Rightarrow> False"
proof -
  obtain r1 w1 where t1: "generateRandomToken w = (r1, w1)" by fastforce
  obtain r2 w2 where t2: "generateRandomToken w1 = (r2, w2)" by fastforce
  note R = generateRandomToken_result [OF t1] generateRandomToken_result [OF t2]
  have live: "redis_live w1 = redis_live w" "redis_live w2 = redis_live w"
    using R by (simp_all add: redis_live_def fun_eq_iff)
  show ?thesis
    using assms R live
    by (auto simp: RedisSessionStore_AddSession_def call_def t1 t2 redis_SET_def external_def
        throw_def ret_def session_view_def Let_def redis_live_def sessionTTL_def fun_eq_iff
        split: res.splits option.splits if_splits)
qed

lemma redis_GetSessionBySessionID:
  assumes "RedisSessionStore_GetSessionBySessionID dec sid w = (r, w')"
  shows "quiet w w' \<and>
      (case r of Ret s \<Rightarrow> session_view dec w sid = Some s
       | Fail e \<Rightarrow> errors_Is e ErrNotFound \<longrightarrow> session_view dec w sid = None | Panic \<Rightarrow> False)"
  using assms
  by (auto simp: RedisSessionStore_GetSessionBySessionID_def act session_view_def
      split: option.splits)

lemma redis_DeleteSession:
  assumes "RedisSessionStore_DeleteSession sid w = (r, w')"
  shows "case r of Ret _ \<Rightarrow> session_view dec w' = (session_view dec w)(sid := None)
       | Fail e \<Rightarrow> session_view dec w' = session_view dec w | Panic \<Rightarrow> False"
  using assms
  by (auto simp: RedisSessionStore_DeleteSession_def Let_def act session_view_def redis_live_def fun_eq_iff
      split: option.splits)

interpretation redis_sessions: session_store "RedisSessionStore enc dec" "session_view dec"
    "\<lambda>s. dec (enc s)" for enc dec
  by unfold_locales
     (use session_view_quiet redis_AddSession redis_GetSessionBySessionID redis_DeleteSession
      in \<open>auto simp: RedisSessionStore_def\<close>)

subsection \<open>The life of a session\<close>

text \<open>What is stored, and how long it is found when no call fails.\<close>

lemma AddSession_redis:
  assumes "RedisSessionStore_AddSession enc u w = (Ret t, w')"
  shows "clock w' = clock w" "redis w' = (redis w)(''sessions:'' @ st_SID t \<mapsto>
      (enc \<lparr>se_UserID = u, se_CSRFToken = st_CSRFToken t\<rparr>, clock w + sessionTTL))"
proof -
  obtain r1 w1 where t1: "generateRandomToken w = (r1, w1)" by fastforce
  obtain r2 w2 where t2: "generateRandomToken w1 = (r2, w2)" by fastforce
  note R = generateRandomToken_result [OF t1] generateRandomToken_result [OF t2]
  have "clock w' = clock w \<and> redis w' = (redis w)(''sessions:'' @ st_SID t \<mapsto>
      (enc \<lparr>se_UserID = u, se_CSRFToken = st_CSRFToken t\<rparr>, clock w + sessionTTL))"
    using assms R
    by (auto simp: RedisSessionStore_AddSession_def call_def t1 t2 redis_SET_def external_def
        throw_def ret_def Let_def split: res.splits option.splits if_splits)
  then show "clock w' = clock w" "redis w' = (redis w)(''sessions:'' @ st_SID t \<mapsto>
      (enc \<lparr>se_UserID = u, se_CSRFToken = st_CSRFToken t\<rparr>, clock w + sessionTTL))" by auto
qed

lemma GetSession_no_faults:
  assumes "no_faults w" "redis w (''sessions:'' @ sid) = Some (enc s, expiry)" "dec (enc s) = Some s"
  shows "fst (RedisSessionStore_GetSessionBySessionID dec sid w)
    = (if clock w < expiry then Ret s else Fail ErrNotFound)"
  using assms
  by (simp add: RedisSessionStore_GetSessionBySessionID_def Let_def act redis_live_def)

lemma generateRandomToken_value:
  assumes "generateRandomToken w = (Ret t, w')"
  shows "t = hex_EncodeToString (map (entropy w) [0..<32]) \<and>
     entropy w' = (\<lambda>i. entropy w (i + 32)) \<and> length t = 64"
  using assms by (auto simp: generateRandomToken_def act split: option.splits)

lemma AddSession_tokens:
  assumes "RedisSessionStore_AddSession enc u w = (Ret t, w')"
  shows "st_SID t = hex_EncodeToString (map (entropy w) [0..<32])"
    "st_CSRFToken t = hex_EncodeToString (map (entropy w) [32..<64])"
proof -
  obtain r1 w1 where t1: "generateRandomToken w = (r1, w1)" by fastforce
  obtain r2 w2 where t2: "generateRandomToken w1 = (r2, w2)" by fastforce
  from assms have "r1 = Ret (st_SID t) \<and> r2 = Ret (st_CSRFToken t)"
    by (auto simp: RedisSessionStore_AddSession_def call_def t1 t2 redis_SET_def external_def
        throw_def ret_def Let_def split: res.splits option.splits if_splits)
  moreover have "map (\<lambda>i. entropy w (i + 32)) [0..<32] = map (entropy w) (map (\<lambda>i. i + 32) [0..<32])"
    by (simp only: map_map comp_def)
  moreover have "map (\<lambda>i. i + 32) [0..<32] = [32..<64]"
    using map_add_upt [of 32 32] by simp
  ultimately show "st_SID t = hex_EncodeToString (map (entropy w) [0..<32])"
    "st_CSRFToken t = hex_EncodeToString (map (entropy w) [32..<64])"
    using t1 t2 by (auto dest!: generateRandomToken_value)
qed

lemma AddSession_entropy:
  assumes "RedisSessionStore_AddSession enc u w = (Ret t, w')"
  shows "entropy w' = (\<lambda>i. entropy w (i + 64))"
proof -
  obtain r1 w1 where t1: "generateRandomToken w = (r1, w1)" by fastforce
  obtain r2 w2 where t2: "generateRandomToken w1 = (r2, w2)" by fastforce
  from assms have "r1 = Ret (st_SID t) \<and> r2 = Ret (st_CSRFToken t) \<and> entropy w' = entropy w2"
    by (auto simp: RedisSessionStore_AddSession_def call_def t1 t2 redis_SET_def external_def
        throw_def ret_def Let_def split: res.splits option.splits if_splits)
  then show ?thesis
    using t1 t2 by (auto dest!: generateRandomToken_value simp: add.commute)
qed

end
