(* ===== verification/Auth_Service.thy ===== *)
theory Auth_Service
  imports User_Store Session_Store
begin

text \<open>
  The authentication service (src/internal/service/auth.go) and its gRPC handler
  (src/internal/grpc/auth.go). Validation of a struct's tags (govalidator) and password hashing
  (bcrypt) are third-party code: the parameter \<open>L\<close>.
\<close>

record auth_libs =
  ValidateStruct_RegisterRequest :: "RegisterRequest \<Rightarrow> bool"
  CompareHashAndPassword :: "string \<Rightarrow> string \<Rightarrow> bool"
  GenerateFromPassword :: "string \<Rightarrow> string action"

text \<open>
  What bcrypt documents: hashing draws on the randomness only, and a generated hash accepts the
  password it was generated from.
\<close>

definition bcrypt_contract :: "auth_libs \<Rightarrow> bool" where
  "bcrypt_contract L \<longleftrightarrow> (\<forall>pw w r w'. GenerateFromPassword L pw w = (r, w') \<longrightarrow>
     r \<noteq> Panic \<and> (\<exists>g fs. w' = w\<lparr>entropy := g, faults := fs\<rparr>) \<and>
     (\<forall>h. r = Ret h \<longrightarrow> CompareHashAndPassword L h pw))"

record AuthService =
  aus_sessionStore :: SessionStore
  aus_userStore :: UserStore
  aus_profileService :: ProfileServiceClient
  aus_elasticProfileStore :: ElasticProfileStore

subsection \<open>The methods of AuthService\<close>

definition AuthService_IsLoggedIn :: "AuthService \<Rightarrow> string \<Rightarrow> Session action" where
  "AuthService_IsLoggedIn api sessionCookie =
     call (ss_GetSessionBySessionID (aus_sessionStore api) sessionCookie)
       (\<lambda>err. if errors_Is err ErrNotFound then throw err else throw err)
       (\<lambda>session. ret session)"

definition AuthService_AddSession :: "AuthService \<Rightarrow> int32 \<Rightarrow> SIDAndSCRFToken action" where
  "AuthService_AddSession api userID =
     call (ss_AddSession (aus_sessionStore api) userID) (\<lambda>err. throw ErrDB) (\<lambda>tokens. ret tokens)"

definition AuthService_Login :: "auth_libs \<Rightarrow> AuthService \<Rightarrow> User \<Rightarrow> int32 action" where
  "AuthService_Login L api req =
     call (us_GetUserByEmail (aus_userStore api) (usr_Email req))
       (\<lambda>err. if errors_Is err ErrNotFound then throw ErrNotFound else throw ErrDB)
       (\<lambda>user. if \<not> CompareHashAndPassword L (usr_Password user) (usr_Password req)
                then throw ErrInvalidInput else ret (usr_ID user))"

definition AuthService_Logout :: "AuthService \<Rightarrow> string \<Rightarrow> unit action" where
  "AuthService_Logout api session =
     call (ss_DeleteSession (aus_sessionStore api) session) (\<lambda>err. throw ErrDB) (\<lambda>_. ret ())"

text \<open>
  The lookup by email expects an error: when it succeeds, the address is taken.
\<close>

definition AuthService_Register :: "auth_libs \<Rightarrow> AuthService \<Rightarrow> RegisterRequest \<Rightarrow> int32 action" where
  "AuthService_Register L api req =
     (if \<not> ValidateStruct_RegisterRequest L req then throw ErrInvalidInput
      else
      let continue =
        (if rr_Password req \<noteq> rr_ConfirmPassword req then throw ErrInvalidInput
         else call (GenerateFromPassword L (rr_Password req)) (\<lambda>err. throw ErrService)
         (\<lambda>hashedPassword.
            let user = \<lparr>usr_ID = 0, usr_Email = rr_Email req, usr_Password = hashedPassword,
                        usr_Role = []\<rparr>;
                profile = \<lparr>pr_UserID = 0, pr_FirstName = rr_FirstName req,
                  pr_LastName = rr_LastName req, pr_AvatarPath = None, pr_HeaderPath = None,
                  pr_AboutMyself = None, pr_Gender = rr_Gender req, pr_Dob = rr_Dob req,
                  pr_RelationsCount = zero_counts, pr_RelationStatus = []\<rparr>
            in call (us_CreateUser (aus_userStore api) user) (\<lambda>err. throw ErrDB)
         (\<lambda>userID.
            let profile = profile\<lparr>pr_UserID := userID\<rparr>
            in call (pc_CreateProfile (aus_profileService api) (ToProtoProfile profile))
                 (\<lambda>err. throw ErrDB)
         (\<lambda>_.
            let fullName = pr_FirstName profile @ '' '' @ pr_LastName profile
            in call (es_CreateProfile (aus_elasticProfileStore api) fullName userID)
                 (\<lambda>err. throw ErrDB)
         (\<lambda>_. ret userID)))))
      in call (us_GetUserByEmail (aus_userStore api) (rr_Email req))
           (\<lambda>err. if \<not> errors_Is err ErrNotFound then throw ErrDB else continue)
           (\<lambda>_. throw ErrAlreadyExists))"

definition AuthService_GetUserRole :: "AuthService \<Rightarrow> int32 \<Rightarrow> string action" where
  "AuthService_GetUserRole api userID =
     call (us_GetUserByID (aus_userStore api) userID) (\<lambda>err. throw ErrDB)
       (\<lambda>user. ret (usr_Role user))"

definition AuthService_IsUserExists :: "AuthService \<Rightarrow> int32 \<Rightarrow> bool action" where
  "AuthService_IsUserExists api userID =
     call (us_IsUserExists (aus_userStore api) userID) (\<lambda>err. throw ErrDB)
       (\<lambda>isExists. ret isExists)"

subsection \<open>The gRPC handler\<close>

definition GrpcAuthHandler_Register ::
    "auth_libs \<Rightarrow> AuthService \<Rightarrow> pb_RegisterRequest \<Rightarrow> int32 action" where
  "GrpcAuthHandler_Register L ser m =
     (let req = ProtoToRegisterRequest m
      in call (AuthService_Register L ser req) (\<lambda>err. throw (ToGrpcError err))
           (\<lambda>userID. ret userID))"

definition GrpcAuthHandler_Login ::
    "auth_libs \<Rightarrow> AuthService \<Rightarrow> string \<Rightarrow> string \<Rightarrow> int32 action" where
  "GrpcAuthHandler_Login L ser email password =
     (let req = \<lparr>usr_ID = 0, usr_Email = email, usr_Password = password, usr_Role = []\<rparr>
      in call (AuthService_Login L ser req) (\<lambda>err. throw (ToGrpcError err))
           (\<lambda>userID. ret userID))"

definition GrpcAuthHandler_Logout :: "AuthService \<Rightarrow> string \<Rightarrow> unit action" where
  "GrpcAuthHandler_Logout ser sessionCookie =
     call (AuthService_Logout ser sessionCookie) (\<lambda>err. throw (ToGrpcError err)) (\<lambda>_. ret ())"

definition GrpcAuthHandler_IsLoggedIn :: "AuthService \<Rightarrow> string \<Rightarrow> pb_SessionResponse action" where
  "GrpcAuthHandler_IsLoggedIn ser sessionCookie =
     call (AuthService_IsLoggedIn ser sessionCookie) (\<lambda>err. throw (ToGrpcError err))
       (\<lambda>session. ret \<lparr>pb_UserId = se_UserID session, pb_CsrfToken = se_CSRFToken session\<rparr>)"

definition GrpcAuthHandler_AddSession :: "AuthService \<Rightarrow> int32 \<Rightarrow> pb_SIDAndCSRFToken action" where
  "GrpcAuthHandler_AddSession ser userID =
     call (AuthService_AddSession ser userID) (\<lambda>err. throw (ToGrpcError err))
       (\<lambda>sidAndCSRF. ret \<lparr>pb_Sid = st_SID sidAndCSRF, pb_Csrf = st_CSRFToken sidAndCSRF\<rparr>)"

definition GrpcAuthHandler_GetUserRole :: "AuthService \<Rightarrow> int32 \<Rightarrow> string action" where
  "GrpcAuthHandler_GetUserRole ser userID =
     call (AuthService_GetUserRole ser userID) (\<lambda>err. throw (ToGrpcError err)) (\<lambda>role. ret role)"

definition GrpcAuthHandler_IsUserExists :: "AuthService \<Rightarrow> int32 \<Rightarrow> bool action" where
  "GrpcAuthHandler_IsUserExists ser userID =
     call (AuthService_IsUserExists ser userID) (\<lambda>err. throw (ToGrpcError err))
       (\<lambda>exists. ret exists)"

text \<open>The generated client, connected to a server with this handler.\<close>

definition auth_client :: "auth_libs \<Rightarrow> AuthService \<Rightarrow> AuthServiceClient" where
  "auth_client L ser =
     \<lparr>ac_Register = (\<lambda>m. grpc_call (GrpcAuthHandler_Register L ser m)),
      ac_Login = (\<lambda>e p. grpc_call (GrpcAuthHandler_Login L ser e p)),
      ac_Logout = (\<lambda>c. grpc_call (GrpcAuthHandler_Logout ser c)),
      ac_IsLoggedIn = (\<lambda>c. grpc_call (GrpcAuthHandler_IsLoggedIn ser c)),
      ac_AddSession = (\<lambda>i. grpc_call (GrpcAuthHandler_AddSession ser i)),
      ac_GetUserRole = (\<lambda>i. grpc_call (GrpcAuthHandler_GetUserRole ser i)),
      ac_IsUserExists = (\<lambda>i. grpc_call (GrpcAuthHandler_IsUserExists ser i))\<rparr>"

subsection \<open>What the service promises\<close>

text \<open>
  \<open>account_service\<close> is the service over any user store and session store that keep their contracts,
  with a profile client and a search index that leave the registered users alone.
\<close>

definition registers :: "auth_libs \<Rightarrow> RegisterRequest \<Rightarrow> User set \<Rightarrow> int32 \<Rightarrow> User set \<Rightarrow> bool" where
  "registers L req U i U' \<longleftrightarrow>
     (\<forall>v \<in> U. usr_ID v \<noteq> i \<and> usr_Email v \<noteq> rr_Email req) \<and>
     (\<exists>v. U' = insert v U \<and> usr_ID v = i \<and> usr_Email v = rr_Email req \<and>
          CompareHashAndPassword L (usr_Password v) (rr_Password req))"

definition unique_accounts :: "User set \<Rightarrow> bool" where
  "unique_accounts U \<longleftrightarrow> inj_on usr_ID U \<and> inj_on usr_Email U"

lemma registers_unique: "registers L req U i U' \<Longrightarrow> unique_accounts U \<Longrightarrow> unique_accounts U'"
  by (auto simp: registers_def unique_accounts_def inj_on_def)

locale account_service =
  users: user_store "aus_userStore api" uview +
  sessions: session_store "aus_sessionStore api" sview stored
  for api :: AuthService and uview :: "world \<Rightarrow> User set"
    and sview :: "world \<Rightarrow> string \<Rightarrow> Session option" and stored :: "Session \<Rightarrow> Session option" +
  assumes uview_entropy: "uview (w\<lparr>entropy := g\<rparr>) = uview w"
    and profile_client: "pc_CreateProfile (aus_profileService api) p w = (rp, w') \<Longrightarrow>
      rp \<noteq> Panic \<and> uview w' = uview w"
    and profile_index: "es_CreateProfile (aus_elasticProfileStore api) name i w = (re, w') \<Longrightarrow>
      re \<noteq> Panic \<and> uview w' = uview w"
begin

text \<open>Logging in reads only; it succeeds exactly for a registered pair of email and password.\<close>

lemma Login_result:
  assumes "AuthService_Login L api req w = (r, w')"
  shows "quiet w w' \<and>
    (case r of
       Ret i \<Rightarrow> (\<exists>v \<in> uview w. usr_ID v = i \<and> usr_Email v = usr_Email req \<and>
                  CompareHashAndPassword L (usr_Password v) (usr_Password req))
     | Fail e \<Rightarrow> (e = ErrNotFound \<and> (\<forall>v \<in> uview w. usr_Email v \<noteq> usr_Email req)) \<or>
         (e = ErrInvalidInput \<and> (\<exists>v \<in> uview w. usr_Email v = usr_Email req \<and>
            \<not> CompareHashAndPassword L (usr_Password v) (usr_Password req))) \<or> e = ErrDB
     | Panic \<Rightarrow> False)"
proof -
  obtain r1 w1 where g: "us_GetUserByEmail (aus_userStore api) (usr_Email req) w = (r1, w1)"
    by fastforce
  show ?thesis
    using assms users.by_email [OF g]
    by (auto simp: AuthService_Login_def call_def g throw_def ret_def same_account_def
        split: res.splits if_splits)
qed

lemma uview_bcrypt:
  assumes "bcrypt_contract L" "GenerateFromPassword L pw w = (r, w')"
  shows "uview w' = uview w" "r \<noteq> Panic" "r = Ret h \<Longrightarrow> CompareHashAndPassword L h pw"
proof -
  obtain g fs where w': "w' = (w\<lparr>entropy := g\<rparr>)\<lparr>faults := fs\<rparr>"
    using assms unfolding bcrypt_contract_def by blast
  have "quiet (w\<lparr>entropy := g\<rparr>) w'" unfolding w' quiet_def by blast
  then show "uview w' = uview w" using users.view_quiet uview_entropy by metis
  show "r \<noteq> Panic" "r = Ret h \<Longrightarrow> CompareHashAndPassword L h pw"
    using assms unfolding bcrypt_contract_def by blast+
qed

text \<open>
  Registration adds one account or none. An account is left behind only when a later step, the
  profile or the search index, failed: the caller is then told ErrDB.
\<close>

lemma Register_result:
  assumes "AuthService_Register L api req w = (r, w')" and L: "bcrypt_contract L"
  shows "case r of
       Ret i \<Rightarrow> ValidateStruct_RegisterRequest L req \<and> rr_Password req = rr_ConfirmPassword req \<and>
         registers L req (uview w) i (uview w')
     | Fail e \<Rightarrow>
         (e = ErrInvalidInput \<and> uview w' = uview w \<and>
            (\<not> ValidateStruct_RegisterRequest L req \<or> rr_Password req \<noteq> rr_ConfirmPassword req)) \<or>
         (e = ErrAlreadyExists \<and> uview w' = uview w \<and>
            (\<exists>v \<in> uview w. usr_Email v = rr_Email req)) \<or>
         (e = ErrService \<and> uview w' = uview w) \<or>
         (e = ErrDB \<and> (uview w' = uview w \<or> (\<exists>i. registers L req (uview w) i (uview w'))))
     | Panic \<Rightarrow> False"
proof (cases "ValidateStruct_RegisterRequest L req")
  case False
  then show ?thesis using assms(1) by (auto simp: AuthService_Register_def throw_def)
next
  case valid: True
  obtain r1 w1 where g: "us_GetUserByEmail (aus_userStore api) (rr_Email req) w = (r1, w1)"
    by fastforce
  have u1: "uview w1 = uview w"
    using users.by_email [OF g] users.view_quiet by blast
  show ?thesis
  proof (cases "\<exists>e. r1 = Fail e \<and> errors_Is e ErrNotFound \<and> rr_Password req = rr_ConfirmPassword req")
    case False
    then show ?thesis
      using assms(1) users.by_email [OF g] u1 valid
      by (auto simp: AuthService_Register_def call_def g throw_def same_account_def Let_def
          split: res.splits if_splits)
  next
    case True
    then obtain e1 where r1: "r1 = Fail e1" "errors_Is e1 ErrNotFound"
      and pw: "rr_Password req = rr_ConfirmPassword req" by blast
    obtain r2 w2 where h: "GenerateFromPassword L (rr_Password req) w1 = (r2, w2)" by fastforce
    note H = uview_bcrypt [OF L h]
    show ?thesis
    proof (cases r2)
      case (Ret hash)
      let ?user = "\<lparr>usr_ID = 0, usr_Email = rr_Email req, usr_Password = hash, usr_Role = []\<rparr>"
      obtain r3 w3 where c: "us_CreateUser (aus_userStore api) ?user w2 = (r3, w3)" by fastforce
      show ?thesis
      proof (cases r3)
        case c3: (Ret i)
        obtain v where v: "same_account v (?user\<lparr>usr_ID := i\<rparr>)" "uview w3 = insert v (uview w2)"
          and fresh: "\<forall>v \<in> uview w2. usr_ID v \<noteq> i \<and> usr_Email v \<noteq> rr_Email req"
          using users.create [OF c] c3 by auto
        have new: "registers L req (uview w) i (uview w3)"
          unfolding registers_def
        proof (intro conjI exI [of _ v])
          show "\<forall>v \<in> uview w. usr_ID v \<noteq> i \<and> usr_Email v \<noteq> rr_Email req"
            using fresh H(1) u1 by simp
        qed (use v H(1) H(3) [OF Ret] u1 in \<open>auto simp: same_account_def\<close>)
        let ?p = "\<lparr>pr_UserID = i, pr_FirstName = rr_FirstName req, pr_LastName = rr_LastName req,
          pr_AvatarPath = None, pr_HeaderPath = None, pr_AboutMyself = None,
          pr_Gender = rr_Gender req, pr_Dob = rr_Dob req, pr_RelationsCount = zero_counts,
          pr_RelationStatus = []\<rparr>"
        obtain r4 w4 where p: "pc_CreateProfile (aus_profileService api) (ToProtoProfile ?p) w3
            = (r4, w4)" by fastforce
        obtain r5 w5 where es: "es_CreateProfile (aus_elasticProfileStore api)
            (rr_FirstName req @ '' '' @ rr_LastName req) i w4 = (r5, w5)" by fastforce
        have "uview w4 = uview w3" "r4 \<noteq> Panic" "uview w5 = uview w3" "r5 \<noteq> Panic"
          using profile_client [OF p] profile_index [OF es] by auto
        then show ?thesis
          using assms(1) valid pw [symmetric] new r1 Ret c3 c p es
          by (auto simp: AuthService_Register_def call_def g h throw_def ret_def Let_def
              split: res.splits)
      qed (use assms(1) valid pw [symmetric] r1 Ret c users.create [OF c] H u1 in
            \<open>auto simp: AuthService_Register_def call_def g h throw_def Let_def\<close>)
    qed (use assms(1) valid pw [symmetric] r1 H u1 in
          \<open>auto simp: AuthService_Register_def call_def g h throw_def Let_def\<close>)
  qed
qed

text \<open>A registered user can log in, at once or in any later world with the same accounts.\<close>

lemma Login_after_Register:
  assumes L: "bcrypt_contract L"
    and R: "AuthService_Register L api req w = (Ret i, w1)"
    and "uview w2 = uview w1"
    and I: "AuthService_Login L api u w2 = (r, w3)"
    and u: "usr_Email u = rr_Email req" "usr_Password u = rr_Password req"
  shows "r = Ret i \<or> r = Fail ErrDB"
proof -
  from Register_result [OF R L] have reg: "registers L req (uview w) i (uview w2)"
    using assms(3) by simp
  then have only: "usr_ID v = i \<and> CompareHashAndPassword L (usr_Password v) (rr_Password req)"
    if "v \<in> uview w2" "usr_Email v = rr_Email req" for v
    using that by (auto simp: registers_def)
  have some: "\<exists>v \<in> uview w2. usr_Email v = rr_Email req"
    using reg by (auto simp: registers_def)
  show ?thesis
    using Login_result [OF I] only some u by (auto split: res.splits)
qed

text \<open>A new session answers to its id; a deleted one to nothing.\<close>

lemma IsLoggedIn_result:
  assumes "AuthService_IsLoggedIn api sid w = (r, w')"
  shows "quiet w w' \<and> (case r of Ret s \<Rightarrow> sview w sid = Some s
     | Fail e \<Rightarrow> errors_Is e ErrNotFound \<longrightarrow> sview w sid = None | Panic \<Rightarrow> False)"
proof -
  obtain r1 w1 where g: "ss_GetSessionBySessionID (aus_sessionStore api) sid w = (r1, w1)"
    by fastforce
  show ?thesis
    using assms sessions.lookup [OF g]
    by (auto simp: AuthService_IsLoggedIn_def call_def g throw_def ret_def split: res.splits)
qed

lemma AddSession_result:
  assumes "AuthService_AddSession api u w = (r, w')"
  shows "case r of
       Ret t \<Rightarrow> sview w' = (sview w)
         (st_SID t := stored \<lparr>se_UserID = u, se_CSRFToken = st_CSRFToken t\<rparr>)
     | Fail e \<Rightarrow> e = ErrDB \<and> sview w' = sview w | Panic \<Rightarrow> False"
proof -
  obtain r1 w1 where g: "ss_AddSession (aus_sessionStore api) u w = (r1, w1)" by fastforce
  show ?thesis
    using assms sessions.add [OF g]
    by (auto simp: AuthService_AddSession_def call_def g throw_def ret_def split: res.splits)
qed

lemma Logout_result:
  assumes "AuthService_Logout api sid w = (r, w')"
  shows "case r of Ret _ \<Rightarrow> sview w' = (sview w)(sid := None)
     | Fail e \<Rightarrow> e = ErrDB \<and> sview w' = sview w | Panic \<Rightarrow> False"
proof -
  obtain r1 w1 where g: "ss_DeleteSession (aus_sessionStore api) sid w = (r1, w1)" by fastforce
  show ?thesis
    using assms sessions.remove [OF g]
    by (auto simp: AuthService_Logout_def call_def g throw_def ret_def split: res.splits)
qed

text \<open>The gRPC client of the service: an error arrives as a status.\<close>

lemma client_IsLoggedIn:
  assumes "ac_IsLoggedIn (auth_client L api) sid w = (r, w')"
  shows "quiet w w' \<and> (case r of
       Ret m \<Rightarrow> sview w sid = Some \<lparr>se_UserID = pb_UserId m, se_CSRFToken = pb_CsrfToken m\<rparr>
     | Fail e \<Rightarrow> True | Panic \<Rightarrow> False)"
proof -
  obtain r1 w1 where g: "AuthService_IsLoggedIn api sid (tick w) = (r1, w1)" by fastforce
  have "sview (tick w) = sview w" by (rule sessions.view_quiet [OF quiet_tick])
  then show ?thesis
    using assms IsLoggedIn_result [OF g] quiet_trans [OF quiet_tick]
    by (auto simp: auth_client_def grpc_call_def external_def GrpcAuthHandler_IsLoggedIn_def
        call_def g throw_def ret_def split: option.splits res.splits)
qed

lemma client_IsUserExists:
  assumes "ac_IsUserExists (auth_client L api) i w = (r, w')"
  shows "quiet w w' \<and> (case r of Ret b \<Rightarrow> b \<longleftrightarrow> (\<exists>v \<in> uview w. usr_ID v = i)
     | Fail e \<Rightarrow> True | Panic \<Rightarrow> False)"
proof -
  obtain r1 w1 where g: "us_IsUserExists (aus_userStore api) i (tick w) = (r1, w1)" by fastforce
  have "uview (tick w) = uview w" by (rule users.view_quiet [OF quiet_tick])
  then show ?thesis
    using assms users.exists [OF g] quiet_trans [OF quiet_tick]
    by (auto simp: auth_client_def grpc_call_def external_def GrpcAuthHandler_IsUserExists_def
        AuthService_IsUserExists_def call_def g throw_def ret_def split: option.splits res.splits)
qed

lemma client_Login:
  assumes "ac_Login (auth_client L api) email pw w = (r, w')"
  shows "quiet w w' \<and> (case r of
       Ret i \<Rightarrow> \<exists>v \<in> uview w. usr_ID v = i \<and> usr_Email v = email \<and>
         CompareHashAndPassword L (usr_Password v) pw
     | Fail e \<Rightarrow> True | Panic \<Rightarrow> False)"
proof -
  let ?req = "\<lparr>usr_ID = 0, usr_Email = email, usr_Password = pw, usr_Role = []\<rparr>"
  obtain r1 w1 where g: "AuthService_Login L api ?req (tick w) = (r1, w1)" by fastforce
  have "uview (tick w) = uview w" by (rule users.view_quiet [OF quiet_tick])
  then show ?thesis
    using assms Login_result [OF g] quiet_trans [OF quiet_tick]
    by (auto simp: auth_client_def grpc_call_def external_def GrpcAuthHandler_Login_def Let_def
        call_def g throw_def ret_def split: option.splits res.splits)
qed

lemma client_AddSession:
  assumes "ac_AddSession (auth_client L api) u w = (r, w')"
  shows "case r of
       Ret m \<Rightarrow> sview w' = (sview w)
         (pb_Sid m := stored \<lparr>se_UserID = u, se_CSRFToken = pb_Csrf m\<rparr>)
     | Fail e \<Rightarrow> sview w' = sview w | Panic \<Rightarrow> False"
proof -
  obtain r1 w1 where g: "AuthService_AddSession api u (tick w) = (r1, w1)" by fastforce
  have "sview (tick w) = sview w" by (rule sessions.view_quiet [OF quiet_tick])
  then show ?thesis
    using assms AddSession_result [OF g]
    by (auto simp: auth_client_def grpc_call_def external_def GrpcAuthHandler_AddSession_def
        call_def g throw_def ret_def split: option.splits res.splits)
qed

lemma client_Logout:
  assumes "ac_Logout (auth_client L api) sid w = (r, w')"
  shows "case r of Ret _ \<Rightarrow> sview w' = (sview w)(sid := None)
     | Fail e \<Rightarrow> sview w' = sview w | Panic \<Rightarrow> False"
proof -
  obtain r1 w1 where g: "AuthService_Logout api sid (tick w) = (r1, w1)" by fastforce
  have "sview (tick w) = sview w" by (rule sessions.view_quiet [OF quiet_tick])
  then show ?thesis
    using assms Logout_result [OF g]
    by (auto simp: auth_client_def grpc_call_def external_def GrpcAuthHandler_Logout_def
        call_def g throw_def ret_def split: option.splits res.splits)
qed

end

end
