(* ===== verification/Content_Domain.thy ===== *)
theory Content_Domain
  imports Domain
begin

text \<open>
  Posts, comments and communities: the structs of src/domain/post.go, comment.go and community.go
  that the services use, and the interfaces of their stores. A post's \<open>uint\<close> is 64 bits wide.
\<close>

subsection \<open>Posts\<close>

record Post =
  post_ID :: go_uint
  post_AuthorID :: go_uint
  post_CommunityID :: "int32 option"
  post_Text :: string
  post_CreatedAt :: time
  post_UpdatedAt :: time
  post_Attachments :: "string list"
  post_Photos :: "string list"
  post_LikeCount :: int32
  post_IsLiked :: bool

record PostView =
  pv_ID :: go_uint
  pv_AuthorID :: go_uint
  pv_AuthorName :: string
  pv_AuthorAvatar :: "string option"
  pv_CommunityID :: "int32 option"
  pv_CommunityName :: "string option"
  pv_CommunityAvatar :: "string option"
  pv_Text :: string
  pv_Attachments :: "string list"
  pv_Photos :: "string list"
  pv_LikeCount :: int32
  pv_CommentsCount :: int32
  pv_IsLiked :: bool
  pv_CreatedAt :: time
  pv_IsCommunityPost :: bool

record PostDB =
  pdb_ID :: go_uint
  pdb_AuthorID :: go_uint
  pdb_CommunityID :: "int32 option"
  pdb_Text :: string
  pdb_CreatedAt :: time
  pdb_CommunityName :: "string option"
  pdb_CommunityAvatar :: "string option"
  pdb_LikeCount :: int32
  pdb_CommentsCount :: int32
  pdb_IsLiked :: bool
  pdb_Attachments :: "string list"
  pdb_Photos :: "string list"

text \<open>
  \<open>CreatePost\<close> and \<open>UpdatePost\<close> take a pointer and fill in what the database assigned: here they
  return the post.
\<close>

record PostStore =
  pos_PostsPaginatedList :: "int32 \<Rightarrow> int32 \<Rightarrow> int32 \<Rightarrow> PostDB list action"
  pos_GetPostByID :: "int32 \<Rightarrow> go_uint \<Rightarrow> PostDB action"
  pos_CreatePost :: "Post \<Rightarrow> Post action"
  pos_UpdatePost :: "Post \<Rightarrow> Post action"
  pos_DeletePost :: "go_uint \<Rightarrow> go_uint \<Rightarrow> unit action"
  pos_GetPostsByUser :: "int32 \<Rightarrow> go_uint \<Rightarrow> int32 \<Rightarrow> int32 \<Rightarrow> PostDB list action"
  pos_GetCommunityPosts :: "int32 \<Rightarrow> int32 \<Rightarrow> int32 \<Rightarrow> int32 \<Rightarrow> PostDB list action"
  pos_UpdateLikeOnPostByUserID :: "int32 \<Rightarrow> int32 \<Rightarrow> unit action"

subsection \<open>Comments\<close>

record Comment =
  c_ID :: int32
  c_PostID :: int32
  c_AuthorID :: int32
  c_ParentID :: "int32 option"
  c_Text :: string
  c_CreatedAt :: time
  c_UpdatedAt :: time

record CommentView =
  cv_ID :: int32
  cv_PostID :: int32
  cv_AuthorID :: int32
  cv_AuthorName :: string
  cv_AuthorAvatar :: "string option"
  cv_ParentID :: "int32 option"
  cv_Text :: string
  cv_CreatedAt :: time
  cv_UpdatedAt :: time

record CommentCreateRequest =
  cr_PostID :: int32
  cr_Text :: string

record CommentStore =
  cs_CreateComment :: "Comment \<Rightarrow> Comment action"
  cs_GetCommentByID :: "int32 \<Rightarrow> Comment action"
  cs_GetCommentsByPost :: "int32 \<Rightarrow> int32 \<Rightarrow> int32 \<Rightarrow> Comment list action"
  cs_UpdateComment :: "Comment \<Rightarrow> Comment action"
  cs_DeleteComment :: "int32 \<Rightarrow> int32 \<Rightarrow> unit action"
  cs_GetPostCommentsCount :: "int32 \<Rightarrow> int32 action"

subsection \<open>Communities\<close>

record Community =
  com_ID :: int32
  com_Name :: string
  com_Description :: string
  com_CreatorID :: int32
  com_AvatarPath :: "string option"
  com_CoverPath :: "string option"
  com_CreatedAt :: time
  com_UpdatedAt :: time
  com_SubscribersCount :: int32

record ShortCommunity =
  sc_ID :: int32
  sc_Name :: string
  sc_Description :: string
  sc_AvatarPath :: "string option"
  sc_SubscribersCount :: int32

record CommunityForMyCommunity =
  mc_ID :: int32
  mc_Name :: string
  mc_AvatarPath :: "string option"

record CommunityForView =
  vc_ID :: int32
  vc_Name :: string
  vc_Description :: string
  vc_CreatorID :: int32
  vc_AvatarPath :: "string option"
  vc_CoverPath :: "string option"
  vc_CreatedAt :: time
  vc_SubscribersCount :: int32
  vc_IsSubscribed :: bool

record CommunitySubscriber =
  cu_UserID :: int32
  cu_FullName :: string
  cu_AvatarPath :: "string option"

text \<open>A \<open>CommunityType\<close> is a string; the constants name three of them.\<close>

type_synonym CommunityType = string

definition Subscriber :: CommunityType where "Subscriber = ''subscriber''"
definition Recommended :: CommunityType where "Recommended = ''recommended''"
definition Owned :: CommunityType where "Owned = ''owned''"

record CommunityRequest =
  cq_Name :: string
  cq_Description :: string

record ElasticCommunityStore =
  ecs_CreateCommunity :: "string \<Rightarrow> int32 \<Rightarrow> unit action"
  ecs_UpdateCommunity :: "string \<Rightarrow> int32 \<Rightarrow> unit action"
  ecs_DeleteCommunity :: "int32 \<Rightarrow> unit action"
  ecs_SearchCommunityIDsByName ::
    "string \<Rightarrow> int32 list \<Rightarrow> bool \<Rightarrow> int32 \<Rightarrow> int32 \<Rightarrow> int32 list action"

record CommunityStore =
  cms_CreateCommunity :: "Community \<Rightarrow> Community action"
  cms_UpdateCommunity :: "Community \<Rightarrow> Community action"
  cms_DeleteCommunity :: "int32 \<Rightarrow> int32 \<Rightarrow> unit action"
  cms_GetCommunityByID :: "int32 \<Rightarrow> Community action"
  cms_GetUserCommunities :: "int32 \<Rightarrow> int32 \<Rightarrow> int32 \<Rightarrow> ShortCommunity list action"
  cms_GetOtherCommunities :: "int32 \<Rightarrow> int32 \<Rightarrow> int32 \<Rightarrow> ShortCommunity list action"
  cms_GetUserCommunitiesByID :: "int32 \<Rightarrow> int32 \<Rightarrow> int32 \<Rightarrow> ShortCommunity list action"
  cms_GetUserSubscribedCommunityIDs :: "int32 \<Rightarrow> int32 list action"
  cms_GetCreatedCommunities :: "int32 \<Rightarrow> int32 \<Rightarrow> int32 \<Rightarrow> CommunityForMyCommunity list action"
  cms_GetCommunitySubscribers :: "int32 \<Rightarrow> int32 \<Rightarrow> int32 \<Rightarrow> int32 list action"
  cms_Subscribe :: "int32 \<Rightarrow> int32 \<Rightarrow> unit action"
  cms_Unsubscribe :: "int32 \<Rightarrow> int32 \<Rightarrow> unit action"
  cms_IsSubscribed :: "int32 \<Rightarrow> int32 \<Rightarrow> bool action"
  cms_GetCommunitiesByIDs :: "int32 list \<Rightarrow> ShortCommunity list action"

end
