(* ===== verification/Elastic_Community_Store.thy ===== *)
theory Elastic_Community_Store
  imports Elastic_Profile_Store Content_Domain
begin

text \<open>
  The Elasticsearch index of community names (src/internal/repository/dbElastic/community.go): one
  document per community, under the decimal text of its id. The transliteration \<open>unidecode\<close> and the
  answer \<open>engine\<close> of the search engine to a query are parameters, as for profiles.
\<close>

record es_match_query =
  mq_must :: "string \<times> string list \<times> string"
  mq_filter :: "int32 list option"
  mq_must_not :: "int32 list option"

type_synonym es_community_engine =
  "(string \<Rightarrow> CommunityDocument option) \<Rightarrow> es_match_query \<Rightarrow> int32 \<Rightarrow> int32 \<Rightarrow>
   CommunityDocument list option"

definition ElasticCommunityStore_CreateCommunity ::
    "(string \<Rightarrow> string) \<Rightarrow> string \<Rightarrow> int32 \<Rightarrow> unit action" where
  "ElasticCommunityStore_CreateCommunity unidecode name communityID =
     (let translit = unidecode name;
          doc = \<lparr>cd_CommunityID = communityID, cd_CommunityName = name,
                 cd_CommunityNameTranslit = translit\<rparr>
      in es_request ''error indexing community: '' (\<lambda>w. (Ret (),
           w\<lparr>community_index := (community_index w)(strconv_Itoa (sint communityID) \<mapsto> doc)\<rparr>)))"

text \<open>A partial update of a document that is not there is refused.\<close>

definition ElasticCommunityStore_UpdateCommunity ::
    "(string \<Rightarrow> string) \<Rightarrow> string \<Rightarrow> int32 \<Rightarrow> unit action" where
  "ElasticCommunityStore_UpdateCommunity unidecode name communityID =
     (let translit = unidecode name; key = strconv_Itoa (sint communityID)
      in es_request ''error updating community: '' (\<lambda>w.
           (case community_index w key of
              None \<Rightarrow> (Fail (Plain ''error updating community: document missing''), w)
            | Some doc \<Rightarrow> (Ret (), w\<lparr>community_index := (community_index w)(key \<mapsto>
                doc\<lparr>cd_CommunityName := name, cd_CommunityNameTranslit := translit\<rparr>)\<rparr>))))"

definition ElasticCommunityStore_DeleteCommunity :: "int32 \<Rightarrow> unit action" where
  "ElasticCommunityStore_DeleteCommunity communityID =
     (let key = strconv_Itoa (sint communityID)
      in es_request ''error deleting community: '' (\<lambda>w.
           (case community_index w key of
              None \<Rightarrow> (Fail (Plain ''community not found''), w)
            | Some doc \<Rightarrow> (Ret (), w\<lparr>community_index := (community_index w)(key := None)\<rparr>))))"

definition community_query :: "string \<Rightarrow> int32 list \<Rightarrow> bool \<Rightarrow> es_match_query" where
  "community_query name filterIDs isTerms =
     \<lparr>mq_must = (name, [''community_name'', ''community_name_translit''], ''AUTO''),
      mq_filter = (if filterIDs \<noteq> [] \<and> isTerms then Some filterIDs else None),
      mq_must_not = (if filterIDs \<noteq> [] \<and> \<not> isTerms then Some filterIDs else None)\<rparr>"

definition ElasticCommunityStore_SearchCommunityIDsByName ::
    "es_community_engine \<Rightarrow> string \<Rightarrow> int32 list \<Rightarrow> bool \<Rightarrow> int32 \<Rightarrow> int32 \<Rightarrow> int32 list action" where
  "ElasticCommunityStore_SearchCommunityIDsByName engine name filterIDs isTerms limit offset =
     (if isTerms \<and> filterIDs = [] then ret []
      else call (external Plain (\<lambda>w. (Ret (engine (community_index w)
               (community_query name filterIDs isTerms) limit offset), w))) throw
      (\<lambda>res. let hits = (case res of None \<Rightarrow> [] | Some hits \<Rightarrow> hits)
        in ret (map cd_CommunityID hits)))"

definition ElasticCommunityStore_of ::
    "(string \<Rightarrow> string) \<Rightarrow> es_community_engine \<Rightarrow> ElasticCommunityStore" where
  "ElasticCommunityStore_of unidecode engine =
     \<lparr>ecs_CreateCommunity = ElasticCommunityStore_CreateCommunity unidecode,
      ecs_UpdateCommunity = ElasticCommunityStore_UpdateCommunity unidecode,
      ecs_DeleteCommunity = ElasticCommunityStore_DeleteCommunity,
      ecs_SearchCommunityIDsByName = ElasticCommunityStore_SearchCommunityIDsByName engine\<rparr>"

text \<open>
  The documented behaviour of the filters: every hit is a document of the index, meets the \<open>terms\<close>
  filter and no \<open>must_not\<close> clause.
\<close>

definition honours_community_filters :: "es_community_engine \<Rightarrow> bool" where
  "honours_community_filters engine \<longleftrightarrow> (\<forall>docs q size from hits.
     engine docs q size from = Some hits \<longrightarrow>
       (\<forall>h \<in> set hits. h \<in> ran docs \<and>
          (case mq_filter q of None \<Rightarrow> True | Some ids \<Rightarrow> cd_CommunityID h \<in> set ids) \<and>
          (case mq_must_not q of None \<Rightarrow> True | Some ids \<Rightarrow> cd_CommunityID h \<notin> set ids)))"

lemma reads_SearchCommunityIDs [simp, intro]:
  "reads (ElasticCommunityStore_SearchCommunityIDsByName engine name ids isTerms limit offset)"
  by (simp add: ElasticCommunityStore_SearchCommunityIDsByName_def reads_def act split: option.splits)

text \<open>A search with a terms filter finds only communities of the filter, one without none of them.\<close>

lemma community_search_respects_filter:
  assumes "honours_community_filters engine"
    and "ElasticCommunityStore_SearchCommunityIDsByName engine name filterIDs isTerms limit offset w
      = (Ret ids, w')"
  shows "\<forall>i \<in> set ids. if isTerms then i \<in> set filterIDs else i \<notin> set filterIDs"
proof
  fix i assume i: "i \<in> set ids"
  let ?q = "community_query name filterIDs isTerms"
  from assms(2) i have ne: "\<not> (isTerms \<and> filterIDs = [])"
    and "ids = map cd_CommunityID (case engine (community_index w) ?q limit offset of
      None \<Rightarrow> [] | Some hits \<Rightarrow> hits)"
    by (auto simp: ElasticCommunityStore_SearchCommunityIDsByName_def act split: option.splits if_splits)
  with i obtain hits h where "engine (community_index w) ?q limit offset = Some hits"
      "h \<in> set hits" "i = cd_CommunityID h"
    by (auto split: option.splits)
  then have "(case mq_filter ?q of None \<Rightarrow> True | Some ids \<Rightarrow> i \<in> set ids) \<and>
      (case mq_must_not ?q of None \<Rightarrow> True | Some ids \<Rightarrow> i \<notin> set ids)"
    using assms(1) unfolding honours_community_filters_def by blast
  then show "if isTerms then i \<in> set filterIDs else i \<notin> set filterIDs"
    using ne by (cases "filterIDs = []") (auto simp: community_query_def split: if_splits)
qed

end
