(* ===== verification/Processes.thy ===== *)
theory Processes
  imports Friend_Grpc Profile_Service Auth_Service Elastic_Community_Store
begin

text \<open>
  The processes (src/cmd/profile, src/cmd/auth, src/cmd/friend): each \<open>main\<close> builds its service from
  its stores and the clients of the other processes. The third-party functions they rest on are
  the fields of one record.
\<close>

record libraries =
  lib_validProfile :: "Profile \<Rightarrow> bool"
  lib_auth :: auth_libs
  lib_marshalSession :: "Session \<Rightarrow> string"
  lib_unmarshalSession :: "string \<Rightarrow> Session option"
  lib_unidecode :: "string \<Rightarrow> string"
  lib_engine :: es_engine
  lib_communityEngine :: es_community_engine

definition elastic_profiles :: "libraries \<Rightarrow> ElasticProfileStore" where
  "elastic_profiles E = ElasticProfileStore_of (lib_unidecode E) (lib_engine E)"

definition profile_main :: "libraries \<Rightarrow> ProfileService" where
  "profile_main E = \<lparr>prs_profileStore = DBProfileStore, prs_friendStore = DBFriendStore,
     prs_elasticProfileStore = elastic_profiles E\<rparr>"

definition profile_conn :: "libraries \<Rightarrow> ProfileServiceClient" where
  "profile_conn E = profile_client (lib_validProfile E) (profile_main E)"

definition auth_main :: "libraries \<Rightarrow> AuthService" where
  "auth_main E =
     \<lparr>aus_sessionStore = RedisSessionStore (lib_marshalSession E) (lib_unmarshalSession E),
      aus_userStore = DBUserStore, aus_profileService = profile_conn E,
      aus_elasticProfileStore = elastic_profiles E\<rparr>"

definition auth_conn :: "libraries \<Rightarrow> AuthServiceClient" where
  "auth_conn E = auth_client (lib_auth E) (auth_main E)"

definition friend_main :: "libraries \<Rightarrow> FriendService" where
  "friend_main E =
     \<lparr>frs_friendStore = DBFriendStore, frs_authService = auth_conn E,
      frs_elasticProfileStore = elastic_profiles E, frs_profileService = profile_conn E\<rparr>"

definition friend_conn :: "libraries \<Rightarrow> FriendServiceClient" where
  "friend_conn E = friend_client (friend_main E)"

subsection \<open>The contracts hold of the processes\<close>

lemma profile_conn_users:
  assumes "pc_CreateProfile (profile_conn E) p w = (r, w')"
  shows "r \<noteq> Panic \<and> users (db w') = users (db w)"
  using assms
  by (auto simp: profile_conn_def profile_client_def GrpcProfileHandler_CreateProfile_def
      ProfileService_CreateProfile_def profile_main_def DBProfileStore_def
      DBProfileStore_CreateProfile_def insert_profile_def Let_def act
      split: option.splits prod.splits if_splits)

lemma elastic_CreateProfile_users:
  assumes "es_CreateProfile (elastic_profiles E) n i w = (r, w')"
  shows "r \<noteq> Panic \<and> db w' = db w"
  using assms
  by (auto simp: elastic_profiles_def ElasticProfileStore_of_def
      ElasticProfileStore_CreateProfile_def Let_def act split: option.splits)

interpretation accounts: account_service "auth_main E" user_view
    "session_view (lib_unmarshalSession E)"
    "\<lambda>s. lib_unmarshalSession E (lib_marshalSession E s)" for E
proof (intro account_service.intro account_service_axioms.intro)
  show "user_store (aus_userStore (auth_main E)) user_view"
    by (simp add: auth_main_def db_users.user_store_axioms)
  show "session_store (aus_sessionStore (auth_main E)) (session_view (lib_unmarshalSession E))
      (\<lambda>s. lib_unmarshalSession E (lib_marshalSession E s))"
    by (simp add: auth_main_def redis_sessions.session_store_axioms)
  show "user_view (w\<lparr>entropy := g\<rparr>) = user_view w" for w g
    by (simp add: user_view_def)
  show "rp \<noteq> Panic \<and> user_view w' = user_view w"
    if "pc_CreateProfile (aus_profileService (auth_main E)) p w = (rp, w')" for p w rp w'
    using profile_conn_users that by (simp add: auth_main_def user_view_def)
  show "re \<noteq> Panic \<and> user_view w' = user_view w"
    if "es_CreateProfile (aus_elasticProfileStore (auth_main E)) name i w = (re, w')"
    for name i w re w'
    using elastic_CreateProfile_users that by (simp add: auth_main_def user_view_def)
qed

interpretation friendships: friendship_service "friend_main E" friend_view
    "\<lambda>w u. \<exists>v \<in> user_view w. usr_ID v = u" for E
proof (intro friendship_service.intro friendship_service_axioms.intro)
  show "friend_store (frs_friendStore (friend_main E)) friend_view"
    by (simp add: friend_main_def db_friends.friend_store_axioms)
  show "quiet w w' \<and> (case rb of Ret b \<Rightarrow> b = (\<exists>v \<in> user_view w. usr_ID v = u)
      | Fail e \<Rightarrow> True | Panic \<Rightarrow> False)"
    if "ac_IsUserExists (frs_authService (friend_main E)) u w = (rb, w')" for u w rb w'
    using accounts.client_IsUserExists that by (auto simp: friend_main_def auth_conn_def)
qed

subsection \<open>The clients on the stores\<close>

lemma keeps_auth_conn_IsUserExists [wf_intros]: "keeps I (ac_IsUserExists (auth_conn E) u)"
  by (auto simp: auth_conn_def auth_client_def GrpcAuthHandler_IsUserExists_def
      AuthService_IsUserExists_def auth_main_def DBUserStore_def DBUserStore_IsUserExists_def
      intro!: wf_intros)

lemma client_IsLoggedIn_ok:
  assumes "no_faults w" "session_view (lib_unmarshalSession E) w sid = Some s"
  shows "\<exists>w'. ac_IsLoggedIn (auth_conn E) sid w =
     (Ret \<lparr>pb_UserId = se_UserID s, pb_CsrfToken = se_CSRFToken s\<rparr>, w') \<and> quiet w w'"
proof -
  have nf: "next_fault w = None" "next_fault (tick w) = None"
    using assms(1) by simp_all
  obtain data where "redis_live w (''sessions:'' @ sid) = Some data" "lib_unmarshalSession E data = Some s"
    using assms(2) by (auto simp: session_view_def bind_eq_Some_conv)
  then show ?thesis
    using nf quiet_trans [OF quiet_tick quiet_tick]
    by (auto simp: auth_conn_def auth_client_def GrpcAuthHandler_IsLoggedIn_def
        AuthService_IsLoggedIn_def auth_main_def RedisSessionStore_def
        RedisSessionStore_GetSessionBySessionID_def Let_def act)
qed

lemma client_IsLoggedIn_absent:
  assumes "no_faults w" "redis_live w (''sessions:'' @ sid) = None"
  shows "\<exists>w' m. ac_IsLoggedIn (auth_conn E) sid w = (Fail (GrpcStatus Code_NotFound m), w')"
proof -
  have nf: "next_fault w = None" "next_fault (tick w) = None"
    using assms(1) by simp_all
  then show ?thesis
    using assms(2)
    by (auto simp: auth_conn_def auth_client_def GrpcAuthHandler_IsLoggedIn_def
        AuthService_IsLoggedIn_def auth_main_def RedisSessionStore_def
        RedisSessionStore_GetSessionBySessionID_def Let_def act ToGrpcError_def)
qed

lemma GetShortProfile_ids:
  assumes "pc_GetShortProfileByUserIDs (profile_conn E) ids w = (Ret ps, w')"
  shows "pbs_UserID ` set ps \<subseteq> set ids \<and> quiet w w'"
proof -
  have "quiet w w'"
  proof -
    have "reads (pc_GetShortProfileByUserIDs (profile_conn E) ids)"
      by (auto simp: profile_conn_def profile_client_def GrpcProfileHandler_GetShortProfileByUserIDs_def
          ProfileService_GetShortProfileByUserIDs_def profile_main_def DBProfileStore_def
          DBProfileStore_GetShortProfileByUserIDs_def intro!: reads_grpc reads_call)
    then show ?thesis using assms by (rule readsD)
  qed
  moreover have "pbs_UserID ` set ps \<subseteq> set ids"
    using assms
    by (auto simp: profile_conn_def profile_client_def GrpcProfileHandler_GetShortProfileByUserIDs_def
          ProfileService_GetShortProfileByUserIDs_def profile_main_def DBProfileStore_def
          DBProfileStore_GetShortProfileByUserIDs_def act select_profiles_def short_profile_of_def
          ToProtoShortProfileSlice_def ToProtoShortProfile_def dest!: scan_rows_Ret
          split: option.splits prod.splits res.splits if_splits)
  ultimately show ?thesis by blast
qed

end
