(* ===== verification/Chat_Domain.thy ===== *)
theory Chat_Domain
  imports Domain
begin

text \<open>
  Chats, messages, stickers and support applications: the structs of src/domain/chat.go, message.go,
  sticker.go and application.go, and the interfaces of their stores.
\<close>

subsection \<open>Messages\<close>

record Message =
  msg_ID :: int32
  msg_AuthorID :: int32
  msg_ChatID :: int32
  msg_Text :: string
  msg_StickerID :: "int32 option"
  msg_CreatedAt :: time
  msg_Attachments :: "string list"

record MessagesWithAuthors =
  mwa_Messages :: "Message list"
  mwa_Authors :: "int32 \<Rightarrow> ShortProfile option"

record MessageStore =
  mss_CreateMessage :: "Message \<Rightarrow> int32 action"
  mss_GetMessagesByChatId :: "int32 \<Rightarrow> int32 \<Rightarrow> int32 \<Rightarrow> Message list action"
  mss_GetMessageAttachments :: "int32 \<Rightarrow> string list action"
  mss_SaveMessageAttachments :: "int32 \<Rightarrow> string list \<Rightarrow> unit action"
  mss_GetStickerPath :: "int32 \<Rightarrow> string action"

subsection \<open>Chats\<close>

record FullChat =
  fc_ID :: int32
  fc_IsGroup :: bool
  fc_UserIDWith :: "int32 option"
  fc_AvatarPath :: "string option"
  fc_Name :: "string option"
  fc_LastMessage :: Message
  fc_LastMessageAuthor :: ShortProfile
  fc_LastReadMessageID :: int32
  fc_UnreadCounts :: int32

record MemberWithLastReadMessage =
  mr_MemberID :: int32
  mr_LastReadMessageID :: int32
  mr_UnreadCounts :: int32

record ChatStore =
  chs_GetOtherChatMembersIdByAuthorId :: "int32 \<Rightarrow> int32 \<Rightarrow> MemberWithLastReadMessage list action"
  chs_GetOrCreateChatWithUser :: "int32 \<Rightarrow> int32 \<Rightarrow> int32 action"
  chs_IsMemberOfChat :: "int32 \<Rightarrow> int32 \<Rightarrow> bool action"
  chs_IsChatExist :: "int32 \<Rightarrow> bool action"
  chs_GetUserFullChats :: "int32 \<Rightarrow> int32 \<Rightarrow> int32 \<Rightarrow> (FullChat list \<times> int32 list) action"
  chs_GetFullChatByIDAndSenderID :: "int32 \<Rightarrow> int32 \<Rightarrow> (FullChat \<times> int32 list) action"
  chs_UpdateLastReadMessageByUserIDAndChatID :: "int32 \<Rightarrow> int32 \<Rightarrow> int32 \<Rightarrow> unit action"

text \<open>The zero value of a struct, which a map lookup returns for a missing key.\<close>

definition zero_ShortProfile :: ShortProfile where
  "zero_ShortProfile =
     \<lparr>sp_UserID = 0, sp_FullName = [], sp_AvatarPath = None, sp_Dob = zero_time\<rparr>"

definition profile_at :: "(int32 \<Rightarrow> ShortProfile option) \<Rightarrow> int32 \<Rightarrow> ShortProfile" where
  "profile_at m i = (case m i of None \<Rightarrow> zero_ShortProfile | Some p \<Rightarrow> p)"

subsection \<open>Stickers\<close>

record StickerPack =
  spk_ID :: int32
  spk_Name :: string
  spk_CoverPath :: string

record Sticker =
  stk_ID :: int32
  stk_PackID :: int32
  stk_FilePath :: string
  stk_Position :: int32

record StickerStore =
  sks_GetStickerPacks :: "StickerPack list action"
  sks_GetStickersByPackID :: "int32 \<Rightarrow> Sticker list action"
  sks_GetStickerByID :: "int32 \<Rightarrow> Sticker action"

subsection \<open>Support applications\<close>

record Application =
  app_ID :: int32
  app_Status :: string
  app_Category :: string
  app_Text :: string
  app_AuthorID :: "string option"
  app_CreatedAt :: time
  app_UpdatedAt :: time
  app_FullName :: string
  app_EmailReg :: string
  app_EmailFeedBack :: string

text \<open>The store reads the request's \<open>TempSessionInfo\<close> from its context: here an argument.\<close>

record ApplicationStore =
  aps_GetApplicationsByUser ::
    "TempSessionInfo option \<Rightarrow> int32 \<Rightarrow> int32 \<Rightarrow> Application list action"
  aps_GetApplications :: "int32 \<Rightarrow> int32 \<Rightarrow> Application list action"
  aps_UpdateApplicationText :: "int32 \<Rightarrow> string \<Rightarrow> unit action"
  aps_UpdateApplicationStatus :: "int32 \<Rightarrow> string \<Rightarrow> unit action"
  aps_CreateApplication :: "TempSessionInfo option \<Rightarrow> Application \<Rightarrow> int32 action"
  aps_MergeTempSession :: "TempSessionInfo option \<Rightarrow> unit action"

end
