(* ===== verification/Http.thy ===== *)
theory Http
  imports Processes Content_Domain Chat_Domain
begin

text \<open>
  Requests, responses and the helpers of the handlers (src/internal/handler/JSONHelper.go). A
  request carries what the handlers read of it: method, path, path variables, query, headers,
  cookies, body, multipart form (\<open>None\<close> when the body is not one), and the user id and the
  \<open>TempSessionInfo\<close> that middleware put into its context. A response is its status, the
  cookies it sets and its body before JSON encoding; \<open>Upgraded u\<close> stands for a connection that was
  taken over and given to the hub as the client of \<open>u\<close>.

  Decoding of query strings (gorilla/schema), JSON bodies (easyjson) and UUIDs (google/uuid, to their
  canonical text) is third-party code: the fields of \<open>http_libs\<close>, with \<open>None\<close> for an error.
\<close>

record multipart_form =
  mp_Value :: "string \<Rightarrow> string"
  mp_File :: "string \<Rightarrow> File list"

record http_request =
  rq_Method :: string
  rq_Path :: string
  rq_Vars :: "string \<Rightarrow> string option"
  rq_Query :: "string \<Rightarrow> string list"
  rq_Header :: "string \<Rightarrow> string"
  rq_Cookies :: "(string \<times> string) list"
  rq_Body :: string
  rq_Multipart :: "multipart_form option"
  rq_UserID :: "int32 option"
  rq_TempSession :: "TempSessionInfo option"

record http_cookie =
  ck_Name :: string
  ck_Value :: string
  ck_Path :: string
  ck_Expires :: time
  ck_HttpOnly :: bool

datatype payload =
  JSONResponse string int32
| ShortProfileList "ShortProfile list"
| FriendshipStatusResponse FriendshipStatus
| CountsPayload UserRelationsCounts
| ProfilePayload Profile
| IsLoggedInResponse int32 string
| CommentPayload CommentView
| CommentResponse string CommentView
| CommentViews "CommentView list"
| CommentCountResponse int32
| PostPayload PostView
| PostViewList "PostView list"
| PostCreateResponse string Post
| CommunityResponse string Community
| CommunityPayload CommunityForView
| ShortCommunityList "ShortCommunity list"
| CommunityForMyCommunityList "CommunityForMyCommunity list"
| CommunitySubscriberList "CommunitySubscriber list"
| Int32List "int32 list"
| ChatIDResponse int32
| MessageIDResponse int32
| MessagesPayload MessagesWithAuthors
| FullChats "FullChat list"
| StickerPackList "StickerPack list"
| StickerList "Sticker list"
| ApplicationIDResponse int32
| ApplicationsPayload "Application list"
| FileContent "byte list"
| RawText string
| Upgraded int32
| NoBody

record http_response =
  rs_Status :: int32
  rs_Cookies :: "http_cookie list"
  rs_Body :: payload

type_synonym http_handler = "http_request \<Rightarrow> http_response action"

record http_libs =
  hl_decodePaginate :: "(string \<Rightarrow> string list) \<Rightarrow> PaginateQueryParams option"
  hl_decodeUser :: "string \<Rightarrow> User option"
  hl_decodeRegister :: "string \<Rightarrow> RegisterRequest option"
  hl_decodeProfile :: "string \<Rightarrow> Profile option"
  hl_decodeCommentCreate :: "string \<Rightarrow> CommentCreateRequest option"
  hl_decodeCommentUpdate :: "string \<Rightarrow> string option"
  hl_decodeLastRead :: "string \<Rightarrow> int32 option"
  hl_decodeApplication :: "string \<Rightarrow> Application option"
  hl_decodeApplicationText :: "string \<Rightarrow> string option"
  hl_decodeApplicationStatus :: "string \<Rightarrow> string option"
  hl_parseUUID :: "string \<Rightarrow> string option"

subsection \<open>Reading a request\<close>

definition r_Cookie :: "http_request \<Rightarrow> string \<Rightarrow> string option" where
  "r_Cookie r name = map_of (rq_Cookies r) name"

definition ctx_userID :: "http_request \<Rightarrow> int32" where
  "ctx_userID r = (case rq_UserID r of None \<Rightarrow> 0 | Some i \<Rightarrow> i)"

definition query_Get :: "http_request \<Rightarrow> string \<Rightarrow> string" where
  "query_Get r name = (case rq_Query r name of [] \<Rightarrow> [] | v # _ \<Rightarrow> v)"

text \<open>The conversion \<open>int32(id)\<close> keeps the low 32 bits.\<close>

definition PathInt32 :: "http_request \<Rightarrow> string \<Rightarrow> int32 action" where
  "PathInt32 r name =
     (let (val, ok) = (case rq_Vars r name of None \<Rightarrow> ([], False) | Some v \<Rightarrow> (v, True))
      in case strconv_Atoi val of
           None \<Rightarrow> throw ErrInvalidParams
         | Some i \<Rightarrow> if \<not> ok then throw ErrInvalidParams else ret (word_of_int i))"

text \<open>The object a path names by its variable \<open>name\<close>, if the number can be read.\<close>

definition path_int32 :: "(string \<Rightarrow> string option) \<Rightarrow> string \<Rightarrow> int32 option" where
  "path_int32 vars name =
     (case vars name of None \<Rightarrow> None | Some v \<Rightarrow> map_option word_of_int (strconv_Atoi v))"

text \<open>A form value that may be missing; \<open>mp_Value\<close> is what \<open>FormValue\<close> returns.\<close>

definition parseIntParam :: "multipart_form \<Rightarrow> string \<Rightarrow> int32 option action" where
  "parseIntParam form paramName =
     (let param = mp_Value form paramName
      in if param = [] then ret None
         else case strconv_Atoi param of
           None \<Rightarrow> throw ErrInvalidParams
         | Some i \<Rightarrow> ret (Some (word_of_int i)))"

definition DecodeQueryParams ::
    "((string \<Rightarrow> string list) \<Rightarrow> 'a option) \<Rightarrow> http_request \<Rightarrow> 'a action" where
  "DecodeQueryParams decode r =
     (case decode (rq_Query r) of None \<Rightarrow> throw ErrInvalidParams | Some q \<Rightarrow> ret q)"

text \<open>Reading the body can fail (\<open>io.ReadAll\<close>), and so can decoding it.\<close>

definition DecodeJSONBody :: "(string \<Rightarrow> 'a option) \<Rightarrow> http_request \<Rightarrow> 'a action" where
  "DecodeJSONBody decode r =
     call (external Plain (ret (rq_Body r))) (\<lambda>err. throw ErrInvalidParams)
     (\<lambda>body. case decode body of None \<Rightarrow> throw ErrInvalidParams | Some req \<Rightarrow> ret req)"

text \<open>Multipart forms: \<open>ParseMultipart\<close>, and src/domain/uploadHelper.go.\<close>

definition ParseMultipart :: "http_request \<Rightarrow> multipart_form action" where
  "ParseMultipart r =
     (case rq_Multipart r of None \<Rightarrow> throw ErrInvalidParams | Some form \<Rightarrow> ret form)"

definition MultipartToFile :: "File \<Rightarrow> File action" where
  "MultipartToFile h =
     call (external Plain (ret (file_Data h))) throw
     (\<lambda>f. call (external Plain (ret f)) throw
     (\<lambda>data. ret \<lparr>file_Filename = file_Filename h, file_ContentType = file_ContentType h,
                   file_Data = data\<rparr>))"

fun MultipartListToFiles :: "File list \<Rightarrow> File list action" where
  "MultipartListToFiles [] = ret []"
| "MultipartListToFiles (h # hs) =
     call (MultipartToFile h) throw
     (\<lambda>f. call (MultipartListToFiles hs) throw (\<lambda>fs. ret (f # fs)))"

definition MultipartFiles :: "multipart_form \<Rightarrow> string \<Rightarrow> File list action" where
  "MultipartFiles form field =
     (if mp_File form field = [] then ret []
      else call (MultipartListToFiles (mp_File form field)) (\<lambda>err. throw ErrInvalidParams)
      (\<lambda>result. ret result))"

subsection \<open>Writing a response\<close>

definition sendJSONResponse :: "string \<Rightarrow> int32 \<Rightarrow> http_response" where
  "sendJSONResponse message statusCode =
     \<lparr>rs_Status = statusCode, rs_Cookies = [], rs_Body = JSONResponse message statusCode\<rparr>"

definition sendJSONError :: "go_error \<Rightarrow> http_response action" where
  "sendJSONError err = (let (code, msg) = MapErrorToHTTP err in ret (sendJSONResponse msg code))"

definition sendJSONData :: "payload \<Rightarrow> http_response action" where
  "sendJSONData data = ret \<lparr>rs_Status = http_OK, rs_Cookies = [], rs_Body = data\<rparr>"

definition sendJSONSuccess :: "string \<Rightarrow> http_response action" where
  "sendJSONSuccess msg = ret (sendJSONResponse msg http_OK)"

definition NotFoundHandler :: http_handler where
  "NotFoundHandler r = ret (sendJSONResponse ''Not found'' http_NotFound)"

text \<open>The status of an outcome; a handler that panics sends none.\<close>

fun status_of :: "http_response res \<Rightarrow> int32 option" where
  "status_of (Ret resp) = Some (rs_Status resp)"
| "status_of _ = None"

subsection \<open>Facts on the helpers\<close>

lemma reads_PathInt32 [simp, intro]: "reads (PathInt32 r name)"
  by (auto simp: PathInt32_def Let_def split: option.splits)

lemma PathInt32_world: "PathInt32 r name w = (x, w') \<Longrightarrow> w' = w"
  by (auto simp: PathInt32_def act split: option.splits if_splits)

lemma PathInt32_path:
  "PathInt32 r name w =
     (case path_int32 (rq_Vars r) name of None \<Rightarrow> (Fail ErrInvalidParams, w) | Some i \<Rightarrow> (Ret i, w))"
  by (auto simp: PathInt32_def path_int32_def act split: option.splits)

text \<open>Within 32 bits the id is the number in the path.\<close>

lemma path_int32_Itoa [simp]:
  "vars name = Some (strconv_Itoa (sint i)) \<Longrightarrow> path_int32 vars name = Some i"
  by (simp add: path_int32_def)

lemma PathInt32_value:
  "rq_Vars r name = Some (strconv_Itoa (sint i)) \<Longrightarrow> PathInt32 r name w = (Ret i, w)"
  by (simp add: PathInt32_def act)

lemma sendJSONError_status:
  "sendJSONError e w = (Ret (sendJSONResponse (snd (MapErrorToHTTP e)) (fst (MapErrorToHTTP e))), w)"
  by (simp add: sendJSONError_def act case_prod_beta)

text \<open>The helpers leave the tables alone.\<close>

lemma keeps_http_helpers [wf_intros]:
  "keeps I (PathInt32 r n)" "keeps I (ParseMultipart r)" "keeps I (MultipartToFile h)"
  "keeps I (parseIntParam form n)" "keeps I (DecodeQueryParams dq r)" "keeps I (DecodeJSONBody dj r)"
  "keeps I (sendJSONError e)" "keeps I (sendJSONData x)" "keeps I (sendJSONSuccess m)"
  by (auto simp: PathInt32_def ParseMultipart_def MultipartToFile_def parseIntParam_def
      DecodeQueryParams_def DecodeJSONBody_def sendJSONError_def sendJSONData_def
      sendJSONSuccess_def Let_def intro!: wf_intros split: option.splits prod.splits)

lemma keeps_MultipartFiles [wf_intros]: "keeps I (MultipartFiles form n)"
proof -
  have "keeps I (MultipartListToFiles hs)" for hs
    by (induction hs) (auto intro!: wf_intros)
  then show ?thesis by (auto simp: MultipartFiles_def intro!: wf_intros)
qed

end
