(* ===== verification/Friend_Tables.thy ===== *)
theory Friend_Tables
  imports Friend_Service
begin

text \<open>
  What the table of friendships looks like: the invariant that the statements keep (one row per
  pair, in order, between registered users), and what the listing and counting queries of
  Friend_Store say about each other on such tables.
\<close>

definition wf_friends :: "database \<Rightarrow> bool" where
  "wf_friends d \<longleftrightarrow> distinct (map fr_key (friend_relationships d)) \<and>
     (\<forall>r \<in> set (friend_relationships d). friend_relationships_check r \<and>
        user_exists d (fr_first_user_id r) \<and> user_exists d (fr_second_user_id r))"

lemma user_exists_friends [simp]:
  "user_exists (d\<lparr>friend_relationships := rs\<rparr>) u \<longleftrightarrow> user_exists d u"
  by (simp add: user_exists_def)

lemma check_upd:
  "friend_relationships_check (r\<lparr>fr_status := s, fr_action_user_id := a, fr_updated_at := t\<rparr>) =
     (s \<in> set friendship_status_enum \<and> fr_first_user_id r \<noteq> fr_second_user_id r \<and>
      sint (fr_first_user_id r) < sint (fr_second_user_id r) \<and>
      (a = fr_first_user_id r \<or> a = fr_second_user_id r))"
  by (simp add: friend_relationships_check_def)

lemma upsert_wf:
  assumes "upsert_friendship first second action status now d = Some (d', n)" "wf_friends d"
  shows "wf_friends d'"
proof (cases "\<exists>r \<in> set (friend_relationships d). fr_key r = (first, second)")
  case True
  let ?f = "\<lambda>r. r\<lparr>fr_status := status, fr_action_user_id := action, fr_updated_at := now\<rparr>"
  from True assms have d': "d' = d\<lparr>friend_relationships :=
      update_where (\<lambda>r. fr_key r = (first, second)) ?f (friend_relationships d)\<rparr>"
    and chk: "friend_relationships_check \<lparr>fr_first_user_id = first, fr_second_user_id = second,
      fr_action_user_id = action, fr_status = status, fr_created_at = now, fr_updated_at = now\<rparr>"
    by (auto simp: upsert_friendship_def Let_def split: if_splits)
  have "map fr_key (friend_relationships d') = map fr_key (friend_relationships d)"
    unfolding d' by (simp add: map_update_where_same)
  moreover have "friend_relationships_check (?f r)" if "fr_key r = (first, second)" for r
    using chk that by (auto simp: friend_relationships_check_def fr_key_def)
  ultimately show ?thesis
    using assms(2) unfolding wf_friends_def d' by (auto simp: set_update_where)
next
  case False
  with assms show ?thesis
    by (auto simp: upsert_friendship_def Let_def wf_friends_def fr_key_def split: if_splits)
qed

lemma update_wf:
  assumes "update_friendship action status first second now d = Some (d', n)" "wf_friends d"
  shows "wf_friends d'"
proof -
  let ?f = "\<lambda>r. r\<lparr>fr_action_user_id := action, fr_status := status, fr_updated_at := now\<rparr>"
  from assms(1) have d': "d' = d\<lparr>friend_relationships :=
      update_where (\<lambda>r. fr_key r = (first, second)) ?f (friend_relationships d)\<rparr>"
    and chk: "\<forall>r \<in> set (friend_relationships d). fr_key r = (first, second) \<longrightarrow>
      friend_relationships_check (?f r)"
    by (auto simp: update_friendship_def Let_def split: if_splits)
  have "map fr_key (friend_relationships d') = map fr_key (friend_relationships d)"
    unfolding d' by (simp add: map_update_where_same)
  then show ?thesis
    using assms(2) chk unfolding wf_friends_def d' by (auto simp: set_update_where)
qed

lemma delete_wf:
  assumes "delete_friendship first second now d = Some (d', n)" "wf_friends d"
  shows "wf_friends d'"
  using assms by (auto simp: delete_friendship_def Let_def wf_friends_def distinct_key_filter)

text \<open>
  Invariants of the statements. Whatever the three statements of the store keep, every command of the
  service keeps, with any client for the accounts that does.
\<close>

lemma reads_friend_store [intro]:
  "reads (DBFriendStore_GetFriendship a b)" "reads (DBFriendStore_GetFriendshipStatus a b)"
  by (auto simp: DBFriendStore_GetFriendship_def DBFriendStore_GetFriendshipStatus_def
      case_prod_beta Let_def)

lemmas keeps_friend_reads [wf_intros] = reads_friend_store [THEN keeps_reads]

locale friend_statements =
  fixes I :: "database \<Rightarrow> bool"
  assumes upsert: "upsert_friendship first second action status now d = Some (d', n) \<Longrightarrow> I d \<Longrightarrow> I d'"
    and update: "update_friendship action status first second now d = Some (d', n) \<Longrightarrow> I d \<Longrightarrow> I d'"
    and delete: "delete_friendship first second now d = Some (d', n) \<Longrightarrow> I d \<Longrightarrow> I d'"
begin

lemma keeps_friend_store [wf_intros]:
  "keeps I (DBFriendStore_CreateFriendship a b)"
  "keeps I (DBFriendStore_UpdateFriendshipStatus a b st)"
  "keeps I (DBFriendStore_DeleteFriendship a b)"
  by (auto simp: DBFriendStore_CreateFriendship_def DBFriendStore_UpdateFriendshipStatus_def
      DBFriendStore_DeleteFriendship_def case_prod_beta Let_def
      intro!: wf_intros dest: upsert update delete)

lemma keeps_perform:
  assumes "frs_friendStore s = DBFriendStore"
    and "\<And>u. keeps I (ac_IsUserExists (frs_authService s) u)"
  shows "keeps I (perform s op)"
  using assms(2)
  by (cases op)
     (auto simp: assms(1) FriendService_SendFriendRequest_def FriendService_AcceptFriendRequest_def
       FriendService_RejectFriendRequest_def FriendService_RemoveFriend_def DBFriendStore_def
       Let_def intro!: wf_intros)

end

interpretation friend_wf: friend_statements wf_friends
  by unfold_locales (auto dest: upsert_wf update_wf delete_wf)

text \<open>The table of friendships is all that such a command changes in the tables.\<close>

definition other_than_friends :: "database \<Rightarrow> database" where
  "other_than_friends d = d\<lparr>friend_relationships := []\<rparr>"

interpretation friend_frame: friend_statements "\<lambda>d. other_than_friends d = v" for v
  by unfold_locales
     (auto simp: other_than_friends_def upsert_friendship_def update_friendship_def
       delete_friendship_def Let_def split: if_splits)

subsection \<open>Queries on well-formed tables\<close>

lemma wf_related:
  assumes "wf_friends d" "r \<in> set (friend_relationships d)"
  shows "fr_status r \<in> set friendship_status_enum" "fr_first_user_id r \<noteq> fr_second_user_id r"
    "fr_key r = ensureUserOrder (fr_first_user_id r) (fr_second_user_id r)"
    "fr_action_user_id r = fr_first_user_id r \<or> fr_action_user_id r = fr_second_user_id r"
  using assms
  by (auto simp: wf_friends_def friend_relationships_check_def fr_key_def ensureUserOrder_def)

text \<open>A listing names the other users of the rows; on a well-formed table each at most once.\<close>

definition others :: "(int32 \<Rightarrow> friend_row \<Rightarrow> bool) \<Rightarrow> int32 \<Rightarrow> database \<Rightarrow> int32 set" where
  "others p u d = other_user u ` set (select_related p u d)"

lemma involves_key:
  assumes "wf_friends d" "r \<in> set (friend_relationships d)" "involves u r"
  shows "fr_key r = ensureUserOrder u (other_user u r)" "other_user u r \<noteq> u"
    "involves (other_user u r) r" "other_user (other_user u r) r = u"
proof -
  note W = wf_related [OF assms(1,2)]
  show "other_user u r \<noteq> u" "involves (other_user u r) r" "other_user (other_user u r) r = u"
    using W(2) assms(3) by (auto simp: involves_def other_user_def)
  show "fr_key r = ensureUserOrder u (other_user u r)"
    using W(2,3) assms(3)
    by (auto simp: involves_def other_user_def intro: ensureUserOrder_sym)
qed

lemma others_distinct:
  assumes "wf_friends d"
  shows "distinct (map (other_user u) (select_related p u d))"
proof -
  have "distinct (map fr_key (select_related p u d))"
    using assms by (simp add: wf_friends_def select_related_def distinct_key_filter)
  moreover have "map fr_key (select_related p u d)
      = map (\<lambda>v. ensureUserOrder u v) (map (other_user u) (select_related p u d))"
    using assms by (auto simp: select_related_def involves_key)
  ultimately show ?thesis by (metis distinct_map)
qed

lemma listing_distinct:
  assumes "wf_friends d"
  shows "distinct (select_ordered_by_id p u d)" "distinct (select_ordered_by_created p u d)"
proof -
  show "distinct (select_ordered_by_id p u d)"
    using others_distinct [OF assms] by (simp add: select_ordered_by_id_def)
  show "distinct (select_ordered_by_created p u d)"
    unfolding select_ordered_by_created_def
    using others_distinct [OF assms, of u p]
    by (simp add: distinct_map)
qed

lemma listing_set:
  "set (select_ordered_by_id p u d) = others p u d"
  "set (select_ordered_by_created p u d) = others p u d"
  by (simp_all add: select_ordered_by_id_def select_ordered_by_created_def others_def)

lemma listing_length:
  "length (select_ordered_by_id p u d) = count_related p u d"
  "length (select_ordered_by_created p u d) = count_related p u d"
  by (simp_all add: select_ordered_by_id_def select_ordered_by_created_def count_related_def)

text \<open>Being in a listing is a matter of the pair's row.\<close>

lemma others_iff:
  assumes "wf_friends d"
  shows "v \<in> others p u d \<longleftrightarrow> (\<exists>r \<in> set (friend_relationships d).
     fr_key r = ensureUserOrder u v \<and> u \<noteq> v \<and> p u r)"
proof
  assume "v \<in> others p u d"
  then obtain r where r: "r \<in> set (friend_relationships d)" "involves u r" "p u r" "v = other_user u r"
    by (auto simp: others_def select_related_def)
  then show "\<exists>r \<in> set (friend_relationships d). fr_key r = ensureUserOrder u v \<and> u \<noteq> v \<and> p u r"
    using involves_key [OF assms r(1,2)] by (intro bexI [of _ r]) auto
next
  assume "\<exists>r \<in> set (friend_relationships d). fr_key r = ensureUserOrder u v \<and> u \<noteq> v \<and> p u r"
  then obtain r where r: "r \<in> set (friend_relationships d)" "fr_key r = ensureUserOrder u v"
    "u \<noteq> v" "p u r" by blast
  then have "involves u r" "other_user u r = v"
    by (auto simp: fr_key_def ensureUserOrder_def involves_def other_user_def split: if_splits)
  with r show "v \<in> others p u d"
    by (auto simp: others_def select_related_def intro!: image_eqI [of _ _ r])
qed

lemma others_sym:
  assumes "wf_friends d"
    and dual: "\<And>r. r \<in> set (friend_relationships d) \<Longrightarrow> fr_key r = ensureUserOrder u v \<Longrightarrow>
      u \<noteq> v \<Longrightarrow> p u r = q v r"
  shows "v \<in> others p u d \<longleftrightarrow> u \<in> others q v d"
  using dual unfolding others_iff [OF assms(1)] ensureUserOrder_sym [of v u] by auto

lemma incoming_sent_dual:
  assumes "wf_friends d" "r \<in> set (friend_relationships d)" "fr_key r = ensureUserOrder u v" "u \<noteq> v"
  shows "is_incoming u r = is_sent v r"
  using wf_related(4) [OF assms(1,2)] assms(3,4)
  by (auto simp: is_incoming_def is_sent_def fr_key_def ensureUserOrder_def split: if_splits)

text \<open>Every relation of a user is in exactly one of the four classes.\<close>

lemma status_cases:
  assumes "wf_friends d" "r \<in> set (friend_relationships d)"
  shows "is_accepted u r \<or> is_incoming u r \<or> is_sent u r \<or> is_blocked u r"
    "\<not> (is_accepted u r \<and> (is_incoming u r \<or> is_sent u r \<or> is_blocked u r))"
    "\<not> (is_incoming u r \<and> (is_sent u r \<or> is_blocked u r))" "\<not> (is_sent u r \<and> is_blocked u r)"
  using wf_related(1) [OF assms]
  by (auto simp: is_accepted_def is_incoming_def is_sent_def is_blocked_def
      friendship_status_enum_def)

lemma count_split:
  "(\<And>r. r \<in> set (friend_relationships d) \<Longrightarrow> \<not> (p u r \<and> q u r)) \<Longrightarrow>
   count_related p u d + count_related q u d = count_related (\<lambda>u r. p u r \<or> q u r) u d"
  unfolding count_related_def select_related_def
  by (subst length_filter_plus) (auto intro!: arg_cong [where f = length] filter_cong)

lemma count_partition:
  assumes "wf_friends d"
  shows "count_related is_accepted u d + count_related is_incoming u d +
     count_related is_sent u d + count_related is_blocked u d = count_related (\<lambda>_ _. True) u d"
proof -
  have "count_related is_accepted u d + count_related is_incoming u d =
      count_related (\<lambda>u r. is_accepted u r \<or> is_incoming u r) u d"
    using status_cases(2) [OF assms] by (intro count_split) blast
  moreover have "\<dots> + count_related is_sent u d =
      count_related (\<lambda>u r. (is_accepted u r \<or> is_incoming u r) \<or> is_sent u r) u d"
    using status_cases(2,3) [OF assms] by (intro count_split) blast
  moreover have "\<dots> + count_related is_blocked u d =
      count_related (\<lambda>u r. ((is_accepted u r \<or> is_incoming u r) \<or> is_sent u r) \<or> is_blocked u r) u d"
    using status_cases(2,3,4) [OF assms] by (intro count_split) blast
  moreover have "\<dots> = count_related (\<lambda>_ _. True) u d"
    unfolding count_related_def select_related_def
    using status_cases(1) [OF assms] by (intro arg_cong [where f = length] filter_cong) auto
  ultimately show ?thesis by simp
qed

subsection \<open>What the queries of the store return\<close>

lemma count_split_incoming:
  "count_related (\<lambda>u r. fr_status r = ''pending'' \<and> fr_action_user_id r \<noteq> u) u d +
   count_related (\<lambda>u r. fr_status r = ''rejected'' \<and> fr_action_user_id r = u) u d =
   count_related is_incoming u d"
  by (subst count_split) (simp_all add: is_incoming_def [abs_def])

lemma count_split_sent:
  "count_related (\<lambda>u r. fr_status r = ''pending'' \<and> fr_action_user_id r = u) u d +
   count_related (\<lambda>u r. fr_status r = ''rejected'' \<and> fr_action_user_id r \<noteq> u) u d =
   count_related is_sent u d"
  by (subst count_split) (simp_all add: is_sent_def [abs_def])

lemma CountUserRelations_result:
  assumes "DBFriendStore_CountUserRelations u w = (Ret c, w')"
  shows "quiet w w'" "sint (rc_Accepted c) = int (count_related is_accepted u (db w))"
    "sint (rc_Pending c) = int (count_related is_incoming u (db w))"
    "sint (rc_Sent c) = int (count_related is_sent u (db w))"
    "sint (rc_Blocked c) = int (count_related is_blocked u (db w))"
proof -
  have "c = \<lparr>rc_Accepted = word_of_nat (count_related is_accepted u (db w)),
        rc_Pending = word_of_nat (count_related is_incoming u (db w)),
        rc_Sent = word_of_nat (count_related is_sent u (db w)),
        rc_Blocked = word_of_nat (count_related is_blocked u (db w))\<rparr> \<and> w' = tick w \<and>
      count_related is_accepted u (db w) < 2 ^ 31 \<and> count_related is_incoming u (db w) < 2 ^ 31 \<and>
      count_related is_sent u (db w) < 2 ^ 31 \<and> count_related is_blocked u (db w) < 2 ^ 31"
    using assms
    by (auto simp: DBFriendStore_CountUserRelations_def count_split_incoming count_split_sent
        scan_counts_def act split: option.splits if_splits)
  then show "quiet w w'" "sint (rc_Accepted c) = int (count_related is_accepted u (db w))"
    "sint (rc_Pending c) = int (count_related is_incoming u (db w))"
    "sint (rc_Sent c) = int (count_related is_sent u (db w))"
    "sint (rc_Blocked c) = int (count_related is_blocked u (db w))"
    using sint_word_of_int_32 [of "int n" for n] by auto
qed

text \<open>The loop that reads a page of ids: it returns the page, or an error.\<close>

lemma page_loop:
  assumes "call (query_page q limit offset) (\<lambda>err. throw (f err))
     (\<lambda>rows. call (scan_rows g rows) throw
     (\<lambda>ids. call rows_Err (\<lambda>err. throw (h err)) (\<lambda>_. ret ids))) w = (r, w')"
  shows "quiet w w' \<and> r \<noteq> Panic \<and> (\<forall>ids. r = Ret ids \<longrightarrow>
     0 \<le> sint limit \<and> 0 \<le> sint offset \<and> ids = window limit offset (q (db w)))"
proof -
  have "reads (call (query_page q limit offset) (\<lambda>err. throw (f err))
     (\<lambda>rows. call (scan_rows g rows) throw
     (\<lambda>ids. call rows_Err (\<lambda>err. throw (h err)) (\<lambda>_. ret ids))))"
    by (intro reads_call) auto
  then have "quiet w w'" using assms by (rule readsD)
  moreover have "r \<noteq> Panic \<and> (\<forall>ids. r = Ret ids \<longrightarrow>
     0 \<le> sint limit \<and> 0 \<le> sint offset \<and> ids = window limit offset (q (db w)))"
    using assms
    by (auto simp: act scan_rows_not_Panic dest!: scan_rows_Ret
        split: option.splits if_splits prod.splits res.splits)
  ultimately show ?thesis by blast
qed

lemma GetUserFriends_result:
  "DBFriendStore_GetUserFriends u limit offset w = (r, w') \<Longrightarrow> quiet w w' \<and> r \<noteq> Panic \<and>
   (\<forall>ids. r = Ret ids \<longrightarrow> 0 \<le> sint limit \<and> 0 \<le> sint offset \<and>
      ids = window limit offset (select_ordered_by_id is_accepted u (db w)))"
  unfolding DBFriendStore_GetUserFriends_def by (rule page_loop)

lemma GetFriendshipRequests_result:
  "DBFriendStore_GetFriendshipRequests u limit offset w = (r, w') \<Longrightarrow> quiet w w' \<and> r \<noteq> Panic \<and>
   (\<forall>ids. r = Ret ids \<longrightarrow> 0 \<le> sint limit \<and> 0 \<le> sint offset \<and>
      ids = window limit offset (select_ordered_by_created is_incoming u (db w)))"
  unfolding DBFriendStore_GetFriendshipRequests_def by (rule page_loop)

lemma GetSentRequests_result:
  "DBFriendStore_GetSentRequests u limit offset w = (r, w') \<Longrightarrow> quiet w w' \<and> r \<noteq> Panic \<and>
   (\<forall>ids. r = Ret ids \<longrightarrow> 0 \<le> sint limit \<and> 0 \<le> sint offset \<and>
      ids = window limit offset (select_ordered_by_created is_sent u (db w)))"
  unfolding DBFriendStore_GetSentRequests_def by (rule page_loop)

lemma GetUserIDsByFriendType_result:
  assumes "DBFriendStore_GetUserIDsByFriendType u t w = (Ret ids, w')"
  shows "\<exists>p. status_clause t = Some p \<and> set ids = others p u (db w)"
proof -
  obtain p where "status_clause t = Some p"
    using assms by (auto simp: DBFriendStore_GetUserIDsByFriendType_def act split: option.splits)
  then show ?thesis
    using assms
    by (auto simp: DBFriendStore_GetUserIDsByFriendType_def others_def act dest!: scan_rows_Ret
        split: option.splits prod.splits res.splits)
qed

text \<open>A negative OFFSET is refused.\<close>

lemma GetFriends_overflow:
  assumes "sint (fst (ValidatePaginationParams params)) < 0" "frs_friendStore s = DBFriendStore"
  shows "fst (FriendService_GetFriends s u params w) = Fail ErrDB"
proof -
  obtain r1 w1 where g: "DBFriendStore_GetUserFriends u (snd (ValidatePaginationParams params))
      (fst (ValidatePaginationParams params)) w = (r1, w1)" by fastforce
  have "\<exists>e. r1 = Fail e"
    using GetUserFriends_result [OF g] assms(1) by (cases r1) auto
  then show ?thesis
    using assms(2)
    by (auto simp: FriendService_GetFriends_def case_prod_beta DBFriendStore_def call_def g throw_def)
qed

end
