(* ===== verification/Friend_Handler.thy ===== *)
theory Friend_Handler
  imports Http Friend_Tables
begin

text \<open>
  The HTTP handlers of friendships (src/internal/handler/friend.go): each reads its parameters,
  calls the friend service through its gRPC client and writes the JSON answer. The messages are
  those of src/domain/errors.go.
\<close>

abbreviation FriendRequestSent :: string where "FriendRequestSent \<equiv> ''Friend request sent successfully''"
abbreviation FriendRequestAccepted :: string where
  "FriendRequestAccepted \<equiv> ''Friend request accepted successfully''"
abbreviation FriendRequestRejected :: string where
  "FriendRequestRejected \<equiv> ''Friend request rejected successfully''"
abbreviation FriendRemoved :: string where "FriendRemoved \<equiv> ''Friend removed successfully''"

definition FriendHandler_SendFriendRequest :: "FriendServiceClient \<Rightarrow> http_handler" where
  "FriendHandler_SendFriendRequest h r =
     call (PathInt32 r ''id'') sendJSONError
     (\<lambda>friendID. let userID = ctx_userID r
      in call (fc_SendFriendRequest h userID friendID)
           (\<lambda>err. let err = FromGrpcError err in sendJSONError err)
     (\<lambda>_. sendJSONSuccess FriendRequestSent))"

definition FriendHandler_AcceptFriendRequest :: "FriendServiceClient \<Rightarrow> http_handler" where
  "FriendHandler_AcceptFriendRequest h r =
     call (PathInt32 r ''id'') sendJSONError
     (\<lambda>friendID. let userID = ctx_userID r
      in call (fc_AcceptFriendRequest h userID friendID)
           (\<lambda>err. let err = FromGrpcError err in sendJSONError err)
     (\<lambda>_. sendJSONSuccess FriendRequestAccepted))"

definition FriendHandler_RejectFriendRequest :: "FriendServiceClient \<Rightarrow> http_handler" where
  "FriendHandler_RejectFriendRequest h r =
     call (PathInt32 r ''id'') sendJSONError
     (\<lambda>friendID. let userID = ctx_userID r
      in call (fc_RejectFriendRequest h userID friendID)
           (\<lambda>err. let err = FromGrpcError err in sendJSONError err)
     (\<lambda>_. sendJSONSuccess FriendRequestRejected))"

definition FriendHandler_RemoveFriend :: "FriendServiceClient \<Rightarrow> http_handler" where
  "FriendHandler_RemoveFriend h r =
     call (PathInt32 r ''id'') sendJSONError
     (\<lambda>friendID. let userID = ctx_userID r
      in call (fc_RemoveFriend h userID friendID)
           (\<lambda>err. let err = FromGrpcError err in sendJSONError err)
     (\<lambda>_. sendJSONSuccess FriendRemoved))"

definition FriendHandler_GetFriends ::
    "http_libs \<Rightarrow> FriendServiceClient \<Rightarrow> http_handler" where
  "FriendHandler_GetFriends H h r =
     call (DecodeQueryParams (hl_decodePaginate H) r) sendJSONError
     (\<lambda>qParams. let userID = ctx_userID r
      in call (fc_GetFriends h userID qParams)
           (\<lambda>err. let err = FromGrpcError err in sendJSONError err)
     (\<lambda>profiles. sendJSONData (ShortProfileList (FromPbShortProfileList (Some profiles)))))"

definition FriendHandler_GetAllUsers ::
    "http_libs \<Rightarrow> FriendServiceClient \<Rightarrow> http_handler" where
  "FriendHandler_GetAllUsers H h r =
     call (DecodeQueryParams (hl_decodePaginate H) r) sendJSONError
     (\<lambda>qParams. let userID = ctx_userID r
      in call (fc_GetAllUsers h userID qParams)
           (\<lambda>err. let err = FromGrpcError err in sendJSONError err)
     (\<lambda>profiles. sendJSONData (ShortProfileList (FromPbShortProfileList (Some profiles)))))"

definition FriendHandler_GetFriendRequests ::
    "http_libs \<Rightarrow> FriendServiceClient \<Rightarrow> http_handler" where
  "FriendHandler_GetFriendRequests H h r =
     call (DecodeQueryParams (hl_decodePaginate H) r) sendJSONError
     (\<lambda>qParams. let userID = ctx_userID r
      in call (fc_GetFriendRequests h userID qParams)
           (\<lambda>err. let err = FromGrpcError err in sendJSONError err)
     (\<lambda>profiles. sendJSONData (ShortProfileList (FromPbShortProfileList (Some profiles)))))"

definition FriendHandler_GetSentRequests ::
    "http_libs \<Rightarrow> FriendServiceClient \<Rightarrow> http_handler" where
  "FriendHandler_GetSentRequests H h r =
     call (DecodeQueryParams (hl_decodePaginate H) r) sendJSONError
     (\<lambda>qParams. let userID = ctx_userID r
      in call (fc_GetSentRequests h userID qParams)
           (\<lambda>err. let err = FromGrpcError err in sendJSONError err)
     (\<lambda>profiles. sendJSONData (ShortProfileList (FromPbShortProfileList (Some profiles)))))"

definition FriendHandler_GetFriendshipStatus :: "FriendServiceClient \<Rightarrow> http_handler" where
  "FriendHandler_GetFriendshipStatus h r =
     call (PathInt32 r ''id'') sendJSONError
     (\<lambda>friendID. let userID = ctx_userID r
      in call (fc_GetFriendshipStatus h userID friendID)
           (\<lambda>err. let err = FromGrpcError err in sendJSONError err)
     (\<lambda>status. sendJSONData (FriendshipStatusResponse status)))"

text \<open>As in the source, the two last handlers do not translate the client's error.\<close>

definition FriendHandler_CountUserRelations :: "FriendServiceClient \<Rightarrow> http_handler" where
  "FriendHandler_CountUserRelations h r =
     call (PathInt32 r ''id'') sendJSONError
     (\<lambda>userID. call (fc_CountUserRelations h userID) sendJSONError
     (\<lambda>resp. let count = \<lparr>rc_Accepted = pb_Accepted resp, rc_Pending = pb_Pending resp,
                          rc_Sent = pb_Sent resp, rc_Blocked = pb_Blocked resp\<rparr>
        in sendJSONData (CountsPayload count)))"

definition FriendHandler_SearchProfilesByFullName ::
    "http_libs \<Rightarrow> FriendServiceClient \<Rightarrow> http_handler" where
  "FriendHandler_SearchProfilesByFullName H api r =
     (let fullName = query_Get r ''full_name''
      in if fullName = []
         then ret (sendJSONResponse ''Missing full_name query parameter'' http_BadRequest)
         else
         let fTypeStr = query_Get r ''type'';
             fType = (if fTypeStr = [] then CountAccepted else fTypeStr)
         in call (DecodeQueryParams (hl_decodePaginate H) r) sendJSONError
         (\<lambda>qParams. let userID = ctx_userID r
          in call (fc_SearchShortProfilesByFullNameAndRelationType api userID qParams fullName fType)
               sendJSONError
         (\<lambda>resp. let profiles = FromPbShortProfileList (Some resp)
          in sendJSONData (ShortProfileList profiles))))"

subsection \<open>From the HTTP request to the relations\<close>

fun client_perform :: "FriendServiceClient \<Rightarrow> friend_op \<Rightarrow> unit action" where
  "client_perform h (Send a b) = fc_SendFriendRequest h a b"
| "client_perform h (Accept a b) = fc_AcceptFriendRequest h a b"
| "client_perform h (Reject a b) = fc_RejectFriendRequest h a b"
| "client_perform h (Remove a b) = fc_RemoveFriend h a b"

fun endpoint :: "FriendServiceClient \<Rightarrow> friend_op \<Rightarrow> http_handler" where
  "endpoint h (Send a b) = FriendHandler_SendFriendRequest h"
| "endpoint h (Accept a b) = FriendHandler_AcceptFriendRequest h"
| "endpoint h (Reject a b) = FriendHandler_RejectFriendRequest h"
| "endpoint h (Remove a b) = FriendHandler_RemoveFriend h"

text \<open>The request by which user \<open>actor op\<close> asks for \<open>op\<close>.\<close>

definition asks_for :: "http_request \<Rightarrow> friend_op \<Rightarrow> bool" where
  "asks_for r op \<longleftrightarrow> rq_UserID r = Some (actor op) \<and>
     path_int32 (rq_Vars r) ''id'' = Some (target op)"

definition grpc_http_status :: "go_error \<Rightarrow> int32" where
  "grpc_http_status e = fst (MapErrorToHTTP (FromGrpcError (ToGrpcError e)))"

lemma grpc_http_status [simp]:
  "grpc_http_status ErrNotFound = 404" "grpc_http_status ErrNotExist = 404"
  "grpc_http_status ErrAccessDenied = 403" "grpc_http_status ErrInvalidInput = 400"
  "grpc_http_status ErrAlreadyExists = 409" "grpc_http_status ErrDB = 500"
  "grpc_http_status ErrService = 500"
  by (simp_all add: grpc_http_status_def MapErrorToHTTP_def)

lemma client_perform_cases:
  assumes "client_perform (friend_conn E) op w = (r, w')"
  shows "(\<exists>m. r = Fail (GrpcStatus Code_Unavailable m) \<and> w' = tick w \<and> \<not> no_faults w) \<or>
    (\<exists>r0. perform (friend_main E) op (tick w) = (r0, w') \<and>
       r = (case r0 of Ret _ \<Rightarrow> Ret () | Fail e \<Rightarrow> Fail (ToGrpcError e) | Panic \<Rightarrow> Panic))"
  using assms
  by (cases op)
     (auto simp: friend_conn_def friend_client_def grpc_call_def external_def
       GrpcFriendHandler_SendFriendRequest_def GrpcFriendHandler_AcceptFriendRequest_def
       GrpcFriendHandler_RejectFriendRequest_def GrpcFriendHandler_RemoveFriend_def
       call_def throw_def ret_def split: option.splits prod.splits res.splits)

lemma endpoint_call:
  assumes "asks_for r op" "client_perform h op w = (x, w')" "x \<noteq> Panic"
  shows "\<exists>resp. endpoint h op r w = (Ret resp, w') \<and>
     rs_Status resp = (case x of Ret _ \<Rightarrow> http_OK | Fail e \<Rightarrow> fst (MapErrorToHTTP (FromGrpcError e)))"
proof -
  have "PathInt32 r ''id'' v = (Ret (target op), v)" for v
    using assms(1) by (simp add: asks_for_def PathInt32_path)
  moreover have "ctx_userID r = actor op"
    using assms(1) by (simp add: asks_for_def ctx_userID_def)
  ultimately show ?thesis
    using assms(2,3)
    by (cases op)
       (auto simp: FriendHandler_SendFriendRequest_def FriendHandler_AcceptFriendRequest_def
         FriendHandler_RejectFriendRequest_def FriendHandler_RemoveFriend_def call_def
         sendJSONError_status sendJSONSuccess_def sendJSONResponse_def ret_def split: res.splits)
qed

text \<open>
  The status that the documentation of the endpoints in src/internal/handler/friend.go gives: to ask
  oneself is 400, an unknown user 404, a relation that is pending or accepted 409, a request that is not
  there 404. A blocked pair, which it does not mention, is 403.
\<close>

fun documented_status :: "friend_op \<Rightarrow> bool \<Rightarrow> relation \<Rightarrow> int32" where
  "documented_status (Send a b) ex r =
     (if a = b then 400 else if \<not> ex then 404
      else case r of None \<Rightarrow> 200 | Some (st, by) \<Rightarrow>
        if st = ''accepted'' \<or> st = ''pending'' then 409 else if st = ''blocked'' then 403 else 200)"
| "documented_status (Accept a b) ex r =
     (case r of Some (st, by) \<Rightarrow> if st = ''pending'' \<and> by \<noteq> a then 200 else 404 | None \<Rightarrow> 404)"
| "documented_status (Reject a b) ex r =
     (case r of Some (st, by) \<Rightarrow> if st = ''pending'' \<and> by \<noteq> a then 200 else 404 | None \<Rightarrow> 404)"
| "documented_status (Remove a b) ex r = (case r of Some _ \<Rightarrow> 200 | None \<Rightarrow> 404)"

text \<open>
  The code keeps to it but for one case: without a relation, accepting, rejecting and removing are
  answered 500.
\<close>

fun without_relation :: "friend_op \<Rightarrow> relation \<Rightarrow> bool" where
  "without_relation (Send a b) r = False"
| "without_relation _ r = (r = None)"

lemma friend_spec_status:
  assumes "friend_spec op ex r = (out, r')"
  shows "(case out of Ret _ \<Rightarrow> http_OK | Fail e \<Rightarrow> grpc_http_status e | Panic \<Rightarrow> http_InternalServerError) =
    (if without_relation op r then 500 else documented_status op ex r)"
  using assms by (cases op) (auto split: option.splits if_splits)

text \<open>When no call fails and the caller is a registered user, the operation does what is specified.\<close>

lemma store_no_faults:
  assumes nf: "no_faults w"
  shows "DBFriendStore_GetFriendship a b w =
      (case friend_view w a b of None \<Rightarrow> Fail ErrFriendshipNotFound | Some f \<Rightarrow> Ret f, tick w)"
    and "DBFriendStore_GetFriendshipStatus a b w =
      (Ret (case friend_view w a b of None \<Rightarrow> [] | Some f \<Rightarrow> f_Status f), tick w)"
    and "ac_IsUserExists (auth_conn E) b w = (Ret (user_exists (db w) b), tick (tick w))"
  using nf
  by (auto simp: DBFriendStore_GetFriendship_def DBFriendStore_GetFriendshipStatus_def friend_view_def act
      Let_def auth_conn_def auth_client_def GrpcAuthHandler_IsUserExists_def AuthService_IsUserExists_def
      auth_main_def DBUserStore_def DBUserStore_IsUserExists_def split: option.splits)

lemma friend_view_row:
  assumes "wf_friends (db w)" "friend_view w a b \<noteq> None"
  shows "a \<noteq> b \<and> (\<exists>row \<in> set (friend_relationships (db w)). fr_key row = ensureUserOrder a b)"
proof -
  obtain row where row: "row \<in> set (friend_relationships (db w))" "fr_key row = ensureUserOrder a b"
    using assms(2) by (auto simp: friend_view_def dest: find_SomeD)
  then have "a \<noteq> b"
    using wf_related(2) [OF assms(1) row(1)] by (auto simp: fr_key_def ensureUserOrder_def split: if_splits)
  with row show ?thesis by blast
qed

lemma ensureUserOrder_check:
  assumes "a \<noteq> b"
  shows "sint (fst (ensureUserOrder a b)) < sint (snd (ensureUserOrder a b))"
    "fst (ensureUserOrder a b) \<noteq> snd (ensureUserOrder a b)"
    "a = fst (ensureUserOrder a b) \<or> a = snd (ensureUserOrder a b)"
    "{fst (ensureUserOrder a b), snd (ensureUserOrder a b)} = {a, b}"
proof -
  have "sint a < sint b \<or> sint b < sint a" using assms by (metis signed_word_eqI linorder_neq_iff)
  then show "sint (fst (ensureUserOrder a b)) < sint (snd (ensureUserOrder a b))"
    by (auto simp: ensureUserOrder_def)
qed (use assms in \<open>auto simp: ensureUserOrder_def\<close>)

lemma create_no_faults:
  assumes "no_faults w" "a \<noteq> b" "user_exists (db w) a" "user_exists (db w) b"
  shows "fst (DBFriendStore_CreateFriendship a b w) = Ret ()"
proof -
  note C = ensureUserOrder_check [OF assms(2)]
  have "user_exists (db w) (fst (ensureUserOrder a b))" "user_exists (db w) (snd (ensureUserOrder a b))"
    using C(4) assms(3,4) by (metis doubleton_eq_iff)+
  then have "upsert_friendship (fst (ensureUserOrder a b)) (snd (ensureUserOrder a b)) a FriendshipPending
      (clock w) (db w) \<noteq> None"
    using C assms(3) by (auto simp: upsert_friendship_def Let_def friend_relationships_check_def
        friendship_status_enum_def)
  then show ?thesis
    using assms(1) by (auto simp: DBFriendStore_CreateFriendship_def act case_prod_beta)
qed

lemma update_no_faults:
  assumes "no_faults w" "wf_friends (db w)" "friend_view w a b \<noteq> None" "user_exists (db w) a"
    and "st \<in> set friendship_status_enum"
  shows "fst (DBFriendStore_UpdateFriendshipStatus a b st w) = Ret ()"
proof -
  obtain row where row: "row \<in> set (friend_relationships (db w))" "fr_key row = ensureUserOrder a b" and "a \<noteq> b"
    using friend_view_row [OF assms(2,3)] by blast
  note C = ensureUserOrder_check [OF \<open>a \<noteq> b\<close>]
  let ?f = "fst (ensureUserOrder a b)" and ?s = "snd (ensureUserOrder a b)"
  have hit: "filter (\<lambda>r. fr_key r = (?f, ?s)) (friend_relationships (db w)) \<noteq> []"
    using row by (auto simp: filter_empty_conv)
  have "friend_relationships_check (r\<lparr>fr_action_user_id := a, fr_status := st, fr_updated_at := now\<rparr>)"
    if "fr_key r = (?f, ?s)" for r now
  proof -
    have "fr_first_user_id r = ?f" "fr_second_user_id r = ?s"
      using arg_cong [OF that, of fst] arg_cong [OF that, of snd] by (simp_all add: fr_key_def del: prod.collapse)
    then show ?thesis
      using C(1-3) assms(5) unfolding friend_relationships_check_def
      by (simp del: prod.collapse)
  qed
  then obtain d n where "update_friendship a st ?f ?s (clock w) (db w) = Some (d, n)" "n \<noteq> 0"
    using hit assms(4,5) by (auto simp: update_friendship_def Let_def)
  then show ?thesis
    using assms(1) by (auto simp: DBFriendStore_UpdateFriendshipStatus_def act case_prod_beta)
qed

lemma delete_no_faults:
  assumes "no_faults w" "wf_friends (db w)" "friend_view w a b \<noteq> None"
  shows "fst (DBFriendStore_DeleteFriendship a b w) = Ret ()"
proof -
  obtain row where row: "row \<in> set (friend_relationships (db w))" "fr_key row = ensureUserOrder a b"
    using friend_view_row [OF assms(2,3)] by blast
  have "filter (\<lambda>r. fr_key r = (fst (ensureUserOrder a b), snd (ensureUserOrder a b)))
      (friend_relationships (db w)) \<noteq> []"
    using row by (auto simp: filter_empty_conv)
  then show ?thesis
    using assms(1) by (auto simp: DBFriendStore_DeleteFriendship_def delete_friendship_def Let_def act case_prod_beta)
qed

lemma perform_no_faults:
  assumes nf: "no_faults w" and wf: "wf_friends (db w)" and "user_exists (db w) (actor op)"
    and "friend_spec op (\<exists>v \<in> user_view w. usr_ID v = target op)
      (rel_of (friend_view w) (actor op) (target op)) = (out, R')"
    and "out \<noteq> Fail ErrDB"
  shows "fst (perform (friend_main E) op w) \<noteq> Fail ErrDB"
proof -
  have t: "no_faults (tick w)" "no_faults (tick (tick w))" "no_faults (tick (tick (tick w)))"
    using nf by simp_all
  have v: "friend_view (tick u) = friend_view u" for u by (rule friend_view_quiet [OF quiet_tick])
  have ex: "(\<exists>v \<in> user_view w. usr_ID v = i) \<longleftrightarrow> user_exists (db w) i" for i
    by (auto simp: user_view_def user_exists_def user_of_def)
  have fm: "frs_friendStore (friend_main E) = DBFriendStore" "frs_authService (friend_main E) = auth_conn E"
    by (simp_all add: friend_main_def)
  have enum: "FriendshipAccepted \<in> set friendship_status_enum" "FriendshipRejected \<in> set friendship_status_enum"
    by (simp_all add: friendship_status_enum_def)
  show ?thesis
  proof (cases op)
    case (Send a b)
    then show ?thesis
      using assms(3-5) create_no_faults [OF t(3), of a b] unfolding ex
      by (auto simp: FriendService_SendFriendRequest_def fm DBFriendStore_def call_def throw_def ret_def
          store_no_faults nf t v rel_of_def Let_def split: option.splits prod.splits res.splits if_splits)
  next
    case (Accept a b)
    then show ?thesis
      using assms(3-5) update_no_faults [OF t(1), of a b FriendshipAccepted] wf enum
      by (auto simp: FriendService_AcceptFriendRequest_def fm DBFriendStore_def call_def throw_def ret_def
          store_no_faults nf t v rel_of_def Let_def split: option.splits prod.splits res.splits if_splits)
  next
    case (Reject a b)
    then show ?thesis
      using assms(3-5) update_no_faults [OF t(1), of a b FriendshipRejected] wf enum
      by (auto simp: FriendService_RejectFriendRequest_def fm DBFriendStore_def call_def throw_def ret_def
          store_no_faults nf t v rel_of_def Let_def split: option.splits prod.splits res.splits if_splits)
  next
    case (Remove a b)
    then show ?thesis
      using assms(3-5) delete_no_faults [OF nf wf, of a b]
      by (auto simp: FriendService_RemoveFriend_def fm DBFriendStore_def call_def throw_def ret_def
          rel_of_def split: option.splits prod.splits res.splits)
  qed
qed

text \<open>
  The endpoint answers with the documented status, but for the case above, and changes the relation as
  specified; or a call fails, and it answers 500 and no relation changes.
\<close>

lemma endpoint_refines:
  fixes w :: world
  assumes "endpoint (friend_conn E) op r w = (x, w')" "asks_for r op"
  defines "R \<equiv> rel_of (friend_view w) (actor op) (target op)"
    and "ex \<equiv> \<exists>v \<in> user_view w. usr_ID v = target op"
  shows "\<exists>resp. x = Ret resp \<and>
    ((rs_Status resp = 500 \<and> rel_of (friend_view w') = rel_of (friend_view w) \<and>
        (\<not> no_faults w \<or> \<not> user_exists (db w) (actor op) \<or> \<not> wf_friends (db w))) \<or>
     (rs_Status resp = (if without_relation op R then 500 else documented_status op ex R) \<and>
         rel_of (friend_view w') =
           pair_upd (rel_of (friend_view w)) (actor op) (target op) (snd (friend_spec op ex R))))"
proof -
  obtain rc w1 where c: "client_perform (friend_conn E) op w = (rc, w1)" by fastforce
  have tick: "friend_view (tick w) = friend_view w" "user_view (tick w) = user_view w"
    by (simp_all add: friend_view_quiet user_view_quiet)
  from client_perform_cases [OF c] show ?thesis
  proof (elim disjE exE conjE)
    fix m assume m: "rc = Fail (GrpcStatus Code_Unavailable m)" "w1 = tick w" "\<not> no_faults w"
    have "fst (MapErrorToHTTP (FromGrpcError (GrpcStatus Code_Unavailable m))) = 500"
      by (simp add: FromGrpcError_def MapErrorToHTTP_def)
    with endpoint_call [OF assms(2) c] m assms(1) tick show ?thesis by auto
  next
    fix r0
    assume p: "perform (friend_main E) op (tick w) = (r0, w1)"
      and rc: "rc = (case r0 of Ret _ \<Rightarrow> Ret () | Fail e \<Rightarrow> Fail (ToGrpcError e) | Panic \<Rightarrow> Panic)"
    obtain out R' where spec: "friend_spec op ex R = (out, R')" by fastforce
    have step: "(r0 = Fail ErrDB \<and> rel_of (friend_view w1) = rel_of (friend_view w)) \<or>
        (r0 = out \<and> rel_of (friend_view w1) = pair_upd (rel_of (friend_view w)) (actor op) (target op) R')"
      using friendships.perform_refines [OF p, unfolded tick friend_step_def]
        spec [unfolded R_def ex_def] by simp
    have "out \<noteq> Panic" using spec by (cases op) (auto split: option.splits if_splits)
    then have "r0 \<noteq> Panic" using step by auto
    then have "rc \<noteq> Panic" using rc by (auto split: res.splits)
    from endpoint_call [OF assms(2) c this] assms(1) rc \<open>r0 \<noteq> Panic\<close>
    obtain resp where resp: "x = Ret resp" "w1 = w'"
      "rs_Status resp = (case r0 of Ret _ \<Rightarrow> http_OK | Fail e \<Rightarrow> grpc_http_status e
                           | Panic \<Rightarrow> http_InternalServerError)"
      by (auto simp: grpc_http_status_def split: res.splits)
    have settled: ?thesis
      if "r0 = out" "rel_of (friend_view w1) = pair_upd (rel_of (friend_view w)) (actor op) (target op) R'"
      using that resp friend_spec_status [OF spec] spec by auto
    from step show ?thesis
    proof (elim disjE conjE)
      assume db: "r0 = Fail ErrDB" "rel_of (friend_view w1) = rel_of (friend_view w)"
      show ?thesis
      proof (cases "out = Fail ErrDB")
        case True
        then have "R' = R" using friend_spec_refusal [OF spec] by simp
        then have "pair_upd (rel_of (friend_view w)) (actor op) (target op) R' = rel_of (friend_view w)"
          unfolding R_def by (simp add: friendships.rel_same)
        with True db show ?thesis using settled by simp
      next
        case False
        have "\<not> no_faults w \<or> \<not> user_exists (db w) (actor op) \<or> \<not> wf_friends (db w)"
          using perform_no_faults [where w = "tick w" and op = op and out = out and R' = R' and E = E] False spec p db(1) tick
          by (auto simp: R_def ex_def)
        with resp db show ?thesis by auto
      qed
    qed (rule settled)
  qed
qed

subsection \<open>Queries through the processes\<close>

lemma wf_friend_main: "keeps wf_friends (perform (friend_main E) op)"
  by (rule friend_wf.keeps_perform) (auto simp: friend_main_def intro!: wf_intros)

lemma CountUserRelations_error_status:
  assumes "PathInt32 r ''id'' w = (Ret i, w)" "fc_CountUserRelations (friend_conn E) i w = (Fail e, w')"
  shows "\<exists>resp. FriendHandler_CountUserRelations (friend_conn E) r w = (Ret resp, w') \<and>
     rs_Status resp = http_InternalServerError"
proof -
  have "\<exists>c m. e = GrpcStatus c m"
    using assms(2)
    by (auto simp: friend_conn_def friend_client_def grpc_call_def external_def
        GrpcFriendHandler_CountUserRelations_def call_def throw_def ret_def ToGrpcError_def
        split: option.splits prod.splits res.splits if_splits)
  then have "fst (MapErrorToHTTP e) = 500" by (auto simp: MapErrorToHTTP_def)
  then show ?thesis
    using assms
    by (simp add: FriendHandler_CountUserRelations_def call_def sendJSONError_status sendJSONResponse_def)
qed

lemma CountUserRelations_unregistered:
  assumes "no_faults w" "\<not> user_exists (db w) i"
  shows "\<exists>w' m. fc_CountUserRelations (friend_conn E) i w = (Fail (GrpcStatus Code_NotFound m), w')"
proof -
  have "next_fault w = None" "next_fault (tick w) = None" "next_fault (tick (tick w)) = None"
    using assms(1) by simp_all
  then show ?thesis
    using assms(2)
    by (auto simp: friend_conn_def friend_client_def GrpcFriendHandler_CountUserRelations_def
        FriendService_CountUserRelations_def friend_main_def auth_conn_def auth_client_def
        GrpcAuthHandler_IsUserExists_def AuthService_IsUserExists_def auth_main_def DBUserStore_def
        DBUserStore_IsUserExists_def act ToGrpcError_def)
qed

lemma FromProto_ids: "sp_UserID ` set (FromProtoShortProfileSlice ps) = pbs_UserID ` set ps"
  by (simp add: FromProtoShortProfileSlice_def FromProtoShortProfile_def image_image)

lemma Search_relation:
  assumes "honours_filters (lib_engine E)"
    and "FriendService_SearchShortProfilesByFullNameAndRelationType (friend_main E) u params name t w
      = (Ret ps, w')"
  shows "\<exists>p. status_clause t = Some p \<and> (\<forall>i \<in> sp_UserID ` set ps.
     if t = CountNotFriends then i \<notin> others p u (db w) else i \<in> others p u (db w))"
proof -
  let ?off = "fst (ValidatePaginationParams params)" and ?lim = "snd (ValidatePaginationParams params)"
  obtain r1 w1 where f: "DBFriendStore_GetUserIDsByFriendType u t w = (r1, w1)" by fastforce
  from assms(2) obtain ids where r1: "r1 = Ret ids"
    by (cases r1) (auto simp: FriendService_SearchShortProfilesByFullNameAndRelationType_def
        friend_main_def DBFriendStore_def case_prod_beta Let_def call_def f throw_def)
  obtain r2 w2 where g: "ElasticProfileStore_SearchUserIDsByFullNameWithFilter (lib_unidecode E)
      (lib_engine E) name ids (t \<noteq> CountNotFriends) ?lim ?off w1 = (r2, w2)" by fastforce
  from assms(2) r1 obtain found where r2: "r2 = Ret found"
    by (cases r2) (auto simp: FriendService_SearchShortProfilesByFullNameAndRelationType_def
        friend_main_def DBFriendStore_def elastic_profiles_def ElasticProfileStore_of_def
        case_prod_beta Let_def call_def f g throw_def)
  obtain r3 w3 where h: "pc_GetShortProfileByUserIDs (profile_conn E) found w2 = (r3, w3)" by fastforce
  from assms(2) r1 r2 obtain resp where r3: "r3 = Ret resp" "ps = FromProtoShortProfileSlice resp"
    by (cases r3) (auto simp: FriendService_SearchShortProfilesByFullNameAndRelationType_def
        friend_main_def DBFriendStore_def elastic_profiles_def ElasticProfileStore_of_def
        case_prod_beta Let_def call_def f g h throw_def ret_def)
  obtain p where p: "status_clause t = Some p" "set ids = others p u (db w)"
    using GetUserIDsByFriendType_result [OF f [unfolded r1]] by blast
  have "i \<in> set found" if "i \<in> sp_UserID ` set ps" for i
    using that GetShortProfile_ids [OF h [unfolded r3(1)]] by (auto simp: r3(2) FromProto_ids)
  then show ?thesis
    using p search_respects_filter [OF assms(1) g [unfolded r2]] by auto
qed

text \<open>The listings of the service name only users of the listing.\<close>

lemma set_window: "set (window l off xs) \<subseteq> set xs"
  unfolding window_def by (meson order_trans set_drop_subset set_take_subset)

lemma listing_endpoint:
  assumes "call (m :: int32 list action) (\<lambda>err. throw ErrDB)
      (\<lambda>ids. call (pc_GetShortProfileByUserIDs (profile_conn E) ids) (\<lambda>err. throw ErrDB)
      (\<lambda>friends. ret (FromProtoShortProfileSlice friends))) w = (Ret ps, w')"
    and "\<And>ids w1. m w = (Ret ids, w1) \<Longrightarrow> set ids \<subseteq> X"
  shows "sp_UserID ` set ps \<subseteq> X"
proof -
  obtain r1 w1 where m: "m w = (r1, w1)" by fastforce
  with assms(1) obtain ids where r1: "r1 = Ret ids" by (cases r1) (auto simp: call_def throw_def)
  obtain r2 w2 where g: "pc_GetShortProfileByUserIDs (profile_conn E) ids w1 = (r2, w2)" by fastforce
  with assms(1) m r1 obtain resp where r2: "r2 = Ret resp" "ps = FromProtoShortProfileSlice resp"
    by (cases r2) (auto simp: call_def throw_def ret_def)
  show ?thesis
    using GetShortProfile_ids [OF g [unfolded r2(1)]] assms(2) m r1 r2(2)
    by (auto simp: FromProto_ids)
qed

lemma GetFriends_only:
  assumes "FriendService_GetFriends (friend_main E) u params w = (Ret ps, w')"
  shows "sp_UserID ` set ps \<subseteq> others is_accepted u (db w)"
proof (rule listing_endpoint)
  show "call (DBFriendStore_GetUserFriends u (snd (ValidatePaginationParams params))
        (fst (ValidatePaginationParams params))) (\<lambda>err. throw ErrDB)
      (\<lambda>ids. call (pc_GetShortProfileByUserIDs (profile_conn E) ids) (\<lambda>err. throw ErrDB)
      (\<lambda>friends. ret (FromProtoShortProfileSlice friends))) w = (Ret ps, w')"
    using assms
    by (simp add: FriendService_GetFriends_def case_prod_beta friend_main_def DBFriendStore_def)
qed (metis GetUserFriends_result listing_set(1) set_window)

lemma GetFriendRequests_only:
  assumes "FriendService_GetFriendRequests (friend_main E) u params w = (Ret ps, w')"
  shows "sp_UserID ` set ps \<subseteq> others is_incoming u (db w)"
proof (rule listing_endpoint)
  show "call (DBFriendStore_GetFriendshipRequests u (snd (ValidatePaginationParams params))
        (fst (ValidatePaginationParams params))) (\<lambda>err. throw ErrDB)
      (\<lambda>ids. call (pc_GetShortProfileByUserIDs (profile_conn E) ids) (\<lambda>err. throw ErrDB)
      (\<lambda>friends. ret (FromProtoShortProfileSlice friends))) w = (Ret ps, w')"
    using assms
    by (simp add: FriendService_GetFriendRequests_def case_prod_beta friend_main_def DBFriendStore_def)
qed (metis GetFriendshipRequests_result listing_set(2) set_window)

lemma GetSentRequests_only:
  assumes "FriendService_GetSentRequests (friend_main E) u params w = (Ret ps, w')"
  shows "sp_UserID ` set ps \<subseteq> others is_sent u (db w)"
proof (rule listing_endpoint)
  show "call (DBFriendStore_GetSentRequests u (snd (ValidatePaginationParams params))
        (fst (ValidatePaginationParams params))) (\<lambda>err. throw ErrDB)
      (\<lambda>ids. call (pc_GetShortProfileByUserIDs (profile_conn E) ids) (\<lambda>err. throw ErrDB)
      (\<lambda>friends. ret (FromProtoShortProfileSlice friends))) w = (Ret ps, w')"
    using assms
    by (simp add: FriendService_GetSentRequests_def case_prod_beta friend_main_def DBFriendStore_def)
qed (metis GetSentRequests_result listing_set(2) set_window)

end
