(* ===== verification/Auth_Handler.thy ===== *)
theory Auth_Handler
  imports Http
begin

text \<open>
  The HTTP handlers of authentication (src/internal/handler/auth.go) and the middleware in front of
  every API route (src/internal/handler/middleware.go). A middleware takes the next handler. The
  configuration is the flag \<open>Debug\<close>.
\<close>

subsection \<open>Sessions and cookies\<close>

definition AuthHandler_IsLoggedIn :: "AuthServiceClient \<Rightarrow> http_request \<Rightarrow> Session action" where
  "AuthHandler_IsLoggedIn api r =
     (case r_Cookie r ''session_id'' of
        None \<Rightarrow> throw ErrNotFound
      | Some sessionCookie \<Rightarrow>
          call (ac_IsLoggedIn api sessionCookie) (\<lambda>err. throw (FromGrpcError err))
          (\<lambda>resp. ret \<lparr>se_UserID = pb_UserId resp, se_CSRFToken = pb_CsrfToken resp\<rparr>))"

definition AuthHandler_IsLoggedInHandler :: "AuthServiceClient \<Rightarrow> http_handler" where
  "AuthHandler_IsLoggedInHandler api r =
     (case r_Cookie r ''session_id'' of
        None \<Rightarrow> sendJSONError ErrNotFound
      | Some sessionCookie \<Rightarrow>
          call (ac_IsLoggedIn api sessionCookie) (\<lambda>err. sendJSONError (FromGrpcError err))
          (\<lambda>resp. call (ac_GetUserRole api (pb_UserId resp))
            (\<lambda>err. sendJSONError (FromGrpcError err))
          (\<lambda>role. sendJSONData (IsLoggedInResponse (pb_UserId resp) role))))"

definition time_Now :: "time action" where
  [act]: "time_Now w = (Ret (clock w), w)"

text \<open>The two cookies that \<open>AddSession\<close> sets, each ten hours from the current time.\<close>

definition AuthHandler_AddSession :: "AuthServiceClient \<Rightarrow> int32 \<Rightarrow> http_cookie list action" where
  "AuthHandler_AddSession api userID =
     call (ac_AddSession api userID) (\<lambda>err. throw (FromGrpcError err))
     (\<lambda>resp. let tokens = \<lparr>st_CSRFToken = pb_Csrf resp, st_SID = pb_Sid resp\<rparr>
      in call time_Now throw
      (\<lambda>now.
        let sessionCookie = \<lparr>ck_Name = ''session_id'', ck_Value = st_SID tokens, ck_Path = ''/'',
              ck_Expires = now + 36000, ck_HttpOnly = True\<rparr>
        in call time_Now throw
      (\<lambda>now.
        let CSRFCookie = \<lparr>ck_Name = ''CSRF_token'', ck_Value = st_CSRFToken tokens,
              ck_Path = ''/'', ck_Expires = now + 36000, ck_HttpOnly = False\<rparr>
        in ret [sessionCookie, CSRFCookie])))"

definition with_cookies :: "http_cookie list \<Rightarrow> http_response action \<Rightarrow> http_response action" where
  "with_cookies cs m = call m throw (\<lambda>resp. ret (resp\<lparr>rs_Cookies := cs @ rs_Cookies resp\<rparr>))"

subsection \<open>The handlers\<close>

definition AuthHandler_Login :: "http_libs \<Rightarrow> AuthServiceClient \<Rightarrow> http_handler" where
  "AuthHandler_Login H api r =
     call (DecodeJSONBody (hl_decodeUser H) r) sendJSONError
     (\<lambda>req. call (ac_Login api (usr_Email req) (usr_Password req))
        (\<lambda>err. sendJSONError (FromGrpcError err))
     (\<lambda>userID. call (AuthHandler_AddSession api userID) sendJSONError
     (\<lambda>cookies. with_cookies cookies (sendJSONSuccess ''User logged in''))))"

text \<open>
  \<open>AddDate(0, 0, -1)\<close> is a day back. The CSRF cookie is dereferenced without a check.
\<close>

definition AuthHandler_Logout :: "AuthServiceClient \<Rightarrow> http_handler" where
  "AuthHandler_Logout api r =
     (case r_Cookie r ''session_id'' of
        None \<Rightarrow> ret (sendJSONResponse msg_InvalidParams http_BadRequest)
      | Some session \<Rightarrow>
          call (ac_Logout api session) (\<lambda>err. sendJSONError (FromGrpcError err))
          (\<lambda>_. call time_Now throw
          (\<lambda>now.
            let sessionCookie = \<lparr>ck_Name = ''session_id'', ck_Value = session, ck_Path = ''/'',
                  ck_Expires = now - 86400, ck_HttpOnly = True\<rparr>;
                CSRFTokenCookie = r_Cookie r ''CSRF_token''
            in deref CSRFTokenCookie
          (\<lambda>token. call time_Now throw
          (\<lambda>now.
            let CSRFToken = \<lparr>ck_Name = ''CSRF_token'', ck_Value = token, ck_Path = ''/'',
                  ck_Expires = now - 86400, ck_HttpOnly = False\<rparr>
            in with_cookies [sessionCookie, CSRFToken] (sendJSONSuccess ''User logged out''))))))"

definition AuthHandler_Register :: "http_libs \<Rightarrow> AuthServiceClient \<Rightarrow> http_handler" where
  "AuthHandler_Register H api r =
     call (DecodeJSONBody (hl_decodeRegister H) r) sendJSONError
     (\<lambda>req. call (ac_Register api (RegisterRequestToProto req))
        (\<lambda>err. sendJSONError (FromGrpcError err))
     (\<lambda>userID. call (AuthHandler_AddSession api userID) sendJSONError
     (\<lambda>cookies. with_cookies cookies
        (sendJSONSuccess ''User created, registration complete''))))"

subsection \<open>Middleware\<close>

text \<open>A preflight request is answered, every other one passed on (the headers are constants).\<close>

definition CorsMiddleware :: "http_handler \<Rightarrow> http_handler" where
  "CorsMiddleware next r =
     (if rq_Method r = ''OPTIONS''
      then ret \<lparr>rs_Status = http_OK, rs_Cookies = [], rs_Body = NoBody\<rparr>
      else next r)"

definition ForbiddenPathsWithAuth :: "string list" where
  "ForbiddenPathsWithAuth = [''/api/auth/login'', ''/api/auth/register'']"

definition AllowedPathsWithOutAuth :: "string list" where
  "AllowedPathsWithOutAuth =
     [''/api/auth/login'', ''/api/auth/register'', ''/api/auth/isloggedin'']"

definition SafeMethods :: "string list" where
  "SafeMethods = [''GET'', ''HEAD'', ''OPTIONS'', ''TRACE'']"

definition AuthMiddleware :: "AuthServiceClient \<Rightarrow> bool \<Rightarrow> http_handler \<Rightarrow> http_handler" where
  "AuthMiddleware api debug next r =
     (if rq_Method r = ''OPTIONS'' then next r
      else
      let path = rq_Path r;
          logged_in = (\<lambda>session.
            if path \<in> set ForbiddenPathsWithAuth
            then ret (sendJSONResponse msg_Forbidden http_Forbidden)
            else
            let ctx = r\<lparr>rq_UserID := Some (se_UserID session)\<rparr>
            in if rq_Method r \<notin> set SafeMethods \<and> \<not> debug \<and>
                  rq_Header r ''X-CSRF-Token'' \<noteq> se_CSRFToken session
               then ret (sendJSONResponse msg_Forbidden http_Forbidden)
               else next ctx);
          anonymous =
            (if path \<notin> set AllowedPathsWithOutAuth \<and>
                \<not> strings_HasPrefix path ''/api/applications''
             then ret (sendJSONResponse msg_Forbidden http_Forbidden)
             else next r)
      in call (AuthHandler_IsLoggedIn api r)
           (\<lambda>err. if errors_Is err ErrNotFound then anonymous
                  else ret (sendJSONResponse msg_ServerErr http_InternalServerError))
           logged_in)"

subsection \<open>Who gets through\<close>

text \<open>
  What a request may be passed on as: anonymously to an open path, or in the name of the user of its
  session, with the token of that session when the method is unsafe.
\<close>

definition open_path :: "string \<Rightarrow> bool" where
  "open_path path \<longleftrightarrow>
     path \<in> set AllowedPathsWithOutAuth \<or> strings_HasPrefix path ''/api/applications''"

definition authorised :: "(string \<Rightarrow> Session option) \<Rightarrow> bool \<Rightarrow> http_request \<Rightarrow> http_request \<Rightarrow> bool" where
  "authorised sessions debug r r' \<longleftrightarrow>
     (open_path (rq_Path r) \<and> r' = r) \<or>
     (\<exists>sid s. r_Cookie r ''session_id'' = Some sid \<and> sessions sid = Some s \<and>
        rq_Path r \<notin> set ForbiddenPathsWithAuth \<and>
        (rq_Method r \<in> set SafeMethods \<or> debug \<or>
         rq_Header r ''X-CSRF-Token'' = se_CSRFToken s) \<and>
        r' = r\<lparr>rq_UserID := Some (se_UserID s)\<rparr>)"

lemma IsLoggedIn_session:
  assumes "AuthHandler_IsLoggedIn (auth_conn E) r w = (x, w')"
  shows "quiet w w' \<and> (case x of
       Ret s \<Rightarrow> \<exists>sid. r_Cookie r ''session_id'' = Some sid \<and>
         session_view (lib_unmarshalSession E) w sid = Some s
     | Fail e \<Rightarrow> True | Panic \<Rightarrow> False)"
proof (cases "r_Cookie r ''session_id''")
  case None
  then show ?thesis using assms by (auto simp: AuthHandler_IsLoggedIn_def throw_def)
next
  case (Some sid)
  obtain r1 w1 where g: "ac_IsLoggedIn (auth_conn E) sid w = (r1, w1)" by fastforce
  show ?thesis
    using assms Some accounts.client_IsLoggedIn [OF g [unfolded auth_conn_def]]
    by (auto simp: AuthHandler_IsLoggedIn_def call_def g throw_def ret_def split: res.splits)
qed

lemma AuthMiddleware_guards:
  assumes "AuthMiddleware (auth_conn E) debug next r w = (x, w')" "rq_Method r \<noteq> ''OPTIONS''"
  shows "(\<exists>r' w1. quiet w w1 \<and> authorised (session_view (lib_unmarshalSession E) w) debug r r' \<and>
       next r' w1 = (x, w')) \<or>
     (quiet w w' \<and> (\<exists>resp. x = Ret resp \<and>
        rs_Status resp \<in> {http_Forbidden, http_InternalServerError}))"
proof -
  obtain r1 w1 where l: "AuthHandler_IsLoggedIn (auth_conn E) r w = (r1, w1)" by fastforce
  note L = IsLoggedIn_session [OF l]
  show ?thesis
  proof (cases r1)
    case (Ret s)
    then show ?thesis
      using assms L
      by (auto simp: AuthMiddleware_def Let_def call_def l ret_def sendJSONResponse_def
          authorised_def split: if_splits)
  next
    case (Fail e)
    then show ?thesis
      using assms L
      by (auto simp: AuthMiddleware_def Let_def call_def l ret_def sendJSONResponse_def
          authorised_def open_path_def split: if_splits)
  qed (use L in simp)
qed

text \<open>An authorised request gets through when no call fails.\<close>

lemma AuthMiddleware_admits:
  assumes "no_faults w" "authorised (session_view (lib_unmarshalSession E) w) debug r r'" "r' \<noteq> r"
    and "rq_Method r \<noteq> ''OPTIONS''"
  shows "\<exists>w1. quiet w w1 \<and> AuthMiddleware (auth_conn E) debug next r w = next r' w1"
proof -
  obtain sid s where c: "r_Cookie r ''session_id'' = Some sid"
    and sv: "session_view (lib_unmarshalSession E) w sid = Some s"
    and p: "rq_Path r \<notin> set ForbiddenPathsWithAuth"
    "rq_Method r \<in> set SafeMethods \<or> debug \<or> rq_Header r ''X-CSRF-Token'' = se_CSRFToken s"
    "r' = r\<lparr>rq_UserID := Some (se_UserID s)\<rparr>"
    using assms(2,3) unfolding authorised_def by blast
  obtain w1 where l: "ac_IsLoggedIn (auth_conn E) sid w =
      (Ret \<lparr>pb_UserId = se_UserID s, pb_CsrfToken = se_CSRFToken s\<rparr>, w1)" "quiet w w1"
    using client_IsLoggedIn_ok [OF assms(1) sv] by blast
  show ?thesis
    using l p c assms(4)
    by (auto simp: AuthMiddleware_def AuthHandler_IsLoggedIn_def Let_def call_def ret_def)
qed

lemma Logout_without_csrf:
  assumes "no_faults w" "r_Cookie r ''session_id'' = Some sid" "r_Cookie r ''CSRF_token'' = None"
  shows "\<exists>w'. AuthHandler_Logout (auth_conn E) r w = (Panic, w') \<and>
     redis_live w' (''sessions:'' @ sid) = None"
proof -
  have nf: "next_fault w = None" "next_fault (tick w) = None"
    using assms(1) by simp_all
  then show ?thesis
    using assms(2,3)
    by (auto simp: AuthHandler_Logout_def auth_conn_def auth_client_def GrpcAuthHandler_Logout_def
        AuthService_Logout_def auth_main_def RedisSessionStore_def RedisSessionStore_DeleteSession_def
        Let_def act redis_live_def)
qed

text \<open>
  A successful login: the two cookies hold a new session of a user whose email and password were
  given, and no other session has changed.
\<close>

lemma MapErrorToHTTP_not_OK: "fst (MapErrorToHTTP e) \<noteq> http_OK"
  by (simp add: MapErrorToHTTP_def)

lemma AuthHandler_AddSession_result:
  assumes "AuthHandler_AddSession (auth_conn E) u w = (r, w')"
  shows "case r of
      Ret cs \<Rightarrow> \<exists>sid token. map ck_Name cs = [''session_id'', ''CSRF_token''] \<and>
        map ck_Value cs = [sid, token] \<and>
        session_view (lib_unmarshalSession E) w' = (session_view (lib_unmarshalSession E) w)
          (sid := lib_unmarshalSession E (lib_marshalSession E
             \<lparr>se_UserID = u, se_CSRFToken = token\<rparr>))
    | Fail e \<Rightarrow> session_view (lib_unmarshalSession E) w' = session_view (lib_unmarshalSession E) w
    | Panic \<Rightarrow> False"
proof -
  obtain r1 w1 where a: "ac_AddSession (auth_conn E) u w = (r1, w1)" by fastforce
  show ?thesis
    using assms accounts.client_AddSession [OF a [unfolded auth_conn_def]]
    by (auto simp: AuthHandler_AddSession_def Let_def call_def time_Now_def a throw_def ret_def
        split: res.splits)
qed

lemma Login_OK:
  assumes "AuthHandler_Login H (auth_conn E) r w = (Ret resp, w')" "rs_Status resp = http_OK"
  shows "\<exists>req v sid token. hl_decodeUser H (rq_Body r) = Some req \<and> v \<in> user_view w \<and>
    usr_Email v = usr_Email req \<and>
    CompareHashAndPassword (lib_auth E) (usr_Password v) (usr_Password req) \<and>
    map ck_Name (rs_Cookies resp) = [''session_id'', ''CSRF_token''] \<and>
    map ck_Value (rs_Cookies resp) = [sid, token] \<and>
    session_view (lib_unmarshalSession E) w' = (session_view (lib_unmarshalSession E) w)
      (sid := lib_unmarshalSession E (lib_marshalSession E
         \<lparr>se_UserID = usr_ID v, se_CSRFToken = token\<rparr>))"
proof -
  obtain r1 w1 where d: "DecodeJSONBody (hl_decodeUser H) r w = (r1, w1)" by fastforce
  have d1: "quiet w w1" "\<forall>req. r1 = Ret req \<longrightarrow> hl_decodeUser H (rq_Body r) = Some req"
    using d by (auto simp: DecodeJSONBody_def act split: option.splits)
  obtain req where req: "r1 = Ret req"
    using assms d MapErrorToHTTP_not_OK
    by (cases r1) (auto simp: AuthHandler_Login_def call_def sendJSONError_status sendJSONResponse_def)
  obtain r2 w2 where l: "ac_Login (auth_conn E) (usr_Email req) (usr_Password req) w1 = (r2, w2)"
    by fastforce
  note L = accounts.client_Login [OF l [unfolded auth_conn_def]]
  obtain i where i: "r2 = Ret i"
    using assms d req l MapErrorToHTTP_not_OK
    by (cases r2) (auto simp: AuthHandler_Login_def call_def sendJSONError_status sendJSONResponse_def)
  obtain r3 w3 where a: "AuthHandler_AddSession (auth_conn E) i w2 = (r3, w3)" by fastforce
  note A = AuthHandler_AddSession_result [OF a]
  have "user_view w1 = user_view w"
    "session_view (lib_unmarshalSession E) w2 = session_view (lib_unmarshalSession E) w"
    using d1(1) L user_view_quiet session_view_quiet by metis+
  then show ?thesis
    using assms d d1(2) req l i a A L MapErrorToHTTP_not_OK
    by (cases r3) (auto 0 4 simp: AuthHandler_Login_def call_def sendJSONError_status
        sendJSONResponse_def with_cookies_def sendJSONSuccess_def ret_def)
qed

text \<open>Creating a session through the connection is creating one in Redis.\<close>

lemma conn_AddSession:
  assumes "ac_AddSession (auth_conn E) u w = (Ret m, w')"
  shows "RedisSessionStore_AddSession (lib_marshalSession E) u (tick w) =
    (Ret \<lparr>st_CSRFToken = pb_Csrf m, st_SID = pb_Sid m\<rparr>, w')"
proof -
  obtain r1 w1 where
    a: "RedisSessionStore_AddSession (lib_marshalSession E) u (tick w) = (r1, w1)" by fastforce
  show ?thesis
    using assms a
    by (auto simp: auth_conn_def auth_client_def grpc_call_def external_def auth_main_def
        GrpcAuthHandler_AddSession_def AuthService_AddSession_def RedisSessionStore_def call_def
        throw_def ret_def split: option.splits res.splits)
qed

lemma Logout_cases:
  assumes "r_Cookie r ''session_id'' = Some sid"
    and "AuthHandler_Logout (auth_conn E) r w = (x, w')"
  shows "(session_view (lib_unmarshalSession E) w' = (session_view (lib_unmarshalSession E) w)(sid := None) \<and>
      (case r_Cookie r ''CSRF_token'' of
         None \<Rightarrow> x = Panic
       | Some token \<Rightarrow> \<exists>resp. x = Ret resp \<and> rs_Status resp = http_OK \<and>
           map (\<lambda>c. (ck_Name c, ck_Value c, ck_Path c)) (rs_Cookies resp) =
             [(''session_id'', sid, ''/''), (''CSRF_token'', token, ''/'')] \<and>
           list_all (\<lambda>c. ck_Expires c < clock w') (rs_Cookies resp))) \<or>
    (session_view (lib_unmarshalSession E) w' = session_view (lib_unmarshalSession E) w \<and> \<not> no_faults w \<and>
      (\<exists>resp. x = Ret resp \<and> rs_Status resp \<noteq> http_OK))"
proof -
  obtain r1 w1 where l: "ac_Logout (auth_conn E) sid w = (r1, w1)" by fastforce
  have f: "no_faults w \<Longrightarrow> r1 \<noteq> Fail e" for e
  proof -
    assume "no_faults w"
    then have "next_fault w = None" "next_fault (tick w) = None" by simp_all
    then show "r1 \<noteq> Fail e"
      using l
      by (auto simp: auth_conn_def auth_client_def GrpcAuthHandler_Logout_def AuthService_Logout_def
          auth_main_def RedisSessionStore_def RedisSessionStore_DeleteSession_def Let_def act)
  qed
  show ?thesis
    using assms accounts.client_Logout [OF l [unfolded auth_conn_def]] MapErrorToHTTP_not_OK f
    by (auto simp: AuthHandler_Logout_def call_def l time_Now_def Let_def deref_def
        nil_dereference_def with_cookies_def sendJSONSuccess_def ret_def sendJSONResponse_def
        sendJSONError_status split: res.splits option.splits)
qed

end
