(* ===== verification/Profile_Handler.thy ===== *)
theory Profile_Handler
  imports Http
begin

text \<open>
  The HTTP handlers of profiles (src/internal/handler/profile.go), and what the operations of the
  profile service do to a user's row.
\<close>

definition ProfileHandler_UpdateProfile :: "http_libs \<Rightarrow> ProfileServiceClient \<Rightarrow> http_handler" where
  "ProfileHandler_UpdateProfile H api r =
     call (ParseMultipart r) sendJSONError
     (\<lambda>form. let jsonProfile = mp_Value form ''profile''
      in if jsonProfile = [] then ret (sendJSONResponse ''Missing profile field'' http_BadRequest)
         else case hl_decodeProfile H jsonProfile of
           None \<Rightarrow> ret (sendJSONResponse ''Invalid JSON'' http_BadRequest)
         | Some req \<Rightarrow>
             let userID = ctx_userID r
             in call (MultipartFiles form ''avatar'') sendJSONError
             (\<lambda>files. call (pc_UpdateProfile api (ToProtoProfile req) userID (FilesToProto files))
                (\<lambda>err. sendJSONError (FromGrpcError err))
             (\<lambda>_. sendJSONSuccess ''Profile updated'')))"

definition ProfileHandler_UpdateAvatar :: "ProfileServiceClient \<Rightarrow> http_handler" where
  "ProfileHandler_UpdateAvatar api r =
     call (ParseMultipart r) sendJSONError
     (\<lambda>form. let userID = ctx_userID r
      in call (MultipartFiles form ''avatar'') sendJSONError
      (\<lambda>files. call (pc_UpdateAvatar api userID (FilesToProto files))
        (\<lambda>err. sendJSONError (FromGrpcError err))
      (\<lambda>_. sendJSONSuccess ''Avatar updated'')))"

text \<open>As in the source, the header's handler calls \<open>UpdateAvatar\<close>.\<close>

definition ProfileHandler_UpdateHeader :: "ProfileServiceClient \<Rightarrow> http_handler" where
  "ProfileHandler_UpdateHeader api r =
     call (ParseMultipart r) sendJSONError
     (\<lambda>form. let userID = ctx_userID r
      in call (MultipartFiles form ''header'') sendJSONError
      (\<lambda>files. call (pc_UpdateAvatar api userID (FilesToProto files))
        (\<lambda>err. sendJSONError (FromGrpcError err))
      (\<lambda>_. sendJSONSuccess ''Header updated'')))"

definition ProfileHandler_GetProfileByUserID :: "ProfileServiceClient \<Rightarrow> http_handler" where
  "ProfileHandler_GetProfileByUserID api r =
     call (PathInt32 r ''id'') sendJSONError
     (\<lambda>userID. let selfUserID = ctx_userID r
      in call (pc_GetProfileByUserID api selfUserID userID)
           (\<lambda>err. sendJSONError (FromGrpcError err))
      (\<lambda>resp. sendJSONData (ProfilePayload (FromProtoProfile resp))))"

definition ProfileHandler_DeleteAvatar :: "ProfileServiceClient \<Rightarrow> http_handler" where
  "ProfileHandler_DeleteAvatar api r =
     (let userID = ctx_userID r
      in call (pc_DeleteAvatarByUserID api userID) (\<lambda>err. sendJSONError (FromGrpcError err))
      (\<lambda>_. sendJSONSuccess ''Avatar deleted''))"

end
