(* ===== verification/Profile_Tables.thy ===== *)
theory Profile_Tables
  imports Profile_Handler
begin

text \<open>
  Invariants of the table of profiles: one row per registered user within the schema's limits, kept
  by every operation of the profile service; and what an update of one column leaves alone.
\<close>

definition wf_profiles :: "database \<Rightarrow> bool" where
  "wf_profiles d \<longleftrightarrow> distinct (map p_user_id (profiles d)) \<and>
     (\<forall>r \<in> set (profiles d). profiles_check r \<and> user_exists d (p_user_id r))"

lemma user_exists_profiles [simp]: "user_exists (d\<lparr>profiles := rs\<rparr>) u \<longleftrightarrow> user_exists d u"
  by (simp add: user_exists_def)

lemma insert_profile_wf:
  assumes "insert_profile p now d = Some (d', n)" "wf_profiles d"
  shows "wf_profiles d'"
proof -
  from assms(1) obtain row where d': "d' = d\<lparr>profiles := profiles d @ [row]\<rparr>"
    and row: "p_user_id row = pr_UserID p" "profiles_check row" "user_exists d (pr_UserID p)"
    and fresh: "pr_UserID p \<notin> p_user_id ` set (profiles d)"
    by (simp add: insert_profile_def Let_def image_iff split: if_splits) force
  show ?thesis
    using assms(2) row fresh unfolding d' by (simp add: wf_profiles_def)
qed

lemma update_profiles_wf:
  assumes "update_profiles u f now d = Some (d', n)" "wf_profiles d" "\<And>r. p_user_id (f r) = p_user_id r"
  shows "wf_profiles d'"
proof -
  from assms(1) have d': "d' = d\<lparr>profiles := update_where (\<lambda>r. p_user_id r = u) f (profiles d)\<rparr>"
    and chk: "\<forall>r \<in> set (profiles d). p_user_id r = u \<longrightarrow> profiles_check (f r)"
    by (auto simp: update_profiles_def Let_def split: if_splits)
  have "map p_user_id (profiles d') = map p_user_id (profiles d)"
    unfolding d' using assms(3) by (simp add: map_update_where_same)
  then show ?thesis
    using assms(2,3) chk unfolding wf_profiles_def d' by (auto simp: set_update_where)
qed

lemma keeps_scan_string [wf_intros]: "keeps I (scan_string v)"
  by (auto simp: scan_string_def intro!: wf_intros split: option.splits)

lemma keeps_DeleteAvatar:
  assumes "\<And>now d d' n. update_profiles u (\<lambda>r. r\<lparr>p_avatar_path := None\<rparr>) now d = Some (d', n) \<Longrightarrow>
    I d \<Longrightarrow> I d'"
  shows "keeps I (DBProfileStore_DeleteAvatarByUserID u)"
  unfolding DBProfileStore_DeleteAvatarByUserID_def
  by (rule keeps_tx_Begin) (use assms in \<open>auto simp: Let_def intro!: wf_intros\<close>)

lemma keeps_profile_reads [wf_intros]:
  "keeps I (DBProfileStore_GetProfileByUserID u)" "keeps I (DBProfileStore_GetAvatarByUserID u)"
  "keeps I (DBProfileStore_GetHeaderByUserID u)"
  by (auto simp: DBProfileStore_GetProfileByUserID_def DBProfileStore_GetAvatarByUserID_def
      DBProfileStore_GetHeaderByUserID_def intro!: wf_intros)

lemma keeps_es_UpdateProfile [wf_intros]: "keeps I (es_UpdateProfile (elastic_profiles E) n u)"
  by (auto simp: elastic_profiles_def ElasticProfileStore_of_def Let_def keeps_def
      ElasticProfileStore_UpdateProfile_def es_request_def intro!: keeps_external split: option.splits)
     (auto simp: external_def split: option.splits)

lemma keeps_deref [wf_intros]: "(\<And>x. keeps I (k x)) \<Longrightarrow> keeps I (deref p k)"
  by (auto simp: deref_def intro!: wf_intros split: option.splits)

lemma keeps_first_path [wf_intros]: "(\<And>x. keeps I (k x)) \<Longrightarrow> keeps I (first_path p k)"
  by (auto simp: first_path_def intro!: wf_intros split: list.splits)

lemma profile_main_sel [simp]:
  "prs_profileStore (profile_main E) = DBProfileStore" "prs_friendStore (profile_main E) = DBFriendStore"
  "prs_elasticProfileStore (profile_main E) = elastic_profiles E"
  by (simp_all add: profile_main_def)

text \<open>
  Invariants of the statements. Whatever the INSERT and the UPDATEs of the store keep, every operation
  of the service that writes keeps, and so does every HTTP handler over the gRPC connection.
\<close>

locale profile_statements =
  fixes I :: "database \<Rightarrow> bool"
  assumes insert_profile: "insert_profile p now d = Some (d', n) \<Longrightarrow> I d \<Longrightarrow> I d'"
    and update_profiles: "update_profiles u f now d = Some (d', n) \<Longrightarrow>
      (\<And>r. p_user_id (f r) = p_user_id r) \<Longrightarrow> I d \<Longrightarrow> I d'"
begin

lemma keeps_profile_store [wf_intros]:
  "keeps I (DBProfileStore_CreateProfile p)" "keeps I (DBProfileStore_UpdateProfile p u)"
  "keeps I (DBProfileStore_UpdateAvatar s u)" "keeps I (DBProfileStore_UpdateHeader s u)"
  "keeps I (DBProfileStore_DeleteAvatarByUserID u)"
  by (auto simp: DBProfileStore_CreateProfile_def DBProfileStore_UpdateProfile_def
      DBProfileStore_UpdateAvatar_def DBProfileStore_UpdateHeader_def
      intro!: wf_intros keeps_DeleteAvatar dest: insert_profile update_profiles)

lemma keeps_profile_service:
  "keeps I (ProfileService_CreateProfile valid (profile_main E) p)"
  "keeps I (ProfileService_UpdateProfile valid (profile_main E) p u fs)"
  "keeps I (ProfileService_UpdateAvatar (profile_main E) u fs)"
  "keeps I (ProfileService_UpdateHeader (profile_main E) u fs)"
  "keeps I (ProfileService_DeleteAvatarByUserID (profile_main E) u)"
  by (auto simp: ProfileService_CreateProfile_def ProfileService_UpdateProfile_def
      ProfileService_UpdateAvatar_def ProfileService_UpdateHeader_def
      ProfileService_DeleteAvatarByUserID_def DBProfileStore_def Let_def
      intro!: wf_intros)

end

interpretation profile_wf: profile_statements wf_profiles
  by unfold_locales (auto dest: insert_profile_wf update_profiles_wf)

text \<open>The table of profiles is all that such an operation changes in the tables.\<close>

definition other_than_profiles :: "database \<Rightarrow> database" where
  "other_than_profiles d = d\<lparr>profiles := []\<rparr>"

interpretation profile_frame: profile_statements "\<lambda>d. other_than_profiles d = v" for v
  by unfold_locales
     (auto simp: other_than_profiles_def insert_profile_def update_profiles_def Let_def split: if_splits)

subsection \<open>The header endpoint\<close>

text \<open>A column that an update does not assign is the same in every row.\<close>

lemma update_profiles_column:
  assumes "update_profiles u f now d = Some (d', n)" "\<And>r. col (f r) = col r"
  shows "map col (profiles d') = map col (profiles d)"
  using assms by (auto simp: update_profiles_def Let_def map_update_where_same split: if_splits)

lemma UpdateAvatar_headers:
  "keeps (\<lambda>d. map p_header_path (profiles d) = hs) (ProfileService_UpdateAvatar (profile_main E) u fs)"
  by (auto simp: ProfileService_UpdateAvatar_def profile_main_def DBProfileStore_def
      DBProfileStore_UpdateAvatar_def intro!: wf_intros dest: update_profiles_column [where col = p_header_path])

lemma UpdateHeader_headers:
  "keeps (\<lambda>d. map p_header_path (profiles d) = hs) (ProfileHandler_UpdateHeader (profile_conn E) r)"
  unfolding ProfileHandler_UpdateHeader_def profile_conn_def profile_client_def
  by (auto simp: Let_def GrpcProfileHandler_UpdateAvatar_def intro!: wf_intros UpdateAvatar_headers)

end
