(* ===== verification/Examples.thy ===== *)
theory Examples
  imports Friend_Handler Auth_Handler Profile_Tables
begin

text \<open>
  Concrete instances on which the properties are evaluated: a set of third-party functions that meets
  every named hypothesis, and a world with three registered users, two profiles and an empty table
  of friendships.
\<close>

text \<open>A codec of sessions: the 32 bits of the user id, then the token.\<close>

definition example_enc :: "Session \<Rightarrow> string" where
  "example_enc s =
     map (\<lambda>n. if bit (se_UserID s) n then CHR ''1'' else CHR ''0'') [0..<32] @ se_CSRFToken s"

definition example_dec :: "string \<Rightarrow> Session option" where
  "example_dec t = (if length t < 32 then None else
     Some \<lparr>se_UserID = horner_sum of_bool 2 (map (\<lambda>c. c = CHR ''1'') (take 32 t)),
           se_CSRFToken = drop 32 t\<rparr>)"

lemma example_codec [simp]: "example_dec (example_enc s) = Some s"
proof -
  have "map ((\<lambda>c. c = CHR ''1'') \<circ> (\<lambda>n. if bit u n then CHR ''1'' else CHR ''0'')) [0..<32]
      = map (bit u) [0..<32]" for u :: int32
    by (rule map_cong) simp_all
  moreover have "horner_sum of_bool 2 (map (bit u) [0..<32]) = u" for u :: int32
    by (simp only: horner_sum_bit_eq_take_bit) (simp add: take_bit_word_eq_self)
  ultimately have "horner_sum of_bool 2
      (map ((\<lambda>c. c = CHR ''1'') \<circ> (\<lambda>n. if bit u n then CHR ''1'' else CHR ''0'')) [0..<32]) = u"
    for u :: int32
    by (simp only:)
  then show ?thesis
    by (simp add: example_dec_def example_enc_def del: upt_rec_numeral)
qed

text \<open>A search engine that answers a terms query with the documents of its users.\<close>

definition example_engine :: es_engine where
  "example_engine docs q lim from =
     (case (eq_filter q, eq_must_not q) of
        (Some ids, None) \<Rightarrow>
          Some (take (nat (sint lim)) (filter (\<lambda>d. pd_UserID d \<in> set ids)
            (concat (map (\<lambda>i. case docs (strconv_Itoa (sint i)) of None \<Rightarrow> [] | Some d \<Rightarrow> [d]) ids))))
      | _ \<Rightarrow> Some [])"

definition example_community_engine :: es_community_engine where
  "example_community_engine docs q lim from =
     (case (mq_filter q, mq_must_not q) of
        (Some ids, None) \<Rightarrow>
          Some (filter (\<lambda>d. cd_CommunityID d \<in> set ids)
            (concat (map (\<lambda>i. case docs (strconv_Itoa (sint i)) of None \<Rightarrow> [] | Some d \<Rightarrow> [d]) ids)))
      | _ \<Rightarrow> Some [])"

definition example_auth_libs :: auth_libs where
  "example_auth_libs =
     \<lparr>ValidateStruct_RegisterRequest = (\<lambda>r. rr_Email r \<noteq> []),
      CompareHashAndPassword = (\<lambda>h p. h = ''bcrypt:'' @ p),
      GenerateFromPassword = (\<lambda>p. ret (''bcrypt:'' @ p))\<rparr>"

definition example_libs :: libraries where
  "example_libs =
     \<lparr>lib_validProfile = (\<lambda>_. True), lib_auth = example_auth_libs,
      lib_marshalSession = example_enc, lib_unmarshalSession = example_dec,
      lib_unidecode = (\<lambda>s. s), lib_engine = example_engine,
      lib_communityEngine = example_community_engine\<rparr>"

definition example_user :: "int32 \<Rightarrow> string \<Rightarrow> user_row" where
  "example_user i email = \<lparr>u_id = i, u_email = email, u_role = ''member'',
     u_password = ''bcrypt:secret'', u_created_at = 0, u_updated_at = 0\<rparr>"

definition example_world :: world where
  "example_world = empty_world\<lparr>clock := 1000, seqs := (\<lambda>_. 3),
     db := empty_database\<lparr>users := [example_user 1 ''a@x'', example_user 2 ''b@x'', example_user 3 ''c@x'']\<rparr>\<rparr>"

text \<open>User 1 asked user 2, who accepted; then the counts of user 1.\<close>

definition example_friends :: world where
  "example_friends = snd (perform (friend_main example_libs) (Accept 2 1)
     (snd (perform (friend_main example_libs) (Send 1 2) example_world)))"

lemma example_send:
  "perform (friend_main example_libs) (Send 1 2) example_world =
     (Ret (), snd (perform (friend_main example_libs) (Send 1 2) example_world))"
proof (rule prod_eqI)
  show "fst (perform (friend_main example_libs) (Send 1 2) example_world) = fst (Ret (),
      snd (perform (friend_main example_libs) (Send 1 2) example_world))"
    by code_simp
qed simp

lemma example_accept:
  "perform (friend_main example_libs) (Accept 2 1)
     (snd (perform (friend_main example_libs) (Send 1 2) example_world)) = (Ret (), example_friends)"
proof (rule prod_eqI)
  show "fst (perform (friend_main example_libs) (Accept 2 1)
      (snd (perform (friend_main example_libs) (Send 1 2) example_world))) =
      fst (Ret () :: unit res, example_friends)"
    by code_simp
qed (simp add: example_friends_def)

lemma example_relation:
  "rel_of (friend_view example_friends) 1 2 = Some (FriendshipAccepted, 2)"
  by code_simp

definition example_counts :: UserRelationsCounts where
  "example_counts = \<lparr>rc_Accepted = 1, rc_Pending = 0, rc_Sent = 0, rc_Blocked = 0\<rparr>"

text \<open>A request of user \<open>u\<close> with the id \<open>v\<close> in its path.\<close>

definition example_request :: "int32 \<Rightarrow> int32 \<Rightarrow> http_request" where
  "example_request u v = \<lparr>rq_Method = ''POST'', rq_Path = ''/api/friends'',
     rq_Vars = [''id'' \<mapsto> strconv_Itoa (sint v)], rq_Query = (\<lambda>_. []), rq_Header = (\<lambda>_. []),
     rq_Cookies = [], rq_Body = [], rq_Multipart = None, rq_UserID = Some u,
     rq_TempSession = None\<rparr>"

lemma example_asks: "asks_for (example_request 1 2) (Send 1 2)"
  by code_simp

text \<open>The friends with a profile of user 2 in the database and in the search index.\<close>

definition example_profile :: "int32 \<Rightarrow> profile_row" where
  "example_profile i = \<lparr>p_user_id = i, p_first_name = ''Bob'', p_last_name = ''Ray'',
     p_avatar_path = Some ''old.png'', p_header_path = None, p_about_myself = None,
     p_gender = ''m'', p_dob = 0\<rparr>"

definition example_search_world :: world where
  "example_search_world = example_friends\<lparr>db := (db example_friends)\<lparr>profiles := [example_profile 2]\<rparr>,
     profile_index := [strconv_Itoa 2 \<mapsto>
       \<lparr>pd_UserID = 2, pd_FullName = ''Bob Ray'', pd_FullNameTranslit = ''Bob Ray''\<rparr>]\<rparr>"

definition example_found :: "ShortProfile list" where
  "example_found = [\<lparr>sp_UserID = 2, sp_FullName = ''Bob Ray'', sp_AvatarPath = Some ''old.png'',
     sp_Dob = 0\<rparr>]"

lemma example_engine_honours: "honours_filters (lib_engine example_libs)"
  by (auto simp: honours_filters_def example_libs_def example_engine_def intro: ranI [OF sym]
      split: option.splits dest!: in_set_takeD)

lemma example_community_engine_honours:
  "honours_community_filters (lib_communityEngine example_libs)"
  by (auto simp: honours_community_filters_def example_libs_def example_community_engine_def
      intro: ranI [OF sym] split: option.splits)

text \<open>A registration, and a world in which user 1 has a session.\<close>

definition example_registration :: "string \<Rightarrow> RegisterRequest" where
  "example_registration email = \<lparr>rr_FirstName = ''Dan'', rr_LastName = ''Dee'',
     rr_Email = email, rr_Password = ''password'', rr_ConfirmPassword = ''password'',
     rr_Dob = 0, rr_Gender = ''m''\<rparr>"

lemma example_bcrypt: "bcrypt_contract (lib_auth example_libs)"
proof -
  have "\<exists>g fs. w = w\<lparr>entropy := g, faults := fs\<rparr>" for w :: world
    by (metis world.surjective world.update_convs(2,3))
  then show ?thesis
    by (auto simp: bcrypt_contract_def example_libs_def example_auth_libs_def ret_def)
qed

definition example_session_world :: world where
  "example_session_world = example_world\<lparr>redis := [''sessions:sid'' \<mapsto>
     (example_enc \<lparr>se_UserID = 1, se_CSRFToken = ''tok''\<rparr>, 2000)]\<rparr>"

definition example_session_request :: http_request where
  "example_session_request = (example_request 1 2)\<lparr>rq_UserID := None,
     rq_Cookies := [(''session_id'', ''sid'')],
     rq_Header := (\<lambda>h. if h = ''X-CSRF-Token'' then ''tok'' else [])\<rparr>"

definition example_entropy_world :: world where
  "example_entropy_world = example_world\<lparr>entropy := word_of_nat\<rparr>"

text \<open>Decoders that answer every body with the same value.\<close>

definition example_http_libs :: http_libs where
  "example_http_libs =
     \<lparr>hl_decodePaginate = (\<lambda>_. Some \<lparr>Limit = 10, Page = 1\<rparr>),
      hl_decodeUser = (\<lambda>_. Some \<lparr>usr_ID = 0, usr_Email = ''a@x'', usr_Password = ''secret'', usr_Role = []\<rparr>),
      hl_decodeRegister = (\<lambda>_. Some (example_registration ''d@x'')),
      hl_decodeProfile = (\<lambda>_. None),
      hl_decodeCommentCreate = (\<lambda>_. Some \<lparr>cr_PostID = 1, cr_Text = ''hi''\<rparr>),
      hl_decodeCommentUpdate = (\<lambda>_. Some ''hi''), hl_decodeLastRead = (\<lambda>_. Some 1),
      hl_decodeApplication = (\<lambda>_. None), hl_decodeApplicationText = (\<lambda>_. Some ''help''),
      hl_decodeApplicationStatus = (\<lambda>_. Some ''closed''), hl_parseUUID = Some\<rparr>"

text \<open>A served directory, and an upload whose second write meets a full disk.\<close>

definition example_files :: world where
  "example_files = example_world\<lparr>filesystem :=
     [''/srv/uploads'' \<mapsto> Directory, ''/srv/uploads/a.png'' \<mapsto> RegularFile [1, 2]]\<rparr>"

definition example_file :: File where
  "example_file = \<lparr>file_Filename = ''cat.png'', file_ContentType = ''image/png'', file_Data = [1]\<rparr>"

definition example_disk_full :: world where
  "example_disk_full = example_world\<lparr>cwd := ''/app'',
     uuids := (\<lambda>n. if n = 0 then ''u0'' else if n = 1 then ''u1'' else ''u2''),
     faults := [None, None, None, Some ''no space left on device'']\<rparr>"

lemma example_fresh: "fresh_names [example_file, example_file] example_disk_full"
proof -
  have "\<forall>u \<in> set [''u0'', ''u1'', ''u2'']. \<forall>f \<in> set [example_file, example_file].
     let p = stored_at example_disk_full (u @ filepath_Ext (file_Filename f))
     in filesystem example_disk_full p = None \<and> p \<noteq> absolute example_disk_full uploadDir"
    by code_simp
  moreover have "uuids example_disk_full n \<in> set [''u0'', ''u1'', ''u2'']" for n
    by (simp add: example_disk_full_def)
  ultimately show ?thesis unfolding fresh_names_def by blast
qed

end
