(* ===== verification/Friend_Properties.thy ===== *)
theory Friend_Properties
  imports Examples
begin

text \<open>
  The properties of friendships: the state machine of a pair of users behind the HTTP endpoints, the
  shape of the table, the listings and counts over it, and the search by relation.
\<close>

section \<open>Friendships\<close>

text \<open>
  C3. Friendship needs consent. Start from an empty table of friendships and let any sequence of
  requests run, with any calls to the database or to other services failing, and with any other
  activity in between. Then the accepted operations on a pair explain its relation: two users are
  friends only if the last accepted operations on the pair were one's request and the other's
  acceptance, a request is pending only if its sender sent it last, and a relation that is gone was
  removed.
\<close>

theorem friendship_needs_consent:
  assumes "friend_history (friend_main E) friend_view w0 tr w"
    and "friend_relationships (db w0) = []"
  shows "explains (effective tr a b) a b (rel_of (friend_view w) a b)"
proof (rule friendships.history_explains [OF assms(1)])
  show "friend_view w0 = (\<lambda>_ _. None)"
    using assms(2) by (intro ext) (simp add: friend_view_def)
qed

theorem friendship_needs_consent_witness:
  "explains [Send 1 2, Accept 2 1] 1 2 (rel_of (friend_view example_friends) 1 2) \<and>
   rel_of (friend_view example_friends) 1 2 = Some (FriendshipAccepted, 2)"
proof
  have "friend_history (friend_main example_libs) friend_view example_world
      (([] @ [(Send 1 2, Ret ())]) @ [(Accept 2 1, Ret ())]) example_friends"
    by (rule friend_history.operation [OF friend_history.operation [OF friend_history.start]])
       (rule example_send, rule example_accept)
  then have "explains (effective [(Send 1 2, Ret ()), (Accept 2 1, Ret ())] 1 2) 1 2
      (rel_of (friend_view example_friends) 1 2)"
    using friendship_needs_consent [of example_libs example_world _ example_friends 1 2]
    by (simp add: example_world_def empty_world_def empty_database_def)
  then show "explains [Send 1 2, Accept 2 1] 1 2 (rel_of (friend_view example_friends) 1 2)"
    by (simp add: effective_def doubleton_eq_iff)
  show "rel_of (friend_view example_friends) 1 2 = Some (FriendshipAccepted, 2)"
    by (rule example_relation)
qed



text \<open>
  The table of friendships stays well-formed: at most one row per pair of users, the smaller id
  first, the acting user one of the two, a status of the enumeration, both users registered. Every
  command keeps this, whatever calls fail.
\<close>

theorem friend_commands_keep_table_well_formed:
  "keeps wf_friends (perform (friend_main E) op)"
  by (rule wf_friend_main)

text \<open>
  C34. The listings agree with each other. On a well-formed table friendship is symmetric, a request
  one user finds incoming is one the other finds sent, and no listing names a user twice.
\<close>

theorem listings_agree:
  assumes wf: "wf_friends d"
  shows "(b \<in> set (select_ordered_by_id is_accepted a d) \<longleftrightarrow>
           a \<in> set (select_ordered_by_id is_accepted b d)) \<and>
         (b \<in> set (select_ordered_by_created is_incoming a d) \<longleftrightarrow>
           a \<in> set (select_ordered_by_created is_sent b d)) \<and>
         distinct (select_ordered_by_id is_accepted a d) \<and>
         distinct (select_ordered_by_created is_incoming a d) \<and>
         distinct (select_ordered_by_created is_sent a d)"
proof (intro conjI)
  show "b \<in> set (select_ordered_by_id is_accepted a d) \<longleftrightarrow>
      a \<in> set (select_ordered_by_id is_accepted b d)"
    unfolding listing_set by (rule others_sym [OF wf]) (simp add: is_accepted_def)
  show "b \<in> set (select_ordered_by_created is_incoming a d) \<longleftrightarrow>
      a \<in> set (select_ordered_by_created is_sent b d)"
    unfolding listing_set by (rule others_sym [OF wf]) (rule incoming_sent_dual [OF wf])
qed (rule listing_distinct [OF wf])+

theorem listings_agree_witness:
  "wf_friends (db example_friends) \<and>
   2 \<in> set (select_ordered_by_id is_accepted 1 (db example_friends)) \<and>
   1 \<in> set (select_ordered_by_id is_accepted 2 (db example_friends))"
proof (intro conjI)
  show wf: "wf_friends (db example_friends)" by code_simp
  show two: "2 \<in> set (select_ordered_by_id is_accepted 1 (db example_friends))" by code_simp
  show "1 \<in> set (select_ordered_by_id is_accepted 2 (db example_friends))"
    using listings_agree [OF wf, of 2 1] two by blast
qed

text \<open>
  The counts are the lengths of the listings. On a well-formed table the four counters of a user
  are the numbers of friends, incoming requests, sent requests and blocked relations, and together
  they count every relation of the user once.
\<close>

theorem counts_partition_relations:
  assumes "wf_friends (db w)" and "DBFriendStore_CountUserRelations u w = (Ret c, w')"
  shows "sint (rc_Accepted c) = int (length (select_ordered_by_id is_accepted u (db w))) \<and>
    sint (rc_Pending c) = int (length (select_ordered_by_created is_incoming u (db w))) \<and>
    sint (rc_Sent c) = int (length (select_ordered_by_created is_sent u (db w))) \<and>
    sint (rc_Accepted c) + sint (rc_Pending c) + sint (rc_Sent c) + sint (rc_Blocked c)
      = int (length (select_related (\<lambda>_ _. True) u (db w)))"
  using CountUserRelations_result [OF assms(2)] count_partition [OF assms(1), of u]
  by (simp add: listing_length count_related_def flip: of_nat_add)

theorem counts_partition_relations_witness:
  "rc_Accepted example_counts = 1 \<and>
   sint (rc_Accepted example_counts) + sint (rc_Pending example_counts) +
     sint (rc_Sent example_counts) + sint (rc_Blocked example_counts)
     = int (length (select_related (\<lambda>_ _. True) 1 (db example_friends)))"
proof
  have wf: "wf_friends (db example_friends)" by code_simp
  have "fst (DBFriendStore_CountUserRelations 1 example_friends) = Ret example_counts" by code_simp
  then have c: "DBFriendStore_CountUserRelations 1 example_friends =
      (Ret example_counts, snd (DBFriendStore_CountUserRelations 1 example_friends))"
    by (simp add: prod_eq_iff)
  show "rc_Accepted example_counts = 1" by code_simp
  show "sint (rc_Accepted example_counts) + sint (rc_Pending example_counts) +
     sint (rc_Sent example_counts) + sint (rc_Blocked example_counts)
     = int (length (select_related (\<lambda>_ _. True) 1 (db example_friends)))"
    using counts_partition_relations [OF wf c] by simp
qed

text \<open>
  A listing names only users of the listing: every profile that the service returns for the
  friends, the incoming requests or the sent requests of a user belongs to a user in that relation.
\<close>

theorem list_queries_sound:
  "(case fst (FriendService_GetFriends (friend_main E) u params w) of
      Ret ps \<Rightarrow> sp_UserID ` set ps \<subseteq> others is_accepted u (db w) | _ \<Rightarrow> True) \<and>
   (case fst (FriendService_GetFriendRequests (friend_main E) u params w) of
      Ret ps \<Rightarrow> sp_UserID ` set ps \<subseteq> others is_incoming u (db w) | _ \<Rightarrow> True) \<and>
   (case fst (FriendService_GetSentRequests (friend_main E) u params w) of
      Ret ps \<Rightarrow> sp_UserID ` set ps \<subseteq> others is_sent u (db w) | _ \<Rightarrow> True)"
proof (intro conjI)
  show "case fst (FriendService_GetFriends (friend_main E) u params w) of
      Ret ps \<Rightarrow> sp_UserID ` set ps \<subseteq> others is_accepted u (db w) | _ \<Rightarrow> True"
    by (rule case_fst_Ret) (rule GetFriends_only)
  show "case fst (FriendService_GetFriendRequests (friend_main E) u params w) of
      Ret ps \<Rightarrow> sp_UserID ` set ps \<subseteq> others is_incoming u (db w) | _ \<Rightarrow> True"
    by (rule case_fst_Ret) (rule GetFriendRequests_only)
  show "case fst (FriendService_GetSentRequests (friend_main E) u params w) of
      Ret ps \<Rightarrow> sp_UserID ` set ps \<subseteq> others is_sent u (db w) | _ \<Rightarrow> True"
    by (rule case_fst_Ret) (rule GetSentRequests_only)
qed

text \<open>The row of a pair is the relation of the pair.\<close>

lemma others_relation:
  assumes "wf_friends (db w)" "i \<in> others p u (db w)"
  shows "\<exists>row. p u row \<and> fr_action_user_id row \<in> {u, i} \<and> u \<noteq> i \<and>
    rel_of (friend_view w) u i = Some (fr_status row, fr_action_user_id row)"
proof -
  obtain row where row: "row \<in> set (friend_relationships (db w))" "fr_key row = ensureUserOrder u i"
    "u \<noteq> i" "p u row"
    using assms others_iff by blast
  have "distinct (map fr_key (friend_relationships (db w)))"
    using assms(1) by (simp add: wf_friends_def)
  then have "find (\<lambda>r. fr_key r = ensureUserOrder u i) (friend_relationships (db w)) = Some row"
    using find_distinct_key [OF _ row(1)] row(2) by metis
  then have "rel_of (friend_view w) u i = Some (fr_status row, fr_action_user_id row)"
    by (simp add: rel_of_def friend_view_def friendship_of_def)
  moreover have "fr_action_user_id row \<in> {u, i}"
    using wf_related(4) [OF assms(1) row(1)] row(2)
    by (auto simp: fr_key_def ensureUserOrder_def split: if_splits)
  ultimately show ?thesis using row(3,4) by blast
qed

lemma no_others_relation:
  assumes "wf_friends (db w)" "i \<notin> others (\<lambda>_ _. True) u (db w)"
  shows "rel_of (friend_view w) u i = None"
proof (rule ccontr)
  assume "rel_of (friend_view w) u i \<noteq> None"
  then obtain row where row: "row \<in> set (friend_relationships (db w))" "fr_key row = ensureUserOrder u i"
    by (auto simp: rel_of_def friend_view_def dest: find_SomeD)
  then have "u \<noteq> i" using wf_related(2) [OF assms(1) row(1)] by (auto simp: fr_key_def ensureUserOrder_def)
  then show False using assms row others_iff [OF assms(1), of i "\<lambda>_ _. True" u] by blast
qed

text \<open>
  C35. A search by relation finds only users in that relation, provided the search engine honours the
  filters of a query. For the type notFriends there is no relation of any kind; for accepted the two are
  friends; for pending the other's request waits, or the user has rejected it; for sent the user's
  request waits, or the other has rejected it; for blocked the pair is blocked. Any other type fails.
\<close>

theorem search_respects_relation:
  assumes "honours_filters (lib_engine E)" and "wf_friends (db w)"
    and "FriendService_SearchShortProfilesByFullNameAndRelationType (friend_main E) u params name t w
      = (Ret ps, w')"
  shows "(t = ''notFriends'' \<and> (\<forall>i \<in> sp_UserID ` set ps. rel_of (friend_view w) u i = None)) \<or>
    (t = ''accepted'' \<and> (\<forall>i \<in> sp_UserID ` set ps. \<exists>by. rel_of (friend_view w) u i = Some (''accepted'', by))) \<or>
    (t = ''pending'' \<and> (\<forall>i \<in> sp_UserID ` set ps.
       rel_of (friend_view w) u i \<in> {Some (''pending'', i), Some (''rejected'', u)})) \<or>
    (t = ''sent'' \<and> (\<forall>i \<in> sp_UserID ` set ps.
       rel_of (friend_view w) u i \<in> {Some (''pending'', u), Some (''rejected'', i)})) \<or>
    (t = ''blocked'' \<and> (\<forall>i \<in> sp_UserID ` set ps. \<exists>by. rel_of (friend_view w) u i = Some (''blocked'', by)))"
proof -
  obtain p where p: "status_clause t = Some p" and found: "\<And>i. i \<in> sp_UserID ` set ps \<Longrightarrow>
      if t = CountNotFriends then i \<notin> others p u (db w) else i \<in> others p u (db w)"
    using Search_relation [OF assms(1,3)] by blast
  have row: "\<exists>row. p u row \<and> fr_action_user_id row \<in> {u, i} \<and> u \<noteq> i \<and>
      rel_of (friend_view w) u i = Some (fr_status row, fr_action_user_id row)"
    if "i \<in> sp_UserID ` set ps" "t \<noteq> CountNotFriends" for i
    using others_relation [OF assms(2)] found [OF that(1)] that(2) by auto
  consider "t = CountNotFriends" | "t = CountAccepted" "p = is_accepted" | "t = CountPending" "p = is_incoming"
    | "t = CountSent" "p = is_sent" | "t = CountBlocked" "p = is_blocked"
    using p by (auto simp: status_clause_def split: if_splits)
  then show ?thesis
  proof cases
    case 1
    then have "p = (\<lambda>_ _. True)" using p by (simp add: status_clause_def)
    then have "\<forall>i \<in> sp_UserID ` set ps. rel_of (friend_view w) u i = None"
      using found 1 no_others_relation [OF assms(2)] by auto
    then show ?thesis using 1 by simp
  next
    case 2
    have "\<forall>i \<in> sp_UserID ` set ps. \<exists>by. rel_of (friend_view w) u i = Some (''accepted'', by)"
      using row 2 by (fastforce simp: is_accepted_def)
    then show ?thesis using 2 by simp
  next
    case 3
    have "\<forall>i \<in> sp_UserID ` set ps. rel_of (friend_view w) u i \<in> {Some (''pending'', i), Some (''rejected'', u)}"
      using row 3 by (fastforce simp: is_incoming_def)
    then show ?thesis using 3 by simp
  next
    case 4
    have "\<forall>i \<in> sp_UserID ` set ps. rel_of (friend_view w) u i \<in> {Some (''pending'', u), Some (''rejected'', i)}"
      using row 4 by (fastforce simp: is_sent_def)
    then show ?thesis using 4 by simp
  next
    case 5
    have "\<forall>i \<in> sp_UserID ` set ps. \<exists>by. rel_of (friend_view w) u i = Some (''blocked'', by)"
      using row 5 by (fastforce simp: is_blocked_def)
    then show ?thesis using 5 by simp
  qed
qed

theorem search_respects_relation_witness:
  "map sp_UserID example_found = [2] \<and>
   (\<exists>by. rel_of (friend_view example_search_world) 1 2 = Some (''accepted'', by))"
proof
  have "fst (FriendService_SearchShortProfilesByFullNameAndRelationType (friend_main example_libs) 1
      \<lparr>Limit = 10, Page = 1\<rparr> ''Bob'' CountAccepted example_search_world) = Ret example_found"
    by code_simp
  then have s: "FriendService_SearchShortProfilesByFullNameAndRelationType (friend_main example_libs) 1
      \<lparr>Limit = 10, Page = 1\<rparr> ''Bob'' CountAccepted example_search_world =
      (Ret example_found, snd (FriendService_SearchShortProfilesByFullNameAndRelationType
        (friend_main example_libs) 1 \<lparr>Limit = 10, Page = 1\<rparr> ''Bob'' CountAccepted example_search_world))"
    by (simp add: prod_eq_iff)
  have h: "honours_filters (lib_engine example_libs)" by (rule example_engine_honours)
  have wf: "wf_friends (db example_search_world)" by code_simp
  show two: "map sp_UserID example_found = [2]" by code_simp
  then have "2 \<in> sp_UserID ` set example_found" by (metis list.set_intros(1) list.set_map)
  then show "\<exists>by. rel_of (friend_view example_search_world) 1 2 = Some (''accepted'', by)"
    using search_respects_relation [OF h wf s] by auto
qed

end
