(* ===== verification/Account_Properties.thy ===== *)
theory Account_Properties
  imports Examples
begin

text \<open>
  The properties of accounts and sessions: who gets past the middleware, what registration and login
  do to the accounts and the sessions, and how long a session lives.
\<close>

section \<open>The middleware\<close>

text \<open>
  Access control. Whatever calls fail, a request other than a preflight reaches the next handler
  only if the path is open, or in the name of the user of its live session: the path is then not that
  of login or registration, and for an unsafe method the X-CSRF-Token header is the token of the
  session (unless the configuration is the debug one). Every other request is answered 403 or 500,
  and nothing has changed.
\<close>

theorem middleware_guards:
  assumes "AuthMiddleware (auth_conn E) debug next r w = (x, w')" "rq_Method r \<noteq> ''OPTIONS''"
  shows "(\<exists>r' w1. quiet w w1 \<and> authorised (session_view (lib_unmarshalSession E) w) debug r r' \<and>
       next r' w1 = (x, w')) \<or>
     (quiet w w' \<and> (\<exists>resp. x = Ret resp \<and>
        rs_Status resp \<in> {http_Forbidden, http_InternalServerError}))"
  by (rule AuthMiddleware_guards [OF assms])

theorem middleware_guards_witness:
  "status_of (fst (AuthMiddleware (auth_conn example_libs) False (\<lambda>r. sendJSONSuccess ''in'')
     (example_request 1 2) example_world)) = Some http_Forbidden \<and>
   \<not> (\<exists>r'. authorised (session_view example_dec example_world) False (example_request 1 2) r')"
proof
  let ?m = "AuthMiddleware (auth_conn example_libs) False (\<lambda>r. sendJSONSuccess ''in'')
     (example_request 1 2) example_world"
  show s: "status_of (fst ?m) = Some http_Forbidden" by code_simp
  have "rq_Method (example_request 1 2) \<noteq> ''OPTIONS''" by code_simp
  from middleware_guards [OF _ this, of example_libs False "\<lambda>r. sendJSONSuccess ''in''"
      example_world "fst ?m" "snd ?m"] s
  show "\<not> (\<exists>r'. authorised (session_view example_dec example_world) False (example_request 1 2) r')"
    by (auto simp: authorised_def example_request_def open_path_def AllowedPathsWithOutAuth_def
        r_Cookie_def)
qed

text \<open>
  C26. An authorised request gets in: with a live session, an allowed path and, for an unsafe method,
  the token of the session, the next handler is called in the name of the session's user when no call
  fails.
\<close>

theorem middleware_admits:
  assumes "no_faults w" "r_Cookie r ''session_id'' = Some sid"
    and "session_view (lib_unmarshalSession E) w sid = Some s"
    and "rq_Path r \<notin> set ForbiddenPathsWithAuth" "rq_Method r \<noteq> ''OPTIONS''"
    and "rq_Method r \<in> set SafeMethods \<or> rq_Header r ''X-CSRF-Token'' = se_CSRFToken s"
    and "rq_UserID r = None"
  shows "\<exists>w1. quiet w w1 \<and> AuthMiddleware (auth_conn E) debug next r w
     = next (r\<lparr>rq_UserID := Some (se_UserID s)\<rparr>) w1"
proof (rule AuthMiddleware_admits [OF assms(1) _ _ assms(5)])
  show "authorised (session_view (lib_unmarshalSession E) w) debug r
      (r\<lparr>rq_UserID := Some (se_UserID s)\<rparr>)"
    using assms by (auto simp: authorised_def)
  show "r\<lparr>rq_UserID := Some (se_UserID s)\<rparr> \<noteq> r"
  proof
    assume "r\<lparr>rq_UserID := Some (se_UserID s)\<rparr> = r"
    then have "rq_UserID (r\<lparr>rq_UserID := Some (se_UserID s)\<rparr>) = rq_UserID r" by (rule arg_cong)
    then show False using assms(7) by simp
  qed
qed

theorem middleware_admits_witness:
  "\<exists>w1. quiet example_session_world w1 \<and>
     AuthMiddleware (auth_conn example_libs) False (\<lambda>r. sendJSONSuccess ''in'')
       example_session_request example_session_world
     = sendJSONSuccess ''in'' w1"
proof (rule middleware_admits [of example_session_world example_session_request "''sid''" example_libs
      "\<lparr>se_UserID = 1, se_CSRFToken = ''tok''\<rparr>"])
  show "no_faults example_session_world" by code_simp
  show "session_view (lib_unmarshalSession example_libs) example_session_world ''sid''
      = Some \<lparr>se_UserID = 1, se_CSRFToken = ''tok''\<rparr>"
    by (simp add: example_session_world_def example_world_def example_libs_def session_view_def
        redis_live_def)
qed (simp_all add: example_session_request_def example_request_def r_Cookie_def
    ForbiddenPathsWithAuth_def)

section \<open>Accounts\<close>

text \<open>
  C20. Registration. Whatever calls fail, a registration that succeeds adds exactly one account, with
  a new id, an email nobody had and a hash that accepts the password; the request was valid and its
  passwords agreed. One that fails says why: invalid input, an email already taken, or an internal
  error; only the last, when the profile or its search index could not be written, may leave an
  account behind. It never panics.
\<close>

theorem registration_adds_one_account:
  assumes "bcrypt_contract (lib_auth E)"
    and "AuthService_Register (lib_auth E) (auth_main E) req w = (r, w')"
  shows "case r of
       Ret i \<Rightarrow> ValidateStruct_RegisterRequest (lib_auth E) req \<and>
         rr_Password req = rr_ConfirmPassword req \<and>
         registers (lib_auth E) req (user_view w) i (user_view w')
     | Fail e \<Rightarrow>
         (e = ErrInvalidInput \<and> user_view w' = user_view w \<and>
            (\<not> ValidateStruct_RegisterRequest (lib_auth E) req \<or>
             rr_Password req \<noteq> rr_ConfirmPassword req)) \<or>
         (e = ErrAlreadyExists \<and> user_view w' = user_view w \<and>
            (\<exists>v \<in> user_view w. usr_Email v = rr_Email req)) \<or>
         (e = ErrService \<and> user_view w' = user_view w) \<or>
         (e = ErrDB \<and> (user_view w' = user_view w \<or>
            (\<exists>i. registers (lib_auth E) req (user_view w) i (user_view w'))))
     | Panic \<Rightarrow> False"
  by (rule accounts.Register_result [OF assms(2,1)])

theorem registration_adds_one_account_witness:
  "registers example_auth_libs (example_registration ''d@x'') (user_view example_world) 4
     (user_view (snd (AuthService_Register example_auth_libs (auth_main example_libs)
        (example_registration ''d@x'') example_world)))"
proof -
  let ?m = "AuthService_Register (lib_auth example_libs) (auth_main example_libs)
        (example_registration ''d@x'') example_world"
  have ok: "fst ?m = Ret 4" by code_simp
  have L: "bcrypt_contract (lib_auth example_libs)" by (rule example_bcrypt)
  have "?m = (Ret 4, snd ?m)" by (simp add: ok prod_eq_iff)
  from registration_adds_one_account [OF L this] show ?thesis
    by (simp add: example_libs_def)
qed

text \<open>
  No two accounts share an id or an email: registration keeps this, whatever calls fail and
  however it ends.
\<close>

theorem accounts_stay_unique:
  assumes "bcrypt_contract (lib_auth E)" "unique_accounts (user_view w)"
  shows "unique_accounts (user_view (snd (AuthService_Register (lib_auth E) (auth_main E) req w)))"
proof -
  obtain r w' where m: "AuthService_Register (lib_auth E) (auth_main E) req w = (r, w')"
    by fastforce
  show ?thesis
    using accounts.Register_result [OF m assms(1)] assms(2) m
    by (cases r) (auto dest: registers_unique)
qed

theorem accounts_stay_unique_witness:
  "unique_accounts (user_view (snd (AuthService_Register example_auth_libs (auth_main example_libs)
     (example_registration ''d@x'') example_world)))"
proof -
  have "unique_accounts (user_view example_world)"
    by (simp add: unique_accounts_def user_view_def example_world_def example_user_def user_of_def)
  from accounts_stay_unique [OF example_bcrypt this] show ?thesis
    by (simp add: example_libs_def)
qed

text \<open>
  Login checks the password. It changes nothing; it returns the id of a registered account with
  the given email whose hash accepts the password; it fails with "not found" only if no account has
  the email, and with "invalid input" only if an account with it does not accept the password.
\<close>

theorem login_checks_password:
  "case AuthService_Login (lib_auth E) (auth_main E) req w of (r, w') \<Rightarrow> quiet w w' \<and>
    (case r of
       Ret i \<Rightarrow> (\<exists>v \<in> user_view w. usr_ID v = i \<and> usr_Email v = usr_Email req \<and>
                  CompareHashAndPassword (lib_auth E) (usr_Password v) (usr_Password req))
     | Fail e \<Rightarrow> (e = ErrNotFound \<and> (\<forall>v \<in> user_view w. usr_Email v \<noteq> usr_Email req)) \<or>
         (e = ErrInvalidInput \<and> (\<exists>v \<in> user_view w. usr_Email v = usr_Email req \<and>
            \<not> CompareHashAndPassword (lib_auth E) (usr_Password v) (usr_Password req))) \<or> e = ErrDB
     | Panic \<Rightarrow> False)"
  using accounts.Login_result [of "lib_auth E" E req w]
  by (cases "AuthService_Login (lib_auth E) (auth_main E) req w") simp

theorem login_checks_password_witness:
  "fst (AuthService_Login example_auth_libs (auth_main example_libs)
     \<lparr>usr_ID = 0, usr_Email = ''a@x'', usr_Password = ''guess'', usr_Role = []\<rparr> example_world)
     = Fail ErrInvalidInput \<and>
   \<not> CompareHashAndPassword example_auth_libs ''bcrypt:secret'' ''guess''"
proof
  let ?req = "\<lparr>usr_ID = 0, usr_Email = ''a@x'', usr_Password = ''guess'', usr_Role = []\<rparr>"
  let ?m = "AuthService_Login (lib_auth example_libs) (auth_main example_libs) ?req example_world"
  have f: "(case fst ?m of Fail e \<Rightarrow> e = ErrInvalidInput | _ \<Rightarrow> False)" by code_simp
  then obtain w' where m: "?m = (Fail ErrInvalidInput, w')" by (cases ?m; cases "fst ?m") auto
  then show "fst (AuthService_Login example_auth_libs (auth_main example_libs) ?req example_world)
      = Fail ErrInvalidInput"
    by (simp add: example_libs_def)
  obtain v where v: "v \<in> user_view example_world" "usr_Email v = ''a@x''"
    "\<not> CompareHashAndPassword (lib_auth example_libs) (usr_Password v) ''guess''"
    using login_checks_password [where E = example_libs and req = ?req and w = example_world]
    by (auto simp: m)
  then have "usr_Password v = ''bcrypt:secret''"
    by (auto simp: user_view_def example_world_def example_user_def user_of_def)
  then show "\<not> CompareHashAndPassword example_auth_libs ''bcrypt:secret'' ''guess''"
    using v(3) by (simp add: example_libs_def)
qed

text \<open>
  C21. Who registered can log in: in any later state with the same accounts, login with the email and
  the password of a successful registration returns the registered id, or a call to the database
  failed.
\<close>

theorem registered_user_logs_in:
  assumes "bcrypt_contract (lib_auth E)"
    and "AuthService_Register (lib_auth E) (auth_main E) req w = (Ret i, w1)"
    and "user_view w2 = user_view w1"
    and "usr_Email u = rr_Email req" "usr_Password u = rr_Password req"
  shows "fst (AuthService_Login (lib_auth E) (auth_main E) u w2) \<in> {Ret i, Fail ErrDB}"
proof -
  obtain r w3 where l: "AuthService_Login (lib_auth E) (auth_main E) u w2 = (r, w3)" by fastforce
  show ?thesis
    using accounts.Login_after_Register [OF assms(1-3) l assms(4,5)] l by auto
qed

theorem registered_user_logs_in_witness:
  "fst (AuthService_Login example_auth_libs (auth_main example_libs)
     \<lparr>usr_ID = 0, usr_Email = ''d@x'', usr_Password = ''password'', usr_Role = []\<rparr>
     (snd (AuthService_Register example_auth_libs (auth_main example_libs)
        (example_registration ''d@x'') example_world))) \<in> {Ret 4, Fail ErrDB}"
proof -
  let ?m = "AuthService_Register (lib_auth example_libs) (auth_main example_libs)
        (example_registration ''d@x'') example_world"
  have ok: "fst ?m = Ret 4" by code_simp
  have "?m = (Ret 4, snd ?m)" by (simp add: ok prod_eq_iff)
  from registered_user_logs_in [OF example_bcrypt this refl] show ?thesis
    by (simp add: example_libs_def example_registration_def)
qed

section \<open>Sessions\<close>

text \<open>
  C22. Login opens a session. A login answered 200 was for a registered account that accepts the
  password; its two cookies are the id and the token of a session of that account, and the sessions
  are those of before and this one.
\<close>

theorem login_opens_a_session:
  assumes "\<And>s. lib_unmarshalSession E (lib_marshalSession E s) = Some s"
    and "AuthHandler_Login H (auth_conn E) r w = (Ret resp, w')" "rs_Status resp = http_OK"
  shows "\<exists>req v sid token. hl_decodeUser H (rq_Body r) = Some req \<and> v \<in> user_view w \<and>
    usr_Email v = usr_Email req \<and>
    CompareHashAndPassword (lib_auth E) (usr_Password v) (usr_Password req) \<and>
    map ck_Name (rs_Cookies resp) = [''session_id'', ''CSRF_token''] \<and>
    map ck_Value (rs_Cookies resp) = [sid, token] \<and>
    session_view (lib_unmarshalSession E) w' = (session_view (lib_unmarshalSession E) w)
      (sid \<mapsto> \<lparr>se_UserID = usr_ID v, se_CSRFToken = token\<rparr>)"
  using Login_OK [OF assms(2,3)] by (simp add: assms(1))

theorem login_opens_a_session_witness:
  "\<exists>sid token. session_view example_dec (snd (AuthHandler_Login example_http_libs
       (auth_conn example_libs) (example_request 1 2) example_world)) sid
     = Some \<lparr>se_UserID = 1, se_CSRFToken = token\<rparr>"
proof -
  let ?m = "AuthHandler_Login example_http_libs (auth_conn example_libs) (example_request 1 2)
    example_world"
  have st: "status_of (fst ?m) = Some http_OK" by code_simp
  then obtain resp where "?m = (Ret resp, snd ?m)" "rs_Status resp = http_OK"
    by (cases ?m; cases "fst ?m") auto
  from login_opens_a_session [OF _ this]
  obtain v sid token where v: "v \<in> user_view example_world" "usr_Email v = ''a@x''"
    and s: "session_view (lib_unmarshalSession example_libs) (snd ?m)
      = (session_view (lib_unmarshalSession example_libs) example_world)
          (sid \<mapsto> \<lparr>se_UserID = usr_ID v, se_CSRFToken = token\<rparr>)"
    unfolding example_http_libs_def by (simp add: example_libs_def) metis
  have "usr_ID v = 1"
    using v by (auto simp: user_view_def example_world_def example_user_def user_of_def)
  then show ?thesis
    using fun_cong [OF s, of sid] by (auto simp: example_libs_def)
qed

text \<open>
  C23. A session lives a day. In any later state in which its key was not overwritten or deleted, the
  session that was created is found, with its user and token, up to 86400 seconds after its creation,
  and not found from then on.
\<close>

theorem session_lives_a_day:
  assumes codec: "\<And>s. lib_unmarshalSession E (lib_marshalSession E s) = Some s"
    and add: "ac_AddSession (auth_conn E) u w = (Ret m, w1)"
    and "redis w2 (''sessions:'' @ pb_Sid m) = redis w1 (''sessions:'' @ pb_Sid m)" "no_faults w2"
  shows "fst (ac_IsLoggedIn (auth_conn E) (pb_Sid m) w2) =
    (if clock w2 < clock w + 86400 then Ret \<lparr>pb_UserId = u, pb_CsrfToken = pb_Csrf m\<rparr>
     else Fail (ToGrpcError ErrNotFound))"
proof -
  let ?s = "\<lparr>se_UserID = u, se_CSRFToken = pb_Csrf m\<rparr>"
  have live: "redis w2 (''sessions:'' @ pb_Sid m)
      = Some (lib_marshalSession E ?s, clock w + sessionTTL)"
    using AddSession_redis [OF conn_AddSession [OF add]] assms(3) by simp
  have nf: "next_fault w2 = None" "no_faults (tick w2)" using assms(4) by simp_all
  obtain x w3 where g: "RedisSessionStore_GetSessionBySessionID (lib_unmarshalSession E) (pb_Sid m)
      (tick w2) = (x, w3)" by fastforce
  have "x = (if clock w2 < clock w + 86400 then Ret ?s else Fail ErrNotFound)"
    using GetSession_no_faults [OF nf(2), of "pb_Sid m" "lib_marshalSession E" ?s
      "clock w + sessionTTL" "lib_unmarshalSession E"] live codec g by (simp add: sessionTTL_def)
  then show ?thesis
    using nf(1) g
    by (simp add: auth_conn_def auth_client_def grpc_call_def external_def auth_main_def
        GrpcAuthHandler_IsLoggedIn_def AuthService_IsLoggedIn_def RedisSessionStore_def call_def
        throw_def ret_def)
qed

theorem session_lives_a_day_witness:
  "(case fst (ac_AddSession (auth_conn example_libs) 2 example_world) of
      Ret m \<Rightarrow> fst (ac_IsLoggedIn (auth_conn example_libs) (pb_Sid m)
        ((snd (ac_AddSession (auth_conn example_libs) 2 example_world))\<lparr>clock := 87399\<rparr>))
        = Ret \<lparr>pb_UserId = 2, pb_CsrfToken = pb_Csrf m\<rparr>
    | _ \<Rightarrow> False)"
proof -
  let ?a = "ac_AddSession (auth_conn example_libs) 2 example_world"
  have "(case fst ?a of Ret m \<Rightarrow> True | _ \<Rightarrow> False)" "no_faults ((snd ?a)\<lparr>clock := 87399\<rparr>)" by code_simp+
  then obtain m where m: "fst ?a = Ret m" "?a = (Ret m, snd ?a)" and nf: "no_faults ((snd ?a)\<lparr>clock := 87399\<rparr>)"
    by (cases ?a; cases "fst ?a") auto
  have codec: "lib_unmarshalSession example_libs (lib_marshalSession example_libs s) = Some s" for s
    by (simp add: example_libs_def)
  have redis: "redis (v\<lparr>clock := t\<rparr>) k = redis v k" for v :: world and t k by simp
  have clock: "clock (v\<lparr>clock := t\<rparr>) = t" for v :: world and t by simp
  have "fst (ac_IsLoggedIn (auth_conn example_libs) (pb_Sid m) ((snd ?a)\<lparr>clock := 87399\<rparr>))
      = (if (87399 :: int) < clock example_world + 86400
         then Ret \<lparr>pb_UserId = 2, pb_CsrfToken = pb_Csrf m\<rparr> else Fail (ToGrpcError ErrNotFound))"
    using session_lives_a_day [OF codec m(2) redis nf] unfolding clock .
  moreover have "clock example_world = 1000" by (simp add: example_world_def)
  ultimately show ?thesis by (simp add: m(1))
qed

text \<open>The digits of a token.\<close>

lemma hex_digit_nth: "unat b < 16 \<Longrightarrow> hex_digit b = ''0123456789abcdef'' ! unat b"
proof -
  have "list_all (\<lambda>n. (if n < 10 then char_of (48 + n) else char_of (87 + n)) = ''0123456789abcdef'' ! n)
      [0..<16 :: nat]" by code_simp
  then show "unat b < 16 \<Longrightarrow> hex_digit b = ''0123456789abcdef'' ! unat b"
    by (auto simp: list_all_iff hex_digit_def)
qed

lemma hex_nth:
  "i < length bs \<Longrightarrow>
   hex_EncodeToString bs ! (2 * i) = ''0123456789abcdef'' ! unat (bs ! i div 16) \<and>
   hex_EncodeToString bs ! (2 * i + 1) = ''0123456789abcdef'' ! unat (bs ! i mod 16)"
proof (induction bs arbitrary: i)
  case (Cons b bs)
  have "unat (b div 16) < 16" "unat (b mod 16) < 16" using unat_nibble by blast+
  with Cons show ?case
    by (cases i) (simp_all add: hex_EncodeToString_def hex_digit_nth)
qed simp

text \<open>
  C24. Tokens are as unpredictable as the randomness they are drawn from: the id and the token of a
  new session are the 64 hexadecimal digits of two consecutive draws of 32 bytes, the high digit of each
  byte first. So two sessions share an id, or an id and a token, exactly when the 32 bytes drawn are the
  same; the draws are not reused.
\<close>

theorem session_tokens_are_fresh_randomness:
  assumes "ac_AddSession (auth_conn E) u w = (Ret m, w1)"
    and "ac_AddSession (auth_conn E) u' w' = (Ret m', w1')"
  shows "length (pb_Sid m) = 64 \<and> length (pb_Csrf m) = 64 \<and>
    (\<forall>i. i < 32 \<longrightarrow>
       pb_Sid m ! (2 * i) = ''0123456789abcdef'' ! unat (entropy w i div 16) \<and>
       pb_Sid m ! (2 * i + 1) = ''0123456789abcdef'' ! unat (entropy w i mod 16) \<and>
       pb_Csrf m ! (2 * i) = ''0123456789abcdef'' ! unat (entropy w (32 + i) div 16) \<and>
       pb_Csrf m ! (2 * i + 1) = ''0123456789abcdef'' ! unat (entropy w (32 + i) mod 16)) \<and>
    (pb_Sid m = pb_Sid m' \<longleftrightarrow> map (entropy w) [0..<32] = map (entropy w') [0..<32]) \<and>
    (pb_Sid m = pb_Csrf m' \<longleftrightarrow> map (entropy w) [0..<32] = map (entropy w') [32..<64]) \<and>
    entropy w1 = (\<lambda>i. entropy w (i + 64))"
proof -
  note T = AddSession_tokens [OF conn_AddSession [OF assms(1)]]
  have sid: "pb_Sid m = hex_EncodeToString (map (entropy w) [0..<32])"
    and csrf: "pb_Csrf m = hex_EncodeToString (map (entropy w) [32..<64])"
    using T by simp_all
  have digits: "pb_Sid m ! (2 * i) = ''0123456789abcdef'' ! unat (entropy w i div 16) \<and>
       pb_Sid m ! (2 * i + 1) = ''0123456789abcdef'' ! unat (entropy w i mod 16) \<and>
       pb_Csrf m ! (2 * i) = ''0123456789abcdef'' ! unat (entropy w (32 + i) div 16) \<and>
       pb_Csrf m ! (2 * i + 1) = ''0123456789abcdef'' ! unat (entropy w (32 + i) mod 16)" if "i < 32" for i
  proof -
    have "i < 32 - 0" "i < 64 - 32" using that by simp_all
    note n = nth_map_upt [OF this(1), of "entropy w"] nth_map_upt [OF this(2), of "entropy w"]
    have "i < length (map (entropy w) [0..<32])" "i < length (map (entropy w) [32..<64])"
      using that by simp_all
    from hex_nth [OF this(1)] hex_nth [OF this(2)] show ?thesis
      unfolding sid csrf n by (simp only: add_0 simp_thms)
  qed
  have "pb_Sid m = pb_Sid m' \<longleftrightarrow> map (entropy w) [0..<32] = map (entropy w') [0..<32]"
    "pb_Sid m = pb_Csrf m' \<longleftrightarrow> map (entropy w) [0..<32] = map (entropy w') [32..<64]"
    using sid AddSession_tokens [OF conn_AddSession [OF assms(2)]] by simp_all
  moreover have "length (pb_Sid m) = 64" "length (pb_Csrf m) = 64" unfolding sid csrf by simp_all
  moreover have "entropy w1 = (\<lambda>i. entropy w (i + 64))"
    using AddSession_entropy [OF conn_AddSession [OF assms(1)]] by simp
  ultimately show ?thesis using digits by blast
qed

theorem session_tokens_are_fresh_randomness_witness:
  "case fst (ac_AddSession (auth_conn example_libs) 1 example_entropy_world) of
     Ret m \<Rightarrow> pb_Sid m \<noteq> pb_Csrf m
   | _ \<Rightarrow> False"
proof -
  let ?a = "ac_AddSession (auth_conn example_libs) 1 example_entropy_world"
  have "(case fst ?a of Ret m \<Rightarrow> True | _ \<Rightarrow> False)" by code_simp
  then obtain m where m: "fst ?a = Ret m" and a: "?a = (Ret m, snd ?a)"
    by (cases ?a; cases "fst ?a") auto
  have "entropy example_entropy_world 0 \<noteq> entropy example_entropy_world 32"
    by (simp add: example_entropy_world_def)
  then have "map (entropy example_entropy_world) [0..<32] \<noteq> map (entropy example_entropy_world) [32..<64]"
    by (simp add: upt_conv_Cons)
  then show ?thesis
    using session_tokens_are_fresh_randomness [OF a a] by (simp add: m)
qed

text \<open>
  C25. Logout. A request with a session cookie ends the session it names and no other. It is answered 200
  with exactly the two cookies \<open>session_id\<close> and \<open>CSRF_token\<close>, with the values of the request and both
  expired, unless the request has no CSRF cookie: then, with the session deleted, the handler dereferences
  nil and panics. Only when a call failed is an error answered instead, and then no session has changed.
\<close>

theorem logout_ends_the_session:
  assumes "r_Cookie r ''session_id'' = Some sid"
  shows "case AuthHandler_Logout (auth_conn E) r w of (x, w') \<Rightarrow>
    (session_view (lib_unmarshalSession E) w' = (session_view (lib_unmarshalSession E) w)(sid := None) \<and>
      (case r_Cookie r ''CSRF_token'' of
         None \<Rightarrow> x = Panic
       | Some token \<Rightarrow> \<exists>resp. x = Ret resp \<and> rs_Status resp = http_OK \<and>
           map (\<lambda>c. (ck_Name c, ck_Value c, ck_Path c)) (rs_Cookies resp) =
             [(''session_id'', sid, ''/''), (''CSRF_token'', token, ''/'')] \<and>
           list_all (\<lambda>c. ck_Expires c < clock w') (rs_Cookies resp))) \<or>
    (session_view (lib_unmarshalSession E) w' = session_view (lib_unmarshalSession E) w \<and> \<not> no_faults w \<and>
      (\<exists>resp. x = Ret resp \<and> rs_Status resp \<noteq> http_OK))"
  using Logout_cases [OF assms, of E w] by (auto split: prod.split)

theorem logout_ends_the_session_witness:
  "session_view example_dec example_session_world ''sid'' \<noteq> None \<and>
   session_view example_dec (snd (AuthHandler_Logout (auth_conn example_libs)
     (example_session_request\<lparr>rq_Cookies := [(''session_id'', ''sid''), (''CSRF_token'', ''tok'')]\<rparr>)
     example_session_world)) ''sid'' = None"
proof
  let ?r = "example_session_request\<lparr>rq_Cookies := [(''session_id'', ''sid''), (''CSRF_token'', ''tok'')]\<rparr>"
  let ?m = "AuthHandler_Logout (auth_conn example_libs) ?r example_session_world"
  show "session_view example_dec example_session_world ''sid'' \<noteq> None"
    by (simp add: session_view_def redis_live_def example_session_world_def example_world_def)
  have c: "r_Cookie ?r ''session_id'' = Some ''sid''" by code_simp
  have "no_faults example_session_world" by code_simp
  then have "session_view (lib_unmarshalSession example_libs) (snd ?m) =
      (session_view (lib_unmarshalSession example_libs) example_session_world)(''sid'' := None)"
    using logout_ends_the_session [OF c, of example_libs example_session_world] by (auto split: prod.splits)
  then show "session_view example_dec (snd ?m) ''sid'' = None" by (simp add: example_libs_def)
qed

text \<open>
  The nil dereference of logout is real: when no call fails, a logout whose request has the
  session cookie but not the CSRF cookie deletes the session and then panics.
\<close>

lemma logout_without_csrf_cookie_panics:
  assumes "no_faults w" "r_Cookie r ''session_id'' = Some sid" "r_Cookie r ''CSRF_token'' = None"
  shows "fst (AuthHandler_Logout (auth_conn E) r w) = Panic \<and>
    redis_live (snd (AuthHandler_Logout (auth_conn E) r w)) (''sessions:'' @ sid) = None"
  using Logout_without_csrf [OF assms, of E] by auto

lemma logout_without_csrf_cookie_panics_witness:
  "fst (AuthHandler_Logout (auth_conn example_libs) example_session_request example_session_world)
     = Panic"
proof -
  have "no_faults example_session_world" "r_Cookie example_session_request ''session_id'' = Some ''sid''"
    "r_Cookie example_session_request ''CSRF_token'' = None" by code_simp+
  from logout_without_csrf_cookie_panics [OF this] show ?thesis by blast
qed

end
