(* ===== verification/Hub.thy ===== *)
theory Hub
  imports Domain
begin

text \<open>
  The WebSocket hub (src/internal/service/WSClient.go). Several goroutines share it: the callers of
  its methods, and the two pumps of every client. A step is a stretch of one goroutine between two
  points where another one can run; a critical section under the hub's mutex is one step.

  A \<open>*Client\<close> is an index into \<open>hub_heap\<close>: a client stays there after it left the map, as the
  goroutines that hold the pointer do. A channel is its buffer and whether it was closed. Sending on
  a closed channel or closing it twice panics, which ends the process.
\<close>

datatype pump = Running | Leaving | Stopped

record Client =
  wc_userID :: int32
  wc_send :: "string list"
  wc_closed :: bool
  wc_conn_open :: bool
  wc_writer :: pump
  wc_reader :: pump

record Hub =
  hub_clients :: "int32 \<Rightarrow> nat option"
  hub_heap :: "Client list"
  hub_sending :: "(nat \<times> string) list"
  hub_panic :: bool

definition NewHub :: Hub where
  "NewHub = \<lparr>hub_clients = Map.empty, hub_heap = [], hub_sending = [], hub_panic = False\<rparr>"

definition send_capacity :: nat where "send_capacity = 256"

subsection \<open>The methods\<close>

definition Hub_AddClient :: "int32 \<Rightarrow> Hub \<Rightarrow> Hub" where
  "Hub_AddClient userID h =
     (let client = \<lparr>wc_userID = userID, wc_send = [], wc_closed = False, wc_conn_open = True,
                    wc_writer = Running, wc_reader = Running\<rparr>
      in h\<lparr>hub_clients := (hub_clients h)(userID \<mapsto> length (hub_heap h)),
           hub_heap := hub_heap h @ [client]\<rparr>)"

definition Hub_RemoveClient :: "int32 \<Rightarrow> Hub \<Rightarrow> Hub" where
  "Hub_RemoveClient userID h =
     (case hub_clients h userID of
        None \<Rightarrow> h
      | Some i \<Rightarrow>
          let client = hub_heap h ! i
          in if wc_closed client
             then h\<lparr>hub_heap := (hub_heap h)[i := client\<lparr>wc_conn_open := False\<rparr>], hub_panic := True\<rparr>
             else h\<lparr>hub_heap := (hub_heap h)[i := client\<lparr>wc_conn_open := False, wc_closed := True\<rparr>],
                    hub_clients := (hub_clients h)(userID := None)\<rparr>)"

text \<open>
  \<open>SendToUser\<close> in two steps: the lookup under the read lock, which leaves the goroutine holding a
  client pointer, and the \<open>select\<close> that sends or drops.
\<close>

definition Hub_SendToUser_lookup :: "int32 \<Rightarrow> string \<Rightarrow> Hub \<Rightarrow> Hub" where
  "Hub_SendToUser_lookup userID message h =
     (case hub_clients h userID of
        None \<Rightarrow> h
      | Some i \<Rightarrow> h\<lparr>hub_sending := hub_sending h @ [(i, message)]\<rparr>)"

text \<open>What a step does that an observer of the connections can see.\<close>

datatype hub_output = Queued nat string | Dropped nat string | Written nat string | Lost nat string

definition Hub_SendToUser_select :: "nat \<Rightarrow> Hub \<Rightarrow> Hub \<times> hub_output list" where
  "Hub_SendToUser_select k h =
     (let (i, message) = hub_sending h ! k;
          client = hub_heap h ! i;
          h = h\<lparr>hub_sending := take k (hub_sending h) @ drop (Suc k) (hub_sending h)\<rparr>
      in if wc_closed client then (h\<lparr>hub_panic := True\<rparr>, [])
         else if length (wc_send client) < send_capacity
           then (h\<lparr>hub_heap := (hub_heap h)[i := client\<lparr>wc_send := wc_send client @ [message]\<rparr>]\<rparr>,
                 [Queued i message])
           else (h, [Dropped i message]))"

text \<open>\<open>SendJSON\<close>: marshal the data, then the envelope around it, then send.\<close>

definition Hub_SendJSON ::
    "('d \<Rightarrow> string option) \<Rightarrow> (string \<Rightarrow> string \<Rightarrow> string option) \<Rightarrow> int32 \<Rightarrow> string \<Rightarrow> 'd \<Rightarrow>
     Hub \<Rightarrow> Hub \<times> bool" where
  "Hub_SendJSON marshal envelope userID eventType data h =
     (case marshal data of
        None \<Rightarrow> (h, False)
      | Some payload \<Rightarrow>
          (case envelope eventType payload of
             None \<Rightarrow> (h, False)
           | Some message \<Rightarrow> (Hub_SendToUser_lookup userID message h, True)))"

subsection \<open>The pumps\<close>

definition set_client :: "nat \<Rightarrow> (Client \<Rightarrow> Client) \<Rightarrow> Hub \<Rightarrow> Hub" where
  "set_client i f h = h\<lparr>hub_heap := (hub_heap h)[i := f (hub_heap h ! i)]\<rparr>"

text \<open>
  \<open>writePump\<close>, on its channel: a received message is written to the connection (\<open>ok\<close> says whether
  that worked; on failure the loop ends), and a closed and drained channel ends the loop.
\<close>

definition writePump_receive :: "nat \<Rightarrow> bool \<Rightarrow> Hub \<Rightarrow> Hub \<times> hub_output list" where
  "writePump_receive i ok h =
     (case wc_send (hub_heap h ! i) of
        [] \<Rightarrow> (set_client i (\<lambda>c. c\<lparr>wc_writer := Leaving\<rparr>) h, [])
      | message # rest \<Rightarrow>
          (set_client i (\<lambda>c. c\<lparr>wc_send := rest, wc_writer := (if ok then Running else Leaving)\<rparr>) h,
           [if ok then Written i message else Lost i message]))"

definition writePump_ping :: "nat \<Rightarrow> bool \<Rightarrow> Hub \<Rightarrow> Hub" where
  "writePump_ping i ok h =
     set_client i (\<lambda>c. c\<lparr>wc_writer := (if ok then Running else Leaving)\<rparr>) h"

definition writePump_exit :: "nat \<Rightarrow> Hub \<Rightarrow> Hub" where
  "writePump_exit i h =
     Hub_RemoveClient (wc_userID (hub_heap h ! i)) (set_client i (\<lambda>c. c\<lparr>wc_writer := Stopped\<rparr>) h)"

definition readPump_error :: "nat \<Rightarrow> Hub \<Rightarrow> Hub" where
  "readPump_error i h = set_client i (\<lambda>c. c\<lparr>wc_reader := Leaving\<rparr>) h"

definition readPump_exit :: "nat \<Rightarrow> Hub \<Rightarrow> Hub" where
  "readPump_exit i h =
     set_client i (\<lambda>c. c\<lparr>wc_conn_open := False\<rparr>)
       (Hub_RemoveClient (wc_userID (hub_heap h ! i)) (set_client i (\<lambda>c. c\<lparr>wc_reader := Stopped\<rparr>) h))"

subsection \<open>Steps\<close>

datatype hub_event =
  Add int32 | Lookup int32 string | Select nat | Receive nat bool | Ping nat bool
| WriterExit nat | ReaderError nat | ReaderExit nat

text \<open>
  When a step can happen. A channel can be received from when it has a message or is closed; a write
  to a closed connection fails.
\<close>

fun hub_enabled :: "hub_event \<Rightarrow> Hub \<Rightarrow> bool" where
  "hub_enabled (Add u) h = True"
| "hub_enabled (Lookup u m) h = True"
| "hub_enabled (Select k) h = (k < length (hub_sending h))"
| "hub_enabled (Receive i ok) h =
     (i < length (hub_heap h) \<and> wc_writer (hub_heap h ! i) = Running \<and>
      (wc_send (hub_heap h ! i) \<noteq> [] \<or> wc_closed (hub_heap h ! i)) \<and>
      (ok \<longrightarrow> wc_conn_open (hub_heap h ! i)))"
| "hub_enabled (Ping i ok) h =
     (i < length (hub_heap h) \<and> wc_writer (hub_heap h ! i) = Running \<and>
      (ok \<longrightarrow> wc_conn_open (hub_heap h ! i)))"
| "hub_enabled (WriterExit i) h =
     (i < length (hub_heap h) \<and> wc_writer (hub_heap h ! i) = Leaving)"
| "hub_enabled (ReaderError i) h =
     (i < length (hub_heap h) \<and> wc_reader (hub_heap h ! i) = Running)"
| "hub_enabled (ReaderExit i) h =
     (i < length (hub_heap h) \<and> wc_reader (hub_heap h ! i) = Leaving)"

fun hub_apply :: "hub_event \<Rightarrow> Hub \<Rightarrow> Hub \<times> hub_output list" where
  "hub_apply (Add u) h = (Hub_AddClient u h, [])"
| "hub_apply (Lookup u m) h = (Hub_SendToUser_lookup u m h, [])"
| "hub_apply (Select k) h = Hub_SendToUser_select k h"
| "hub_apply (Receive i ok) h = writePump_receive i ok h"
| "hub_apply (Ping i ok) h = (writePump_ping i ok h, [])"
| "hub_apply (WriterExit i) h = (writePump_exit i h, [])"
| "hub_apply (ReaderError i) h = (readPump_error i h, [])"
| "hub_apply (ReaderExit i) h = (readPump_exit i h, [])"

text \<open>The reachable states of the hub, with everything that was output on the way.\<close>

inductive hub_reachable :: "Hub \<Rightarrow> hub_output list \<Rightarrow> bool" where
  init: "hub_reachable NewHub []"
| step: "hub_reachable h out \<Longrightarrow> \<not> hub_panic h \<Longrightarrow> hub_enabled ev h \<Longrightarrow>
    hub_apply ev h = (h', out') \<Longrightarrow> hub_reachable h' (out @ out')"

text \<open>The run of a list of events, if each is enabled in its turn.\<close>

fun hub_exec :: "hub_event list \<Rightarrow> Hub \<Rightarrow> (Hub \<times> hub_output list) option" where
  "hub_exec [] h = Some (h, [])"
| "hub_exec (ev # evs) h =
     (if hub_panic h \<or> \<not> hub_enabled ev h then None
      else let (h1, out1) = hub_apply ev h
           in map_option (\<lambda>(h2, out2). (h2, out1 @ out2)) (hub_exec evs h1))"

lemma hub_exec_reachable:
  "hub_exec evs h = Some (h', out') \<Longrightarrow> hub_reachable h out \<Longrightarrow> hub_reachable h' (out @ out')"
proof (induction evs arbitrary: h out out')
  case (Cons ev evs)
  obtain h1 out1 where a: "hub_apply ev h = (h1, out1)" by fastforce
  with Cons.prems(1) obtain out2 where e: "hub_exec evs h1 = Some (h', out2)" "out' = out1 @ out2"
    and en: "\<not> hub_panic h" "hub_enabled ev h"
    by (auto split: if_splits)
  have "hub_reachable h1 (out @ out1)"
    by (rule hub_reachable.step [OF Cons.prems(2) en a])
  from Cons.IH [OF e(1) this] e(2) show ?case by simp
qed simp

subsection \<open>Invariants\<close>

text \<open>
  The registered client of a user is one of that user, with an open channel and an open connection;
  no buffer exceeds its capacity; the senders hold pointers to clients.
\<close>

definition hub_inv :: "Hub \<Rightarrow> bool" where
  "hub_inv h \<longleftrightarrow>
     (\<forall>u i. hub_clients h u = Some i \<longrightarrow> i < length (hub_heap h) \<and> wc_userID (hub_heap h ! i) = u \<and>
        \<not> wc_closed (hub_heap h ! i)) \<and>
     (\<forall>c \<in> set (hub_heap h). length (wc_send c) \<le> send_capacity) \<and>
     (\<forall>(i, m) \<in> set (hub_sending h). i < length (hub_heap h))"

lemma hub_inv_set_client:
  assumes "hub_inv h" "i < length (hub_heap h)"
    and "\<And>c. wc_userID (f c) = wc_userID c" "\<And>c. wc_closed (f c) = wc_closed c"
    and "length (wc_send (f (hub_heap h ! i))) \<le> send_capacity"
  shows "hub_inv (set_client i f h)"
  using assms
  by (auto simp: hub_inv_def set_client_def nth_list_update dest!: set_update_subset_insert [THEN subsetD])

lemma hub_inv_RemoveClient:
  assumes "hub_inv h"
  shows "hub_inv (Hub_RemoveClient u h) \<and> hub_panic (Hub_RemoveClient u h) = hub_panic h"
proof (cases "hub_clients h u")
  case None
  then show ?thesis using assms by (simp add: Hub_RemoveClient_def)
next
  case (Some i)
  then have i: "i < length (hub_heap h)" "wc_userID (hub_heap h ! i) = u" "\<not> wc_closed (hub_heap h ! i)"
    using assms by (auto simp: hub_inv_def)
  have other: "j \<noteq> i" if "v \<noteq> u" "hub_clients h v = Some j" for v j
    using assms that i(2) by (auto simp: hub_inv_def)
  have "length (wc_send (hub_heap h ! i)) \<le> send_capacity"
    using assms i(1) by (auto simp: hub_inv_def)
  then show ?thesis
    using assms Some i other
    by (auto simp: Hub_RemoveClient_def Let_def hub_inv_def nth_list_update
        dest!: set_update_subset_insert [THEN subsetD])
qed

lemma hub_inv_apply:
  assumes inv: "hub_inv h" and en: "hub_enabled ev h" and ap: "hub_apply ev h = (h', out)"
  shows "hub_inv h'"
proof (cases ev)
  case (Add u)
  with assms show ?thesis
    by (auto simp: hub_inv_def Hub_AddClient_def Let_def nth_append send_capacity_def
        intro!: less_SucI split: if_splits)
next
  case (Lookup u m)
  with assms show ?thesis
    by (auto simp: hub_inv_def Hub_SendToUser_lookup_def split: option.splits)
next
  case (Select k)
  obtain i m where im: "hub_sending h ! k = (i, m)" by fastforce
  have i: "i < length (hub_heap h)"
    using inv en Select nth_mem [of k "hub_sending h"] unfolding hub_inv_def im by auto
  let ?q = "take k (hub_sending h) @ drop (Suc k) (hub_sending h)"
  have sub: "set ?q \<subseteq> set (hub_sending h)"
    using set_take_subset set_drop_subset by fastforce
  let ?f = "\<lambda>c. c\<lparr>wc_send := wc_send c @ [m]\<rparr>"
  have q: "hub_inv (g\<lparr>hub_sending := ?q\<rparr>)" if "hub_inv g" "hub_sending g = hub_sending h" for g
    using that sub by (fastforce simp: hub_inv_def)
  have p: "hub_inv (g\<lparr>hub_panic := b\<rparr>)" if "hub_inv g" for g b
    using that by (simp add: hub_inv_def)
  have "h' \<in> {h\<lparr>hub_sending := ?q\<rparr>\<lparr>hub_panic := True\<rparr>, h\<lparr>hub_sending := ?q\<rparr>} \<or>
      (length (wc_send (hub_heap h ! i)) < send_capacity \<and>
       h' = (set_client i ?f h)\<lparr>hub_sending := ?q\<rparr>)"
    using ap Select
    by (auto simp: Hub_SendToUser_select_def im set_client_def Let_def split: if_splits)
  then show ?thesis
    using q [OF inv] p q [OF hub_inv_set_client [OF inv i, of ?f]]
    by (auto simp: set_client_def)
next
  case (Receive i ok)
  with inv en have "length (wc_send (hub_heap h ! i)) \<le> send_capacity"
    by (auto simp: hub_inv_def)
  with assms Receive show ?thesis
    by (auto simp: writePump_receive_def split: list.splits intro!: hub_inv_set_client)
next
  case (Ping i ok)
  with inv en have "length (wc_send (hub_heap h ! i)) \<le> send_capacity"
    by (auto simp: hub_inv_def)
  with assms Ping show ?thesis
    by (auto simp: writePump_ping_def intro!: hub_inv_set_client)
next
  case (WriterExit i)
  with inv en have "length (wc_send (hub_heap h ! i)) \<le> send_capacity"
    by (auto simp: hub_inv_def)
  with assms WriterExit show ?thesis
    by (auto simp: writePump_exit_def intro!: hub_inv_set_client hub_inv_RemoveClient [THEN conjunct1])
next
  case (ReaderError i)
  with inv en have "length (wc_send (hub_heap h ! i)) \<le> send_capacity"
    by (auto simp: hub_inv_def)
  with assms ReaderError show ?thesis
    by (auto simp: readPump_error_def intro!: hub_inv_set_client)
next
  case (ReaderExit i)
  with inv en have cap: "length (wc_send (hub_heap h ! i)) \<le> send_capacity"
    and i: "i < length (hub_heap h)" by (auto simp: hub_inv_def)
  let ?g = "Hub_RemoveClient (wc_userID (hub_heap h ! i)) (set_client i (\<lambda>c. c\<lparr>wc_reader := Stopped\<rparr>) h)"
  have g: "hub_inv ?g"
    using inv i cap by (intro hub_inv_RemoveClient [THEN conjunct1] hub_inv_set_client) auto
  have len: "length (hub_heap ?g) = length (hub_heap h)"
    by (auto simp: Hub_RemoveClient_def set_client_def Let_def split: option.splits)
  have "hub_inv (set_client i (\<lambda>c. c\<lparr>wc_conn_open := False\<rparr>) ?g)"
    using g i len by (intro hub_inv_set_client) (auto simp: hub_inv_def)
  then show ?thesis
    using assms ReaderExit by (simp add: readPump_exit_def)
qed

lemma hub_inv_reachable: "hub_reachable h out \<Longrightarrow> hub_inv h"
  by (induction rule: hub_reachable.induct)
     (simp add: hub_inv_def NewHub_def, blast intro: hub_inv_apply)

text \<open>The only step that can panic is a send to a client whose channel was closed meanwhile.\<close>

lemma hub_panic_apply:
  assumes "hub_inv h" "\<not> hub_panic h" "hub_enabled ev h"
  shows "hub_panic (fst (hub_apply ev h)) \<longleftrightarrow>
     (\<exists>k. ev = Select k \<and> wc_closed (hub_heap h ! fst (hub_sending h ! k)))"
proof -
  have sc: "hub_inv (set_client i f h)" "hub_panic (set_client i f h) = hub_panic h"
    if "i < length (hub_heap h)" "\<And>c. wc_userID (f c) = wc_userID c"
      "\<And>c. wc_closed (f c) = wc_closed c" "\<And>c. wc_send (f c) = wc_send c" for i f
  proof -
    have "length (wc_send (hub_heap h ! i)) \<le> send_capacity"
      using assms(1) that(1) by (auto simp: hub_inv_def)
    then show "hub_inv (set_client i f h)"
      using assms(1) that by (intro hub_inv_set_client) auto
    show "hub_panic (set_client i f h) = hub_panic h" by (simp add: set_client_def)
  qed
  have panic_set: "hub_panic (set_client i f g) = hub_panic g" for i f and g :: Hub
    by (simp add: set_client_def)
  show ?thesis
    using assms(2,3) hub_inv_RemoveClient [OF sc(1), THEN conjunct2]
    by (cases ev)
       (auto simp: Hub_AddClient_def Hub_SendToUser_lookup_def Hub_SendToUser_select_def Let_def
         writePump_receive_def writePump_ping_def writePump_exit_def readPump_error_def
         readPump_exit_def panic_set case_prod_beta split: option.splits list.splits)
qed

end
