(* ===== verification/Hub_Pumps.thy ===== *)
theory Hub_Pumps
  imports Hub
begin

text \<open>
  The two goroutines of a client of the WebSocket hub end once the client was removed, however their
  steps interleave with those of everybody else: each step brings them closer to their end, and they
  are never stuck before it.
\<close>

fun pump_rank :: "pump \<Rightarrow> nat" where
  "pump_rank Running = 2" | "pump_rank Leaving = 1" | "pump_rank Stopped = 0"

definition client_rank :: "Client \<Rightarrow> nat" where
  "client_rank c = pump_rank (wc_writer c) + pump_rank (wc_reader c)"

text \<open>The steps of the goroutines of client \<open>i\<close>.\<close>

fun step_of :: "nat \<Rightarrow> hub_event \<Rightarrow> bool" where
  "step_of i (Receive j ok) = (j = i)" | "step_of i (Ping j ok) = (j = i)"
| "step_of i (WriterExit j) = (j = i)" | "step_of i (ReaderError j) = (j = i)"
| "step_of i (ReaderExit j) = (j = i)" | "step_of i ev = False"

lemma client_rank_update [simp]:
  "client_rank (c\<lparr>wc_send := m\<rparr>) = client_rank c" "client_rank (c\<lparr>wc_closed := b\<rparr>) = client_rank c"
  "client_rank (c\<lparr>wc_conn_open := b\<rparr>) = client_rank c"
  "client_rank (c\<lparr>wc_writer := p\<rparr>) = pump_rank p + pump_rank (wc_reader c)"
  "client_rank (c\<lparr>wc_reader := p\<rparr>) = pump_rank (wc_writer c) + pump_rank p"
  by (simp_all add: client_rank_def)

lemma nth_updated: "xs[j := x] ! i = (if i = j \<and> j < length xs then x else xs ! i)"
  by (auto simp: nth_list_update list_update_beyond)

text \<open>A client with a closed channel has a closed connection.\<close>

definition closed_conn :: "Client list \<Rightarrow> bool" where
  "closed_conn cs \<longleftrightarrow> (\<forall>c \<in> set cs. wc_closed c \<longrightarrow> \<not> wc_conn_open c)"

lemma closed_conn_update:
  "closed_conn cs \<Longrightarrow> (wc_closed c \<longrightarrow> \<not> wc_conn_open c) \<Longrightarrow> closed_conn (cs[i := c])"
  by (auto simp: closed_conn_def dest!: set_update_subset_insert [THEN subsetD])

lemma closed_conn_nth: "closed_conn cs \<Longrightarrow> i < length cs \<Longrightarrow> wc_closed (cs ! i) \<Longrightarrow> \<not> wc_conn_open (cs ! i)"
  by (simp add: closed_conn_def)

lemma closed_conn_RemoveClient:
  "closed_conn (hub_heap h) \<Longrightarrow> closed_conn (hub_heap (Hub_RemoveClient u h))"
  by (auto simp: Hub_RemoveClient_def Let_def intro!: closed_conn_update split: option.splits)

lemma RemoveClient_nth:
  "client_rank (hub_heap (Hub_RemoveClient u h) ! i) = client_rank (hub_heap h ! i)"
  "wc_closed (hub_heap h ! i) \<Longrightarrow> wc_closed (hub_heap (Hub_RemoveClient u h) ! i)"
  "length (hub_heap (Hub_RemoveClient u h)) = length (hub_heap h)"
  by (auto simp: Hub_RemoveClient_def Let_def nth_updated split: option.splits)

lemma set_client_heap: "hub_heap (set_client i f h) = (hub_heap h)[i := f (hub_heap h ! i)]"
  by (simp add: set_client_def)

lemmas pump_steps = writePump_receive_def writePump_ping_def writePump_exit_def readPump_error_def
  readPump_exit_def set_client_heap

lemma closed_conn_apply:
  assumes conn: "closed_conn (hub_heap h)" and ev: "hub_enabled ev h" "hub_apply ev h = (h', out)"
    and inv: "hub_inv h"
  shows "closed_conn (hub_heap h')"
proof (cases ev)
  case (Add u)
  with conn ev show ?thesis by (auto simp: Hub_AddClient_def closed_conn_def Let_def)
next
  case (Lookup u m)
  with conn ev show ?thesis by (auto simp: Hub_SendToUser_lookup_def split: option.splits)
next
  case (Select k)
  obtain i m where s: "hub_sending h ! k = (i, m)" by fastforce
  then have "i < length (hub_heap h)"
    using inv ev(1) Select nth_mem [of k "hub_sending h"] by (auto simp: hub_inv_def)
  with closed_conn_nth [OF conn this] conn ev s Select show ?thesis
    by (auto simp: Hub_SendToUser_select_def Let_def intro!: closed_conn_update split: if_splits)
next
  case (Receive i ok)
  with closed_conn_nth [OF conn, of i] conn ev show ?thesis
    by (auto simp: pump_steps intro!: closed_conn_update split: list.splits)
next
  case (ReaderExit i)
  let ?h = "Hub_RemoveClient (wc_userID (hub_heap h ! i)) (set_client i (\<lambda>c. c\<lparr>wc_reader := Stopped\<rparr>) h)"
  have "closed_conn (hub_heap ?h)"
    using closed_conn_nth [OF conn, of i] conn ev(1) ReaderExit
    by (auto simp: set_client_heap intro!: closed_conn_RemoveClient closed_conn_update)
  with ev(2) ReaderExit show ?thesis
    by (auto simp: pump_steps intro!: closed_conn_update)
qed (use closed_conn_nth [OF conn] conn ev in
    \<open>auto simp: pump_steps intro!: closed_conn_update closed_conn_RemoveClient\<close>)

text \<open>One step, with the client removed: a step of the client lowers its rank, another keeps it.\<close>

lemma rank_step:
  assumes i: "i < length (hub_heap h)" and closed: "wc_closed (hub_heap h ! i)"
    and conn: "closed_conn (hub_heap h)" and ev: "hub_enabled ev h" "hub_apply ev h = (h', out)"
  shows "i < length (hub_heap h') \<and> wc_closed (hub_heap h' ! i) \<and>
    (if step_of i ev then 1 else 0) + client_rank (hub_heap h' ! i) = client_rank (hub_heap h ! i)"
proof -
  have shut: "\<not> wc_conn_open (hub_heap h ! i)" using closed_conn_nth [OF conn i closed] .
  note nths = nth_append nth_updated Let_def RemoveClient_nth
  show ?thesis
  proof (cases ev)
    case (Add u)
    with ev i closed show ?thesis by (auto simp: Hub_AddClient_def nths)
  next
    case (Lookup u m)
    with ev i closed show ?thesis by (auto simp: Hub_SendToUser_lookup_def split: option.splits)
  next
    case (Select k)
    with ev i closed show ?thesis
      by (auto simp: Hub_SendToUser_select_def nths split: prod.splits if_splits)
  next
    case (Receive j ok)
    with ev i closed shut show ?thesis
      by (cases "j = i") (auto simp: pump_steps nths client_rank_def split: list.splits if_splits)
  next
    case (Ping j ok)
    with ev i closed shut show ?thesis
      by (cases "j = i") (auto simp: pump_steps nths client_rank_def split: if_splits)
  next
    case (WriterExit j)
    have "wc_closed (hub_heap (set_client j (\<lambda>c. c\<lparr>wc_writer := Stopped\<rparr>) h) ! i)"
      using closed by (auto simp: set_client_heap nths)
    with WriterExit ev i closed show ?thesis
      by (cases "j = i") (auto simp: writePump_exit_def nths set_client_heap client_rank_def [of "hub_heap h ! i"])
  next
    case (ReaderError j)
    with ev i closed show ?thesis
      by (cases "j = i") (auto simp: pump_steps nths client_rank_def)
  next
    case (ReaderExit j)
    have "wc_closed (hub_heap (set_client j (\<lambda>c. c\<lparr>wc_reader := Stopped\<rparr>) h) ! i)"
      using closed by (auto simp: set_client_heap nths)
    with ReaderExit ev i closed show ?thesis
      by (cases "j = i") (auto simp: readPump_exit_def nths set_client_heap client_rank_def [of "hub_heap h ! i"])
  qed
qed

lemma closed_conn_reachable: "hub_reachable h out \<Longrightarrow> closed_conn (hub_heap h)"
  by (induction rule: hub_reachable.induct)
     (simp add: closed_conn_def NewHub_def, blast intro: closed_conn_apply hub_inv_reachable)

lemma rank_run:
  assumes "hub_reachable h out0" "i < length (hub_heap h)" "wc_closed (hub_heap h ! i)"
    and "hub_exec evs h = Some (h', out)"
  shows "i < length (hub_heap h') \<and> wc_closed (hub_heap h' ! i) \<and>
    length (filter (step_of i) evs) + client_rank (hub_heap h' ! i) = client_rank (hub_heap h ! i)"
  using assms
proof (induction evs arbitrary: h out0 out)
  case (Cons ev evs)
  obtain h1 out1 where a: "hub_apply ev h = (h1, out1)" by fastforce
  with Cons.prems(4) obtain out2 where e: "hub_exec evs h1 = Some (h', out2)"
    and en: "\<not> hub_panic h" "hub_enabled ev h"
    by (auto split: if_splits)
  have r: "hub_reachable h1 (out0 @ out1)" by (rule hub_reachable.step [OF Cons.prems(1) en a])
  note s = rank_step [OF Cons.prems(2,3) closed_conn_reachable [OF Cons.prems(1)] en(2) a]
  from Cons.IH [OF r _ _ e] s show ?case by (auto split: if_splits)
qed auto

text \<open>Before its end, a goroutine of a removed client can always step.\<close>

lemma rank_enabled:
  assumes "i < length (hub_heap h)" "wc_closed (hub_heap h ! i)" "0 < client_rank (hub_heap h ! i)"
  shows "\<exists>ev. step_of i ev \<and> hub_enabled ev h"
proof -
  consider "wc_writer (hub_heap h ! i) = Running" | "wc_writer (hub_heap h ! i) = Leaving"
    | "wc_reader (hub_heap h ! i) = Running" | "wc_reader (hub_heap h ! i) = Leaving"
    using assms(3) by (cases "wc_writer (hub_heap h ! i)"; cases "wc_reader (hub_heap h ! i)")
      (auto simp: client_rank_def)
  then show ?thesis
  proof cases
    case 1 with assms show ?thesis by (intro exI [of _ "Receive i False"]) simp
  next
    case 2 with assms show ?thesis by (intro exI [of _ "WriterExit i"]) simp
  next
    case 3 with assms show ?thesis by (intro exI [of _ "ReaderError i"]) simp
  next
    case 4 with assms show ?thesis by (intro exI [of _ "ReaderExit i"]) simp
  qed
qed

end
