(* ===== verification/Hub_Delivery.thy ===== *)
theory Hub_Delivery
  imports Hub_Pumps "HOL-Library.Multiset"
begin

text \<open>
  What becomes of a message that is handed to the hub. For every run from the start, the messages that
  were accepted for a client are the ones its writer wrote, then at most one that it took and failed to
  write, with which it ended, then the ones still in the channel; and they are among the messages sent
  to the user of the client, each as often as it was sent at most.
\<close>

subsection \<open>What was output for a client\<close>

definition queued :: "nat \<Rightarrow> hub_output list \<Rightarrow> string list" where
  "queued i out = concat (map (\<lambda>x. case x of Queued j m \<Rightarrow> if j = i then [m] else [] | _ \<Rightarrow> []) out)"

definition written :: "nat \<Rightarrow> hub_output list \<Rightarrow> string list" where
  "written i out = concat (map (\<lambda>x. case x of Written j m \<Rightarrow> if j = i then [m] else [] | _ \<Rightarrow> []) out)"

definition lost :: "nat \<Rightarrow> hub_output list \<Rightarrow> string list" where
  "lost i out = concat (map (\<lambda>x. case x of Lost j m \<Rightarrow> if j = i then [m] else [] | _ \<Rightarrow> []) out)"

lemmas outputs_def = queued_def written_def lost_def

lemma outputs_Nil [simp]: "queued i [] = []" "written i [] = []" "lost i [] = []"
  by (simp_all add: outputs_def)

lemma outputs_append [simp]:
  "queued i (a @ b) = queued i a @ queued i b" "written i (a @ b) = written i a @ written i b"
  "lost i (a @ b) = lost i a @ lost i b"
  by (simp_all add: outputs_def)

lemma outputs_one [simp]:
  "queued i [Queued j m] = (if j = i then [m] else [])" "queued i [Dropped j m] = []"
  "queued i [Written j m] = []" "queued i [Lost j m] = []"
  "written i [Written j m] = (if j = i then [m] else [])" "written i [Queued j m] = []"
  "written i [Dropped j m] = []" "written i [Lost j m] = []"
  "lost i [Lost j m] = (if j = i then [m] else [])" "lost i [Queued j m] = []"
  "lost i [Dropped j m] = []" "lost i [Written j m] = []"
  by (simp_all add: outputs_def)

definition buffer :: "Hub \<Rightarrow> nat \<Rightarrow> string list" where
  "buffer h i = (if i < length (hub_heap h) then wc_send (hub_heap h ! i) else [])"

lemma buffer_set_client:
  "buffer (set_client i f h) j =
     (if j = i \<and> i < length (hub_heap h) then wc_send (f (hub_heap h ! i)) else buffer h j)"
  by (simp add: buffer_def set_client_def nth_list_update)

lemma buffer_RemoveClient: "buffer (Hub_RemoveClient u h) j = buffer h j"
  by (auto simp: Hub_RemoveClient_def buffer_def Let_def nth_updated split: option.splits)

definition writes :: "Hub \<Rightarrow> nat \<Rightarrow> bool" where
  "writes h i \<longleftrightarrow> i < length (hub_heap h) \<and> wc_writer (hub_heap h ! i) = Running"

lemma writes_set_client:
  "writes (set_client i f h) j =
     (if j = i \<and> i < length (hub_heap h) then wc_writer (f (hub_heap h ! i)) = Running else writes h j)"
  by (auto simp: writes_def set_client_def nth_list_update)

lemma writes_RemoveClient: "writes (Hub_RemoveClient u h) j = writes h j"
  by (auto simp: Hub_RemoveClient_def writes_def Let_def nth_updated split: option.splits)

text \<open>The order and the fate of what was accepted.\<close>

definition in_order :: "Hub \<Rightarrow> hub_output list \<Rightarrow> bool" where
  "in_order h out \<longleftrightarrow> (\<forall>i. queued i out = written i out @ lost i out @ buffer h i \<and>
     length (lost i out) \<le> 1 \<and> (writes h i \<longrightarrow> lost i out = []) \<and>
     (i \<ge> length (hub_heap h) \<longrightarrow> queued i out = []) \<and>
     (\<forall>m. Dropped i m \<in> set out \<longrightarrow> send_capacity \<le> length (queued i out)))"

lemma in_order_same:
  assumes "in_order h out" "\<And>i. buffer h' i = buffer h i" "\<And>i. writes h' i \<Longrightarrow> writes h i"
    and "length (hub_heap h') = length (hub_heap h)"
  shows "in_order h' out"
  using assms by (auto simp: in_order_def)

lemma length_heap [simp]:
  "length (hub_heap (set_client i f h)) = length (hub_heap h)"
  "length (hub_heap (Hub_RemoveClient u h)) = length (hub_heap h)"
  by (auto simp: set_client_def Hub_RemoveClient_def Let_def split: option.splits)

lemma in_order_apply:
  assumes inv: "hub_inv h" and en: "hub_enabled ev h" and ap: "hub_apply ev h = (h', out')"
    and ord: "in_order h out"
  shows "in_order h' (out @ out')"
proof (cases ev)
  case (Add u)
  have "in_order h' out"
    using ord ap Add
    by (auto simp: in_order_def buffer_def writes_def Hub_AddClient_def Let_def nth_append split: if_splits)
  then show ?thesis using ap Add by simp
next
  case (Lookup u m)
  then have "in_order h' out"
    using ap by (intro in_order_same [OF ord])
      (auto simp: buffer_def writes_def Hub_SendToUser_lookup_def split: option.splits)
  then show ?thesis using ap Lookup by simp
next
  case (Select k)
  obtain i m where im: "hub_sending h ! k = (i, m)" by fastforce
  have i: "i < length (hub_heap h)"
    using inv en Select nth_mem [of k "hub_sending h"] unfolding hub_inv_def im by auto
  have full: "send_capacity \<le> length (queued i out)" if "\<not> length (wc_send (hub_heap h ! i)) < send_capacity"
    using ord i that by (auto simp: in_order_def buffer_def)
  show ?thesis
    using ord ap Select i full
    by (auto simp: in_order_def Hub_SendToUser_select_def im Let_def buffer_def writes_def nth_updated
        split: if_splits intro: le_trans)
next
  case (Receive i ok)
  then have i: "i < length (hub_heap h)" "writes h i" using en by (auto simp: writes_def)
  then have no: "lost i out = []" using ord by (simp add: in_order_def)
  show ?thesis
  proof (cases "wc_send (hub_heap h ! i)")
    case Nil
    then have "in_order h' out"
      using ap Receive i
      by (intro in_order_same [OF ord])
        (auto simp: writePump_receive_def set_client_heap buffer_def writes_def nth_updated split: if_splits)
    then show ?thesis using ap Receive Nil by (simp add: writePump_receive_def)
  next
    case (Cons m rest)
    have buf: "buffer h i = m # rest" using Cons i(1) by (simp add: buffer_def)
    have h': "h' = set_client i (\<lambda>c. c\<lparr>wc_send := rest, wc_writer := (if ok then Running else Leaving)\<rparr>) h"
      and out': "out' = [if ok then Written i m else Lost i m]"
      using ap Receive Cons by (auto simp: writePump_receive_def)
    have b': "buffer h' j = (if j = i then rest else buffer h j)" for j
      by (simp add: h' buffer_set_client i(1))
    have w': "writes h' j = (if j = i then ok else writes h j)" for j
      by (simp add: h' writes_set_client i(1))
    have len: "length (hub_heap h') = length (hub_heap h)" by (simp add: h')
    show ?thesis
      using ord buf no unfolding in_order_def b' w' len out' by (cases ok) auto
  qed
next
  case (Ping i ok)
  then have "in_order h' out"
    using ap en by (intro in_order_same [OF ord])
      (auto simp: writePump_ping_def set_client_heap buffer_def writes_def nth_updated split: if_splits)
  then show ?thesis using ap Ping by simp
next
  case (WriterExit i)
  then have "in_order h' out"
    using ap by (intro in_order_same [OF ord])
      (auto simp: writePump_exit_def buffer_RemoveClient writes_RemoveClient,
       auto simp: set_client_heap buffer_def writes_def nth_updated split: if_splits)
  then show ?thesis using ap WriterExit by simp
next
  case (ReaderError i)
  then have "in_order h' out"
    using ap by (intro in_order_same [OF ord])
      (auto simp: readPump_error_def set_client_heap buffer_def writes_def nth_updated split: if_splits)
  then show ?thesis using ap ReaderError by simp
next
  case (ReaderExit i)
  have b: "buffer (set_client i f g) j = buffer g j" if "\<And>c. wc_send (f c) = wc_send c" for f g j
    using that by (auto simp: set_client_heap nth_updated buffer_def)
  have w: "writes (set_client i f g) j = writes g j" if "\<And>c. wc_writer (f c) = wc_writer c" for f g j
    using that by (auto simp: set_client_heap nth_updated writes_def)
  from ReaderExit have "in_order h' out"
    using ap by (intro in_order_same [OF ord])
      (auto simp: readPump_exit_def buffer_RemoveClient writes_RemoveClient b w)
  then show ?thesis using ap ReaderExit by simp
qed

subsection \<open>Messages have a sender\<close>

text \<open>
  The messages that the events of a run hand in for a user, and those that were handed to clients of
  that user: by a goroutine that has not reached its \<open>select\<close> yet, accepted, or dropped.
\<close>

definition sent_to :: "int32 \<Rightarrow> hub_event list \<Rightarrow> string list" where
  "sent_to u evs = concat (map (\<lambda>ev. case ev of Lookup v m \<Rightarrow> if v = u then [m] else [] | _ \<Rightarrow> []) evs)"

definition client_of :: "Hub \<Rightarrow> int32 \<Rightarrow> nat \<Rightarrow> bool" where
  "client_of h u i \<longleftrightarrow> i < length (hub_heap h) \<and> wc_userID (hub_heap h ! i) = u"

fun offered :: "hub_output \<Rightarrow> (nat \<times> string) option" where
  "offered (Queued i m) = Some (i, m)"
| "offered (Dropped i m) = Some (i, m)"
| "offered x = None"

definition messages_for :: "Hub \<Rightarrow> int32 \<Rightarrow> (nat \<times> string) list \<Rightarrow> string multiset" where
  "messages_for h u xs = mset (map snd (filter (\<lambda>(i, m). client_of h u i) xs))"

definition handed :: "Hub \<Rightarrow> hub_output list \<Rightarrow> int32 \<Rightarrow> string multiset" where
  "handed h out u = messages_for h u (hub_sending h) + messages_for h u (List.map_filter offered out)"

definition have_senders :: "Hub \<Rightarrow> hub_event list \<Rightarrow> hub_output list \<Rightarrow> bool" where
  "have_senders h evs out \<longleftrightarrow> (\<forall>u. handed h out u \<subseteq># mset (sent_to u evs)) \<and>
     (\<forall>(i, m) \<in> set (List.map_filter offered out). i < length (hub_heap h))"

lemma sent_to_append [simp]: "sent_to u (evs @ evs') = sent_to u evs @ sent_to u evs'"
  by (simp add: sent_to_def)

lemma map_filter_append [simp]: "List.map_filter f (xs @ ys) = List.map_filter f xs @ List.map_filter f ys"
  by (simp add: List.map_filter_def)

lemma messages_append [simp]: "messages_for h u (xs @ ys) = messages_for h u xs + messages_for h u ys"
  by (simp add: messages_for_def)

lemma messages_one [simp]: "messages_for h u [(i, m)] = (if client_of h u i then {#m#} else {#})" "messages_for h u [] = {#}"
  by (simp_all add: messages_for_def)

lemma messages_cong:
  assumes "\<forall>(i, m) \<in> set xs. client_of h' u i = client_of h u i"
  shows "messages_for h' u xs = messages_for h u xs"
proof -
  have "filter (\<lambda>(i, m). client_of h' u i) xs = filter (\<lambda>(i, m). client_of h u i) xs"
    using assms by (intro filter_cong) auto
  then show ?thesis by (simp add: messages_for_def)
qed

lemma messages_split:
  assumes "k < length xs"
  shows "messages_for h u xs = messages_for h u (take k xs @ drop (Suc k) xs) + messages_for h u [xs ! k]"
proof -
  have c: "messages_for h u (x # ys) = messages_for h u [x] + messages_for h u ys" for x ys
    by (simp add: messages_for_def)
  have "messages_for h u (take k xs @ xs ! k # drop (Suc k) xs) =
      messages_for h u (take k xs) + (messages_for h u [xs ! k] + messages_for h u (drop (Suc k) xs))"
    by (simp only: messages_append c [of "xs ! k" "drop (Suc k) xs"])
  moreover have "take k xs @ xs ! k # drop (Suc k) xs = xs"
    by (rule id_take_nth_drop [OF assms, symmetric])
  ultimately have "messages_for h u xs =
      messages_for h u (take k xs) + (messages_for h u [xs ! k] + messages_for h u (drop (Suc k) xs))" by metis
  then show ?thesis by (simp only: messages_append add.assoc add.commute [of "messages_for h u [xs ! k]"])
qed

lemma client_of_set_client:
  "(\<And>c. wc_userID (f c) = wc_userID c) \<Longrightarrow> client_of (set_client i f h) u j = client_of h u j"
  by (auto simp: client_of_def set_client_def nth_updated)

lemma client_of_RemoveClient: "client_of (Hub_RemoveClient u h) v j = client_of h v j"
  by (auto simp: client_of_def Hub_RemoveClient_def Let_def nth_updated split: option.splits)

lemma sending_same [simp]:
  "hub_sending (set_client i f h) = hub_sending h" "hub_sending (Hub_RemoveClient u h) = hub_sending h"
  by (auto simp: set_client_def Hub_RemoveClient_def Let_def split: option.splits)

text \<open>A step that hands over nothing.\<close>

lemma have_senders_same:
  assumes "have_senders h evs out" "List.map_filter offered out' = []" "hub_sending h' = hub_sending h"
    and "\<And>u i. client_of h' u i = client_of h u i" "length (hub_heap h') = length (hub_heap h)"
  shows "have_senders h' (evs @ [ev]) (out @ out')"
proof -
  have "messages_for h' u xs = messages_for h u xs" for u xs
    by (rule messages_cong) (simp add: assms(4))
  then have "handed h' (out @ out') u = handed h out u" for u
    by (simp add: handed_def assms(2,3))
  moreover have "handed h out u \<subseteq># mset (sent_to u evs)" for u
    using assms(1) by (simp add: have_senders_def)
  ultimately show ?thesis
    using assms(1,2,5) by (auto simp: have_senders_def intro: subset_mset.trans [OF _ mset_subset_eq_add_left])
qed

lemma have_senders_apply:
  assumes inv: "hub_inv h" and en: "hub_enabled ev h" and ap: "hub_apply ev h = (h', out')"
    and snd: "have_senders h evs out"
  shows "have_senders h' (evs @ [ev]) (out @ out')"
proof (cases ev)
  case (Add u)
  have h': "hub_sending h' = hub_sending h" "out' = []"
    and len: "length (hub_heap h') = Suc (length (hub_heap h))"
    using ap Add by (auto simp: Hub_AddClient_def Let_def)
  have old: "client_of h' v i = client_of h v i" if "i < length (hub_heap h)" for v i
    using that ap Add by (auto simp: client_of_def Hub_AddClient_def Let_def nth_append)
  have "messages_for h' v (hub_sending h) = messages_for h v (hub_sending h)" for v
    using inv old by (intro messages_cong) (auto simp: hub_inv_def)
  moreover have "messages_for h' v (List.map_filter offered out) = messages_for h v (List.map_filter offered out)" for v
    using snd old by (intro messages_cong) (auto simp: have_senders_def)
  ultimately show ?thesis
    using snd Add len by (auto simp: have_senders_def handed_def h' sent_to_def)
next
  case (Lookup u m)
  have same: "client_of h' v i = client_of h v i" "length (hub_heap h') = length (hub_heap h)" for v i
    using ap Lookup by (auto simp: client_of_def Hub_SendToUser_lookup_def split: option.splits)
  have eq: "messages_for h' v xs = messages_for h v xs" for v xs by (rule messages_cong) (simp add: same)
  have out': "out' = []" using ap Lookup by simp
  show ?thesis
  proof (cases "hub_clients h u")
    case None
    then have "h' = h" using ap Lookup by (simp add: Hub_SendToUser_lookup_def)
    then show ?thesis using snd out'
      by (auto simp: have_senders_def intro: subset_mset.trans [OF _ mset_subset_eq_add_left])
  next
    case (Some i)
    then have i: "client_of h u i" using inv by (auto simp: hub_inv_def client_of_def)
    have q: "hub_sending h' = hub_sending h @ [(i, m)]"
      using ap Lookup Some by (auto simp: Hub_SendToUser_lookup_def)
    have "client_of h v i \<longleftrightarrow> u = v" for v using i by (auto simp: client_of_def)
    then have "handed h' out v = handed h out v + mset (sent_to v [ev])" for v
      by (simp only: handed_def q eq messages_append messages_one same(1)) (simp add: Lookup sent_to_def)
    moreover have "handed h' (out @ out') v = handed h' out v" for v using out' by simp
    ultimately show ?thesis using snd out' same(2) by (simp add: have_senders_def)
  qed
next
  case (Select k)
  obtain i m where im: "hub_sending h ! k = (i, m)" by fastforce
  have k: "k < length (hub_sending h)" using en Select by simp
  then have i: "i < length (hub_heap h)"
    using inv nth_mem [of k "hub_sending h"] unfolding hub_inv_def im by auto
  have same: "client_of h' v j = client_of h v j" "length (hub_heap h') = length (hub_heap h)" for v j
    using ap Select
    by (auto simp: client_of_def Hub_SendToUser_select_def im Let_def nth_updated split: if_splits)
  have eq: "messages_for h' v xs = messages_for h v xs" for v xs by (rule messages_cong) (simp add: same)
  have q: "hub_sending h' = take k (hub_sending h) @ drop (Suc k) (hub_sending h)"
    using ap Select by (auto simp: Hub_SendToUser_select_def im Let_def split: if_splits)
  have o: "List.map_filter offered out' \<in> {[], [(i, m)]}"
    using ap Select by (auto simp: Hub_SendToUser_select_def im Let_def List.map_filter_def split: if_splits)
  have "messages_for h v (hub_sending h) = messages_for h v (hub_sending h') + messages_for h v [(i, m)]" for v
    using messages_split [OF k, of h v] by (simp only: q im)
  then have "handed h' (out @ out') v \<subseteq># handed h out v" for v
    using o by (auto simp: handed_def eq messages_one(2) simp del: messages_one(1))
  then show ?thesis
    using snd o i same(2)
    by (auto simp: have_senders_def Select sent_to_def intro: subset_mset.trans)
next
  case (Receive i ok)
  with ap show ?thesis
    by (intro have_senders_same [OF snd])
      (auto simp: writePump_receive_def client_of_set_client List.map_filter_def split: list.splits)
next
  case (Ping i ok)
  with ap show ?thesis
    by (intro have_senders_same [OF snd])
      (auto simp: writePump_ping_def client_of_set_client List.map_filter_def)
next
  case (WriterExit i)
  with ap show ?thesis
    by (intro have_senders_same [OF snd])
      (auto simp: writePump_exit_def client_of_set_client client_of_RemoveClient List.map_filter_def)
next
  case (ReaderError i)
  with ap show ?thesis
    by (intro have_senders_same [OF snd])
      (auto simp: readPump_error_def client_of_set_client List.map_filter_def)
next
  case (ReaderExit i)
  with ap show ?thesis
    by (intro have_senders_same [OF snd])
      (auto simp: readPump_exit_def client_of_set_client client_of_RemoveClient List.map_filter_def)
qed

subsection \<open>Runs\<close>

lemma delivery_run:
  assumes "hub_exec evs h = Some (h', out')" "hub_inv h" "in_order h out" "have_senders h evs0 out"
  shows "in_order h' (out @ out') \<and> have_senders h' (evs0 @ evs) (out @ out')"
  using assms
proof (induction evs arbitrary: h out out' evs0)
  case (Cons ev evs)
  obtain h1 out1 where a: "hub_apply ev h = (h1, out1)" by fastforce
  with Cons.prems(1) obtain out2 where e: "hub_exec evs h1 = Some (h', out2)" "out' = out1 @ out2"
    and en: "hub_enabled ev h"
    by (auto split: if_splits)
  from Cons.IH [OF e(1) hub_inv_apply [OF Cons.prems(2) en a] in_order_apply [OF Cons.prems(2) en a Cons.prems(3)]
      have_senders_apply [OF Cons.prems(2) en a Cons.prems(4)]] e(2)
  show ?case by simp
qed simp

lemma delivery_from_start:
  assumes "hub_exec evs NewHub = Some (h, out)"
  shows "in_order h out" "have_senders h evs out"
proof -
  have "hub_inv NewHub" "in_order NewHub []" "have_senders NewHub [] []"
    by (simp_all add: hub_inv_def in_order_def have_senders_def handed_def NewHub_def buffer_def writes_def
        List.map_filter_def)
  from delivery_run [OF assms this] show "in_order h out" "have_senders h evs out" by simp_all
qed

lemma queued_offered:
  "i < length (hub_heap h) \<Longrightarrow>
   mset (queued i out) \<subseteq># messages_for h (wc_userID (hub_heap h ! i)) (List.map_filter offered out)"
proof (induction out)
  case (Cons x out)
  have more: "A \<subseteq># add_mset m B" if "A \<subseteq># B" for A B and m :: string
    using that mset_subset_eq_add_right [of B "{#m#}"] by (auto intro: subset_mset.trans)
  from Cons show ?case
    by (cases x) (auto simp: queued_def messages_for_def List.map_filter_def client_of_def intro: more)
qed (simp add: List.map_filter_def)

end
