(* ===== verification/Hub_Properties.thy ===== *)
theory Hub_Properties
  imports Hub_Delivery
begin

text \<open>
  The properties of the WebSocket hub, over every interleaving of its callers and its pumps.
\<close>

section \<open>The hub\<close>

text \<open>
  C28. The registered client of a user is live. In every reachable state of the hub, the client that
  is registered for a user exists, belongs to that user and has an open channel; no channel buffers
  more than 256 messages.
\<close>

theorem registered_client_is_live:
  assumes "hub_reachable h out"
  shows "(\<forall>u. case hub_clients h u of None \<Rightarrow> True
     | Some i \<Rightarrow> i < length (hub_heap h) \<and> wc_userID (hub_heap h ! i) = u \<and> \<not> wc_closed (hub_heap h ! i)) \<and>
    list_all (\<lambda>c. length (wc_send c) \<le> 256) (hub_heap h)"
  using hub_inv_reachable [OF assms]
  by (auto simp: hub_inv_def send_capacity_def list_all_iff split: option.split)

theorem registered_client_is_live_witness:
  "case hub_exec [Add 7, Lookup 7 ''m'', Select 0] NewHub of
     Some (h, out) \<Rightarrow> hub_clients h 7 = Some 0 \<and> \<not> wc_closed (hub_heap h ! 0)
   | None \<Rightarrow> False"
proof -
  have "hub_exec [Add 7, Lookup 7 ''m'', Select 0] NewHub \<noteq> None" by code_simp
  then obtain h out where e: "hub_exec [Add 7, Lookup 7 ''m'', Select 0] NewHub = Some (h, out)"
    by fastforce
  from hub_exec_reachable [OF e hub_reachable.init] have r: "hub_reachable h out" by simp
  have "(case hub_exec [Add 7, Lookup 7 ''m'', Select 0] NewHub of
      Some (h, out) \<Rightarrow> hub_clients h 7 = Some 0 | None \<Rightarrow> False)" by code_simp
  then have "hub_clients h 7 = Some 0" by (simp add: e del: hub_exec.simps)
  then show ?thesis
    using conjunct1 [OF registered_client_is_live [OF r], rule_format, of 7]
    by (simp add: e del: hub_exec.simps)
qed

text \<open>
  C29. Delivery. In every run, for every client: the messages accepted into its channel are, in order,
  the ones its writer wrote to the connection, then at most one that it took and failed to write, then
  the ones still in the channel; nothing has been lost as long as the writer runs, so that a failed write
  is the end of it and what stays in the channel of an ended writer is never written. The accepted
  messages are among those sent to the user of the client, each accepted at most as often as it was sent;
  and a message is dropped only when 256 were accepted before.
\<close>

theorem delivery_is_fifo:
  assumes "hub_exec evs NewHub = Some (h, out)" and "i < length (hub_heap h)"
  shows "queued i out = written i out @ lost i out @ wc_send (hub_heap h ! i) \<and>
    length (lost i out) \<le> 1 \<and> (wc_writer (hub_heap h ! i) = Running \<longrightarrow> lost i out = []) \<and>
    mset (queued i out) \<subseteq># mset (sent_to (wc_userID (hub_heap h ! i)) evs) \<and>
    (\<forall>m. Dropped i m \<in> set out \<longrightarrow> 256 \<le> length (queued i out))"
proof -
  note D = delivery_from_start [OF assms(1)]
  have "handed h out (wc_userID (hub_heap h ! i)) \<subseteq># mset (sent_to (wc_userID (hub_heap h ! i)) evs)"
    using D(2) by (simp add: have_senders_def)
  moreover have "mset (queued i out) \<subseteq># handed h out (wc_userID (hub_heap h ! i))"
    using queued_offered [OF assms(2), of out] unfolding handed_def
    by (rule subset_mset.trans) simp
  ultimately have "mset (queued i out) \<subseteq># mset (sent_to (wc_userID (hub_heap h ! i)) evs)"
    by (rule subset_mset.trans [rotated])
  moreover have "buffer h i = wc_send (hub_heap h ! i)" "writes h i \<longleftrightarrow> wc_writer (hub_heap h ! i) = Running"
    using assms(2) by (simp_all add: buffer_def writes_def)
  ultimately show ?thesis
    using D(1) unfolding in_order_def send_capacity_def by metis
qed

text \<open>
  Two messages to user 7 are written; the write of a third one fails, and the last one stays behind. The
  messages to user 8 are in another channel.
\<close>

theorem delivery_is_fifo_witness:
  "case hub_exec [Add 7, Add 8, Lookup 7 ''a'', Lookup 8 ''x'', Lookup 7 ''b'', Select 2, Select 0, Select 0,
      Receive 0 True, Lookup 7 ''c'', Select 0, Receive 0 False] NewHub of
     Some (h, out) \<Rightarrow> queued 0 out = [''b'', ''a'', ''c''] \<and> written 0 out @ lost 0 out @ wc_send (hub_heap h ! 0)
         = [''b'', ''a'', ''c''] \<and> mset [''b'', ''a'', ''c''] \<subseteq># mset [''a'', ''b'', ''c'']
   | None \<Rightarrow> False"
proof -
  let ?evs = "[Add 7, Add 8, Lookup 7 ''a'', Lookup 8 ''x'', Lookup 7 ''b'', Select 2, Select 0, Select 0,
      Receive 0 True, Lookup 7 ''c'', Select 0, Receive 0 False]"
  let ?x = "hub_exec ?evs NewHub"
  have q: "map_option (\<lambda>(h, out). (queued 0 out, 0 < length (hub_heap h), wc_userID (hub_heap h ! 0))) ?x =
      Some ([''b'', ''a'', ''c''], True, 7)" by code_simp
  then obtain h out where e: "?x = Some (h, out)"
    by (auto simp del: hub_exec.simps)
  with q have o: "queued 0 out = [''b'', ''a'', ''c'']" "0 < length (hub_heap h)" "wc_userID (hub_heap h ! 0) = 7"
    by (simp_all del: hub_exec.simps)
  have s: "sent_to 7 ?evs = [''a'', ''b'', ''c'']" by code_simp
  have "queued 0 out = written 0 out @ lost 0 out @ wc_send (hub_heap h ! 0)"
    "mset (queued 0 out) \<subseteq># mset (sent_to (wc_userID (hub_heap h ! 0)) ?evs)"
    using delivery_is_fifo [OF e o(2)] by blast+
  then show ?thesis
    unfolding e option.case prod.case o(3) s o(1) by metis
qed

text \<open>
  C31. The one way to panic. From a reachable state that has not panicked, a step panics exactly when
  it is the send of a caller that looked its client up before that client was removed: the channel it
  holds is closed by now. Removing a client never panics.
\<close>

theorem only_a_late_send_panics:
  assumes "hub_reachable h out" "\<not> hub_panic h" "hub_enabled ev h"
  shows "hub_panic (fst (hub_apply ev h)) \<longleftrightarrow>
     (\<exists>k. ev = Select k \<and> wc_closed (hub_heap h ! fst (hub_sending h ! k)))"
  by (rule hub_panic_apply [OF hub_inv_reachable [OF assms(1)] assms(2,3)])

theorem only_a_late_send_panics_witness:
  "case hub_exec [Add 7, Lookup 7 ''m'', ReaderError 0, ReaderExit 0] NewHub of
     Some (h, out) \<Rightarrow> \<not> hub_panic h \<and> hub_panic (fst (hub_apply (Select 0) h))
   | None \<Rightarrow> False"
proof -
  let ?x = "hub_exec [Add 7, Lookup 7 ''m'', ReaderError 0, ReaderExit 0] NewHub"
  have p: "map_option (\<lambda>(h, out). (hub_panic h, hub_enabled (Select 0) h,
      wc_closed (hub_heap h ! fst (hub_sending h ! 0)))) ?x = Some (False, True, True)" by code_simp
  then obtain h out where e: "?x = Some (h, out)"
    by (auto simp del: hub_exec.simps)
  with p have s: "\<not> hub_panic h" "hub_enabled (Select 0) h"
    "wc_closed (hub_heap h ! fst (hub_sending h ! 0))" by (simp_all del: hub_exec.simps)
  from hub_exec_reachable [OF e hub_reachable.init] have r: "hub_reachable h out" by simp
  have "hub_panic (fst (hub_apply (Select 0) h))"
    using only_a_late_send_panics [OF r s(1,2)] s(3) by blast
  then show ?thesis using s(1) by (simp add: e del: hub_exec.simps)
qed

text \<open>
  C30. The goroutines of a closed client end. Once the channel of a client is closed, in whatever
  interleaving of callers and pumps, its reader and writer take together at most four more steps; each
  step of theirs brings them closer to their end, and as long as one of them has not ended, one of
  their steps is enabled: no goroutine of a removed client leaks.
\<close>

theorem closed_client_stops:
  assumes "hub_reachable h out0" "i < length (hub_heap h)" "wc_closed (hub_heap h ! i)"
    and "hub_exec evs h = Some (h', out)"
  shows "length (filter (step_of i) evs) + client_rank (hub_heap h' ! i) = client_rank (hub_heap h ! i) \<and>
    client_rank (hub_heap h ! i) \<le> 4 \<and>
    ((wc_writer (hub_heap h' ! i) = Stopped \<and> wc_reader (hub_heap h' ! i) = Stopped) \<or>
     (\<exists>ev. step_of i ev \<and> hub_enabled ev h'))"
proof -
  note run = rank_run [OF assms]
  have p: "pump_rank p \<le> 2" "pump_rank p = 0 \<longleftrightarrow> p = Stopped" for p by (cases p; simp)+
  have "client_rank (hub_heap h ! i) \<le> 4"
    unfolding client_rank_def using p(1) [of "wc_writer (hub_heap h ! i)"]
      p(1) [of "wc_reader (hub_heap h ! i)"] by linarith
  moreover have "(wc_writer (hub_heap h' ! i) = Stopped \<and> wc_reader (hub_heap h' ! i) = Stopped) \<or>
      (\<exists>ev. step_of i ev \<and> hub_enabled ev h')"
    using rank_enabled [of i h'] run p(2) by (auto simp: client_rank_def)
  ultimately show ?thesis using run by simp
qed

theorem closed_client_stops_witness:
  "case hub_exec [Add 7, ReaderError 0, ReaderExit 0] NewHub of
     Some (h, out) \<Rightarrow> wc_closed (hub_heap h ! 0) \<and> (\<exists>ev. step_of 0 ev \<and> hub_enabled ev h)
   | None \<Rightarrow> False"
proof -
  let ?x = "hub_exec [Add 7, ReaderError 0, ReaderExit 0] NewHub"
  have p: "map_option (\<lambda>(h, out). (wc_closed (hub_heap h ! 0), wc_writer (hub_heap h ! 0) = Stopped,
      0 < length (hub_heap h))) ?x = Some (True, False, True)" by code_simp
  then obtain h out where e: "?x = Some (h, out)"
    by (auto simp del: hub_exec.simps)
  with p have s: "wc_closed (hub_heap h ! 0)" "wc_writer (hub_heap h ! 0) \<noteq> Stopped"
    "0 < length (hub_heap h)" by (simp_all del: hub_exec.simps)
  from hub_exec_reachable [OF e hub_reachable.init] have r: "hub_reachable h out" by simp
  have "hub_exec [] h = Some (h, [])" by simp
  from closed_client_stops [OF r s(3,1) this] s(1,2)
  show ?thesis by (auto simp add: e simp del: hub_exec.simps)
qed

text \<open>
  Reconnecting loses the new connection. When a user reconnects, the new client takes the place
  of the old one in the map; when the old connection then ends, the exit of its reader removes and
  closes the client that is registered, which is the new one: the user is no longer registered, and the
  channel and the connection of the new client are closed although nothing happened to them.
\<close>

theorem reconnect_loses_the_new_client:
  "case hub_exec [Add u, Add u, ReaderError 0, ReaderExit 0] NewHub of
     Some (h, out) \<Rightarrow> hub_clients h u = None \<and> wc_closed (hub_heap h ! 1) \<and>
       \<not> wc_conn_open (hub_heap h ! 1) \<and> wc_reader (hub_heap h ! 1) = Running \<and>
       \<not> wc_closed (hub_heap h ! 0)
   | None \<Rightarrow> False"
  by (simp add: NewHub_def Hub_AddClient_def readPump_error_def readPump_exit_def set_client_def
      Hub_RemoveClient_def Let_def)

end
