(* ===== verification/Profile_Properties.thy ===== *)
theory Profile_Properties
  imports Examples
begin

text \<open>
  The properties of profiles and of the files they refer to.
\<close>

section \<open>Files\<close>

text \<open>
  C32. Static files are confined. For a clean absolute directory other than the root, whatever path the
  URL spells (percent-encoded or with dots), the file the server may send is a regular file at the
  directory's own path or below it, reached by proper names only, and nothing is changed.
\<close>

theorem static_files_are_confined:
  assumes "path_IsAbs dir" "path_Clean dir = dir" "dir \<noteq> ''/''"
    and "service_Uploads dir prefix url w = (Ret p, w')"
  shows "quiet w w' \<and> (p = dir \<or> below dir p) \<and> (\<exists>data. filesystem w p = Some (RegularFile data))"
  by (rule Uploads_Ret [OF assms(4,1-3)])

theorem static_files_are_confined_witness:
  "below ''/srv/uploads'' ''/srv/uploads/a.png'' \<or> ''/srv/uploads/a.png'' = ''/srv/uploads''"
proof -
  let ?m = "service_Uploads ''/srv/uploads'' ''/uploads/'' ''/uploads/x/%2e%2E/a.png'' example_files"
  have "fst ?m = Ret ''/srv/uploads/a.png''" by code_simp
  then have m: "?m = (Ret ''/srv/uploads/a.png'', snd ?m)" by (simp add: prod_eq_iff)
  have d: "path_IsAbs ''/srv/uploads''" "path_Clean ''/srv/uploads'' = ''/srv/uploads''"
    "''/srv/uploads'' \<noteq> ''/''" by code_simp+
  show ?thesis using static_files_are_confined [OF d m] by blast
qed

text \<open>
  C33. A failed upload leaves at most one torn file. When the names that the upload can draw are not
  taken, and at most one call to the operating system fails, an upload of several files that fails leaves
  every path but the upload directory as it was, with at most one exception: the new file whose write
  failed half way holds the bytes that were written. The files stored before it are deleted again.
\<close>

theorem failed_upload_leaves_one_torn_file:
  assumes "fresh_names files w" "one_fault w" "UploadFiles files w = (Fail e, w')"
  shows "\<exists>q. (\<forall>p. p \<noteq> absolute w uploadDir \<longrightarrow> p \<noteq> q \<longrightarrow> filesystem w' p = filesystem w p) \<and>
    (filesystem w' q = filesystem w q \<or>
     (\<exists>f \<in> set files. \<exists>n k. q = stored_at w (uuids w n @ filepath_Ext (file_Filename f)) \<and>
        filesystem w q = None \<and> torn w q = Some k \<and>
        filesystem w' q = Some (RegularFile (take k (file_Data f)))))"
proof -
  have "partly_uploaded w [] w" by (simp add: partly_uploaded_def)
  from upload_loop_restores [OF this assms(2) assms(3) [unfolded UploadFiles_def], of 0]
  consider "partly_uploaded w [] w'"
    | f n where "f \<in> set files" "upload_name w f n" "partly_uploaded w [n] w'" "left_torn w f n w'"
    using assms(1) by auto
  then show ?thesis
  proof cases
    case 1
    then show ?thesis by (intro exI [of _ "absolute w uploadDir @ ''x''"]) (simp add: partly_uploaded_def)
  next
    case (2 f n)
    then show ?thesis
      by (intro exI [of _ "stored_at w n"])
        (auto simp: partly_uploaded_def left_torn_def upload_name_def)
  qed
qed

text \<open>
  The disk is full while the second file is written: the first one is deleted again, and the second one
  stays as an empty file.
\<close>

definition example_torn :: world where
  "example_torn = example_disk_full\<lparr>torn := (\<lambda>_. Some 0)\<rparr>"

lemma example_torn_file:
  "filesystem (snd (UploadFiles [example_file, example_file] example_torn)) ''/app/uploads/u1.png''
     = Some (RegularFile [])"
  by code_simp

theorem failed_upload_leaves_one_torn_file_witness:
  "\<exists>e w'. UploadFiles [example_file, example_file] example_torn = (Fail e, w') \<and>
     filesystem w' ''/app/uploads/u0.png'' = None \<and> filesystem w' ''/app/uploads/u1.png'' = Some (RegularFile [])"
proof -
  let ?m = "UploadFiles [example_file, example_file] example_torn"
  have "(case fst ?m of Fail e \<Rightarrow> True | _ \<Rightarrow> False)" by code_simp
  then obtain e where m: "?m = (Fail e, snd ?m)" by (cases ?m; cases "fst ?m") auto
  have fresh: "fresh_names [example_file, example_file] example_torn"
  proof -
    have "absolute example_torn = absolute example_disk_full"
      by (intro ext absolute_cwd) (simp add: example_torn_def)
    then have "stored_at example_torn = stored_at example_disk_full" by (simp add: stored_at_def fun_eq_iff)
    then show ?thesis
      using example_fresh \<open>absolute example_torn = absolute example_disk_full\<close>
      by (simp add: fresh_names_def) (simp add: example_torn_def)
  qed
  have one: "one_fault example_torn" by code_simp
  have none: "filesystem example_torn p = None" for p
    by (simp add: example_torn_def example_disk_full_def example_world_def empty_world_def)
  from failed_upload_leaves_one_torn_file [OF fresh one m] obtain q where
    q: "\<And>p. p \<noteq> absolute example_torn uploadDir \<Longrightarrow> p \<noteq> q \<Longrightarrow> filesystem (snd ?m) p = filesystem example_torn p"
    by blast
  have d: "''/app/uploads/u0.png'' \<noteq> absolute example_torn uploadDir"
    "''/app/uploads/u1.png'' \<noteq> absolute example_torn uploadDir" by code_simp+
  have "q = ''/app/uploads/u1.png''"
    using q [OF d(2)] example_torn_file none by fastforce
  then have "filesystem (snd ?m) ''/app/uploads/u0.png'' = None"
    using q [OF d(1)] none by simp
  then show ?thesis using m example_torn_file by blast
qed

section \<open>Profiles\<close>

text \<open>
  The table of profiles stays well-formed: one row per registered user, within the limits of the
  schema. Every operation of the service that writes keeps this, whatever calls fail.
\<close>

theorem profile_operations_keep_table_well_formed:
  "keeps wf_profiles (ProfileService_CreateProfile valid (profile_main E) p) \<and>
   keeps wf_profiles (ProfileService_UpdateProfile valid (profile_main E) p u fs) \<and>
   keeps wf_profiles (ProfileService_UpdateAvatar (profile_main E) u fs) \<and>
   keeps wf_profiles (ProfileService_UpdateHeader (profile_main E) u fs) \<and>
   keeps wf_profiles (ProfileService_DeleteAvatarByUserID (profile_main E) u)"
  by (intro conjI profile_wf.keeps_profile_service)

text \<open>
  Deleting an avatar is atomic: the transaction clears the path of the user's row and returns the
  path it held, or it fails and every table is as it was, also when the commit itself fails.
\<close>

theorem delete_avatar_is_atomic:
  "case DBProfileStore_DeleteAvatarByUserID u w of
     (Ret p, w') \<Rightarrow> \<exists>row path. find_profile u (db w) = Some row \<and> p_avatar_path row = Some path \<and>
         p = Some path \<and> map_option p_avatar_path (find_profile u (db w')) \<in> {None, Some None}
   | (Fail e, w') \<Rightarrow> db w' = db w
   | (Panic, w') \<Rightarrow> False"
  using DeleteAvatar_atomic [of u w]
  by (cases "DBProfileStore_DeleteAvatarByUserID u w")
     (auto split: res.splits option.splits)

text \<open>
  The header endpoint does not set the header. Whatever the request, the HTTP handler of the
  header picture leaves the header path of every profile as it is: it calls the operation for avatars.
\<close>

theorem header_endpoint_never_changes_a_header:
  "map p_header_path (profiles (db (snd (ProfileHandler_UpdateHeader (profile_conn E) r w))))
     = map p_header_path (profiles (db w))"
  using UpdateHeader_headers [of "map p_header_path (profiles (db w))" E r]
  by (auto simp: keeps_def)

end
