(* ===== verification/Post_Store.thy ===== *)
theory Post_Store
  imports Content_Domain
begin

text \<open>
  The store of posts (src/internal/repository/db/post.go) on the tables posts, post_attachments,
  post_photos and post_likes, and the counts and community names its queries join in.

  The transactions of this file check most errors in an inner scope (\<open>if err := ...\<close>), where the
  deferred rollback does not see them: \<open>tx_Abandon\<close>. Errors in the function's own \<open>err\<close> are rolled
  back: \<open>tx_Rollback\<close>.
\<close>

subsection \<open>The queries\<close>

text \<open>One row of the joined SELECT that every query of posts shares.\<close>

record post_join =
  pj_id :: int32
  pj_author_id :: int32
  pj_community_id :: "int32 option"
  pj_text :: string
  pj_created_at :: int
  pj_community_name :: "string option"
  pj_community_avatar :: "string option"
  pj_likes_count :: nat
  pj_comments_count :: nat
  pj_liked_by_user :: bool

definition join_post :: "int32 \<Rightarrow> database \<Rightarrow> post_row \<Rightarrow> post_join" where
  "join_post userID d p =
     (let community = Option.bind (po_community_id p) (\<lambda>i. find (\<lambda>c. cm_id c = i) (communities d))
      in \<lparr>pj_id = po_id p, pj_author_id = po_author_id p, pj_community_id = po_community_id p,
          pj_text = po_text p, pj_created_at = po_created_at p,
          pj_community_name = map_option cm_name community,
          pj_community_avatar = Option.bind community cm_avatar_path,
          pj_likes_count = length (filter (\<lambda>l. pl_post_id l = po_id p) (post_likes d)),
          pj_comments_count = length (filter (\<lambda>c. co_post_id c = po_id p) (comments d)),
          pj_liked_by_user = (\<exists>l \<in> set (post_likes d). pl_post_id l = po_id p \<and> pl_user_id l = userID)\<rparr>)"

text \<open>WHERE a condition holds of the post, ORDER BY created_at DESC.\<close>

definition select_posts :: "(database \<Rightarrow> post_row \<Rightarrow> bool) \<Rightarrow> int32 \<Rightarrow> database \<Rightarrow> post_join list" where
  "select_posts c userID d =
     map (join_post userID d) (sort_key (\<lambda>p. - po_created_at p) (filter (c d) (posts d)))"

definition in_feed :: "int32 \<Rightarrow> database \<Rightarrow> post_row \<Rightarrow> bool" where
  "in_feed userID d p \<longleftrightarrow>
     (case po_community_id p of
        None \<Rightarrow> True
      | Some i \<Rightarrow> \<exists>s \<in> set (community_subscriptions d). sb_user_id s = userID \<and> sb_community_id s = i)"

definition of_user :: "int32 \<Rightarrow> database \<Rightarrow> post_row \<Rightarrow> bool" where
  "of_user authorID d p \<longleftrightarrow> po_author_id p = authorID \<and> po_community_id p = None"

definition of_community :: "int32 \<Rightarrow> database \<Rightarrow> post_row \<Rightarrow> bool" where
  "of_community communityID d p \<longleftrightarrow> po_community_id p = Some communityID"

text \<open>
  Scanning a row into a \<open>PostDB\<close>: a negative id does not fit its \<open>uint\<close>, a count may not fit its
  \<open>int32\<close>. The community's name and avatar are kept only with a community id.
\<close>

definition scan_post :: "post_join \<Rightarrow> PostDB action" where
  "scan_post r =
     (case (scan_uint (pj_id r), scan_uint (pj_author_id r),
            scan_count (pj_likes_count r), scan_count (pj_comments_count r)) of
        (Some i, Some a, Some nlikes, Some ncomments) \<Rightarrow>
          ret \<lparr>pdb_ID = i, pdb_AuthorID = a, pdb_CommunityID = pj_community_id r,
               pdb_Text = pj_text r, pdb_CreatedAt = pj_created_at r,
               pdb_CommunityName =
                 (if pj_community_id r = None then None else pj_community_name r),
               pdb_CommunityAvatar =
                 (if pj_community_id r = None then None else pj_community_avatar r),
               pdb_LikeCount = nlikes, pdb_CommentsCount = ncomments,
               pdb_IsLiked = pj_liked_by_user r, pdb_Attachments = [], pdb_Photos = []\<rparr>
      | _ \<Rightarrow> throw (Plain ''sql: Scan error''))"

subsection \<open>Attachments and photos\<close>

definition select_files :: "post_file_row list \<Rightarrow> int32 \<Rightarrow> string list" where
  "select_files files postID =
     map pf_file_path (sort_key (\<lambda>f. sint (pf_id f)) (filter (\<lambda>f. pf_post_id f = postID) files))"

definition DBPostStore_getPostAttachments :: "go_uint \<Rightarrow> string list action" where
  "DBPostStore_getPostAttachments postID =
     call (with_int4 postID (\<lambda>i. query (\<lambda>d. select_files (post_attachments d) i)))
       (\<lambda>err. throw (Wrapf ''failed to query attachments: '' err))
     (\<lambda>rows. rows_loop_unchecked
       (\<lambda>p. call (external Plain (ret p)) (\<lambda>err. throw (Wrapf ''failed to scan attachment: '' err)) ret)
       rows)"

definition DBPostStore_getPostPhotos :: "go_uint \<Rightarrow> string list action" where
  "DBPostStore_getPostPhotos postID =
     call (with_int4 postID (\<lambda>i. query (\<lambda>d. select_files (post_photos d) i)))
       (\<lambda>err. throw (Wrapf ''failed to query post photos: '' err))
     (\<lambda>rows. rows_loop_unchecked
       (\<lambda>p. call (external Plain (ret p)) (\<lambda>err. throw (Wrapf ''failed to scan photo: '' err)) ret)
       rows)"

definition DBPostStore_getPostMedia :: "go_uint \<Rightarrow> (string list \<times> string list) action" where
  "DBPostStore_getPostMedia postID =
     call (DBPostStore_getPostAttachments postID) throw
     (\<lambda>attachments. call (DBPostStore_getPostPhotos postID) throw
     (\<lambda>photos. ret (attachments, photos)))"

text \<open>INSERT of a file row: the CHECK on its path and the foreign key to its post.\<close>

definition insert_attachment :: "int32 \<Rightarrow> string \<Rightarrow> int32 \<Rightarrow> int \<Rightarrow> database \<Rightarrow> (database \<times> unit) option" where
  "insert_attachment postID path i now d =
     (let row = \<lparr>pf_id = i, pf_post_id = postID, pf_file_path = path, pf_created_at = now\<rparr>
      in if post_files_check row \<and> post_exists d postID \<and> i \<notin> pf_id ` set (post_attachments d)
         then Some (d\<lparr>post_attachments := post_attachments d @ [row]\<rparr>, ()) else None)"

definition insert_photo :: "int32 \<Rightarrow> string \<Rightarrow> int32 \<Rightarrow> int \<Rightarrow> database \<Rightarrow> (database \<times> unit) option" where
  "insert_photo postID path i now d =
     (let row = \<lparr>pf_id = i, pf_post_id = postID, pf_file_path = path, pf_created_at = now\<rparr>
      in if post_files_check row \<and> post_exists d postID \<and> i \<notin> pf_id ` set (post_photos d)
         then Some (d\<lparr>post_photos := post_photos d @ [row]\<rparr>, ()) else None)"

fun DBPostStore_savePostAttachmentsTx :: "go_uint \<Rightarrow> string list \<Rightarrow> unit action" where
  "DBPostStore_savePostAttachmentsTx postID [] = ret ()"
| "DBPostStore_savePostAttachmentsTx postID (attachment # attachments) =
     (if only_space attachment then throw (Plain ''attachment path cannot be empty'')
      else if length attachment < 1 \<or> length attachment > 512
        then throw (Plain ''attachment path length must be between 1 and 512 characters'')
      else call (with_int4 postID
                  (\<lambda>i. insert_returning ''post_attachments'' (insert_attachment i attachment)))
             (\<lambda>err. throw (Wrapf ''failed to save attachment: '' err))
           (\<lambda>_. DBPostStore_savePostAttachmentsTx postID attachments))"

fun DBPostStore_savePostPhotosTx :: "go_uint \<Rightarrow> string list \<Rightarrow> unit action" where
  "DBPostStore_savePostPhotosTx postID [] = ret ()"
| "DBPostStore_savePostPhotosTx postID (photo # photos) =
     (if only_space photo then throw (Plain ''photo path cannot be empty'')
      else if length photo < 1 \<or> length photo > 512
        then throw (Plain ''photo path length must be between 1 and 512 characters'')
      else call (with_int4 postID (\<lambda>i. insert_returning ''post_photos'' (insert_photo i photo)))
             (\<lambda>err. throw (Wrapf ''failed to save photo: '' err))
           (\<lambda>_. DBPostStore_savePostPhotosTx postID photos))"

definition DBPostStore_updatePostAttachmentsTx :: "go_uint \<Rightarrow> string list \<Rightarrow> unit action" where
  "DBPostStore_updatePostAttachmentsTx postID attachments =
     call (with_int4 postID (\<lambda>i. exec (\<lambda>now d. Some
             (d\<lparr>post_attachments := filter (\<lambda>f. pf_post_id f \<noteq> i) (post_attachments d)\<rparr>,
              length (filter (\<lambda>f. pf_post_id f = i) (post_attachments d))))))
       (\<lambda>err. throw (Wrapf ''failed to delete old attachments: '' err))
     (\<lambda>_. DBPostStore_savePostAttachmentsTx postID attachments)"

definition DBPostStore_updatePostPhotosTx :: "go_uint \<Rightarrow> string list \<Rightarrow> unit action" where
  "DBPostStore_updatePostPhotosTx postID photos =
     call (with_int4 postID (\<lambda>i. exec (\<lambda>now d. Some
             (d\<lparr>post_photos := filter (\<lambda>f. pf_post_id f \<noteq> i) (post_photos d)\<rparr>,
              length (filter (\<lambda>f. pf_post_id f = i) (post_photos d))))))
       (\<lambda>err. throw (Wrapf ''failed to delete old photos: '' err))
     (\<lambda>_. DBPostStore_savePostPhotosTx postID photos)"

subsection \<open>Reading posts\<close>

text \<open>A row of a listing: scanned, then its files are loaded.\<close>

definition load_post :: "post_join \<Rightarrow> PostDB action" where
  "load_post r =
     call (external Plain (scan_post r)) (\<lambda>err. throw (Wrapf ''failed to scan post: '' err))
     (\<lambda>post. call (DBPostStore_getPostMedia (pdb_ID post)) throw
     (\<lambda>(attachments, photos).
        ret (post\<lparr>pdb_Attachments := attachments, pdb_Photos := photos\<rparr>)))"

definition DBPostStore_PostsPaginatedList ::
    "int32 \<Rightarrow> int32 \<Rightarrow> int32 \<Rightarrow> PostDB list action" where
  "DBPostStore_PostsPaginatedList userID limit offset =
     call (query_page (select_posts (in_feed userID) userID) limit offset)
       (\<lambda>err. throw (Wrapf ''failed to query posts: '' err))
     (\<lambda>rows. call (rows_loop load_post rows) throw
     (\<lambda>posts. call rows_Err throw (\<lambda>_. ret posts)))"

definition DBPostStore_GetPostByID :: "int32 \<Rightarrow> go_uint \<Rightarrow> PostDB action" where
  "DBPostStore_GetPostByID userID postID =
     call (call (with_int4 postID
             (\<lambda>i. query_row (\<lambda>d. map_option (join_post userID d) (find (\<lambda>p. po_id p = i) (posts d)))))
             throw scan_post)
       (\<lambda>err. if errors_Is err ErrNoRows then throw ErrPostNotFound
              else throw (Wrapf ''failed to get post: '' err))
     (\<lambda>post. call (DBPostStore_getPostMedia postID) throw
     (\<lambda>(attachments, photos).
        ret (post\<lparr>pdb_Attachments := attachments, pdb_Photos := photos\<rparr>)))"

text \<open>These two listings do not check \<open>rows.Err\<close>.\<close>

definition DBPostStore_GetCommunityPosts ::
    "int32 \<Rightarrow> int32 \<Rightarrow> int32 \<Rightarrow> int32 \<Rightarrow> PostDB list action" where
  "DBPostStore_GetCommunityPosts userID communityID limit offset =
     call (query_page (select_posts (of_community communityID) userID) limit offset)
       (\<lambda>err. throw (Wrapf ''failed to query community posts: '' err))
     (\<lambda>rows. rows_loop_unchecked load_post rows)"

definition DBPostStore_GetPostsByUser ::
    "int32 \<Rightarrow> go_uint \<Rightarrow> int32 \<Rightarrow> int32 \<Rightarrow> PostDB list action" where
  "DBPostStore_GetPostsByUser selfUserID userID limit offset =
     call (with_int4 userID
            (\<lambda>authorID. query_page (select_posts (of_user authorID) selfUserID) limit offset))
       (\<lambda>err. throw (Wrapf ''failed to query user posts: '' err))
     (\<lambda>rows. rows_loop_unchecked load_post rows)"

subsection \<open>Writing posts\<close>

text \<open>INSERT: the CHECK on the text, the foreign keys, and the identity column.\<close>

definition insert_post ::
    "int32 \<Rightarrow> string \<Rightarrow> int32 option \<Rightarrow> int32 \<Rightarrow> int \<Rightarrow> database \<Rightarrow> (database \<times> post_row) option" where
  "insert_post authorID text communityID i now d =
     (let row = \<lparr>po_id = i, po_author_id = authorID, po_community_id = communityID, po_text = text,
                 po_created_at = now, po_updated_at = now\<rparr>
      in if posts_check row \<and> user_exists d authorID \<and> i \<notin> po_id ` set (posts d) \<and>
            (case communityID of None \<Rightarrow> True | Some c \<Rightarrow> community_exists d c)
         then Some (d\<lparr>posts := posts d @ [row]\<rparr>, row) else None)"

definition DBPostStore_CreatePost :: "Post \<Rightarrow> Post action" where
  "DBPostStore_CreatePost post =
     call tx_Begin (\<lambda>err. throw (Wrapf ''failed to begin transaction: '' err))
     (\<lambda>tx. let rollback = (\<lambda>e. call (tx_Rollback tx) throw (\<lambda>_. throw e));
               abandon = (\<lambda>e. call (tx_Abandon tx) throw (\<lambda>_. throw e))
      in call (call (with_int4 (post_AuthorID post) (\<lambda>authorID.
                 insert_returning ''posts'' (insert_post authorID (post_Text post) (post_CommunityID post))))
               throw
               (\<lambda>row. case scan_uint (po_id row) of
                  None \<Rightarrow> throw (Plain ''sql: Scan error'')
                | Some i \<Rightarrow> ret (post\<lparr>post_ID := i, post_CreatedAt := po_created_at row,
                                       post_UpdatedAt := po_updated_at row\<rparr>)))
         (\<lambda>err. rollback (Wrapf ''failed to create post: '' err))
      (\<lambda>post. call (DBPostStore_savePostAttachmentsTx (post_ID post) (post_Attachments post)) abandon
      (\<lambda>_. call (DBPostStore_savePostPhotosTx (post_ID post) (post_Photos post)) abandon
      (\<lambda>_. call (tx_Commit tx) (\<lambda>err. throw (Wrapf ''failed to commit transaction: '' err))
      (\<lambda>_. ret post)))))"

text \<open>UPDATE ... WHERE id and author match, RETURNING updated_at; \<open>now\<close> is the time of the process.\<close>

definition update_post ::
    "string \<Rightarrow> int32 \<Rightarrow> int32 \<Rightarrow> int \<Rightarrow> database \<Rightarrow> (database \<times> int option) option" where
  "update_post text i authorID now d =
     (let hit = (\<lambda>r. po_id r = i \<and> po_author_id r = authorID);
          f = (\<lambda>r. r\<lparr>po_text := text, po_updated_at := now\<rparr>)
      in if \<forall>r \<in> set (posts d). hit r \<longrightarrow> posts_check (f r)
         then Some (d\<lparr>posts := update_where hit f (posts d)\<rparr>,
                    map_option (\<lambda>r. now) (find hit (posts d)))
         else None)"

definition DBPostStore_UpdatePost :: "Post \<Rightarrow> Post action" where
  "DBPostStore_UpdatePost post =
     call tx_Begin (\<lambda>err. throw (Wrapf ''failed to begin transaction: '' err))
     (\<lambda>tx. let rollback = (\<lambda>e. call (tx_Rollback tx) throw (\<lambda>_. throw e));
               abandon = (\<lambda>e. call (tx_Abandon tx) throw (\<lambda>_. throw e))
      in call (with_int4 (post_ID post) (\<lambda>i. with_int4 (post_AuthorID post) (\<lambda>authorID.
                 exec_returning (update_post (post_Text post) i authorID))))
         (\<lambda>err. if errors_Is err ErrNoRows then rollback ErrPostNotFound
                else rollback (Wrapf ''failed to update post: '' err))
      (\<lambda>updatedAt. let post = post\<lparr>post_UpdatedAt := updatedAt\<rparr>
       in call (DBPostStore_updatePostAttachmentsTx (post_ID post) (post_Attachments post)) abandon
      (\<lambda>_. call (DBPostStore_updatePostPhotosTx (post_ID post) (post_Photos post)) abandon
      (\<lambda>_. call (tx_Commit tx) (\<lambda>err. throw (Wrapf ''failed to commit transaction: '' err))
      (\<lambda>_. ret post)))))"

text \<open>No matching row: the transaction is left open with \<open>err = nil\<close>.\<close>

definition DBPostStore_DeletePost :: "go_uint \<Rightarrow> go_uint \<Rightarrow> unit action" where
  "DBPostStore_DeletePost postID authorID =
     (if postID = 0 \<or> authorID = 0 then throw ErrInvalidInput
      else call tx_Begin (\<lambda>err. throw (Wrapf ''failed to begin transaction: '' err))
      (\<lambda>tx. let rollback = (\<lambda>e. call (tx_Rollback tx) throw (\<lambda>_. throw e));
                abandon = (\<lambda>e. call (tx_Abandon tx) throw (\<lambda>_. throw e))
       in call (with_int4 postID (\<lambda>i. with_int4 authorID (\<lambda>a. exec (\<lambda>now d.
                  let hit = (\<lambda>p. po_id p = i \<and> po_author_id p = a)
                  in Some (delete_posts hit d, length (filter hit (posts d)))))))
          (\<lambda>err. rollback (Wrapf ''failed to delete post: '' err))
       (\<lambda>result. call (RowsAffected result)
          (\<lambda>err. rollback (Wrapf ''failed to get rows affected: '' err))
       (\<lambda>rowsAffected.
          if rowsAffected = 0 then abandon ErrPostNotFound
          else call (tx_Commit tx) (\<lambda>err. throw (Wrapf ''failed to commit transaction: '' err))
          (\<lambda>_. ret ())))))"

text \<open>
  The like button: one statement deletes the user's like, and inserts one if there was none to
  delete (its sub-select sees the table as it was).
\<close>

definition toggle_like :: "int32 \<Rightarrow> int32 \<Rightarrow> int \<Rightarrow> database \<Rightarrow> (database \<times> nat) option" where
  "toggle_like postID userID now d =
     (let hit = (\<lambda>l. pl_post_id l = postID \<and> pl_user_id l = userID)
      in if \<exists>l \<in> set (post_likes d). hit l
         then Some (d\<lparr>post_likes := filter (\<lambda>l. \<not> hit l) (post_likes d)\<rparr>, 0)
         else if post_exists d postID \<and> user_exists d userID
         then Some (d\<lparr>post_likes := post_likes d @ [\<lparr>pl_post_id = postID, pl_user_id = userID,
                        pl_created_at = now, pl_updated_at = now\<rparr>]\<rparr>, 1)
         else None)"

definition DBPostStore_UpdateLikeOnPostByUserID :: "int32 \<Rightarrow> int32 \<Rightarrow> unit action" where
  "DBPostStore_UpdateLikeOnPostByUserID userID postID =
     call (exec (toggle_like postID userID)) (\<lambda>err. throw (Wrapf ''exec failed: '' err)) (\<lambda>_. ret ())"

definition DBPostStore :: PostStore where
  "DBPostStore =
     \<lparr>pos_PostsPaginatedList = DBPostStore_PostsPaginatedList,
      pos_GetPostByID = DBPostStore_GetPostByID,
      pos_CreatePost = DBPostStore_CreatePost,
      pos_UpdatePost = DBPostStore_UpdatePost,
      pos_DeletePost = DBPostStore_DeletePost,
      pos_GetPostsByUser = DBPostStore_GetPostsByUser,
      pos_GetCommunityPosts = DBPostStore_GetCommunityPosts,
      pos_UpdateLikeOnPostByUserID = DBPostStore_UpdateLikeOnPostByUserID\<rparr>"

end
