(* ===== verification/Community_Store.thy ===== *)
theory Community_Store
  imports Content_Domain
begin

text \<open>
  The store of communities and of subscriptions to them (src/internal/repository/db/community.go)
  on the tables communities and community_subscriptions.
\<close>

subsection \<open>Communities\<close>

definition insert_community ::
    "Community \<Rightarrow> int32 \<Rightarrow> int \<Rightarrow> database \<Rightarrow> (database \<times> community_row) option" where
  "insert_community c i now d =
     (let row = \<lparr>cm_id = i, cm_name = com_Name c, cm_description = com_Description c,
                 cm_creator_id = com_CreatorID c, cm_avatar_path = com_AvatarPath c,
                 cm_cover_path = com_CoverPath c, cm_created_at = now, cm_updated_at = now\<rparr>
      in if communities_check row \<and> user_exists d (com_CreatorID c) \<and>
            i \<notin> cm_id ` set (communities d)
         then Some (d\<lparr>communities := communities d @ [row]\<rparr>, row) else None)"

definition DBCommunityStore_CreateCommunity :: "Community \<Rightarrow> Community action" where
  "DBCommunityStore_CreateCommunity community =
     call (insert_returning ''communities'' (insert_community community))
       (\<lambda>err. throw (Wrapf ''failed to create community: '' err))
     (\<lambda>row. ret (community\<lparr>com_ID := cm_id row, com_CreatedAt := cm_created_at row,
                           com_UpdatedAt := cm_updated_at row\<rparr>))"

definition update_community ::
    "Community \<Rightarrow> int \<Rightarrow> database \<Rightarrow> (database \<times> int option) option" where
  "update_community c now d =
     (let hit = (\<lambda>r. cm_id r = com_ID c \<and> cm_creator_id r = com_CreatorID c);
          f = (\<lambda>r. r\<lparr>cm_name := com_Name c, cm_description := com_Description c,
                     cm_avatar_path := com_AvatarPath c, cm_cover_path := com_CoverPath c,
                     cm_updated_at := now\<rparr>)
      in if \<forall>r \<in> set (communities d). hit r \<longrightarrow> communities_check (f r)
         then Some (d\<lparr>communities := update_where hit f (communities d)\<rparr>,
                    map_option (\<lambda>r. now) (find hit (communities d)))
         else None)"

definition DBCommunityStore_UpdateCommunity :: "Community \<Rightarrow> Community action" where
  "DBCommunityStore_UpdateCommunity community =
     call (exec_returning (update_community community))
       (\<lambda>err. if errors_Is err ErrNoRows then throw ErrNotFound
              else throw (Wrapf ''failed to update community: '' err))
     (\<lambda>updatedAt. ret (community\<lparr>com_UpdatedAt := updatedAt\<rparr>))"

text \<open>A deleted community takes its subscriptions and its posts along.\<close>

definition delete_communities :: "(community_row \<Rightarrow> bool) \<Rightarrow> database \<Rightarrow> database" where
  "delete_communities p d =
     (let gone = map cm_id (filter p (communities d));
          d = delete_posts (\<lambda>r. case po_community_id r of None \<Rightarrow> False | Some i \<Rightarrow> i \<in> set gone) d
      in d\<lparr>communities := filter (\<lambda>r. \<not> p r) (communities d),
           community_subscriptions :=
             filter (\<lambda>r. sb_community_id r \<notin> set gone) (community_subscriptions d)\<rparr>)"

definition DBCommunityStore_DeleteCommunity :: "int32 \<Rightarrow> int32 \<Rightarrow> unit action" where
  "DBCommunityStore_DeleteCommunity i creatorID =
     call (exec (\<lambda>now d.
             let hit = (\<lambda>r. cm_id r = i \<and> cm_creator_id r = creatorID)
             in Some (delete_communities hit d, length (filter hit (communities d)))))
       (\<lambda>err. throw (Wrapf ''failed to delete community: '' err))
     (\<lambda>result. call (RowsAffected result)
       (\<lambda>err. throw (Wrapf ''failed to get rows affected: '' err))
     (\<lambda>rowsAffected. if rowsAffected = 0 then throw ErrNotFound else ret ()))"

text \<open>The count of subscribers is scanned into an \<open>int32\<close>.\<close>

definition count_subscribers :: "database \<Rightarrow> int32 \<Rightarrow> nat" where
  "count_subscribers d i =
     length (filter (\<lambda>s. sb_community_id s = i) (community_subscriptions d))"

definition scan_Community :: "community_row \<times> nat \<Rightarrow> Community action" where
  "scan_Community r =
     (case scan_count (snd r) of
        None \<Rightarrow> throw (Plain ''sql: Scan error'')
      | Some n \<Rightarrow> ret
          \<lparr>com_ID = cm_id (fst r), com_Name = cm_name (fst r),
           com_Description = cm_description (fst r), com_CreatorID = cm_creator_id (fst r),
           com_AvatarPath = cm_avatar_path (fst r), com_CoverPath = cm_cover_path (fst r),
           com_CreatedAt = cm_created_at (fst r), com_UpdatedAt = cm_updated_at (fst r),
           com_SubscribersCount = n\<rparr>)"

definition DBCommunityStore_GetCommunityByID :: "int32 \<Rightarrow> Community action" where
  "DBCommunityStore_GetCommunityByID i =
     call (call (query_row (\<lambda>d. map_option (\<lambda>c. (c, count_subscribers d (cm_id c)))
                              (find (\<lambda>c. cm_id c = i) (communities d))))
            throw scan_Community)
       (\<lambda>err. if errors_Is err ErrNoRows then throw ErrNotFound
              else throw (Wrapf ''failed to get community: '' err))
     ret"

subsection \<open>Listings\<close>

text \<open>The listings scan a row as it is fetched, and all but the last do not check \<open>rows.Err\<close>.\<close>

definition scan_ShortCommunity :: "community_row \<times> nat \<Rightarrow> ShortCommunity action" where
  "scan_ShortCommunity r =
     call (external Plain
            (case scan_count (snd r) of
               None \<Rightarrow> throw (Plain ''sql: Scan error'')
             | Some n \<Rightarrow> ret
                 \<lparr>sc_ID = cm_id (fst r), sc_Name = cm_name (fst r),
                  sc_Description = cm_description (fst r),
                  sc_AvatarPath = cm_avatar_path (fst r), sc_SubscribersCount = n\<rparr>))
       (\<lambda>err. throw (Wrapf ''failed to scan community: '' err))
     ret"

definition scan_CommunityForMyCommunity :: "community_row \<Rightarrow> CommunityForMyCommunity action" where
  "scan_CommunityForMyCommunity r =
     call (external Plain (ret
            \<lparr>mc_ID = cm_id r, mc_Name = cm_name r, mc_AvatarPath = cm_avatar_path r\<rparr>))
       (\<lambda>err. throw (Wrapf ''failed to scan community: '' err))
     ret"

definition select_communities ::
    "(database \<Rightarrow> community_row \<Rightarrow> bool) \<Rightarrow> database \<Rightarrow> (community_row \<times> nat) list" where
  "select_communities c d =
     map (\<lambda>r. (r, count_subscribers d (cm_id r)))
       (sort_key (\<lambda>r. - cm_created_at r) (filter (c d) (communities d)))"

text \<open>
  \<open>INNER JOIN community_subscriptions cs ... WHERE cs.user_id = $1\<close>: the primary key of the
  subscriptions lets a community join with at most one row of the user.
\<close>

definition subscribed_by :: "int32 \<Rightarrow> database \<Rightarrow> community_row \<Rightarrow> bool" where
  "subscribed_by userID d c \<longleftrightarrow>
     (\<exists>s \<in> set (community_subscriptions d). sb_user_id s = userID \<and> sb_community_id s = cm_id c)"

definition DBCommunityStore_GetUserCommunities ::
    "int32 \<Rightarrow> int32 \<Rightarrow> int32 \<Rightarrow> ShortCommunity list action" where
  "DBCommunityStore_GetUserCommunities userID limit offset =
     call (query_page (select_communities (subscribed_by userID)) limit offset)
       (\<lambda>err. throw (Wrapf ''failed to query user communities: '' err))
     (\<lambda>rows. rows_loop_unchecked scan_ShortCommunity rows)"

definition DBCommunityStore_GetOtherCommunities ::
    "int32 \<Rightarrow> int32 \<Rightarrow> int32 \<Rightarrow> ShortCommunity list action" where
  "DBCommunityStore_GetOtherCommunities userID limit offset =
     call (query_page (select_communities (\<lambda>d c. \<not> subscribed_by userID d c)) limit offset)
       (\<lambda>err. throw (Wrapf ''failed to query other communities: '' err))
     (\<lambda>rows. rows_loop_unchecked scan_ShortCommunity rows)"

definition DBCommunityStore_GetUserCommunitiesByID ::
    "int32 \<Rightarrow> int32 \<Rightarrow> int32 \<Rightarrow> ShortCommunity list action" where
  "DBCommunityStore_GetUserCommunitiesByID targetUserID limit offset =
     call (query_page (select_communities (subscribed_by targetUserID)) limit offset)
       (\<lambda>err. throw (Wrapf ''failed to query user communities by ID: '' err))
     (\<lambda>rows. rows_loop_unchecked scan_ShortCommunity rows)"

definition select_subscriptions ::
    "(subscription_row \<Rightarrow> bool) \<Rightarrow> database \<Rightarrow> subscription_row list" where
  "select_subscriptions c d =
     sort_key (\<lambda>s. - sb_created_at s) (filter c (community_subscriptions d))"

definition DBCommunityStore_GetUserSubscribedCommunityIDs :: "int32 \<Rightarrow> int32 list action" where
  "DBCommunityStore_GetUserSubscribedCommunityIDs targetUserID =
     call (query (\<lambda>d. map sb_community_id
             (select_subscriptions (\<lambda>s. sb_user_id s = targetUserID) d)))
       (\<lambda>err. throw (Wrapf ''failed to query user subscribed community IDs: '' err))
     (\<lambda>rows. rows_loop_unchecked
       (\<lambda>i. call (external Plain (ret i))
              (\<lambda>err. throw (Wrapf ''failed to scan community ID: '' err)) ret)
       rows)"

definition DBCommunityStore_GetCreatedCommunities ::
    "int32 \<Rightarrow> int32 \<Rightarrow> int32 \<Rightarrow> CommunityForMyCommunity list action" where
  "DBCommunityStore_GetCreatedCommunities userID limit offset =
     call (query_page (\<lambda>d. sort_key (\<lambda>r. - cm_created_at r)
             (filter (\<lambda>c. cm_creator_id c = userID) (communities d))) limit offset)
       (\<lambda>err. throw (Wrapf ''failed to query created communities: '' err))
     (\<lambda>rows. rows_loop_unchecked scan_CommunityForMyCommunity rows)"

definition DBCommunityStore_GetCommunitySubscribers ::
    "int32 \<Rightarrow> int32 \<Rightarrow> int32 \<Rightarrow> int32 list action" where
  "DBCommunityStore_GetCommunitySubscribers communityID limit offset =
     call (query_page (\<lambda>d. map sb_user_id
             (select_subscriptions (\<lambda>s. sb_community_id s = communityID) d)) limit offset)
       (\<lambda>err. throw (Wrapf ''failed to query community subscribers: '' err))
     (\<lambda>rows. rows_loop_unchecked
       (\<lambda>i. call (external Plain (ret i))
              (\<lambda>err. throw (Wrapf ''failed to scan subscriber ID: '' err)) ret)
       rows)"

definition DBCommunityStore_GetCommunitiesByIDs :: "int32 list \<Rightarrow> ShortCommunity list action" where
  "DBCommunityStore_GetCommunitiesByIDs communityIDs =
     (if communityIDs = [] then ret []
      else call (query (select_communities (\<lambda>d c. cm_id c \<in> set communityIDs)))
             (\<lambda>err. throw (Wrapf ''failed to query communities by IDs: '' err))
           (\<lambda>rows. call (rows_loop scan_ShortCommunity rows) throw
           (\<lambda>communities. call rows_Err throw (\<lambda>_. ret communities))))"

subsection \<open>Subscriptions\<close>

text \<open>
  INSERT ... ON CONFLICT (community_id, user_id) DO NOTHING, and the foreign keys (which a row that
  is not inserted does not have to satisfy).
\<close>

definition insert_subscription :: "int32 \<Rightarrow> int32 \<Rightarrow> int \<Rightarrow> database \<Rightarrow> (database \<times> nat) option" where
  "insert_subscription communityID userID now d =
     (if \<exists>s \<in> set (community_subscriptions d).
           sb_community_id s = communityID \<and> sb_user_id s = userID then Some (d, 0)
      else if community_exists d communityID \<and> user_exists d userID
        then Some (d\<lparr>community_subscriptions := community_subscriptions d @
                       [\<lparr>sb_community_id = communityID, sb_user_id = userID,
                         sb_created_at = now\<rparr>]\<rparr>, 1)
      else None)"

definition DBCommunityStore_Subscribe :: "int32 \<Rightarrow> int32 \<Rightarrow> unit action" where
  "DBCommunityStore_Subscribe communityID userID =
     call (exec (insert_subscription communityID userID))
       (\<lambda>err. throw (Wrapf ''failed to subscribe: '' err))
     (\<lambda>_. ret ())"

definition DBCommunityStore_Unsubscribe :: "int32 \<Rightarrow> int32 \<Rightarrow> unit action" where
  "DBCommunityStore_Unsubscribe communityID userID =
     call (exec (\<lambda>now d.
             let hit = (\<lambda>s. sb_community_id s = communityID \<and> sb_user_id s = userID)
             in Some (d\<lparr>community_subscriptions :=
                        filter (\<lambda>s. \<not> hit s) (community_subscriptions d)\<rparr>,
                      length (filter hit (community_subscriptions d)))))
       (\<lambda>err. throw (Wrapf ''failed to unsubscribe: '' err))
     (\<lambda>result. call (RowsAffected result)
       (\<lambda>err. throw (Wrapf ''failed to get rows affected: '' err))
     (\<lambda>rowsAffected. if rowsAffected = 0 then throw ErrNotFound else ret ()))"

definition DBCommunityStore_IsSubscribed :: "int32 \<Rightarrow> int32 \<Rightarrow> bool action" where
  "DBCommunityStore_IsSubscribed communityID userID =
     call (query_row (\<lambda>d. Some (\<exists>s \<in> set (community_subscriptions d).
             sb_community_id s = communityID \<and> sb_user_id s = userID)))
       (\<lambda>err. throw (Wrapf ''failed to check subscription: '' err))
     ret"

definition DBCommunityStore :: CommunityStore where
  "DBCommunityStore =
     \<lparr>cms_CreateCommunity = DBCommunityStore_CreateCommunity,
      cms_UpdateCommunity = DBCommunityStore_UpdateCommunity,
      cms_DeleteCommunity = DBCommunityStore_DeleteCommunity,
      cms_GetCommunityByID = DBCommunityStore_GetCommunityByID,
      cms_GetUserCommunities = DBCommunityStore_GetUserCommunities,
      cms_GetOtherCommunities = DBCommunityStore_GetOtherCommunities,
      cms_GetUserCommunitiesByID = DBCommunityStore_GetUserCommunitiesByID,
      cms_GetUserSubscribedCommunityIDs = DBCommunityStore_GetUserSubscribedCommunityIDs,
      cms_GetCreatedCommunities = DBCommunityStore_GetCreatedCommunities,
      cms_GetCommunitySubscribers = DBCommunityStore_GetCommunitySubscribers,
      cms_Subscribe = DBCommunityStore_Subscribe,
      cms_Unsubscribe = DBCommunityStore_Unsubscribe,
      cms_IsSubscribed = DBCommunityStore_IsSubscribed,
      cms_GetCommunitiesByIDs = DBCommunityStore_GetCommunitiesByIDs\<rparr>"

end
