(* ===== verification/Comment_Store.thy ===== *)
theory Comment_Store
  imports Content_Domain
begin

text \<open>
  The store of comments (src/internal/repository/db/comment.go) on the table comments.
\<close>

text \<open>Scanning a row of comments: \<open>parent_id\<close> is a \<open>sql.NullInt32\<close>.\<close>

definition scan_comment :: "comment_row \<Rightarrow> Comment" where
  "scan_comment r =
     \<lparr>c_ID = co_id r, c_PostID = co_post_id r, c_AuthorID = co_author_id r,
      c_ParentID = co_parent_id r, c_Text = co_text r,
      c_CreatedAt = co_created_at r, c_UpdatedAt = co_updated_at r\<rparr>"

text \<open>
  INSERT INTO comments (post_id, author_id, text): the foreign keys to the post and to the author,
  the CHECK on the text; \<open>parent_id\<close> is not among the columns and stays NULL.
\<close>

definition insert_comment ::
    "int32 \<Rightarrow> int32 \<Rightarrow> string \<Rightarrow> int32 \<Rightarrow> int \<Rightarrow> database \<Rightarrow> (database \<times> comment_row) option" where
  "insert_comment postID authorID text i now d =
     (let row = \<lparr>co_id = i, co_post_id = postID, co_author_id = authorID, co_parent_id = None,
                 co_text = text, co_created_at = now, co_updated_at = now\<rparr>
      in if comments_check row \<and> post_exists d postID \<and> user_exists d authorID \<and>
            i \<notin> co_id ` set (comments d)
         then Some (d\<lparr>comments := comments d @ [row]\<rparr>, row) else None)"

definition DBCommentStore_CreateComment :: "Comment \<Rightarrow> Comment action" where
  "DBCommentStore_CreateComment comment =
     call (insert_returning ''comments''
            (insert_comment (c_PostID comment) (c_AuthorID comment) (c_Text comment)))
       (\<lambda>err. throw (Wrapf ''failed to create comment: '' err))
     (\<lambda>row. ret (comment\<lparr>c_ID := co_id row, c_CreatedAt := co_created_at row,
                         c_UpdatedAt := co_updated_at row\<rparr>))"

definition find_comment :: "int32 \<Rightarrow> database \<Rightarrow> Comment option" where
  "find_comment i d = map_option scan_comment (find (\<lambda>r. co_id r = i) (comments d))"

definition DBCommentStore_GetCommentByID :: "int32 \<Rightarrow> Comment action" where
  "DBCommentStore_GetCommentByID i =
     call (query_row (find_comment i))
       (\<lambda>err. if errors_Is err ErrNoRows then throw ErrNotFound
              else throw (Wrapf ''failed to get comment: '' err))
     ret"

text \<open>WHERE post_id ORDER BY created_at DESC.\<close>

definition select_comments :: "int32 \<Rightarrow> database \<Rightarrow> Comment list" where
  "select_comments postID d =
     map scan_comment
       (sort_key (\<lambda>r. - co_created_at r) (filter (\<lambda>r. co_post_id r = postID) (comments d)))"

definition DBCommentStore_GetCommentsByPost ::
    "int32 \<Rightarrow> int32 \<Rightarrow> int32 \<Rightarrow> Comment list action" where
  "DBCommentStore_GetCommentsByPost postID limit offset =
     call (query_page (select_comments postID) limit offset)
       (\<lambda>err. throw (Wrapf ''failed to query comments: '' err))
     (\<lambda>rows. call (scan_rows (Wrapf ''failed to scan comment: '') rows) throw
     (\<lambda>comments. call rows_Err throw (\<lambda>_. ret comments)))"

text \<open>UPDATE ... WHERE id and author match, RETURNING updated_at.\<close>

definition update_comment ::
    "string \<Rightarrow> int32 \<Rightarrow> int32 \<Rightarrow> int \<Rightarrow> database \<Rightarrow> (database \<times> int option) option" where
  "update_comment text i authorID now d =
     (let hit = (\<lambda>r. co_id r = i \<and> co_author_id r = authorID);
          f = (\<lambda>r. r\<lparr>co_text := text, co_updated_at := now\<rparr>)
      in if \<forall>r \<in> set (comments d). hit r \<longrightarrow> comments_check (f r)
         then Some (d\<lparr>comments := update_where hit f (comments d)\<rparr>,
                    map_option (\<lambda>r. now) (find hit (comments d)))
         else None)"

definition DBCommentStore_UpdateComment :: "Comment \<Rightarrow> Comment action" where
  "DBCommentStore_UpdateComment comment =
     call (exec_returning (update_comment (c_Text comment) (c_ID comment) (c_AuthorID comment)))
       (\<lambda>err. if errors_Is err ErrNoRows then throw ErrNotFound
              else throw (Wrapf ''failed to update comment: '' err))
     (\<lambda>updatedAt. ret (comment\<lparr>c_UpdatedAt := updatedAt\<rparr>))"

definition DBCommentStore_DeleteComment :: "int32 \<Rightarrow> int32 \<Rightarrow> unit action" where
  "DBCommentStore_DeleteComment i authorID =
     call (exec (\<lambda>now d.
             let hit = (\<lambda>r. co_id r = i \<and> co_author_id r = authorID)
             in Some (d\<lparr>comments := delete_comments hit (comments d)\<rparr>,
                      length (filter hit (comments d)))))
       (\<lambda>err. throw (Wrapf ''failed to delete comment: '' err))
     (\<lambda>result. call (RowsAffected result)
       (\<lambda>err. throw (Wrapf ''failed to get rows affected: '' err))
     (\<lambda>rowsAffected. if rowsAffected = 0 then throw ErrNotFound else ret ()))"

text \<open>COUNT is scanned into an \<open>int32\<close>.\<close>

definition count_comments :: "int32 \<Rightarrow> database \<Rightarrow> nat" where
  "count_comments postID d = length (filter (\<lambda>r. co_post_id r = postID) (comments d))"

definition DBCommentStore_GetPostCommentsCount :: "int32 \<Rightarrow> int32 action" where
  "DBCommentStore_GetPostCommentsCount postID =
     call (call (query_row (\<lambda>d. Some (count_comments postID d))) throw
            (\<lambda>n. case scan_count n of
               None \<Rightarrow> throw (Plain ''sql: Scan error'')
             | Some count \<Rightarrow> ret count))
       (\<lambda>err. throw (Wrapf ''failed to get comments count: '' err))
     ret"

definition DBCommentStore :: CommentStore where
  "DBCommentStore =
     \<lparr>cs_CreateComment = DBCommentStore_CreateComment,
      cs_GetCommentByID = DBCommentStore_GetCommentByID,
      cs_GetCommentsByPost = DBCommentStore_GetCommentsByPost,
      cs_UpdateComment = DBCommentStore_UpdateComment,
      cs_DeleteComment = DBCommentStore_DeleteComment,
      cs_GetPostCommentsCount = DBCommentStore_GetPostCommentsCount\<rparr>"

end
