(* ===== verification/Post_Service.thy ===== *)
theory Post_Service
  imports Post_Store Community_Store Comment_Store Mapper Uploads
begin

text \<open>
  The services of posts and comments (src/internal/service/post.go and comment.go). Tag validation
  (govalidator) of a text is the parameter \<open>valid\<close>. An \<open>int32\<close> id becomes a \<open>uint\<close> by sign
  extension (\<open>scast\<close>), and a \<open>uint\<close> an \<open>int32\<close> by truncation (\<open>ucast\<close>).
\<close>

record PostService =
  pss_postStore :: PostStore
  pss_authService :: AuthServiceClient
  pss_communityStore :: CommunityStore
  pss_profileService :: ProfileServiceClient

record CommentService =
  cos_commentStore :: CommentStore
  cos_authService :: AuthServiceClient
  cos_profileService :: ProfileServiceClient
  cos_postStore :: PostStore

text \<open>The Russian word for "user" in UTF-8: the name of an author without a profile.\<close>

definition default_AuthorName :: string where
  "default_AuthorName =
     [CHR 0xD0, CHR 0x9F, CHR 0xD0, CHR 0xBE, CHR 0xD0, CHR 0xBB, CHR 0xD1, CHR 0x8C,
      CHR 0xD0, CHR 0xB7, CHR 0xD0, CHR 0xBE, CHR 0xD0, CHR 0xB2, CHR 0xD0, CHR 0xB0,
      CHR 0xD1, CHR 0x82, CHR 0xD0, CHR 0xB5, CHR 0xD0, CHR 0xBB, CHR 0xD1, CHR 0x8C]"

subsection \<open>Posts with their authors\<close>

definition PostView_of ::
    "(int32 \<Rightarrow> pb_ShortProfile option) \<Rightarrow> PostDB \<Rightarrow> PostView" where
  "PostView_of profilesMap postDB =
     (let (name, avatar) =
        (case profilesMap (ucast (pdb_AuthorID postDB)) of
           Some profile \<Rightarrow> (pbs_FullName profile, pbs_AvatarPath profile)
         | None \<Rightarrow> (default_AuthorName, None))
      in \<lparr>pv_ID = pdb_ID postDB, pv_AuthorID = pdb_AuthorID postDB, pv_AuthorName = name,
          pv_AuthorAvatar = avatar, pv_CommunityID = pdb_CommunityID postDB,
          pv_CommunityName = pdb_CommunityName postDB,
          pv_CommunityAvatar = pdb_CommunityAvatar postDB, pv_Text = pdb_Text postDB,
          pv_Attachments = pdb_Attachments postDB, pv_Photos = pdb_Photos postDB,
          pv_LikeCount = pdb_LikeCount postDB, pv_CommentsCount = pdb_CommentsCount postDB,
          pv_IsLiked = pdb_IsLiked postDB, pv_CreatedAt = pdb_CreatedAt postDB,
          pv_IsCommunityPost = (pdb_CommunityID postDB \<noteq> None)\<rparr>)"

definition PostService_enrichPostsWithProfiles ::
    "PostService \<Rightarrow> PostDB list \<Rightarrow> PostView list action" where
  "PostService_enrichPostsWithProfiles s postsDB =
     (if postsDB = [] then ret []
      else let authorIDs = map (\<lambda>post. ucast (pdb_AuthorID post)) postsDB
      in call (pc_GetShortProfileMapByUserIDs (pss_profileService s) authorIDs)
           (\<lambda>err. throw ErrService)
         (\<lambda>profiles. ret (map (PostView_of profiles) postsDB)))"

definition PostService_enrichPostWithProfile :: "PostService \<Rightarrow> PostDB \<Rightarrow> PostView action" where
  "PostService_enrichPostWithProfile s postDB =
     call (pc_GetShortProfileMapByUserIDs (pss_profileService s) [ucast (pdb_AuthorID postDB)])
       (\<lambda>err. throw ErrService)
     (\<lambda>profiles. ret (PostView_of profiles postDB))"

subsection \<open>Reading posts\<close>

definition PostService_PostsPaginate ::
    "PostService \<Rightarrow> int32 \<Rightarrow> PaginateQueryParams \<Rightarrow> PostView list action" where
  "PostService_PostsPaginate s userID params =
     (let (offset, limit) = ValidatePaginationParams params
      in call (pos_PostsPaginatedList (pss_postStore s) userID limit offset) (\<lambda>err. throw ErrDB)
      (\<lambda>postsDB. PostService_enrichPostsWithProfiles s postsDB))"

definition PostService_GetPost :: "PostService \<Rightarrow> int32 \<Rightarrow> go_uint \<Rightarrow> PostView action" where
  "PostService_GetPost s userID postID =
     call (pos_GetPostByID (pss_postStore s) userID postID)
       (\<lambda>err. if errors_Is err ErrPostNotFound then throw ErrPostNotFound else throw ErrDB)
     (\<lambda>postDB. PostService_enrichPostWithProfile s postDB)"

definition PostService_GetUserPosts ::
    "PostService \<Rightarrow> int32 \<Rightarrow> go_uint \<Rightarrow> PaginateQueryParams \<Rightarrow> PostView list action" where
  "PostService_GetUserPosts s selfUserID userID params =
     (let (offset, limit) = ValidatePaginationParams params
      in call (ac_IsUserExists (pss_authService s) (ucast userID)) (\<lambda>err. throw ErrDB)
      (\<lambda>isUserExist. if \<not> isUserExist then throw ErrNotExist
       else call (pos_GetPostsByUser (pss_postStore s) selfUserID userID limit offset)
              (\<lambda>err. throw ErrDB)
       (\<lambda>postsDB. PostService_enrichPostsWithProfiles s postsDB)))"

definition PostService_GetCommunityPosts ::
    "PostService \<Rightarrow> int32 \<Rightarrow> int32 \<Rightarrow> PaginateQueryParams \<Rightarrow> PostView list action" where
  "PostService_GetCommunityPosts s userID communityID params =
     (let (offset, limit) = ValidatePaginationParams params
      in call (cms_GetCommunityByID (pss_communityStore s) communityID)
           (\<lambda>err. if errors_Is err ErrNotFound then throw ErrNotFound else throw ErrDB)
      (\<lambda>_. call (pos_GetCommunityPosts (pss_postStore s) userID communityID limit offset)
             (\<lambda>err. throw ErrDB)
      (\<lambda>postsDB. PostService_enrichPostsWithProfiles s postsDB)))"

definition PostService_UpdateLikeOnPostByUserID ::
    "PostService \<Rightarrow> int32 \<Rightarrow> int32 \<Rightarrow> unit action" where
  "PostService_UpdateLikeOnPostByUserID s userID postID =
     call (pos_UpdateLikeOnPostByUserID (pss_postStore s) userID postID) (\<lambda>err. throw ErrDB)
     (\<lambda>_. ret ())"

subsection \<open>Writing posts\<close>

definition convertToPointerSlice :: "string list \<Rightarrow> string option list" where
  "convertToPointerSlice paths = map Some paths"

text \<open>\<open>if len(paths) > 0 { DeleteFiles(convertToPointerSlice(paths)) }\<close>, the error ignored.\<close>

definition discard_files :: "string list \<Rightarrow> 'a action \<Rightarrow> 'a action" where
  "discard_files paths k =
     (if length paths > 0
      then call (DeleteFiles (convertToPointerSlice paths)) (\<lambda>_. k) (\<lambda>_. k) else k)"

definition upload_unless_empty :: "File list \<Rightarrow> string list action" where
  "upload_unless_empty files = (if length files > 0 then UploadFiles files else ret [])"

text \<open>The post goes to a community only when the user created it.\<close>

definition check_community :: "PostService \<Rightarrow> int32 \<Rightarrow> int32 option \<Rightarrow> unit action" where
  "check_community s userID communityID =
     (case communityID of
        None \<Rightarrow> ret ()
      | Some i \<Rightarrow>
          call (cms_GetCommunityByID (pss_communityStore s) i) (\<lambda>err. throw ErrNotFound)
          (\<lambda>community. if com_CreatorID community \<noteq> userID then throw ErrAccessDenied else ret ()))"

definition PostService_CreatePost ::
    "(string \<Rightarrow> bool) \<Rightarrow> PostService \<Rightarrow> int32 \<Rightarrow> string \<Rightarrow> int32 option \<Rightarrow> File list \<Rightarrow> File list \<Rightarrow>
     Post action" where
  "PostService_CreatePost valid s userID text communityID attachmentFiles photoFiles =
     (if \<not> valid text then throw ErrInvalidInput
      else call (upload_unless_empty attachmentFiles) (\<lambda>err. throw ErrService)
      (\<lambda>attachmentPaths.
        call (upload_unless_empty photoFiles)
          (\<lambda>err. discard_files attachmentPaths (throw ErrService))
      (\<lambda>photoPaths.
        call (check_community s userID communityID) throw
      (\<lambda>_. let post = \<lparr>post_ID = 0, post_AuthorID = scast userID, post_CommunityID = communityID,
                        post_Text = text, post_CreatedAt = zero_time, post_UpdatedAt = zero_time,
                        post_Attachments = attachmentPaths, post_Photos = photoPaths,
                        post_LikeCount = 0, post_IsLiked = False\<rparr>
        in call (pos_CreatePost (pss_postStore s) post)
             (\<lambda>err. discard_files attachmentPaths (discard_files photoPaths (throw ErrDB)))
        ret))))"

text \<open>
  \<open>UpdatePost\<close> takes the new paths beyond the number of the old ones for the uploaded ones when it
  cleans up.
\<close>

definition discard_surplus :: "string list \<Rightarrow> string list \<Rightarrow> 'a action \<Rightarrow> 'a action" where
  "discard_surplus newPaths existing k =
     (if length newPaths > length existing
      then call (DeleteFiles (convertToPointerSlice (drop (length existing) newPaths)))
             (\<lambda>_. k) (\<lambda>_. k)
      else k)"

definition PostService_UpdatePost ::
    "(string \<Rightarrow> bool) \<Rightarrow> PostService \<Rightarrow> go_uint \<Rightarrow> int32 \<Rightarrow> string \<Rightarrow> File list \<Rightarrow> File list \<Rightarrow>
     unit action" where
  "PostService_UpdatePost valid s postID userID text attachmentFiles photoFiles =
     (if \<not> valid text then throw ErrInvalidInput
      else call (pos_GetPostByID (pss_postStore s) userID postID)
        (\<lambda>err. if errors_Is err ErrPostNotFound then throw ErrPostNotFound else throw ErrDB)
      (\<lambda>existingPost.
        if pdb_AuthorID existingPost \<noteq> scast userID then throw ErrAccessDenied
        else
        let existingAttachments = pdb_Attachments existingPost;
            existingPhotos = pdb_Photos existingPost;
            oldAttachments = (if length attachmentFiles > 0 then existingAttachments else []);
            oldPhotos = (if length photoFiles > 0 then existingPhotos else [])
        in call (if length attachmentFiles > 0 then UploadFiles attachmentFiles
                 else ret existingAttachments) (\<lambda>err. throw ErrService)
        (\<lambda>newAttachmentPaths.
           call (if length photoFiles > 0 then UploadFiles photoFiles else ret existingPhotos)
             (\<lambda>err. discard_surplus newAttachmentPaths existingAttachments (throw ErrService))
        (\<lambda>newPhotoPaths.
           let updatedPost = \<lparr>post_ID = postID, post_AuthorID = scast userID,
                 post_CommunityID = None, post_Text = text,
                 post_CreatedAt = pdb_CreatedAt existingPost, post_UpdatedAt = zero_time,
                 post_Attachments = newAttachmentPaths, post_Photos = newPhotoPaths,
                 post_LikeCount = 0, post_IsLiked = False\<rparr>
           in call (pos_UpdatePost (pss_postStore s) updatedPost)
                (\<lambda>err. discard_surplus newAttachmentPaths existingAttachments
                        (discard_surplus newPhotoPaths existingPhotos (throw ErrDB)))
           (\<lambda>_. discard_files oldAttachments (discard_files oldPhotos (ret ())))))))"

definition PostService_DeletePost :: "PostService \<Rightarrow> go_uint \<Rightarrow> int32 \<Rightarrow> unit action" where
  "PostService_DeletePost s postID userID =
     call (pos_GetPostByID (pss_postStore s) userID postID)
       (\<lambda>err. if errors_Is err ErrPostNotFound then throw ErrPostNotFound else throw ErrDB)
     (\<lambda>existingPost.
        if pdb_AuthorID existingPost \<noteq> scast userID then throw ErrAccessDenied
        else call (pos_DeletePost (pss_postStore s) postID (scast userID)) (\<lambda>err. throw ErrDB)
        (\<lambda>_. let filesToDelete = pdb_Attachments existingPost @ pdb_Photos existingPost
          in discard_files filesToDelete (ret ())))"

subsection \<open>Comments\<close>

definition CommentView_of ::
    "(int32 \<Rightarrow> pb_ShortProfile option) \<Rightarrow> Comment \<Rightarrow> CommentView" where
  "CommentView_of profilesMap comment =
     (let (name, avatar) =
        (case profilesMap (c_AuthorID comment) of
           Some profile \<Rightarrow> (pbs_FullName profile, pbs_AvatarPath profile)
         | None \<Rightarrow> (default_AuthorName, None))
      in \<lparr>cv_ID = c_ID comment, cv_PostID = c_PostID comment, cv_AuthorID = c_AuthorID comment,
          cv_AuthorName = name, cv_AuthorAvatar = avatar, cv_ParentID = c_ParentID comment,
          cv_Text = c_Text comment, cv_CreatedAt = c_CreatedAt comment,
          cv_UpdatedAt = c_UpdatedAt comment\<rparr>)"

definition CommentService_enrichCommentWithProfile ::
    "CommentService \<Rightarrow> Comment \<Rightarrow> CommentView action" where
  "CommentService_enrichCommentWithProfile s comment =
     call (pc_GetShortProfileMapByUserIDs (cos_profileService s) [c_AuthorID comment])
       (\<lambda>err. throw ErrService)
     (\<lambda>profiles. ret (CommentView_of profiles comment))"

definition CommentService_enrichCommentsWithProfiles ::
    "CommentService \<Rightarrow> Comment list \<Rightarrow> CommentView list action" where
  "CommentService_enrichCommentsWithProfiles s list =
     (if list = [] then ret []
      else call (pc_GetShortProfileMapByUserIDs (cos_profileService s) (map c_AuthorID list))
             (\<lambda>err. throw ErrService)
           (\<lambda>profiles. ret (map (CommentView_of profiles) list)))"

definition CommentService_CreateComment ::
    "(CommentCreateRequest \<Rightarrow> bool) \<Rightarrow> CommentService \<Rightarrow> int32 \<Rightarrow> CommentCreateRequest \<Rightarrow>
     CommentView action" where
  "CommentService_CreateComment valid s userID req =
     (if \<not> valid req then throw ErrInvalidInput
      else call (pos_GetPostByID (cos_postStore s) userID (scast (cr_PostID req)))
        (\<lambda>err. if errors_Is err ErrPostNotFound then throw ErrNotFound else throw ErrDB)
      (\<lambda>post. let comment = \<lparr>c_ID = 0, c_PostID = cr_PostID req, c_AuthorID = userID,
                 c_ParentID = None, c_Text = cr_Text req, c_CreatedAt = zero_time,
                 c_UpdatedAt = zero_time\<rparr>
       in call (cs_CreateComment (cos_commentStore s) comment) (\<lambda>err. throw ErrDB)
       (\<lambda>comment. CommentService_enrichCommentWithProfile s comment)))"

definition CommentService_GetComment ::
    "CommentService \<Rightarrow> int32 \<Rightarrow> int32 \<Rightarrow> CommentView action" where
  "CommentService_GetComment s userID commentID =
     call (cs_GetCommentByID (cos_commentStore s) commentID)
       (\<lambda>err. if errors_Is err ErrNotFound then throw ErrNotFound else throw ErrDB)
     (\<lambda>comment. CommentService_enrichCommentWithProfile s comment)"

definition CommentService_GetPostComments ::
    "CommentService \<Rightarrow> int32 \<Rightarrow> int32 \<Rightarrow> PaginateQueryParams \<Rightarrow> CommentView list action" where
  "CommentService_GetPostComments s userID postID params =
     (let (offset, limit) = ValidatePaginationParams params
      in call (pos_GetPostByID (cos_postStore s) userID (scast postID))
           (\<lambda>err. if errors_Is err ErrPostNotFound then throw ErrNotFound else throw ErrDB)
      (\<lambda>_. call (cs_GetCommentsByPost (cos_commentStore s) postID limit offset)
             (\<lambda>err. throw ErrDB)
      (\<lambda>comments. CommentService_enrichCommentsWithProfiles s comments)))"

definition CommentService_UpdateComment ::
    "(string \<Rightarrow> bool) \<Rightarrow> CommentService \<Rightarrow> int32 \<Rightarrow> int32 \<Rightarrow> string \<Rightarrow> unit action" where
  "CommentService_UpdateComment valid s commentID userID text =
     (if \<not> valid text then throw ErrInvalidInput
      else call (cs_GetCommentByID (cos_commentStore s) commentID)
        (\<lambda>err. if errors_Is err ErrNotFound then throw ErrNotFound else throw ErrDB)
      (\<lambda>existingComment.
        if c_AuthorID existingComment \<noteq> userID then throw ErrAccessDenied
        else let updatedComment = \<lparr>c_ID = commentID, c_PostID = 0, c_AuthorID = userID,
                 c_ParentID = None, c_Text = text, c_CreatedAt = zero_time,
                 c_UpdatedAt = zero_time\<rparr>
        in call (cs_UpdateComment (cos_commentStore s) updatedComment) (\<lambda>err. throw ErrDB)
        (\<lambda>_. ret ())))"

definition CommentService_DeleteComment :: "CommentService \<Rightarrow> int32 \<Rightarrow> int32 \<Rightarrow> unit action" where
  "CommentService_DeleteComment s commentID userID =
     call (cs_GetCommentByID (cos_commentStore s) commentID)
       (\<lambda>err. if errors_Is err ErrNotFound then throw ErrNotFound else throw ErrDB)
     (\<lambda>existingComment.
        if c_AuthorID existingComment \<noteq> userID then throw ErrAccessDenied
        else call (cs_DeleteComment (cos_commentStore s) commentID userID) (\<lambda>err. throw ErrDB)
        (\<lambda>_. ret ()))"

definition CommentService_GetPostCommentsCount :: "CommentService \<Rightarrow> int32 \<Rightarrow> int32 action" where
  "CommentService_GetPostCommentsCount s postID =
     call (cs_GetPostCommentsCount (cos_commentStore s) postID) (\<lambda>err. throw ErrDB) ret"

end
