(* ===== verification/Post_Handler.thy ===== *)
theory Post_Handler
  imports Http Post_Service
begin

text \<open>
  The HTTP handlers of posts and comments (src/internal/handler/post.go and comment.go), and the
  services as \<open>main\<close> (src/cmd/main/main.go) builds them from the stores and the clients of the other
  processes.
\<close>

definition post_main :: "libraries \<Rightarrow> PostService" where
  "post_main E = \<lparr>pss_postStore = DBPostStore, pss_authService = auth_conn E,
     pss_communityStore = DBCommunityStore, pss_profileService = profile_conn E\<rparr>"

definition comment_main :: "libraries \<Rightarrow> CommentService" where
  "comment_main E = \<lparr>cos_commentStore = DBCommentStore, cos_authService = auth_conn E,
     cos_profileService = profile_conn E, cos_postStore = DBPostStore\<rparr>"

subsection \<open>Posts\<close>

definition PostsHandler_PostsPaginate :: "http_libs \<Rightarrow> PostService \<Rightarrow> http_handler" where
  "PostsHandler_PostsPaginate H h r =
     call (DecodeQueryParams (hl_decodePaginate H) r) sendJSONError
     (\<lambda>qParams. let userID = ctx_userID r
      in call (PostService_PostsPaginate h userID qParams) sendJSONError
      (\<lambda>posts. sendJSONData (PostViewList posts)))"

definition PostsHandler_GetPost :: "PostService \<Rightarrow> http_handler" where
  "PostsHandler_GetPost h r =
     call (PathInt32 r ''id'') sendJSONError
     (\<lambda>postID. let userID = ctx_userID r
      in call (PostService_GetPost h userID (scast postID)) sendJSONError
      (\<lambda>post. sendJSONData (PostPayload post)))"

definition PostsHandler_CreatePost :: "(string \<Rightarrow> bool) \<Rightarrow> PostService \<Rightarrow> http_handler" where
  "PostsHandler_CreatePost valid h r =
     call (ParseMultipart r) sendJSONError
     (\<lambda>form. let text = mp_Value form ''text''; userID = ctx_userID r
      in call (MultipartFiles form ''attachments'') sendJSONError
      (\<lambda>attachmentFiles. call (MultipartFiles form ''photos'') sendJSONError
      (\<lambda>photoFiles. call (parseIntParam form ''communityID'') sendJSONError
      (\<lambda>communityID.
         call (PostService_CreatePost valid h userID text communityID attachmentFiles photoFiles)
           sendJSONError
      (\<lambda>post. sendJSONData (PostCreateResponse ''Post created successfully'' post))))))"

definition PostsHandler_UpdatePost :: "(string \<Rightarrow> bool) \<Rightarrow> PostService \<Rightarrow> http_handler" where
  "PostsHandler_UpdatePost valid h r =
     call (PathInt32 r ''id'') sendJSONError
     (\<lambda>postID. call (ParseMultipart r) sendJSONError
     (\<lambda>form. let text = mp_Value form ''text''; userID = ctx_userID r
      in call (MultipartFiles form ''attachments'') sendJSONError
      (\<lambda>attachmentFiles. call (MultipartFiles form ''photos'') sendJSONError
      (\<lambda>photoFiles.
         call (PostService_UpdatePost valid h (scast postID) userID text attachmentFiles photoFiles)
           sendJSONError
      (\<lambda>_. sendJSONSuccess ''Post updated successfully'')))))"

definition PostsHandler_DeletePost :: "PostService \<Rightarrow> http_handler" where
  "PostsHandler_DeletePost h r =
     call (PathInt32 r ''id'') sendJSONError
     (\<lambda>postID. let userID = ctx_userID r
      in call (PostService_DeletePost h (scast postID) userID) sendJSONError
      (\<lambda>_. sendJSONSuccess ''Post deleted successfully''))"

definition PostsHandler_GetUserPosts :: "http_libs \<Rightarrow> PostService \<Rightarrow> http_handler" where
  "PostsHandler_GetUserPosts H h r =
     call (PathInt32 r ''userID'') sendJSONError
     (\<lambda>userID. call (DecodeQueryParams (hl_decodePaginate H) r) sendJSONError
     (\<lambda>qParams. let selfUserID = ctx_userID r
      in call (PostService_GetUserPosts h selfUserID (scast userID) qParams) sendJSONError
      (\<lambda>posts. sendJSONData (PostViewList posts))))"

definition PostsHandler_UpdateLikeOnPost :: "PostService \<Rightarrow> http_handler" where
  "PostsHandler_UpdateLikeOnPost h r =
     call (PathInt32 r ''id'') sendJSONError
     (\<lambda>postID. let userID = ctx_userID r
      in call (PostService_UpdateLikeOnPostByUserID h userID postID) sendJSONError
      (\<lambda>_. sendJSONSuccess ''like updated''))"

definition PostsHandler_GetCommunityPosts :: "http_libs \<Rightarrow> PostService \<Rightarrow> http_handler" where
  "PostsHandler_GetCommunityPosts H h r =
     call (PathInt32 r ''id'') sendJSONError
     (\<lambda>communityID. call (DecodeQueryParams (hl_decodePaginate H) r) sendJSONError
     (\<lambda>qParams. let userID = ctx_userID r
      in call (PostService_GetCommunityPosts h userID communityID qParams) sendJSONError
      (\<lambda>posts. sendJSONData (PostViewList posts))))"

subsection \<open>Comments\<close>

definition CommentHandler_CreateComment ::
    "http_libs \<Rightarrow> (CommentCreateRequest \<Rightarrow> bool) \<Rightarrow> CommentService \<Rightarrow> http_handler" where
  "CommentHandler_CreateComment H valid h r =
     call (DecodeJSONBody (hl_decodeCommentCreate H) r) sendJSONError
     (\<lambda>req. let userID = ctx_userID r
      in call (CommentService_CreateComment valid h userID req) sendJSONError
      (\<lambda>comment. sendJSONData (CommentResponse ''Comment created successfully'' comment)))"

definition CommentHandler_GetComment :: "CommentService \<Rightarrow> http_handler" where
  "CommentHandler_GetComment h r =
     call (PathInt32 r ''id'') sendJSONError
     (\<lambda>commentID. let userID = ctx_userID r
      in call (CommentService_GetComment h userID commentID) sendJSONError
      (\<lambda>comment. sendJSONData (CommentPayload comment)))"

definition CommentHandler_GetPostComments :: "http_libs \<Rightarrow> CommentService \<Rightarrow> http_handler" where
  "CommentHandler_GetPostComments H h r =
     call (PathInt32 r ''postID'') sendJSONError
     (\<lambda>postID. call (DecodeQueryParams (hl_decodePaginate H) r) sendJSONError
     (\<lambda>qParams. let userID = ctx_userID r
      in call (CommentService_GetPostComments h userID postID qParams) sendJSONError
      (\<lambda>views. sendJSONData (CommentViews views))))"

definition CommentHandler_UpdateComment ::
    "http_libs \<Rightarrow> (string \<Rightarrow> bool) \<Rightarrow> CommentService \<Rightarrow> http_handler" where
  "CommentHandler_UpdateComment H valid h r =
     call (PathInt32 r ''id'') sendJSONError
     (\<lambda>commentID. call (DecodeJSONBody (hl_decodeCommentUpdate H) r) sendJSONError
     (\<lambda>text. let userID = ctx_userID r
      in call (CommentService_UpdateComment valid h commentID userID text) sendJSONError
      (\<lambda>_. sendJSONSuccess ''Comment updated successfully'')))"

definition CommentHandler_DeleteComment :: "CommentService \<Rightarrow> http_handler" where
  "CommentHandler_DeleteComment h r =
     call (PathInt32 r ''id'') sendJSONError
     (\<lambda>commentID. let userID = ctx_userID r
      in call (CommentService_DeleteComment h commentID userID) sendJSONError
      (\<lambda>_. sendJSONSuccess ''Comment deleted successfully''))"

definition CommentHandler_GetPostCommentsCount :: "CommentService \<Rightarrow> http_handler" where
  "CommentHandler_GetPostCommentsCount h r =
     call (PathInt32 r ''postID'') sendJSONError
     (\<lambda>postID. call (CommentService_GetPostCommentsCount h postID) sendJSONError
     (\<lambda>count. sendJSONData (CommentCountResponse count)))"

end
