(* ===== verification/Post_Tables.thy ===== *)
theory Post_Tables
  imports Post_Handler
begin

text \<open>
  The invariant of the tables of posts and comments, and that every request to them keeps it,
  whatever calls fail on the way.
\<close>

text \<open>A nullable reference.\<close>

fun refers :: "(int32 \<Rightarrow> bool) \<Rightarrow> int32 option \<Rightarrow> bool" where
  "refers ex None = True"
| "refers ex (Some i) = ex i"

lemma refers_mono: "refers ex r \<Longrightarrow> (\<And>i. ex i \<Longrightarrow> ex' i) \<Longrightarrow> refers ex' r"
  by (cases r) auto

definition files_of_posts :: "database \<Rightarrow> post_file_row list \<Rightarrow> bool" where
  "files_of_posts d files \<longleftrightarrow> distinct (map pf_id files) \<and>
     (\<forall>f \<in> set files. post_files_check f \<and> post_exists d (pf_post_id f))"

definition wf_posts :: "database \<Rightarrow> bool" where
  "wf_posts d \<longleftrightarrow> distinct (map po_id (posts d)) \<and>
     (\<forall>p \<in> set (posts d). posts_check p \<and> user_exists d (po_author_id p) \<and>
        refers (community_exists d) (po_community_id p))"

definition wf_likes :: "database \<Rightarrow> bool" where
  "wf_likes d \<longleftrightarrow> distinct (map (\<lambda>l. (pl_post_id l, pl_user_id l)) (post_likes d)) \<and>
     (\<forall>l \<in> set (post_likes d). post_exists d (pl_post_id l) \<and> user_exists d (pl_user_id l))"

text \<open>A comment may only reply to a comment that is there.\<close>

definition parents_among :: "int32 set \<Rightarrow> comment_row list \<Rightarrow> bool" where
  "parents_among ids rows \<longleftrightarrow>
     (\<forall>r \<in> set rows. refers (\<lambda>i. i \<in> ids) (co_parent_id r))"

definition wf_comments :: "database \<Rightarrow> bool" where
  "wf_comments d \<longleftrightarrow> distinct (map co_id (comments d)) \<and>
     (\<forall>c \<in> set (comments d). comments_check c \<and> post_exists d (co_post_id c) \<and>
        user_exists d (co_author_id c)) \<and>
     parents_among (co_id ` set (comments d)) (comments d)"

definition wf_content :: "database \<Rightarrow> bool" where
  "wf_content d \<longleftrightarrow> wf_posts d \<and> wf_likes d \<and> files_of_posts d (post_attachments d) \<and>
     files_of_posts d (post_photos d) \<and> wf_comments d"

lemma exists_update [simp]:
  "user_exists (d\<lparr>posts := ps\<rparr>) = user_exists d" "user_exists (d\<lparr>comments := cs\<rparr>) = user_exists d"
  "community_exists (d\<lparr>posts := ps\<rparr>) = community_exists d"
  "community_exists (d\<lparr>comments := cs\<rparr>) = community_exists d"
  "post_exists (d\<lparr>comments := cs\<rparr>) = post_exists d"
  by (simp_all add: user_exists_def community_exists_def post_exists_def fun_eq_iff)

lemma exists_update_files [simp]:
  "user_exists (d\<lparr>post_attachments := fs\<rparr>) = user_exists d"
  "user_exists (d\<lparr>post_photos := fs\<rparr>) = user_exists d"
  "user_exists (d\<lparr>post_likes := ls\<rparr>) = user_exists d"
  "post_exists (d\<lparr>post_attachments := fs\<rparr>) = post_exists d"
  "post_exists (d\<lparr>post_photos := fs\<rparr>) = post_exists d"
  "post_exists (d\<lparr>post_likes := ls\<rparr>) = post_exists d"
  "community_exists (d\<lparr>post_attachments := fs\<rparr>) = community_exists d"
  "community_exists (d\<lparr>post_photos := fs\<rparr>) = community_exists d"
  "community_exists (d\<lparr>post_likes := ls\<rparr>) = community_exists d"
  by (simp_all add: user_exists_def community_exists_def post_exists_def fun_eq_iff)

lemmas wf_content_defs =
  wf_content_def wf_posts_def wf_likes_def files_of_posts_def wf_comments_def

lemma post_exists_ids: "post_exists d i \<longleftrightarrow> i \<in> set (map po_id (posts d))"
  by (auto simp: post_exists_def)

lemma parents_among_mono: "parents_among ids rows \<Longrightarrow> ids \<subseteq> ids' \<Longrightarrow> parents_among ids' rows"
  by (auto simp: parents_among_def intro: refers_mono)

lemma parents_among_filter: "parents_among ids rows \<Longrightarrow> parents_among ids (filter q rows)"
  by (simp add: parents_among_def)

lemma parents_among_diff:
  assumes "parents_among (A \<union> B) rows"
    and "\<And>r. r \<in> set rows \<Longrightarrow> \<not> (case co_parent_id r of None \<Rightarrow> False | Some i \<Rightarrow> i \<in> B)"
  shows "parents_among A rows"
  unfolding parents_among_def
proof
  fix r assume "r \<in> set rows"
  then show "refers (\<lambda>i. i \<in> A) (co_parent_id r)"
    using assms(1) assms(2) [of r] by (cases "co_parent_id r") (auto simp: parents_among_def)
qed

subsection \<open>Cascading deletion of replies\<close>

lemma cascade_replies_subset: "set (cascade_replies n ids rows) \<subseteq> set rows"
proof (induction n arbitrary: ids rows)
  case (Suc n)
  show ?case
    unfolding cascade_replies.simps Let_def by (auto dest: subsetD [OF Suc.IH])
qed simp

lemma cascade_replies_distinct:
  "distinct (map f rows) \<Longrightarrow> distinct (map f (cascade_replies n ids rows))"
proof (induction n arbitrary: ids rows)
  case (Suc n)
  show ?case
    unfolding cascade_replies.simps Let_def
    using Suc.prems Suc.IH [OF distinct_map_filter [OF Suc.prems]] by simp
qed simp

lemma cascade_replies_parents:
  "length rows \<le> n \<Longrightarrow> parents_among (co_id ` set rows \<union> set ids) rows \<Longrightarrow>
   parents_among (co_id ` set (cascade_replies n ids rows)) (cascade_replies n ids rows)"
proof (induction n arbitrary: ids rows)
  case 0
  then show ?case by (simp add: parents_among_def)
next
  case (Suc n)
  define reply where
    "reply = (\<lambda>r :: comment_row. case co_parent_id r of None \<Rightarrow> False | Some i \<Rightarrow> i \<in> set ids)"
  show ?case
  proof (cases "filter reply rows = []")
    case True
    then have "cascade_replies (Suc n) ids rows = rows"
      by (simp add: reply_def Let_def)
    moreover have "\<not> reply r" if "r \<in> set rows" for r
      using True that by (simp add: filter_empty_conv)
    ultimately show ?thesis
      using parents_among_diff [OF Suc.prems(2)] by (simp add: reply_def)
  next
    case False
    then have "length (filter (\<lambda>r. \<not> reply r) rows) < length rows"
      by (metis filter_empty_conv length_filter_less)
    moreover have "parents_among (co_id ` set (filter (\<lambda>r. \<not> reply r) rows) \<union>
        set (map co_id (filter reply rows))) (filter (\<lambda>r. \<not> reply r) rows)"
    proof (rule parents_among_diff)
      have "co_id ` set rows \<union> set ids \<subseteq> (co_id ` set (filter (\<lambda>r. \<not> reply r) rows) \<union>
          set (map co_id (filter reply rows))) \<union> set ids"
        by auto
      then show "parents_among ((co_id ` set (filter (\<lambda>r. \<not> reply r) rows) \<union>
          set (map co_id (filter reply rows))) \<union> set ids) (filter (\<lambda>r. \<not> reply r) rows)"
        by (rule parents_among_mono [OF parents_among_filter [OF Suc.prems(2)]])
    qed (auto simp: reply_def)
    ultimately show ?thesis
      using False Suc.prems(1) Suc.IH [of "filter (\<lambda>r. \<not> reply r) rows" "map co_id (filter reply rows)"]
      by (simp add: reply_def [symmetric] Let_def del: filter_empty_conv)
  qed
qed

lemma delete_comments_subset: "set (delete_comments p rows) \<subseteq> {r \<in> set rows. \<not> p r}"
  using cascade_replies_subset by (fastforce simp: delete_comments_def)

lemma delete_comments_distinct:
  "distinct (map f rows) \<Longrightarrow> distinct (map f (delete_comments p rows))"
  unfolding delete_comments_def by (intro cascade_replies_distinct distinct_map_filter)

lemma delete_comments_parents:
  assumes "parents_among (co_id ` set rows) rows"
  shows "parents_among (co_id ` set (delete_comments p rows)) (delete_comments p rows)"
  unfolding delete_comments_def
proof (rule cascade_replies_parents)
  have "co_id ` set rows \<subseteq> co_id ` set (filter (\<lambda>r. \<not> p r) rows) \<union> set (map co_id (filter p rows))"
    by auto
  then show "parents_among (co_id ` set (filter (\<lambda>r. \<not> p r) rows) \<union> set (map co_id (filter p rows)))
      (filter (\<lambda>r. \<not> p r) rows)"
    by (rule parents_among_mono [OF parents_among_filter [OF assms]])
qed simp

subsection \<open>The statements\<close>

lemma wf_insert_post:
  assumes "insert_post a t c i now d = Some (d', row)" "wf_content d"
  shows "wf_content d'"
proof -
  have d': "d' = d\<lparr>posts := posts d @ [row]\<rparr>" and row: "posts_check row" "user_exists d (po_author_id row)"
      "refers (community_exists d) (po_community_id row)" "po_id row \<notin> po_id ` set (posts d)"
    using assms(1) by (auto simp: insert_post_def Let_def split: if_splits option.splits)
  have "post_exists d j \<Longrightarrow> post_exists d' j" for j
    by (auto simp: post_exists_def d')
  then show ?thesis
    using assms(2) row by (auto simp: wf_content_defs d')
qed

lemma wf_update_post:
  assumes "update_post t i a now d = Some (d', x)" "wf_content d"
  shows "wf_content d'"
proof -
  define f where "f = (\<lambda>r :: post_row. r\<lparr>po_text := t, po_updated_at := now\<rparr>)"
  have d': "d' = d\<lparr>posts := update_where (\<lambda>r. po_id r = i \<and> po_author_id r = a) f (posts d)\<rparr>"
    and ok: "\<forall>r \<in> set (posts d). po_id r = i \<and> po_author_id r = a \<longrightarrow> posts_check (f r)"
    using assms(1) by (auto simp: update_post_def f_def Let_def split: if_splits)
  have keys: "po_id (f r) = po_id r" "po_author_id (f r) = po_author_id r"
      "po_community_id (f r) = po_community_id r" for r
    by (simp_all add: f_def)
  have ids: "map po_id (posts d') = map po_id (posts d)"
    unfolding d' by (simp add: map_update_where_same keys)
  then have "post_exists d' = post_exists d"
    by (simp add: fun_eq_iff post_exists_ids del: set_map)
  moreover have "wf_posts d'"
    using assms(2) ok ids unfolding d' by (auto simp: wf_content_def wf_posts_def set_update_where keys)
  ultimately show ?thesis
    using assms(2) unfolding d'
    by (simp add: wf_content_def wf_likes_def files_of_posts_def wf_comments_def)
qed

lemma wf_insert_files:
  "insert_attachment p path i now d = Some (d', u) \<Longrightarrow> wf_content d \<Longrightarrow> wf_content d'"
  "insert_photo p path i now d = Some (d', u) \<Longrightarrow> wf_content d \<Longrightarrow> wf_content d'"
  by (auto simp: insert_attachment_def insert_photo_def Let_def wf_content_defs split: if_splits)

lemma wf_delete_files:
  "wf_content d \<Longrightarrow> wf_content (d\<lparr>post_attachments := filter q (post_attachments d)\<rparr>)"
  "wf_content d \<Longrightarrow> wf_content (d\<lparr>post_photos := filter q (post_photos d)\<rparr>)"
  by (auto simp: wf_content_defs distinct_map_filter)

lemma delete_posts_sel:
  "posts (delete_posts q d) = filter (\<lambda>r. \<not> q r) (posts d)"
  "users (delete_posts q d) = users d" "communities (delete_posts q d) = communities d"
  "post_likes (delete_posts q d) =
     filter (\<lambda>r. pl_post_id r \<notin> po_id ` {p \<in> set (posts d). q p}) (post_likes d)"
  "post_attachments (delete_posts q d) =
     filter (\<lambda>r. pf_post_id r \<notin> po_id ` {p \<in> set (posts d). q p}) (post_attachments d)"
  "post_photos (delete_posts q d) =
     filter (\<lambda>r. pf_post_id r \<notin> po_id ` {p \<in> set (posts d). q p}) (post_photos d)"
  "comments (delete_posts q d) =
     delete_comments (\<lambda>r. co_post_id r \<in> po_id ` {p \<in> set (posts d). q p}) (comments d)"
  by (simp_all add: delete_posts_def Let_def)

lemma wf_delete_posts:
  assumes "wf_content d"
  shows "wf_content (delete_posts q d)"
proof -
  have kept: "post_exists (delete_posts q d) i"
    if "post_exists d i" "i \<notin> po_id ` {p \<in> set (posts d). q p}" for i
    using that by (auto simp: post_exists_def delete_posts_sel)
  have same: "user_exists (delete_posts q d) = user_exists d"
      "community_exists (delete_posts q d) = community_exists d"
    by (auto simp: user_exists_def community_exists_def delete_posts_sel fun_eq_iff)
  have "wf_posts (delete_posts q d)"
    using assms by (simp add: wf_content_def wf_posts_def same delete_posts_sel distinct_map_filter)
  moreover have "wf_likes (delete_posts q d)"
    using assms kept by (simp add: wf_content_def wf_likes_def same delete_posts_sel distinct_map_filter)
  moreover have "files_of_posts (delete_posts q d) (post_attachments (delete_posts q d))"
      "files_of_posts (delete_posts q d) (post_photos (delete_posts q d))"
    using assms kept
    by (simp_all add: wf_content_def files_of_posts_def delete_posts_sel distinct_map_filter)
  moreover have "wf_comments (delete_posts q d)"
    using assms kept subsetD [OF delete_comments_subset]
    unfolding wf_content_def wf_comments_def same delete_posts_sel
    by (fastforce simp: delete_comments_distinct delete_comments_parents)
  ultimately show ?thesis by (simp add: wf_content_def)
qed

lemma wf_toggle_like:
  "toggle_like p u now d = Some (d', n) \<Longrightarrow> wf_content d \<Longrightarrow> wf_content d'"
  by (auto simp: toggle_like_def Let_def wf_content_defs distinct_map_filter split: if_splits)

lemma wf_insert_comment:
  assumes "insert_comment p a t i now d = Some (d', row)" "wf_content d"
  shows "wf_content d'"
proof -
  have d': "d' = d\<lparr>comments := comments d @ [row]\<rparr>" and row: "comments_check row"
      "post_exists d (co_post_id row)" "user_exists d (co_author_id row)" "co_parent_id row = None"
      "co_id row \<notin> co_id ` set (comments d)"
    using assms(1) by (auto simp: insert_comment_def Let_def split: if_splits)
  have "parents_among (co_id ` set (comments d @ [row])) (comments d @ [row])"
    using assms(2) row parents_among_mono [of "co_id ` set (comments d)" "comments d"
        "co_id ` set (comments d @ [row])"]
    by (simp add: wf_content_def wf_comments_def parents_among_def subset_insertI)
  then show ?thesis
    using assms(2) row by (simp add: wf_content_defs d')
qed

lemma wf_update_comment:
  assumes "update_comment t i a now d = Some (d', x)" "wf_content d"
  shows "wf_content d'"
proof -
  define f where "f = (\<lambda>r :: comment_row. r\<lparr>co_text := t, co_updated_at := now\<rparr>)"
  have d': "d' = d\<lparr>comments := update_where (\<lambda>r. co_id r = i \<and> co_author_id r = a) f (comments d)\<rparr>"
    and ok: "\<forall>r \<in> set (comments d). co_id r = i \<and> co_author_id r = a \<longrightarrow> comments_check (f r)"
    using assms(1) by (auto simp: update_comment_def f_def Let_def split: if_splits)
  have keys: "co_id (f r) = co_id r" "co_post_id (f r) = co_post_id r"
      "co_author_id (f r) = co_author_id r" "co_parent_id (f r) = co_parent_id r" for r
    by (simp_all add: f_def)
  have ids: "map co_id (comments d') = map co_id (comments d)"
    unfolding d' by (simp add: map_update_where_same keys)
  then have ids': "co_id ` set (comments d') = co_id ` set (comments d)"
    by (metis list.set_map)
  have "wf_comments d'"
    unfolding wf_comments_def parents_among_def ids ids'
    using assms(2) ok unfolding d'
    by (auto simp: wf_content_def wf_comments_def parents_among_def set_update_where keys)
  then show ?thesis
    using assms(2) unfolding d' by (simp add: wf_content_def wf_posts_def wf_likes_def files_of_posts_def)
qed

lemma wf_delete_comments:
  assumes "wf_content d"
  shows "wf_content (d\<lparr>comments := delete_comments q (comments d)\<rparr>)"
  using assms subsetD [OF delete_comments_subset]
  by (fastforce simp: wf_content_defs delete_comments_distinct delete_comments_parents)

subsection \<open>The requests\<close>

lemma reads_getPostMedia [intro]: "reads (DBPostStore_getPostMedia i)"
  by (auto simp: DBPostStore_getPostMedia_def DBPostStore_getPostAttachments_def
      DBPostStore_getPostPhotos_def intro!: reads_call reads_rows_loop_unchecked)

lemma reads_scan_post [intro]: "reads (scan_post r)"
  by (auto simp: scan_post_def split: option.splits)

lemma reads_load_post [intro]: "reads (load_post r)"
  by (auto simp: load_post_def split: prod.splits)

lemma reads_posts [intro]:
  "reads (DBPostStore_GetPostByID u i)" "reads (DBPostStore_PostsPaginatedList u l off)"
  "reads (DBPostStore_GetPostsByUser u v l off)" "reads (DBPostStore_GetCommunityPosts u c l off)"
  by (auto simp: DBPostStore_GetPostByID_def DBPostStore_PostsPaginatedList_def
      DBPostStore_GetPostsByUser_def DBPostStore_GetCommunityPosts_def split: prod.splits)

lemma reads_comments [intro]:
  "reads (DBCommentStore_GetCommentByID i)" "reads (DBCommentStore_GetCommentsByPost i l off)"
  "reads (DBCommentStore_GetPostCommentsCount i)"
  by (auto simp: DBCommentStore_GetCommentByID_def DBCommentStore_GetCommentsByPost_def
      DBCommentStore_GetPostCommentsCount_def split: option.splits)

lemma reads_GetCommunityByID [intro]: "reads (DBCommunityStore_GetCommunityByID i)"
  by (auto simp: DBCommunityStore_GetCommunityByID_def scan_Community_def [abs_def])

lemma reads_profile_map [intro]: "reads (pc_GetShortProfileMapByUserIDs (profile_conn E) ids)"
  by (auto simp: profile_conn_def profile_client_def GrpcProfileHandler_GetShortProfileMapByUserIDs_def
      ProfileService_GetShortProfileMapByUserIDs_def profile_main_def DBProfileStore_def
      DBProfileStore_GetShortProfileMapByUserIDs_def Let_def intro!: reads_grpc reads_call)

lemmas post_services =
  PostService_CreatePost_def PostService_UpdatePost_def PostService_DeletePost_def
  PostService_GetPost_def PostService_PostsPaginate_def PostService_GetUserPosts_def
  PostService_GetCommunityPosts_def PostService_UpdateLikeOnPostByUserID_def
  PostService_enrichPostsWithProfiles_def PostService_enrichPostWithProfile_def

lemmas comment_services =
  CommentService_CreateComment_def CommentService_GetComment_def CommentService_GetPostComments_def
  CommentService_UpdateComment_def CommentService_DeleteComment_def
  CommentService_GetPostCommentsCount_def CommentService_enrichCommentWithProfile_def
  CommentService_enrichCommentsWithProfiles_def

lemmas post_handlers =
  PostsHandler_PostsPaginate_def PostsHandler_GetPost_def PostsHandler_CreatePost_def
  PostsHandler_UpdatePost_def PostsHandler_DeletePost_def PostsHandler_GetUserPosts_def
  PostsHandler_UpdateLikeOnPost_def PostsHandler_GetCommunityPosts_def

lemmas comment_handlers =
  CommentHandler_CreateComment_def CommentHandler_GetComment_def CommentHandler_GetPostComments_def
  CommentHandler_UpdateComment_def CommentHandler_DeleteComment_def
  CommentHandler_GetPostCommentsCount_def

lemma DBPostStore_sel [simp]:
  "pos_PostsPaginatedList DBPostStore = DBPostStore_PostsPaginatedList"
  "pos_GetPostByID DBPostStore = DBPostStore_GetPostByID"
  "pos_CreatePost DBPostStore = DBPostStore_CreatePost"
  "pos_UpdatePost DBPostStore = DBPostStore_UpdatePost"
  "pos_DeletePost DBPostStore = DBPostStore_DeletePost"
  "pos_GetPostsByUser DBPostStore = DBPostStore_GetPostsByUser"
  "pos_GetCommunityPosts DBPostStore = DBPostStore_GetCommunityPosts"
  "pos_UpdateLikeOnPostByUserID DBPostStore = DBPostStore_UpdateLikeOnPostByUserID"
  by (simp_all add: DBPostStore_def)

lemma DBCommentStore_sel [simp]:
  "cs_CreateComment DBCommentStore = DBCommentStore_CreateComment"
  "cs_GetCommentByID DBCommentStore = DBCommentStore_GetCommentByID"
  "cs_GetCommentsByPost DBCommentStore = DBCommentStore_GetCommentsByPost"
  "cs_UpdateComment DBCommentStore = DBCommentStore_UpdateComment"
  "cs_DeleteComment DBCommentStore = DBCommentStore_DeleteComment"
  "cs_GetPostCommentsCount DBCommentStore = DBCommentStore_GetPostCommentsCount"
  by (simp_all add: DBCommentStore_def)

lemma content_main_sel [simp]:
  "pss_postStore (post_main E) = DBPostStore" "pss_authService (post_main E) = auth_conn E"
  "cms_GetCommunityByID (pss_communityStore (post_main E)) = DBCommunityStore_GetCommunityByID"
  "pss_profileService (post_main E) = profile_conn E"
  "cos_commentStore (comment_main E) = DBCommentStore" "cos_postStore (comment_main E) = DBPostStore"
  "cos_profileService (comment_main E) = profile_conn E"
  by (simp_all add: post_main_def comment_main_def DBCommunityStore_def)

lemmas keeps_content_reads [wf_intros] =
  reads_posts [THEN keeps_reads] reads_comments [THEN keeps_reads]
  keeps_reads [OF reads_GetCommunityByID] keeps_reads [OF reads_profile_map]

lemma keeps_discard [wf_intros]:
  "keeps I k \<Longrightarrow> keeps I (discard_files paths k)"
  "keeps I k \<Longrightarrow> keeps I (discard_surplus paths existing k)"
  by (auto simp: discard_files_def discard_surplus_def intro!: wf_intros)

lemma keeps_uploads [wf_intros]:
  "keeps I (UploadFiles files)" "keeps I (upload_unless_empty files)"
  by (auto simp: UploadFiles_def upload_unless_empty_def intro!: wf_intros)

lemma keeps_check_community [wf_intros]: "keeps I (check_community (post_main E) u c)"
  by (auto simp: check_community_def intro!: wf_intros)

text \<open>
  The endpoints of posts and comments as \<open>main\<close> routes to them. The tag validation of the three
  requests is \<open>content_valid\<close>.
\<close>

record content_valid =
  valid_PostText :: "string \<Rightarrow> bool"
  valid_CommentCreate :: "CommentCreateRequest \<Rightarrow> bool"
  valid_CommentUpdate :: "string \<Rightarrow> bool"

datatype content_route =
  Route_PostsPaginate | Route_GetPost | Route_CreatePost | Route_UpdatePost | Route_DeletePost
| Route_GetUserPosts | Route_UpdateLike | Route_GetCommunityPosts
| Route_CreateComment | Route_GetComment | Route_GetPostComments | Route_UpdateComment
| Route_DeleteComment | Route_GetPostCommentsCount

fun content_endpoint ::
    "libraries \<Rightarrow> http_libs \<Rightarrow> content_valid \<Rightarrow> content_route \<Rightarrow> http_handler" where
  "content_endpoint E H V Route_PostsPaginate = PostsHandler_PostsPaginate H (post_main E)"
| "content_endpoint E H V Route_GetPost = PostsHandler_GetPost (post_main E)"
| "content_endpoint E H V Route_CreatePost = PostsHandler_CreatePost (valid_PostText V) (post_main E)"
| "content_endpoint E H V Route_UpdatePost = PostsHandler_UpdatePost (valid_PostText V) (post_main E)"
| "content_endpoint E H V Route_DeletePost = PostsHandler_DeletePost (post_main E)"
| "content_endpoint E H V Route_GetUserPosts = PostsHandler_GetUserPosts H (post_main E)"
| "content_endpoint E H V Route_UpdateLike = PostsHandler_UpdateLikeOnPost (post_main E)"
| "content_endpoint E H V Route_GetCommunityPosts = PostsHandler_GetCommunityPosts H (post_main E)"
| "content_endpoint E H V Route_CreateComment =
     CommentHandler_CreateComment H (valid_CommentCreate V) (comment_main E)"
| "content_endpoint E H V Route_GetComment = CommentHandler_GetComment (comment_main E)"
| "content_endpoint E H V Route_GetPostComments = CommentHandler_GetPostComments H (comment_main E)"
| "content_endpoint E H V Route_UpdateComment =
     CommentHandler_UpdateComment H (valid_CommentUpdate V) (comment_main E)"
| "content_endpoint E H V Route_DeleteComment = CommentHandler_DeleteComment (comment_main E)"
| "content_endpoint E H V Route_GetPostCommentsCount =
     CommentHandler_GetPostCommentsCount (comment_main E)"

text \<open>The world after a sequence of requests, whatever each of them was answered.\<close>

fun serve_content ::
    "libraries \<Rightarrow> http_libs \<Rightarrow> content_valid \<Rightarrow> (content_route \<times> http_request) list \<Rightarrow> world \<Rightarrow> world"
  where
  "serve_content E H V [] w = w"
| "serve_content E H V ((route, r) # rs) w =
     serve_content E H V rs (snd (content_endpoint E H V route r w))"

text \<open>
  Invariants of the statements. Whatever every statement of the stores of posts and comments keeps,
  every request to them keeps, whichever of its calls fail.
\<close>

locale content_statements =
  fixes I :: "database \<Rightarrow> bool"
  assumes insert_post: "insert_post a t c i now d = Some (d', row) \<Longrightarrow> I d \<Longrightarrow> I d'"
    and update_post: "update_post t i a now d = Some (d', x) \<Longrightarrow> I d \<Longrightarrow> I d'"
    and delete_posts: "I d \<Longrightarrow> I (delete_posts q d)"
    and insert_attachment: "insert_attachment p path i now d = Some (d', u) \<Longrightarrow> I d \<Longrightarrow> I d'"
    and insert_photo: "insert_photo p path i now d = Some (d', u) \<Longrightarrow> I d \<Longrightarrow> I d'"
    and delete_attachments: "I d \<Longrightarrow> I (d\<lparr>post_attachments := filter f (post_attachments d)\<rparr>)"
    and delete_photos: "I d \<Longrightarrow> I (d\<lparr>post_photos := filter f (post_photos d)\<rparr>)"
    and toggle_like: "toggle_like p v now d = Some (d', n) \<Longrightarrow> I d \<Longrightarrow> I d'"
    and insert_comment: "insert_comment p a t i now d = Some (d', crow) \<Longrightarrow> I d \<Longrightarrow> I d'"
    and update_comment: "update_comment t i a now d = Some (d', y) \<Longrightarrow> I d \<Longrightarrow> I d'"
    and delete_comments: "I d \<Longrightarrow> I (d\<lparr>comments := delete_comments r (comments d)\<rparr>)"
begin

lemma keeps_savePostFiles [wf_intros]:
  "keeps I (DBPostStore_savePostAttachmentsTx i paths)"
  "keeps I (DBPostStore_savePostPhotosTx i paths)"
  by (induction paths) (auto intro!: wf_intros dest: insert_attachment insert_photo)

lemma keeps_updatePostFiles [wf_intros]:
  "keeps I (DBPostStore_updatePostAttachmentsTx i paths)"
  "keeps I (DBPostStore_updatePostPhotosTx i paths)"
  by (auto simp: DBPostStore_updatePostAttachmentsTx_def DBPostStore_updatePostPhotosTx_def
      intro!: wf_intros dest: delete_attachments delete_photos)

lemma keeps_post_store [wf_intros]:
  "keeps I (DBPostStore_CreatePost p)" "keeps I (DBPostStore_UpdatePost p)"
  "keeps I (DBPostStore_DeletePost i j)"
  "keeps I (DBPostStore_UpdateLikeOnPostByUserID u k)"
  by (auto simp: DBPostStore_CreatePost_def DBPostStore_UpdatePost_def DBPostStore_DeletePost_def
      DBPostStore_UpdateLikeOnPostByUserID_def Let_def intro!: wf_intros keeps_tx_Begin
      dest: insert_post update_post delete_posts toggle_like split: option.splits)

lemma keeps_comment_store [wf_intros]:
  "keeps I (DBCommentStore_CreateComment c)"
  "keeps I (DBCommentStore_UpdateComment c)"
  "keeps I (DBCommentStore_DeleteComment i a)"
  by (auto simp: DBCommentStore_CreateComment_def DBCommentStore_UpdateComment_def
      DBCommentStore_DeleteComment_def Let_def intro!: wf_intros
      dest: insert_comment update_comment delete_comments)

lemma keeps_post_service [wf_intros]:
  "keeps I (PostService_CreatePost v (post_main E) u t c fs gs)"
  "keeps I (PostService_UpdatePost v (post_main E) i u t fs gs)"
  "keeps I (PostService_DeletePost (post_main E) i u)"
  "keeps I (PostService_GetPost (post_main E) u i)"
  "keeps I (PostService_PostsPaginate (post_main E) u q)"
  "keeps I (PostService_GetUserPosts (post_main E) u i q)"
  "keeps I (PostService_GetCommunityPosts (post_main E) u j q)"
  "keeps I (PostService_UpdateLikeOnPostByUserID (post_main E) u j)"
  by (auto simp: post_services Let_def intro!: wf_intros split: prod.splits)

lemma keeps_comment_service [wf_intros]:
  "keeps I (CommentService_CreateComment v (comment_main E) u req)"
  "keeps I (CommentService_GetComment (comment_main E) u j)"
  "keeps I (CommentService_GetPostComments (comment_main E) u j q)"
  "keeps I (CommentService_UpdateComment v' (comment_main E) j u t)"
  "keeps I (CommentService_DeleteComment (comment_main E) j u)"
  "keeps I (CommentService_GetPostCommentsCount (comment_main E) j)"
  by (auto simp: comment_services Let_def intro!: wf_intros split: prod.splits)

lemma keeps_content_endpoint: "keeps I (content_endpoint E H V route r)"
  by (cases route) (auto simp: post_handlers comment_handlers Let_def intro!: wf_intros)

end

interpretation content_wf: content_statements wf_content
  by unfold_locales
     (auto dest: wf_insert_post wf_update_post wf_delete_posts wf_insert_files wf_delete_files
       wf_toggle_like wf_insert_comment wf_update_comment wf_delete_comments)

text \<open>Posts and comments are all that such a request changes in the tables.\<close>

definition other_than_content :: "database \<Rightarrow> database" where
  "other_than_content d = d\<lparr>posts := [], comments := [], post_likes := [], post_attachments := [],
     post_photos := []\<rparr>"

interpretation content_frame: content_statements "\<lambda>d. other_than_content d = v" for v
  by unfold_locales
     (auto simp: other_than_content_def insert_post_def update_post_def delete_posts_def
       insert_attachment_def insert_photo_def toggle_like_def insert_comment_def update_comment_def
       Let_def split: if_splits option.splits)

lemma serve_content_wf: "wf_content (db w) \<Longrightarrow> wf_content (db (serve_content E H V rs w))"
proof (induction rs arbitrary: w)
  case (Cons x rs)
  then show ?case
    using content_wf.keeps_content_endpoint by (cases x) (simp add: keeps_def)
qed simp

end
