(* ===== verification/Ownership.thy ===== *)
theory Ownership
  imports Effects
begin

text \<open>
  The guard that the services put before a change: look an item up, compare its owner with the user,
  and refuse with \<open>ErrAccessDenied\<close> if they differ. The locale states what the guard relies on: a
  lookup changes nothing and does not panic, and an item that passes the comparison is one that the
  user owns in the tables.
\<close>

locale owned_item =
  fixes lookup :: "'a action"
    and permits :: "'a \<Rightarrow> bool"
    and owns :: "database \<Rightarrow> bool"
  assumes lookup_reads: "reads lookup"
    and lookup_returns: "no_panic lookup"
    and permitted: "lookup w = (Ret x, w') \<Longrightarrow> permits x \<Longrightarrow> owns (db w)"
begin

text \<open>Whoever does not own the item is refused, and nothing has changed.\<close>

lemma guard_refuses:
  assumes "call lookup h (\<lambda>x. if \<not> permits x then throw ErrAccessDenied else k x) w = (r, w')"
    and "\<not> owns (db w)" and "\<And>e. \<exists>e' \<in> S. h e = throw e'" and "ErrAccessDenied \<in> S"
  shows "quiet w w' \<and> (\<exists>e \<in> S. r = Fail e)"
proof -
  obtain q v where l: "lookup w = (q, v)" by fastforce
  have "quiet w v" using lookup_reads l by (rule readsD)
  moreover have "q \<noteq> Panic" using lookup_returns l by (rule no_panicD)
  ultimately show ?thesis
  proof (cases q)
    case (Fail e)
    obtain e' where "e' \<in> S" "h e = throw e'" using assms(3) by blast
    then show ?thesis
      using assms(1) l Fail \<open>quiet w v\<close> by (auto simp: call_def throw_def)
  next
    case (Ret x)
    then have "\<not> permits x" using permitted l assms(2) by blast
    then show ?thesis
      using assms(1,4) l Ret \<open>quiet w v\<close> by (auto simp: call_def throw_def)
  qed simp
qed

text \<open>A request that got past the guard came from the owner.\<close>

lemma guard_passed:
  assumes "call lookup h (\<lambda>x. if \<not> permits x then throw ErrAccessDenied else k x) w = (Ret y, w')"
    and "\<And>e. \<exists>e'. h e = throw e'"
  shows "\<exists>x v. lookup w = (Ret x, v) \<and> quiet w v \<and> permits x \<and> owns (db w) \<and> k x v = (Ret y, w')"
proof -
  obtain q v where l: "lookup w = (q, v)" by fastforce
  moreover have "quiet w v" using lookup_reads l by (rule readsD)
  moreover have "h e u \<noteq> (Ret y, w')" for e u
    using assms(2) [of e] by (auto simp: throw_def)
  ultimately show ?thesis
    using assms(1) by (cases q) (auto simp: call_def throw_def split: if_splits dest: permitted)
qed

end

end
