(* ===== verification/Post_Facts.thy ===== *)
theory Post_Facts
  imports Post_Tables Ownership
begin

text \<open>
  What the operations of posts and comments return and change: facts on the stores, on every world,
  so on every combination of failing calls.
\<close>

subsection \<open>Every request is answered\<close>

lemma no_panic_files [intro!]:
  "no_panic (DeleteFile f)" "no_panic (UploadFile g)"
proof -
  have "no_panic (os_Remove p)" "no_panic (os_MkdirAll p)" "no_panic (os_WriteFile p d)"
      "no_panic uuid_New" for p d
    by (auto simp: no_panic_def act Let_def split: option.splits fs_entry.splits)
  then show "no_panic (DeleteFile f)" "no_panic (UploadFile g)"
    by (auto simp: DeleteFile_def UploadFile_def Let_def)
qed

lemma no_panic_uploads [intro!]:
  "no_panic (UploadFiles files)" "no_panic (upload_unless_empty files)" "no_panic (DeleteFiles paths)"
proof -
  have d: "no_panic (delete_uploaded ns)" for ns by (induction ns) auto
  have "no_panic (upload_loop ns files)" for ns
    by (induction files arbitrary: ns) (auto intro!: d)
  then show "no_panic (UploadFiles files)" "no_panic (upload_unless_empty files)"
    by (auto simp: UploadFiles_def upload_unless_empty_def)
  show "no_panic (DeleteFiles paths)"
    by (induction paths) auto
qed

lemma no_panic_discard [intro!]:
  "no_panic k \<Longrightarrow> no_panic (discard_files paths k)"
  "no_panic k \<Longrightarrow> no_panic (discard_surplus paths existing k)"
  by (auto simp: discard_files_def discard_surplus_def)

lemma no_panic_savePostFiles [intro!]:
  "no_panic (DBPostStore_savePostAttachmentsTx i paths)"
  "no_panic (DBPostStore_savePostPhotosTx i paths)"
  by (induction paths) auto

lemma no_panic_post_store [intro!]:
  "no_panic (DBPostStore_GetPostByID u i)" "no_panic (DBPostStore_PostsPaginatedList u l off)"
  "no_panic (DBPostStore_GetPostsByUser u i l off)" "no_panic (DBPostStore_GetCommunityPosts u c l off)"
  "no_panic (DBPostStore_CreatePost p)" "no_panic (DBPostStore_UpdatePost p)"
  "no_panic (DBPostStore_DeletePost i j)" "no_panic (DBPostStore_UpdateLikeOnPostByUserID u k)"
proof -
  have m: "no_panic (DBPostStore_getPostMedia i)" for i
    by (auto simp: DBPostStore_getPostMedia_def DBPostStore_getPostAttachments_def
        DBPostStore_getPostPhotos_def)
  have s: "no_panic (scan_post r)" for r
    by (auto simp: scan_post_def split: option.splits)
  have l: "no_panic (load_post r)" for r
    by (auto simp: load_post_def intro!: no_panic_call m s)
  show "no_panic (DBPostStore_GetPostByID u i)" "no_panic (DBPostStore_PostsPaginatedList u l off)"
      "no_panic (DBPostStore_GetPostsByUser u i l off)" "no_panic (DBPostStore_GetCommunityPosts u c l off)"
    by (auto simp: DBPostStore_GetPostByID_def DBPostStore_PostsPaginatedList_def
        DBPostStore_GetPostsByUser_def DBPostStore_GetCommunityPosts_def intro!: m s l)
  show "no_panic (DBPostStore_CreatePost p)" "no_panic (DBPostStore_UpdatePost p)"
      "no_panic (DBPostStore_DeletePost i j)" "no_panic (DBPostStore_UpdateLikeOnPostByUserID u k)"
    by (auto simp: DBPostStore_CreatePost_def DBPostStore_UpdatePost_def DBPostStore_DeletePost_def
        DBPostStore_UpdateLikeOnPostByUserID_def DBPostStore_updatePostAttachmentsTx_def
        DBPostStore_updatePostPhotosTx_def Let_def)
qed

lemma no_panic_comment_store [intro!]:
  "no_panic (DBCommentStore_CreateComment c)" "no_panic (DBCommentStore_GetCommentByID i)"
  "no_panic (DBCommentStore_GetCommentsByPost i l off)" "no_panic (DBCommentStore_UpdateComment c)"
  "no_panic (DBCommentStore_DeleteComment i a)" "no_panic (DBCommentStore_GetPostCommentsCount i)"
  by (auto simp: DBCommentStore_CreateComment_def DBCommentStore_GetCommentByID_def
      DBCommentStore_GetCommentsByPost_def DBCommentStore_UpdateComment_def
      DBCommentStore_DeleteComment_def DBCommentStore_GetPostCommentsCount_def Let_def)

lemma no_panic_clients [intro!]:
  "no_panic (pc_GetShortProfileMapByUserIDs (profile_conn E) ids)"
  "no_panic (ac_IsUserExists (auth_conn E) u)" "no_panic (DBCommunityStore_GetCommunityByID i)"
  by (auto simp: profile_conn_def profile_client_def GrpcProfileHandler_GetShortProfileMapByUserIDs_def
      ProfileService_GetShortProfileMapByUserIDs_def profile_main_def DBProfileStore_def
      DBProfileStore_GetShortProfileMapByUserIDs_def Let_def auth_conn_def auth_client_def
      GrpcAuthHandler_IsUserExists_def AuthService_IsUserExists_def auth_main_def DBUserStore_def
      DBUserStore_IsUserExists_def DBCommunityStore_GetCommunityByID_def scan_Community_def [abs_def]
      intro!: no_panic_call)

text \<open>The services return a value or one of the errors a handler maps to a status.\<close>

lemma no_panic_post_service [intro!]:
  "no_panic (PostService_CreatePost v (post_main E) u t c fs gs)"
  "no_panic (PostService_UpdatePost v (post_main E) i u t fs gs)"
  "no_panic (PostService_DeletePost (post_main E) i u)" "no_panic (PostService_GetPost (post_main E) u i)"
  "no_panic (PostService_PostsPaginate (post_main E) u q)"
  "no_panic (PostService_GetUserPosts (post_main E) u i q)"
  "no_panic (PostService_GetCommunityPosts (post_main E) u j q)"
  "no_panic (PostService_UpdateLikeOnPostByUserID (post_main E) u j)"
  by (auto simp: post_services Let_def check_community_def split: prod.splits)

lemma no_panic_comment_service [intro!]:
  "no_panic (CommentService_CreateComment vc (comment_main E) u req)"
  "no_panic (CommentService_GetComment (comment_main E) u j)"
  "no_panic (CommentService_GetPostComments (comment_main E) u j q)"
  "no_panic (CommentService_UpdateComment v (comment_main E) j u t)"
  "no_panic (CommentService_DeleteComment (comment_main E) j u)"
  "no_panic (CommentService_GetPostCommentsCount (comment_main E) j)"
  by (auto simp: comment_services Let_def split: prod.splits)

text \<open>\<open>answers S m\<close>: \<open>m\<close> returns a value or an error of \<open>S\<close>.\<close>

definition answers :: "go_error set \<Rightarrow> 'a action \<Rightarrow> bool" where
  "answers S m \<longleftrightarrow> (\<forall>w. case fst (m w) of Ret _ \<Rightarrow> True | Fail e \<Rightarrow> e \<in> S | Panic \<Rightarrow> False)"

lemma answers_cases:
  assumes "answers S m" "m w = (r, w')"
  obtains x where "r = Ret x" | e where "r = Fail e" "e \<in> S"
  using assms by (cases r) (auto simp: answers_def dest!: spec [of _ w])

lemma answers_ret: "answers S (ret x)"
  and answers_throw: "e \<in> S \<Longrightarrow> answers S (throw e)"
  by (simp_all add: answers_def act)

lemma answers_call:
  assumes "no_panic m" "\<And>e. answers S (h e)" "\<And>x. answers S (k x)"
  shows "answers S (call m h k)"
  unfolding answers_def
proof
  fix w
  obtain r w' where m: "m w = (r, w')" by fastforce
  then show "case fst (call m h k w) of Ret _ \<Rightarrow> True | Fail e \<Rightarrow> e \<in> S | Panic \<Rightarrow> False"
    using no_panicD [OF assms(1) m] assms(2,3) by (cases r) (auto simp: call_def answers_def)
qed

lemma answers_call_throw:
  assumes "answers S m" "\<And>x. answers S (k x)"
  shows "answers S (call m throw k)"
  unfolding answers_def
proof
  fix w
  obtain r w' where m: "m w = (r, w')" by fastforce
  from answers_cases [OF assms(1) m] assms(2)
  show "case fst (call m throw k w) of Ret _ \<Rightarrow> True | Fail e \<Rightarrow> e \<in> S | Panic \<Rightarrow> False"
    by cases (auto simp: m call_def answers_def act)
qed

lemma answers_branch:
  "answers S m \<Longrightarrow> answers S m' \<Longrightarrow> answers S (if b then m else m')"
  "answers S m \<Longrightarrow> (\<And>x. answers S (k x)) \<Longrightarrow> answers S (case q of None \<Rightarrow> m | Some x \<Rightarrow> k x)"
  "(\<And>x y. answers S (f x y)) \<Longrightarrow> answers S (case p of (x, y) \<Rightarrow> f x y)"
  by (auto split: option.splits prod.splits)

lemma answers_discard:
  "answers S k \<Longrightarrow> answers S (discard_files paths k)"
  "answers S k \<Longrightarrow> answers S (discard_surplus paths existing k)"
  by (auto simp: discard_files_def discard_surplus_def intro!: answers_branch answers_call)

lemmas answers_intros =
  answers_ret answers_throw answers_branch answers_discard answers_call_throw answers_call

definition content_errors :: "go_error set" where
  "content_errors = {ErrInvalidInput, ErrInvalidParams, ErrNotFound, ErrPostNotFound, ErrNotExist,
     ErrAccessDenied, ErrDB, ErrService}"

lemma answers_post_service:
  "answers content_errors (PostService_CreatePost v (post_main E) u t c fs gs)"
  "answers content_errors (PostService_UpdatePost v (post_main E) i u t fs gs)"
  "answers content_errors (PostService_DeletePost (post_main E) i u)"
  "answers content_errors (PostService_GetPost (post_main E) u i)"
  "answers content_errors (PostService_PostsPaginate (post_main E) u q)"
  "answers content_errors (PostService_GetUserPosts (post_main E) u i q)"
  "answers content_errors (PostService_GetCommunityPosts (post_main E) u j q)"
  "answers content_errors (PostService_UpdateLikeOnPostByUserID (post_main E) u j)"
  by (auto simp: post_services Let_def check_community_def content_errors_def
      intro!: answers_intros split: prod.splits)

lemma answers_comment_service:
  "answers content_errors (CommentService_CreateComment vc (comment_main E) u req)"
  "answers content_errors (CommentService_GetComment (comment_main E) u j)"
  "answers content_errors (CommentService_GetPostComments (comment_main E) u j q)"
  "answers content_errors (CommentService_UpdateComment v (comment_main E) j u t)"
  "answers content_errors (CommentService_DeleteComment (comment_main E) j u)"
  "answers content_errors (CommentService_GetPostCommentsCount (comment_main E) j)"
  by (auto simp: comment_services Let_def content_errors_def intro!: answers_intros
      split: prod.splits)

lemma content_errors_status:
  "e \<in> content_errors \<Longrightarrow> fst (MapErrorToHTTP e) \<in> {400, 403, 404, 500}"
  by (auto simp: content_errors_def MapErrorToHTTP_def)

text \<open>\<open>replies m\<close>: the handler sends a response, with one of the documented statuses.\<close>

definition replies :: "http_response action \<Rightarrow> bool" where
  "replies m \<longleftrightarrow> (\<forall>w. case fst (m w) of
     Ret resp \<Rightarrow> rs_Status resp \<in> {200, 400, 403, 404, 500} | _ \<Rightarrow> False)"

lemma replies_call_of:
  assumes "answers S m" "\<And>e. e \<in> S \<Longrightarrow> fst (MapErrorToHTTP e) \<in> {400, 403, 404, 500}"
    and "\<And>x. replies (k x)"
  shows "replies (call m sendJSONError k)"
  unfolding replies_def
proof
  fix w
  obtain r w' where m: "m w = (r, w')" by fastforce
  from answers_cases [OF assms(1) m] assms(2,3)
  show "case fst (call m sendJSONError k w) of
      Ret resp \<Rightarrow> rs_Status resp \<in> {200, 400, 403, 404, 500} | _ \<Rightarrow> False"
    by cases (auto simp: m call_def replies_def sendJSONError_status sendJSONResponse_def)
qed

lemmas replies_call = replies_call_of [OF _ content_errors_status]

lemma replies_data: "replies (sendJSONData x)"
  and replies_success: "replies (sendJSONSuccess t)"
  by (simp_all add: replies_def sendJSONData_def sendJSONSuccess_def sendJSONResponse_def act)

lemma answers_helpers:
  "answers content_errors (PathInt32 r n)" "answers content_errors (ParseMultipart r)"
  "answers content_errors (parseIntParam form n)" "answers content_errors (DecodeQueryParams dq r)"
  "answers content_errors (DecodeJSONBody dj r)" "answers content_errors (MultipartFiles form n)"
proof -
  have "no_panic (MultipartToFile h)" for h
    by (auto simp: MultipartToFile_def)
  then have "no_panic (MultipartListToFiles hs)" for hs
    by (induction hs) auto
  then show "answers content_errors (MultipartFiles form n)"
    by (auto simp: MultipartFiles_def content_errors_def intro!: answers_intros)
qed (auto simp: PathInt32_def ParseMultipart_def parseIntParam_def DecodeQueryParams_def
    DecodeJSONBody_def Let_def content_errors_def intro!: answers_intros split: option.splits)

lemma replies_content_endpoint: "replies (content_endpoint E H V route r)"
  by (cases route)
     (auto simp: post_handlers comment_handlers Let_def
       intro!: replies_call replies_data replies_success answers_helpers answers_post_service
         answers_comment_service)

subsection \<open>Looking up a post or a comment\<close>

text \<open>The conversions of an id, \<open>int32\<close> to \<open>uint\<close> to the INT column.\<close>

lemma uint_of_int32 [simp]: "(ucast (scast (i :: int32) :: go_uint) :: int32) = i"
  "(ucast (ucast (i :: int32) :: go_uint) :: int32) = i"
  by (auto intro!: bit_word_eqI simp: bit_simps)

lemma with_int4_scast:
  "with_int4 (scast (i :: int32)) k = (if pg_int4 (scast i) = None
     then throw (Plain ''unable to encode: greater than maximum value for int4'') else k i)"
  by (auto simp: with_int4_def pg_int4_def)

lemma scan_post_Ret:
  "scan_post r w = (Ret p, w') \<Longrightarrow> w' = w \<and> pdb_ID p = ucast (pj_id r) \<and>
     pdb_AuthorID p = ucast (pj_author_id r) \<and> pdb_CommunityID p = pj_community_id r \<and>
     pdb_Text p = pj_text r \<and> pdb_CreatedAt p = pj_created_at r \<and> pdb_IsLiked p = pj_liked_by_user r"
  by (auto simp: scan_post_def scan_uint_def act split: option.splits if_splits)

lemma GetPostByID_Ret:
  assumes "DBPostStore_GetPostByID u (scast i) w = (Ret p, w')"
  shows "quiet w w' \<and> (\<exists>row \<in> set (posts (db w)). po_id row = i \<and>
    pdb_AuthorID p = ucast (po_author_id row) \<and> pdb_Text p = po_text row)"
proof -
  have "quiet w w'" using reads_posts(1) assms by (rule readsD)
  moreover from assms obtain row q v where
      "find (\<lambda>p. po_id p = i) (posts (db w)) = Some row" and
      "scan_post (join_post u (db w) row) (tick w) = (Ret q, v)" and
      "pdb_AuthorID p = pdb_AuthorID q" "pdb_Text p = pdb_Text q"
    by (auto simp: DBPostStore_GetPostByID_def with_int4_scast act
        split: option.splits prod.splits res.splits if_splits)
  ultimately show ?thesis
    by (auto simp: find_Some_iff join_post_def Let_def dest!: scan_post_Ret)
qed

text \<open>The comment read is the one of the table; a missing one is \<open>ErrNotFound\<close>.\<close>

lemma GetCommentByID_cases:
  assumes "DBCommentStore_GetCommentByID i w = (r, w')"
  shows "quiet w w' \<and> (case r of
      Ret c \<Rightarrow> find_comment i (db w) = Some c
    | Fail e \<Rightarrow> errors_Is e ErrNotFound \<or> (\<exists>m. e = Wrapf ''failed to get comment: '' (Plain m))
    | Panic \<Rightarrow> False)"
proof -
  have "quiet w w'" using reads_comments(1) assms by (rule readsD)
  then show ?thesis
    using assms
    by (auto simp: DBCommentStore_GetCommentByID_def act split: option.splits res.splits if_splits)
qed

lemma find_comment_Some:
  "find_comment i d = Some c \<Longrightarrow> \<exists>row \<in> set (comments d). co_id row = i \<and> co_author_id row = c_AuthorID c"
  by (auto simp: find_comment_def find_Some_iff scan_comment_def)

subsection \<open>Only the author\<close>

text \<open>The owners of comments and posts, and the guards on them.\<close>

interpretation own_comment: owned_item "DBCommentStore_GetCommentByID i" "\<lambda>c. c_AuthorID c = u"
    "\<lambda>d. \<exists>c \<in> set (comments d). co_id c = i \<and> co_author_id c = u" for i u
  by unfold_locales (auto dest!: GetCommentByID_cases find_comment_Some)

interpretation own_post: owned_item "DBPostStore_GetPostByID v (scast i)" "\<lambda>p. pdb_AuthorID p = scast u"
    "\<lambda>d. \<exists>p \<in> set (posts d). po_id p = i \<and> po_author_id p = u" for v i u
proof unfold_locales
  fix w p w'
  assume "DBPostStore_GetPostByID v (scast i) w = (Ret p, w')" "pdb_AuthorID p = scast u"
  then show "\<exists>p \<in> set (posts (db w)). po_id p = i \<and> po_author_id p = u"
    using GetPostByID_Ret by (metis uint_of_int32)
qed auto

lemma UpdateComment_not_author:
  assumes "CommentService_UpdateComment v (comment_main E) i u t w = (r, w')"
    and "\<not> (\<exists>c \<in> set (comments (db w)). co_id c = i \<and> co_author_id c = u)"
  shows "quiet w w' \<and> (\<exists>e \<in> content_errors. r = Fail e)"
proof (cases "v t")
  case True
  show ?thesis
    by (rule own_comment.guard_refuses [OF _ assms(2)])
       (use assms(1) True in \<open>auto simp: CommentService_UpdateComment_def content_errors_def\<close>)
qed (use assms(1) in \<open>simp add: CommentService_UpdateComment_def content_errors_def throw_def\<close>)

lemma DeleteComment_not_author:
  assumes "CommentService_DeleteComment (comment_main E) i u w = (r, w')"
    and "\<not> (\<exists>c \<in> set (comments (db w)). co_id c = i \<and> co_author_id c = u)"
  shows "quiet w w' \<and> (\<exists>e \<in> content_errors. r = Fail e)"
  by (rule own_comment.guard_refuses [OF _ assms(2)])
     (use assms(1) in \<open>auto simp: CommentService_DeleteComment_def content_errors_def\<close>)

lemma UpdatePost_not_author:
  assumes "PostService_UpdatePost v (post_main E) (scast i) u t fs gs w = (r, w')"
    and "\<not> (\<exists>p \<in> set (posts (db w)). po_id p = i \<and> po_author_id p = u)"
  shows "quiet w w' \<and> (\<exists>e \<in> content_errors. r = Fail e)"
proof (cases "v t")
  case True
  show ?thesis
    by (rule own_post.guard_refuses [OF _ assms(2)])
       (use assms(1) True in \<open>auto simp: PostService_UpdatePost_def content_errors_def\<close>)
qed (use assms(1) in \<open>simp add: PostService_UpdatePost_def content_errors_def throw_def\<close>)

lemma DeletePost_not_author:
  assumes "PostService_DeletePost (post_main E) (scast i) u w = (r, w')"
    and "\<not> (\<exists>p \<in> set (posts (db w)). po_id p = i \<and> po_author_id p = u)"
  shows "quiet w w' \<and> (\<exists>e \<in> content_errors. r = Fail e)"
  by (rule own_post.guard_refuses [OF _ assms(2)])
     (use assms(1) in \<open>auto simp: PostService_DeletePost_def content_errors_def\<close>)

subsection \<open>Creating a post\<close>

lemma with_int4_ucast:
  "with_int4 (ucast (i :: int32)) k = (if pg_int4 (ucast i) = None
     then throw (Plain ''unable to encode: greater than maximum value for int4'') else k i)"
  by (auto simp: with_int4_def pg_int4_def)

text \<open>
  Both tables of files are filled by the same loop: it adds the rows of the paths, in their order;
  when it fails, those before the failure.
\<close>

lemma save_loop_rows:
  fixes i :: int32 and add :: "database \<Rightarrow> post_file_row list \<Rightarrow> database"
    and ins :: "int32 \<Rightarrow> string \<Rightarrow> int32 \<Rightarrow> int \<Rightarrow> database \<Rightarrow> (database \<times> unit) option"
  assumes loop: "\<And>p ps. S (p # ps) = (if bad p then throw e else if too_long p then throw e' else
      call (with_int4 (ucast i) (\<lambda>i. insert_returning t (ins i p))) (\<lambda>err. throw (g err)) (\<lambda>_. S ps))"
    and "S [] = ret ()" "\<And>d. add d [] = d" "\<And>d xs ys. add (add d xs) ys = add d (xs @ ys)"
    and ins: "\<And>p j now d d' u. ins i p j now d = Some (d', u) \<Longrightarrow>
      \<exists>row. d' = add d [row] \<and> pf_post_id row = i \<and> pf_file_path row = p"
  shows "S paths w = (r, w') \<Longrightarrow> \<exists>new. db w' = add (db w) new \<and>
      (r = Ret () \<longrightarrow> map (\<lambda>f. (pf_post_id f, pf_file_path f)) new = map (Pair i) paths)"
proof (induction paths arbitrary: w)
  case Nil
  then show ?case using assms(2,3) by (auto simp: act intro!: exI [of _ "[]"])
next
  case (Cons p ps)
  show ?case
  proof (cases "\<exists>v. insert_returning t (ins i p) w = (Ret (), v) \<and> S ps v = (r, w')")
    case True
    then obtain v where v: "insert_returning t (ins i p) w = (Ret (), v)" "S ps v = (r, w')"
      by blast
    obtain j now where "ins i p j now (db w) = Some (db v, ())"
      using v(1) by (auto simp: act nextval_def split: option.splits prod.splits if_splits)
    then obtain row where "db v = add (db w) [row]" "pf_post_id row = i" "pf_file_path row = p"
      using ins by blast
    moreover obtain new where "db w' = add (db v) new"
        "r = Ret () \<longrightarrow> map (\<lambda>f. (pf_post_id f, pf_file_path f)) new = map (Pair i) ps"
      using Cons.IH [OF v(2)] by blast
    ultimately show ?thesis
      using assms(4) by (auto intro!: exI [of _ "row # new"])
  next
    case False
    then show ?thesis
      using Cons.prems loop assms(3)
      by (auto simp: act with_int4_ucast nextval_def
          intro!: exI [of _ "[]"] split: option.splits prod.splits if_splits)
  qed
qed

lemma savePostFilesTx_rows:
  fixes i :: int32
  shows "DBPostStore_savePostAttachmentsTx (ucast i) paths w = (r, w') \<Longrightarrow>
      \<exists>new. db w' = db w\<lparr>post_attachments := post_attachments (db w) @ new\<rparr> \<and>
        (r = Ret () \<longrightarrow> map (\<lambda>f. (pf_post_id f, pf_file_path f)) new = map (Pair i) paths)"
    and "DBPostStore_savePostPhotosTx (ucast i) paths w = (r, w') \<Longrightarrow>
      \<exists>new. db w' = db w\<lparr>post_photos := post_photos (db w) @ new\<rparr> \<and>
        (r = Ret () \<longrightarrow> map (\<lambda>f. (pf_post_id f, pf_file_path f)) new = map (Pair i) paths)"
  by (rule save_loop_rows [where S = "DBPostStore_savePostAttachmentsTx (ucast i)"
        and add = "\<lambda>d new. d\<lparr>post_attachments := post_attachments d @ new\<rparr>"],
      auto simp: insert_attachment_def Let_def split: if_splits)
     (rule save_loop_rows [where S = "DBPostStore_savePostPhotosTx (ucast i)"
        and add = "\<lambda>d new. d\<lparr>post_photos := post_photos d @ new\<rparr>"],
      auto simp: insert_photo_def Let_def split: if_splits)

definition adds_post ::
    "database \<Rightarrow> int32 \<Rightarrow> string \<Rightarrow> int32 option \<Rightarrow> string list \<Rightarrow> string list \<Rightarrow> post_row \<Rightarrow> database \<Rightarrow> bool"
  where
  "adds_post d authorID text communityID attachments photos row d' \<longleftrightarrow>
     po_author_id row = authorID \<and> po_text row = text \<and> po_community_id row = communityID \<and>
     po_id row \<notin> po_id ` set (posts d) \<and>
     (\<exists>na np. d' = d\<lparr>posts := posts d @ [row], post_attachments := post_attachments d @ na,
                    post_photos := post_photos d @ np\<rparr> \<and>
        map (\<lambda>f. (pf_post_id f, pf_file_path f)) na = map (Pair (po_id row)) attachments \<and>
        map (\<lambda>f. (pf_post_id f, pf_file_path f)) np = map (Pair (po_id row)) photos)"

lemma CreatePost_Fail:
  "DBPostStore_CreatePost post w = (Fail e, w') \<Longrightarrow> db w' = db w"
  by (auto simp: DBPostStore_CreatePost_def Let_def act split: option.splits prod.splits res.splits if_splits)

lemma CreatePost_Ret:
  assumes "DBPostStore_CreatePost post w = (Ret p, w')"
  shows "\<exists>row. post_ID p = ucast (po_id row) \<and> post_Attachments p = post_Attachments post \<and>
    post_Photos p = post_Photos post \<and>
    adds_post (db w) (ucast (post_AuthorID post)) (post_Text post) (post_CommunityID post)
      (post_Attachments post) (post_Photos post) row (db w')"
proof -
  obtain row v1 v2 v3 where
    ins: "with_int4 (post_AuthorID post) (\<lambda>authorID.
        insert_returning ''posts'' (insert_post authorID (post_Text post) (post_CommunityID post))) (tick w) = (Ret row, v1)" and
    a: "DBPostStore_savePostAttachmentsTx (ucast (po_id row)) (post_Attachments post) v1 = (Ret (), v2)" and
    b: "DBPostStore_savePostPhotosTx (ucast (po_id row)) (post_Photos post) v2 = (Ret (), v3)" and
    "db w' = db v3" and
    p: "post_ID p = ucast (po_id row)" "post_Attachments p = post_Attachments post"
      "post_Photos p = post_Photos post"
    using assms
    by (auto simp: DBPostStore_CreatePost_def Let_def scan_uint_def call_def throw_def ret_def
        tx_Begin_def tx_Commit_def tx_Rollback_def tx_Abandon_def external_def
        split: option.splits prod.splits res.splits if_splits)
  moreover have "db v1 = db w\<lparr>posts := posts (db w) @ [row]\<rparr> \<and>
      po_author_id row = ucast (post_AuthorID post) \<and> po_text row = post_Text post \<and>
      po_community_id row = post_CommunityID post \<and> po_id row \<notin> po_id ` set (posts (db w))"
    using ins by (auto simp: with_int4_def pg_int4_def insert_post_def Let_def nextval_def act
        split: option.splits prod.splits if_splits)
  moreover obtain na where "db v2 = db v1\<lparr>post_attachments := post_attachments (db v1) @ na\<rparr>"
      "map (\<lambda>f. (pf_post_id f, pf_file_path f)) na = map (Pair (po_id row)) (post_Attachments post)"
    using savePostFilesTx_rows(1) [OF a] by auto
  moreover obtain np where "db v3 = db v2\<lparr>post_photos := post_photos (db v2) @ np\<rparr>"
      "map (\<lambda>f. (pf_post_id f, pf_file_path f)) np = map (Pair (po_id row)) (post_Photos post)"
    using savePostFilesTx_rows(2) [OF b] by auto
  ultimately show ?thesis
    unfolding adds_post_def
    by (intro exI [of _ row] conjI exI [of _ na] exI [of _ np]) simp_all
qed
lemma db_kept: "keeps (\<lambda>d. d = db w) m \<Longrightarrow> m w = (r, w') \<Longrightarrow> db w' = db w"
  using keepsD [of "\<lambda>d. d = db w" m w r w'] by simp

lemma discard_files_step:
  assumes "discard_files paths k v = (r, v')"
  shows "\<exists>u. db u = db v \<and> k u = (r, v')"
proof -
  obtain q u where d: "DeleteFiles (convertToPointerSlice paths) v = (q, u)" by fastforce
  have "db u = db v" using keeps_DeleteFiles d by (rule db_kept)
  moreover have "q \<noteq> Panic" using no_panic_uploads(3) d by (rule no_panicD)
  ultimately show ?thesis
    using assms d by (cases q) (auto simp: discard_files_def call_def split: if_splits)
qed

text \<open>Only the creator of a community posts in it.\<close>

definition may_post_in :: "database \<Rightarrow> int32 \<Rightarrow> int32 option \<Rightarrow> bool" where
  "may_post_in d u c \<longleftrightarrow> (case c of None \<Rightarrow> True | Some i \<Rightarrow>
     \<exists>row \<in> set (communities d). cm_id row = i \<and> cm_creator_id row = u)"

lemma check_community_Ret:
  assumes "check_community (post_main E) u c w = (Ret (), w')"
  shows "may_post_in (db w) u c"
  using assms
  by (auto simp: may_post_in_def check_community_def DBCommunityStore_GetCommunityByID_def scan_Community_def act
      find_Some_iff split: option.splits prod.splits res.splits if_splits)

lemma CreatePost_service:
  assumes "PostService_CreatePost v (post_main E) u t c fs gs w = (r, w')"
  shows "case r of
      Ret p \<Rightarrow> (\<exists>row. post_ID p = ucast (po_id row) \<and>
        adds_post (db w) u t c (post_Attachments p) (post_Photos p) row (db w')) \<and>
        may_post_in (db w) u c
    | Fail e \<Rightarrow> db w' = db w
    | Panic \<Rightarrow> False"
proof -
  let ?same = "\<lambda>d. d = db w"
  obtain q1 v1 where 1: "upload_unless_empty fs w = (q1, v1)" by fastforce
  obtain q2 v2 where 2: "upload_unless_empty gs v1 = (q2, v2)" by fastforce
  obtain q3 v3 where 3: "check_community (post_main E) u c v2 = (q3, v3)" by fastforce
  have d1: "db v1 = db w" using db_kept [OF keeps_uploads(2) 1] .
  have d2: "db v2 = db w" using db_kept [OF keeps_uploads(2) 2] d1 by simp
  have d3: "db v3 = db w" using db_kept [OF keeps_check_community 3] d2 by simp
  show ?thesis
  proof (cases r)
    case Panic
    then show ?thesis using no_panicD [OF no_panic_post_service(1) assms] by simp
  next
    case (Ret p)
    obtain as ps where q: "q1 = Ret as" "q2 = Ret ps" "q3 = Ret ()" and
      "DBPostStore_CreatePost \<lparr>post_ID = 0, post_AuthorID = scast u, post_CommunityID = c,
         post_Text = t, post_CreatedAt = zero_time, post_UpdatedAt = zero_time,
         post_Attachments = as, post_Photos = ps, post_LikeCount = 0, post_IsLiked = False\<rparr> v3 = (Ret p, w')"
      using assms 1 2 3 unfolding Ret
      by (auto simp: PostService_CreatePost_def call_def Let_def ret_def throw_def
          dest!: discard_files_step split: if_splits prod.splits res.splits)
    then show ?thesis
      using check_community_Ret [of E u c v2 v3] 3 d2 d3 Ret by (auto dest!: CreatePost_Ret)
  next
    case (Fail e)
    show ?thesis
      using assms 1 2 3 d1 d2 d3 unfolding Fail
      by (auto simp: PostService_CreatePost_def call_def Let_def ret_def throw_def
          dest!: discard_files_step CreatePost_Fail split: if_splits prod.splits res.splits)
  qed
qed

subsection \<open>Likes\<close>

definition like_pairs :: "database \<Rightarrow> (int32 \<times> int32) set" where
  "like_pairs d = (\<lambda>l. (pl_post_id l, pl_user_id l)) ` set (post_likes d)"

lemma in_like_pairs:
  "(i, u) \<in> like_pairs d \<longleftrightarrow> (\<exists>l \<in> set (post_likes d). pl_post_id l = i \<and> pl_user_id l = u)"
  by (auto simp: like_pairs_def)

lemma toggle_like_pairs:
  "toggle_like i u now d = Some (d', n) \<Longrightarrow> like_pairs d' = sym_diff (like_pairs d) {(i, u)}"
  by (auto simp: toggle_like_def like_pairs_def Let_def split: if_splits)

lemma UpdateLike_pairs:
  assumes "PostService_UpdateLikeOnPostByUserID (post_main E) u i w = (r, w')"
  shows "like_pairs (db w') = (if r = Ret () then sym_diff (like_pairs (db w)) {(i, u)}
     else like_pairs (db w))"
proof (cases "next_fault w")
  case (Some m)
  then show ?thesis
    using assms
    by (auto simp: PostService_UpdateLikeOnPostByUserID_def DBPostStore_UpdateLikeOnPostByUserID_def act)
next
  case None
  show ?thesis
  proof (cases "toggle_like i u (clock w) (db w)")
    case None
    then show ?thesis
      using assms \<open>next_fault w = None\<close>
      by (auto simp: PostService_UpdateLikeOnPostByUserID_def DBPostStore_UpdateLikeOnPostByUserID_def act)
  next
    case (Some dn)
    obtain d' n where dn: "dn = (d', n)" by fastforce
    then have "r = Ret ()" and "db w' = d'"
      using assms Some \<open>next_fault w = None\<close>
      by (auto simp: PostService_UpdateLikeOnPostByUserID_def
          DBPostStore_UpdateLikeOnPostByUserID_def act)
    then show ?thesis
      using toggle_like_pairs Some dn by metis
  qed
qed

subsection \<open>The feed\<close>

lemma window_map: "window l off (map f xs) = map f (window l off xs)"
  by (simp add: window_def take_map drop_map)

lemma rows_loop_map:
  assumes "\<And>r v x v'. body r v = (Ret x, v') \<Longrightarrow> f x = g r"
  shows "rows_loop body rs w = (Ret xs, w') \<Longrightarrow> map f xs = map g rs"
  by (induction rs arbitrary: w xs)
     (auto simp: act dest: assms split: prod.splits res.splits)

lemma load_post_Ret:
  assumes "load_post r w = (Ret p, w')"
  shows "pdb_ID p = ucast (pj_id r) \<and> pdb_AuthorID p = ucast (pj_author_id r) \<and>
    pdb_CommunityID p = pj_community_id r \<and> pdb_Text p = pj_text r \<and>
    pdb_IsLiked p = pj_liked_by_user r"
  using assms
  by (auto simp: load_post_def act dest!: scan_post_Ret split: option.splits prod.splits res.splits)

lemma enrichPosts_map:
  assumes "PostService_enrichPostsWithProfiles s ps w = (Ret views, w')"
    and "\<And>m p. f (PostView_of m p) = g p"
  shows "map f views = map g ps"
  using assms
  by (auto simp: PostService_enrichPostsWithProfiles_def Let_def act split: if_splits prod.splits res.splits)

lemma PostsPaginate_rows:
  assumes "PostService_PostsPaginate (post_main E) u params w = (Ret views, w')"
    "ValidatePaginationParams params = (offset, limit)"
  shows "map (\<lambda>v. (pv_ID v, pv_AuthorID v, pv_CommunityID v, pv_Text v, pv_IsLiked v)) views =
    map (\<lambda>p. (ucast (po_id p), ucast (po_author_id p), po_community_id p, po_text p,
        (po_id p, u) \<in> like_pairs (db w)))
      (window limit offset (sort_key (\<lambda>p. - po_created_at p) (filter (in_feed u (db w)) (posts (db w)))))"
proof -
  let ?rows = "sort_key (\<lambda>p. - po_created_at p) (filter (in_feed u (db w)) (posts (db w)))"
  obtain ps v1 v2 where l: "rows_loop load_post (window limit offset (select_posts (in_feed u) u (db w))) v1 = (Ret ps, v2)"
    and e: "PostService_enrichPostsWithProfiles (post_main E) ps (tick v2) = (Ret views, w')"
    using assms
    by (auto simp: PostService_PostsPaginate_def DBPostStore_PostsPaginatedList_def call_def
        query_page_def rows_Err_def external_def throw_def ret_def
        split: option.splits prod.splits res.splits if_splits)
  have "map (\<lambda>v. (pv_ID v, pv_AuthorID v, pv_CommunityID v, pv_Text v, pv_IsLiked v)) views =
      map (\<lambda>p. (pdb_ID p, pdb_AuthorID p, pdb_CommunityID p, pdb_Text p, pdb_IsLiked p)) ps"
    by (rule enrichPosts_map [OF e]) (simp add: PostView_of_def Let_def split: option.splits prod.splits)
  also have "\<dots> = map (\<lambda>r. (ucast (pj_id r), ucast (pj_author_id r), pj_community_id r, pj_text r, pj_liked_by_user r))
      (window limit offset (select_posts (in_feed u) u (db w)))"
    by (rule rows_loop_map [OF _ l]) (auto dest: load_post_Ret)
  also have "\<dots> = map (\<lambda>p. (ucast (po_id p), ucast (po_author_id p), po_community_id p, po_text p,
        (po_id p, u) \<in> like_pairs (db w))) (window limit offset ?rows)"
    by (simp add: select_posts_def window_map join_post_def in_like_pairs Let_def o_def)
  finally show ?thesis .
qed

subsection \<open>A comment that was created can be read\<close>

definition authors_map :: "int32 list \<Rightarrow> database \<Rightarrow> int32 \<Rightarrow> pb_ShortProfile option" where
  "authors_map ids d = ToProtoShortProfileMap (if ids = [] then Map.empty else
     foldl (\<lambda>m u. m(sp_UserID u \<mapsto> u)) Map.empty
       (map (\<lambda>u. u\<lparr>sp_Dob := zero_time\<rparr>) (select_profiles ids d)))"

lemma authors_map_comments [simp]: "authors_map ids (d\<lparr>comments := cs\<rparr>) = authors_map ids d"
  by (simp add: authors_map_def select_profiles_def)

lemma profile_map_no_faults:
  assumes "no_faults w"
  shows "\<exists>w'. pc_GetShortProfileMapByUserIDs (profile_conn E) ids w = (Ret (authors_map ids (db w)), w') \<and>
    quiet w w' \<and> no_faults w'"
proof -
  obtain r w' where c: "pc_GetShortProfileMapByUserIDs (profile_conn E) ids w = (r, w')" by fastforce
  have "quiet w w'" using reads_profile_map c by (rule readsD)
  obtain v where v: "scan_rows (\<lambda>err. err) (map (\<lambda>u. u\<lparr>sp_Dob := zero_time\<rparr>) (select_profiles ids (db w)))
      (tick (tick w)) = (Ret (map (\<lambda>u. u\<lparr>sp_Dob := zero_time\<rparr>) (select_profiles ids (db w))), v)" "no_faults v"
    using scan_rows_no_faults [OF no_faults_tick [OF no_faults_tick [OF assms]]] by blast
  show ?thesis
    using c assms v \<open>quiet w w'\<close>
    by (auto simp: profile_conn_def profile_client_def GrpcProfileHandler_GetShortProfileMapByUserIDs_def
      ProfileService_GetShortProfileMapByUserIDs_def profile_main_def DBProfileStore_def
      DBProfileStore_GetShortProfileMapByUserIDs_def Let_def act authors_map_def)
qed

lemma find_append_new: "x \<notin> k ` set rs \<Longrightarrow> k r = x \<Longrightarrow> find (\<lambda>r. k r = x) (rs @ [r]) = Some r"
  by (induction rs) auto

lemma profile_map_Ret:
  assumes "pc_GetShortProfileMapByUserIDs (profile_conn E) ids w = (Ret m, w')"
  shows "m = authors_map ids (db w)"
  using assms
  by (auto simp: profile_conn_def profile_client_def GrpcProfileHandler_GetShortProfileMapByUserIDs_def
      ProfileService_GetShortProfileMapByUserIDs_def profile_main_def DBProfileStore_def
      DBProfileStore_GetShortProfileMapByUserIDs_def Let_def act authors_map_def dest!: scan_rows_Ret
      split: option.splits prod.splits res.splits if_splits)

lemma CreateComment_Ret:
  assumes "DBCommentStore_CreateComment c w = (Ret c', w')" "c_ParentID c = None"
  shows "\<exists>row. db w' = db w\<lparr>comments := comments (db w) @ [row]\<rparr> \<and>
    co_id row \<notin> co_id ` set (comments (db w)) \<and> c' = scan_comment row \<and>
    co_post_id row = c_PostID c \<and> co_author_id row = c_AuthorID c \<and> co_text row = c_Text c"
proof -
  obtain i now row where "insert_comment (c_PostID c) (c_AuthorID c) (c_Text c) i now (db w) = Some (db w', row)"
      "c' = c\<lparr>c_ID := co_id row, c_CreatedAt := co_created_at row, c_UpdatedAt := co_updated_at row\<rparr>"
    using assms(1)
    by (auto simp: DBCommentStore_CreateComment_def nextval_def act
        split: option.splits prod.splits if_splits)
  then show ?thesis
    using assms(2)
    by (intro exI [of _ row])
       (cases c, auto simp: insert_comment_def scan_comment_def Let_def split: if_splits)
qed

lemma CreateComment_then_GetComment:
  assumes created: "CommentService_CreateComment v (comment_main E) u req w = (Ret view, w')"
    and "no_faults w'"
  shows "cv_AuthorID view = u \<and> cv_Text view = cr_Text req \<and> cv_PostID view = cr_PostID req \<and>
    fst (CommentService_GetComment (comment_main E) u' (cv_ID view) w') = Ret view"
proof -
  obtain p v1 c v2 where
    p: "DBPostStore_GetPostByID u (scast (cr_PostID req)) w = (Ret p, v1)" and
    c: "DBCommentStore_CreateComment \<lparr>c_ID = 0, c_PostID = cr_PostID req, c_AuthorID = u,
         c_ParentID = None, c_Text = cr_Text req, c_CreatedAt = zero_time, c_UpdatedAt = zero_time\<rparr> v1
       = (Ret c, v2)" and
    e: "CommentService_enrichCommentWithProfile (comment_main E) c v2 = (Ret view, w')"
    using created
    by (auto simp: CommentService_CreateComment_def Let_def call_def throw_def
        split: if_splits prod.splits res.splits)
  obtain row where row: "db v2 = db v1\<lparr>comments := comments (db v1) @ [row]\<rparr>"
      "co_id row \<notin> co_id ` set (comments (db v1))" "c = scan_comment row"
      "co_post_id row = cr_PostID req" "co_author_id row = u" "co_text row = cr_Text req"
    using CreateComment_Ret [OF c] by auto
  have view: "view = CommentView_of (authors_map [u] (db v2)) c" and "quiet v2 w'"
    using e row reads_profile_map
    by (auto simp: CommentService_enrichCommentWithProfile_def act scan_comment_def
        dest: profile_map_Ret readsD split: prod.splits res.splits)
  then have same: "db w' = db v2" by (simp add: quiet_sel)
  then have "find_comment (co_id row) (db w') = Some c"
    using row find_append_new [of "co_id row" co_id "comments (db v1)" row]
    by (simp add: find_comment_def)
  then have get: "DBCommentStore_GetCommentByID (co_id row) w' = (Ret c, tick w')"
    using assms(2) by (simp add: DBCommentStore_GetCommentByID_def act)
  obtain v3 where "pc_GetShortProfileMapByUserIDs (profile_conn E) [u] (tick w') =
      (Ret (authors_map [u] (db (tick w'))), v3)"
    using profile_map_no_faults [OF no_faults_tick [OF assms(2)]] by blast
  then have "fst (CommentService_GetComment (comment_main E) u' (co_id row) w') = Ret view"
    using get row(3,5) same view
    by (simp add: CommentService_GetComment_def CommentService_enrichCommentWithProfile_def act
        scan_comment_def)
  moreover have "cv_ID view = co_id row" "cv_AuthorID view = u" "cv_Text view = cr_Text req"
      "cv_PostID view = cr_PostID req"
    using view row by (simp_all add: CommentView_of_def scan_comment_def Let_def split: prod.splits option.splits)
  ultimately show ?thesis by simp
qed

subsection \<open>Requests on what another user wrote\<close>

text \<open>The user wrote what the request to change is about.\<close>

fun authored :: "content_route \<Rightarrow> database \<Rightarrow> int32 \<Rightarrow> int32 \<Rightarrow> bool" where
  "authored Route_UpdatePost d u i = (\<exists>p \<in> set (posts d). po_id p = i \<and> po_author_id p = u)"
| "authored Route_DeletePost d u i = (\<exists>p \<in> set (posts d). po_id p = i \<and> po_author_id p = u)"
| "authored Route_UpdateComment d u i = (\<exists>c \<in> set (comments d). co_id c = i \<and> co_author_id c = u)"
| "authored Route_DeleteComment d u i = (\<exists>c \<in> set (comments d). co_id c = i \<and> co_author_id c = u)"
| "authored _ d u i = True"

definition refused :: "world \<Rightarrow> http_response res \<times> world \<Rightarrow> bool" where
  "refused w o' \<longleftrightarrow> quiet w (snd o') \<and> status_of (fst o') \<in> {Some 400, Some 403, Some 404, Some 500}"

lemma refused_error: "quiet w v \<Longrightarrow> e \<in> content_errors \<Longrightarrow> refused w (sendJSONError e v)"
  using content_errors_status [of e]
  by (auto simp: refused_def sendJSONError_status sendJSONResponse_def)

lemma refused_call:
  assumes "quiet w v" "reads m" "answers content_errors m"
    "\<And>x v'. quiet w v' \<Longrightarrow> refused w (k x v')"
  shows "refused w (call m sendJSONError k v)"
proof -
  obtain r v' where m: "m v = (r, v')" by fastforce
  have "quiet w v'" using quiet_trans [OF assms(1)] readsD [OF assms(2) m] by blast
  from answers_cases [OF assms(3) m] this show ?thesis
    by cases (auto simp: call_def m assms(4) refused_error)
qed

lemma refused_last:
  assumes "quiet w v" "\<And>r v'. m v = (r, v') \<Longrightarrow> quiet v v' \<and> (\<exists>e \<in> content_errors. r = Fail e)"
  shows "refused w (call m sendJSONError k v)"
proof -
  obtain r v' where m: "m v = (r, v')" by fastforce
  then show ?thesis
    using assms(2) [OF m] quiet_trans [OF assms(1)] by (auto simp: call_def refused_error)
qed

lemma reads_handler_helpers:
  "reads (ParseMultipart r)" "reads (MultipartFiles form n)" "reads (DecodeJSONBody dj r)"
proof -
  have "reads (MultipartToFile h)" for h by (auto simp: MultipartToFile_def)
  then have "reads (MultipartListToFiles hs)" for hs by (induction hs) auto
  then show "reads (MultipartFiles form n)" by (auto simp: MultipartFiles_def)
qed (auto simp: ParseMultipart_def DecodeJSONBody_def)

text \<open>A path variable that is not a number is refused as well.\<close>

lemma bad_id_refused:
  assumes "path_int32 (rq_Vars r) ''id'' = None" "\<not> authored route d u i"
  shows "refused w (content_endpoint E H V route r w)"
  using assms
  by (cases route)
     (auto simp: PostsHandler_UpdatePost_def PostsHandler_DeletePost_def CommentHandler_UpdateComment_def
       CommentHandler_DeleteComment_def call_def PathInt32_path content_errors_def intro: refused_error)

lemma not_author_refused:
  assumes user: "ctx_userID r = u" and i: "path_int32 (rq_Vars r) ''id'' = Some i"
    and not: "\<not> authored route (db w) u i"
  shows "refused w (content_endpoint E H V route r w)"
proof -
  have path: "call (PathInt32 r ''id'') sendJSONError k w = k i w" for k :: "int32 \<Rightarrow> http_response action"
    using i by (simp add: call_def PathInt32_path)
  have q: "db v = db w" if "quiet w v" for v using that by (simp add: quiet_sel)
  consider "route = Route_UpdatePost" | "route = Route_DeletePost" | "route = Route_UpdateComment"
    | "route = Route_DeleteComment"
    using not by (cases route) auto
  then show ?thesis
  proof cases
    case 1
    have refusal: "refused w (call (PostService_UpdatePost vt (post_main E) (scast i) u t fs gs) sendJSONError k v)"
      if "quiet w v" for vt t fs gs k v
      using not 1 q [OF that]
      by (intro refused_last [OF that]) (auto simp: content_errors_def dest!: UpdatePost_not_author)
    then show ?thesis
      unfolding 1 by (simp add: PostsHandler_UpdatePost_def path user Let_def)
        (rule refusal, assumption | rule refused_call reads_handler_helpers answers_helpers quiet_refl
          | assumption)+
  next
    case 2
    with not show ?thesis
      by (auto simp: PostsHandler_DeletePost_def path user Let_def content_errors_def
          intro!: refused_last dest!: DeletePost_not_author)
  next
    case 3
    have refusal: "refused w (call (CommentService_UpdateComment vt (comment_main E) i u t) sendJSONError k v)"
      if "quiet w v" for vt t k v
      using not 3 q [OF that]
      by (intro refused_last [OF that]) (auto simp: content_errors_def dest!: UpdateComment_not_author)
    then show ?thesis
      unfolding 3 by (simp add: CommentHandler_UpdateComment_def path user Let_def)
        (rule refusal, assumption | rule refused_call reads_handler_helpers answers_helpers quiet_refl
          | assumption)+
  next
    case 4
    with not show ?thesis
      by (auto simp: CommentHandler_DeleteComment_def path user Let_def content_errors_def
          intro!: refused_last dest!: DeleteComment_not_author)
  qed
qed

end
