(* ===== verification/Comment_Threads.thy ===== *)
theory Comment_Threads
  imports Post_Facts
begin

text \<open>
  Deleting comments: ON DELETE CASCADE on the parent of a comment (db/migrations) computes, in rounds,
  exactly the comments that answer, at whatever depth, one of those deleted.
\<close>

text \<open>The reference: a comment is in a doomed thread if it, or the one it answers, is.\<close>

inductive doomed :: "(comment_row \<Rightarrow> bool) \<Rightarrow> comment_row list \<Rightarrow> int32 \<Rightarrow> bool"
  for p rows where
  deleted: "r \<in> set rows \<Longrightarrow> p r \<Longrightarrow> doomed p rows (co_id r)"
| reply: "r \<in> set rows \<Longrightarrow> co_parent_id r = Some i \<Longrightarrow> doomed p rows i \<Longrightarrow> doomed p rows (co_id r)"

inductive_cases doomedE: "doomed p rows i"

lemma cascade_is_filter: "\<exists>q. cascade_replies n ids rows = filter q rows"
proof (induction n arbitrary: ids rows)
  case 0
  show ?case by (rule exI [of _ "\<lambda>_. True"]) simp
next
  case (Suc n)
  define reply where
    "reply = (\<lambda>r :: comment_row. case co_parent_id r of None \<Rightarrow> False | Some i \<Rightarrow> i \<in> set ids)"
  show ?case
  proof (cases "filter reply rows = []")
    case True
    then have "cascade_replies (Suc n) ids rows = rows" by (simp add: reply_def Let_def)
    then show ?thesis by (intro exI [of _ "\<lambda>_. True"]) simp
  next
    case False
    obtain q where "cascade_replies n (map co_id (filter reply rows)) (filter (\<lambda>r. \<not> reply r) rows) =
        filter q (filter (\<lambda>r. \<not> reply r) rows)"
      using Suc.IH by blast
    with False have "cascade_replies (Suc n) ids rows = filter (\<lambda>r. \<not> reply r \<and> q r) rows"
      by (simp add: reply_def [symmetric] Let_def conj_commute del: filter_empty_conv)
    then show ?thesis by blast
  qed
qed

lemma filter_by_result:
  assumes "xs = filter q rows" shows "xs = filter (\<lambda>r. r \<in> set xs) rows"
  unfolding assms by (rule filter_cong) auto

text \<open>Whatever a round removes is doomed.\<close>

lemma cascade_removes_doomed:
  assumes "\<And>i. i \<in> set ids \<Longrightarrow> doomed p all i" "set rows \<subseteq> set all"
    and "r \<in> set rows" "r \<notin> set (cascade_replies n ids rows)"
  shows "doomed p all (co_id r)"
  using assms
proof (induction n arbitrary: ids rows)
  case (Suc n)
  define reply where
    "reply = (\<lambda>r :: comment_row. case co_parent_id r of None \<Rightarrow> False | Some i \<Rightarrow> i \<in> set ids)"
  have d: "doomed p all (co_id x)" if "x \<in> set rows" "reply x" for x
    using that Suc.prems(1,2) by (auto simp: reply_def intro: doomed.reply split: option.splits)
  show ?case
  proof (cases "filter reply rows = []")
    case True
    then have "cascade_replies (Suc n) ids rows = rows" by (simp add: reply_def Let_def)
    then show ?thesis using Suc.prems(3,4) by simp
  next
    case False
    then have c: "cascade_replies (Suc n) ids rows =
        cascade_replies n (map co_id (filter reply rows)) (filter (\<lambda>r. \<not> reply r) rows)"
      by (simp add: reply_def [symmetric] Let_def del: filter_empty_conv)
    show ?thesis
    proof (cases "reply r")
      case True with d Suc.prems(3) show ?thesis by blast
    next
      case False
      show ?thesis
        by (rule Suc.IH [of "map co_id (filter reply rows)" "filter (\<lambda>r. \<not> reply r) rows"])
          (use d Suc.prems(2-4) c False in auto)
    qed
  qed
qed simp

lemma delete_comments_doomed:
  assumes ids: "distinct (map co_id rows)" and parents: "parents_among (co_id ` set rows) rows"
  shows "delete_comments p rows = filter (\<lambda>r. \<not> doomed p rows (co_id r)) rows"
proof -
  let ?X = "delete_comments p rows"
  obtain q where "?X = filter q (filter (\<lambda>r. \<not> p r) rows)"
    unfolding delete_comments_def using cascade_is_filter by blast
  then have X: "?X = filter (\<lambda>r. r \<in> set ?X) rows"
    by (intro filter_by_result [of _ "\<lambda>r. \<not> p r \<and> q r"]) (simp add: conj_commute)
  have sub: "set ?X \<subseteq> {r \<in> set rows. \<not> p r}" by (rule delete_comments_subset)
  have kept: "i \<notin> co_id ` set ?X" if "doomed p rows i" for i
    using that
  proof induction
    case (deleted r)
    then show ?case using sub distinct_key_inj [OF ids] by blast
  next
    case (reply r i)
    show ?case
    proof
      assume "co_id r \<in> co_id ` set ?X"
      then have "r \<in> set ?X" using reply.hyps(1) sub distinct_key_inj [OF ids] by blast
      then have "i \<in> co_id ` set ?X"
        using delete_comments_parents [OF parents, of p] reply.hyps(2) by (auto simp: parents_among_def)
      with reply.IH show False by blast
    qed
  qed
  have "doomed p rows (co_id r)" if "r \<in> set rows" "r \<notin> set ?X" for r
  proof (cases "p r")
    case True with that(1) show ?thesis by (rule doomed.deleted)
  next
    case False
    show ?thesis
      by (rule cascade_removes_doomed [of "map co_id (filter p rows)" p rows "filter (\<lambda>r. \<not> p r) rows"])
        (use that False in \<open>auto simp: delete_comments_def intro: doomed.deleted\<close>)
  qed
  with kept have "filter (\<lambda>r. r \<in> set ?X) rows = filter (\<lambda>r. \<not> doomed p rows (co_id r)) rows"
    by (intro filter_cong) auto
  with X show ?thesis by simp
qed

text \<open>
  A comment's author deletes it with the thread below it, and nothing else; whatever fails, either the
  whole thread is gone or nothing is.
\<close>

lemma DeleteComment_effect:
  assumes "CommentService_DeleteComment (comment_main E) i u w = (r, w')" "wf_content (db w)"
  shows "case r of
      Ret _ \<Rightarrow> (\<exists>c \<in> set (comments (db w)). co_id c = i \<and> co_author_id c = u) \<and>
        db w' = db w\<lparr>comments := filter (\<lambda>c. \<not> doomed (\<lambda>c. co_id c = i) (comments (db w)) (co_id c))
          (comments (db w))\<rparr>
    | Fail e \<Rightarrow> db w' = db w | Panic \<Rightarrow> False"
proof -
  define hit where "hit = (\<lambda>r :: comment_row. co_id r = i \<and> co_author_id r = u)"
  have wf: "distinct (map co_id (comments (db w)))"
      "parents_among (co_id ` set (comments (db w))) (comments (db w))"
    using assms(2) by (auto simp: wf_content_def wf_comments_def)
  obtain q v where l: "DBCommentStore_GetCommentByID i w = (q, v)" by fastforce
  have d: "db v = db w" using readsD [OF reads_comments(1) l] by (simp add: quiet_sel)
  show ?thesis
  proof (cases "\<exists>c. q = Ret c \<and> c_AuthorID c = u")
    case False
    moreover have "q \<noteq> Panic" using no_panicD [OF no_panic_comment_store(2) l] .
    ultimately show ?thesis
      using assms(1) l d by (cases q)
        (auto simp: CommentService_DeleteComment_def call_def throw_def split: if_splits)
  next
    case True
    then obtain c where c: "q = Ret c" "c_AuthorID c = u" by blast
    then obtain row where row: "row \<in> set (comments (db w))" "co_id row = i" "co_author_id row = u"
      using GetCommentByID_cases [OF l] find_comment_Some by fastforce
    have same: "hit x \<longleftrightarrow> co_id x = i" if "x \<in> set (comments (db w))" for x
      using row that distinct_key_inj [OF wf(1)] by (auto simp: hit_def)
    have "doomed hit (comments (db w)) j \<longleftrightarrow> doomed (\<lambda>c. co_id c = i) (comments (db w)) j" for j
    proof
      show "doomed hit (comments (db w)) j \<Longrightarrow> doomed (\<lambda>c. co_id c = i) (comments (db w)) j"
        by (induction rule: doomed.induct) (auto intro: doomed.intros simp: same)
      show "doomed (\<lambda>c. co_id c = i) (comments (db w)) j \<Longrightarrow> doomed hit (comments (db w)) j"
        by (induction rule: doomed.induct) (auto intro: doomed.intros simp: same)
    qed
    then have del: "delete_comments hit (comments (db w)) =
        filter (\<lambda>c. \<not> doomed (\<lambda>c. co_id c = i) (comments (db w)) (co_id c)) (comments (db w))"
      using delete_comments_doomed [OF wf, of hit] by simp
    have hits: "filter hit (comments (db w)) \<noteq> []"
      using row by (auto simp: hit_def filter_empty_conv)
    obtain q' v' where s: "DBCommentStore_DeleteComment i u v = (q', v')" by fastforce
    have q': "case q' of Ret _ \<Rightarrow> db v' = db w\<lparr>comments := delete_comments hit (comments (db w))\<rparr>
        | Fail e \<Rightarrow> db v' = db w | Panic \<Rightarrow> False"
      using s d hits by (auto simp: DBCommentStore_DeleteComment_def Let_def act hit_def split: option.splits)
    have "case r of Ret _ \<Rightarrow> db w' = db w\<lparr>comments := delete_comments hit (comments (db w))\<rparr>
        | Fail e \<Rightarrow> db w' = db w | Panic \<Rightarrow> False"
      using assms(1) l c s q'
      by (cases q') (auto simp: CommentService_DeleteComment_def call_def throw_def ret_def)
    with row show ?thesis unfolding del by (cases r) auto
  qed
qed

end
