(* ===== verification/Post_Properties.thy ===== *)
theory Post_Properties
  imports Examples Comment_Threads
begin

text \<open>
  The properties of posts and comments, and two flaws the model makes visible.
\<close>

subsection \<open>An instance\<close>

text \<open>A post of user 1 with one attachment, a comment of user 1 and a like of user 2.\<close>

definition example_content_db :: database where
  "example_content_db = (db example_world)\<lparr>
     posts := [\<lparr>po_id = 1, po_author_id = 1, po_community_id = None, po_text = ''hello'',
                po_created_at = 10, po_updated_at = 10\<rparr>],
     post_attachments := [\<lparr>pf_id = 1, pf_post_id = 1, pf_file_path = ''a.pdf'', pf_created_at = 10\<rparr>],
     post_likes := [\<lparr>pl_post_id = 1, pl_user_id = 2, pl_created_at = 11, pl_updated_at = 11\<rparr>],
     comments := [\<lparr>co_id = 1, co_post_id = 1, co_author_id = 1, co_parent_id = None,
                   co_text = ''first'', co_created_at = 12, co_updated_at = 12\<rparr>],
     communities := [\<lparr>cm_id = 1, cm_name = ''club'', cm_description = [], cm_creator_id = 1,
                   cm_avatar_path = None, cm_cover_path = None, cm_created_at = 5, cm_updated_at = 5\<rparr>]\<rparr>"

definition example_content :: world where
  "example_content = example_world\<lparr>db := example_content_db\<rparr>"

definition example_valid :: content_valid where
  "example_valid = \<lparr>valid_PostText = (\<lambda>t. length t \<le> 4096), valid_CommentCreate = (\<lambda>_. True),
     valid_CommentUpdate = (\<lambda>_. True)\<rparr>"

section \<open>Posts and comments\<close>

text \<open>
  The tables of posts and comments stay well-formed. Whatever requests arrive at the fourteen
  endpoints, in whatever order and with whatever failing calls: ids and likes stay unique, every
  post, like, file and comment refers to rows that exist, the CHECK constraints hold, and no comment
  replies to a comment that was deleted.
\<close>

theorem content_tables_stay_well_formed:
  assumes "wf_content (db w)"
  shows "wf_content (db (serve_content E H V requests w))"
  using assms by (rule serve_content_wf)

theorem content_tables_stay_well_formed_witness:
  "wf_content (db (serve_content example_libs example_http_libs example_valid
     [(Route_CreateComment, example_request 2 1), (Route_DeletePost, example_request 1 1)]
     example_content))"
proof -
  have "wf_content (db example_content)" by code_simp
  then show ?thesis by (rule content_tables_stay_well_formed)
qed

text \<open>
  Every request to posts and comments is answered. No endpoint panics, and the status of the
  response is 200, 400, 403, 404 or 500.
\<close>

theorem content_requests_are_answered:
  "\<exists>resp w'. content_endpoint E H V route r w = (Ret resp, w') \<and>
     rs_Status resp \<in> {200, 400, 403, 404, 500}"
proof -
  obtain o' w' where c: "content_endpoint E H V route r w = (o', w')" by fastforce
  then show ?thesis
    using replies_content_endpoint [of E H V route r]
    by (cases o') (auto simp: replies_def dest!: spec [of _ w])
qed

text \<open>
  Only its author changes or deletes a post or a comment. A request for that by anybody else is
  refused with an error status, and it changes nothing: no table, no file, no clock.
\<close>

theorem only_the_author_changes:
  assumes "rq_UserID r = Some u" "rq_Vars r ''id'' = Some (strconv_Itoa (sint i))"
    and "\<not> authored route (db w) u i"
  shows "quiet w (snd (content_endpoint E H V route r w)) \<and>
    status_of (fst (content_endpoint E H V route r w)) \<in> {Some 400, Some 403, Some 404, Some 500}"
  using not_author_refused [of r u i] assms by (simp add: refused_def ctx_userID_def)

theorem only_the_author_changes_witness:
  "db (snd (content_endpoint example_libs example_http_libs example_valid Route_DeletePost
     (example_request 2 1) example_content)) = example_content_db"
proof -
  have r: "rq_UserID (example_request 2 1) = Some 2"
      "rq_Vars (example_request 2 1) ''id'' = Some (strconv_Itoa (sint (1 :: int32)))"
    by (simp_all add: example_request_def)
  have "\<not> authored Route_DeletePost (db example_content) 2 1" by code_simp
  from only_the_author_changes [OF r this, of example_libs example_http_libs example_valid]
  have "quiet example_content (snd (content_endpoint example_libs example_http_libs example_valid
      Route_DeletePost (example_request 2 1) example_content))"
    by blast
  then show ?thesis by (simp only: quiet_sel) (simp add: example_content_def)
qed


text \<open>
  C18. The feed. A page of it that is returned holds exactly the window of the newest-first posts that
  are in no community or in one that the user has a subscription to, each with its author, text and
  whether the user likes it: no post of a community is shown to a user who is not subscribed to it.
\<close>

theorem feed_is_the_window_of_visible_posts:
  assumes "PostService_PostsPaginate (post_main E) u params w = (Ret views, w')"
    and "ValidatePaginationParams params = (offset, limit)"
  shows "map (\<lambda>v. (pv_ID v, pv_AuthorID v, pv_CommunityID v, pv_Text v, pv_IsLiked v)) views =
    map (\<lambda>p. (ucast (po_id p), ucast (po_author_id p), po_community_id p, po_text p,
        (po_id p, u) \<in> like_pairs (db w)))
      (window limit offset (sort_key (\<lambda>p. - po_created_at p)
        (filter (\<lambda>p. po_community_id p = None \<or> po_community_id p \<in>
            (\<lambda>s. Some (sb_community_id s)) ` {s \<in> set (community_subscriptions (db w)). sb_user_id s = u})
          (posts (db w)))))"
proof -
  have "in_feed u (db w) = (\<lambda>p. po_community_id p = None \<or> po_community_id p \<in>
      (\<lambda>s. Some (sb_community_id s)) ` {s \<in> set (community_subscriptions (db w)). sb_user_id s = u})"
    by (intro ext) (auto simp: in_feed_def split: option.splits)
  then show ?thesis using PostsPaginate_rows [OF assms] by (simp only:)
qed

text \<open>
  User 2 is subscribed to community 1 and not to community 2: of a post outside communities and one in
  each, the feed shows the first two, the newest first.
\<close>

definition example_feed :: world where
  "example_feed = example_world\<lparr>db := example_content_db\<lparr>
     posts := [\<lparr>po_id = 1, po_author_id = 1, po_community_id = None, po_text = ''hello'',
                po_created_at = 10, po_updated_at = 10\<rparr>,
               \<lparr>po_id = 2, po_author_id = 1, po_community_id = Some 1, po_text = ''members'',
                po_created_at = 20, po_updated_at = 20\<rparr>,
               \<lparr>po_id = 3, po_author_id = 1, po_community_id = Some 2, po_text = ''others'',
                po_created_at = 30, po_updated_at = 30\<rparr>],
     community_subscriptions := [\<lparr>sb_community_id = 1, sb_user_id = 2, sb_created_at = 6\<rparr>]\<rparr>\<rparr>"

theorem feed_is_the_window_of_visible_posts_witness:
  "\<exists>views. fst (PostService_PostsPaginate (post_main example_libs) 2 \<lparr>Limit = 10, Page = 1\<rparr>
     example_feed) = Ret views \<and>
   map (\<lambda>v. (pv_ID v, pv_AuthorID v, pv_CommunityID v, pv_Text v, pv_IsLiked v)) views =
     [(2, 1, Some 1, ''members'', False), (1, 1, None, ''hello'', True)]"
proof -
  let ?m = "PostService_PostsPaginate (post_main example_libs) 2 \<lparr>Limit = 10, Page = 1\<rparr> example_feed"
  let ?view = "\<lambda>v. (pv_ID v, pv_AuthorID v, pv_CommunityID v, pv_Text v, pv_IsLiked v)"
  have "(case fst ?m of Ret _ \<Rightarrow> True | _ \<Rightarrow> False)" by code_simp
  then obtain views w' where m: "?m = (Ret views, w')"
    by (cases ?m) (auto split: res.splits)
  have p: "ValidatePaginationParams \<lparr>Limit = 10, Page = 1\<rparr> = (0, 10)" by code_simp
  have "map (\<lambda>p. (ucast (po_id p), ucast (po_author_id p), po_community_id p, po_text p,
        (po_id p, 2) \<in> like_pairs (db example_feed)))
      (window 10 0 (sort_key (\<lambda>p. - po_created_at p)
        (filter (\<lambda>p. po_community_id p = None \<or> po_community_id p \<in> (\<lambda>s. Some (sb_community_id s)) `
            {s \<in> set (community_subscriptions (db example_feed)). sb_user_id s = 2})
          (posts (db example_feed))))) =
      [(2 :: go_uint, 1 :: go_uint, Some 1, ''members'', False), (1, 1, None, ''hello'', True)]"
    by code_simp
  with feed_is_the_window_of_visible_posts [OF m p] show ?thesis by (auto simp: m)
qed

text \<open>
  C12. The like button refines a toggle on the set of (post, user) pairs: a press that succeeds adds the
  pair if it was missing and removes it if it was there, and touches no other pair; a press that fails
  changes nothing. Two successful presses are as none.
\<close>

theorem like_button_toggles:
  "case PostService_UpdateLikeOnPostByUserID (post_main E) u i w of
     (r, w') \<Rightarrow> like_pairs (db w') =
       (if r = Ret () then sym_diff (like_pairs (db w)) {(i, u)} else like_pairs (db w))"
  using UpdateLike_pairs by (simp split: prod.splits)

text \<open>
  C19. A comment that was created can be read back. When creating a comment returned a view of it, after
  whatever failures, a later read of its id that meets none returns the same view to every user; it
  shows the author, the post and the text of the request.
\<close>

theorem created_comment_is_read_back:
  assumes "CommentService_CreateComment valid (comment_main E) u req w = (Ret view, w')"
    and "no_faults w'"
  shows "cv_AuthorID view = u \<and> cv_Text view = cr_Text req \<and> cv_PostID view = cr_PostID req \<and>
    fst (CommentService_GetComment (comment_main E) reader (cv_ID view) w') = Ret view"
  by (rule CreateComment_then_GetComment [OF assms])

theorem created_comment_is_read_back_witness:
  "\<exists>view w'. cv_AuthorID view = 2 \<and> cv_Text view = ''hi'' \<and>
     fst (CommentService_GetComment (comment_main example_libs) 3 (cv_ID view) w') = Ret view"
proof -
  let ?m = "CommentService_CreateComment (\<lambda>_. True) (comment_main example_libs) 2
    \<lparr>cr_PostID = 1, cr_Text = ''hi''\<rparr> example_content"
  have "(case ?m of (Ret _, w') \<Rightarrow> faults w' = [] | _ \<Rightarrow> False)" by code_simp
  then obtain view w' where m: "?m = (Ret view, w')" and "faults w' = []"
    by (cases ?m) (auto split: res.splits)
  then have "no_faults w'" by (simp add: no_faults_def)
  from created_comment_is_read_back [OF m this] show ?thesis by auto
qed

text \<open>
  C17. Deleting a comment takes exactly its thread. A deletion that succeeds was asked by the author; it
  keeps, in their order, the comments that are neither the deleted one nor, through any number of
  replies, an answer to it, and it touches no other table. A deletion that fails changes no table.
\<close>

theorem deleting_a_comment_takes_its_thread:
  assumes "CommentService_DeleteComment (comment_main E) i u w = (r, w')" "wf_content (db w)"
  shows "case r of
      Ret _ \<Rightarrow> (\<exists>c \<in> set (comments (db w)). co_id c = i \<and> co_author_id c = u) \<and>
        db w' = db w\<lparr>comments := filter (\<lambda>c. \<not> doomed (\<lambda>c. co_id c = i) (comments (db w)) (co_id c))
          (comments (db w))\<rparr>
    | Fail e \<Rightarrow> db w' = db w | Panic \<Rightarrow> False"
  by (rule DeleteComment_effect [OF assms])

text \<open>The comment of the instance, with a reply, a reply to that one, and another comment.\<close>

definition example_thread :: world where
  "example_thread = example_content\<lparr>db := example_content_db\<lparr>comments :=
     map (\<lambda>(i, parent). \<lparr>co_id = i, co_post_id = 1, co_author_id = 1, co_parent_id = parent,
       co_text = ''text'', co_created_at = 12, co_updated_at = 12\<rparr>)
       [(1, None), (2, Some 1), (3, None), (4, Some 2)]\<rparr>\<rparr>"

theorem deleting_a_comment_takes_its_thread_witness:
  "map co_id (comments (db (snd (CommentService_DeleteComment (comment_main example_libs) 1 1
     example_thread)))) = [3] \<and>
   doomed (\<lambda>c. co_id c = 1) (comments (db example_thread)) 4"
proof -
  let ?m = "CommentService_DeleteComment (comment_main example_libs) 1 1 example_thread"
  have "fst ?m = Ret ()" by code_simp
  then have m: "?m = (Ret (), snd ?m)" by (simp add: prod_eq_iff)
  have wf: "wf_content (db example_thread)" by code_simp
  have after: "map co_id (comments (db (snd ?m))) = [3]" by code_simp
  have "map co_id (comments (db example_thread)) = [1, 2, 3, 4]" by code_simp
  then have "4 \<in> set (map co_id (comments (db example_thread)))" by simp
  then obtain c where c: "c \<in> set (comments (db example_thread))" "co_id c = 4" by auto
  have "c \<notin> set (comments (db (snd ?m)))"
  proof
    assume "c \<in> set (comments (db (snd ?m)))"
    then have "4 \<in> set (map co_id (comments (db (snd ?m))))" using c(2) by (metis image_eqI set_map)
    then show False by (simp only: after) simp
  qed
  with c deleting_a_comment_takes_its_thread [OF m wf] after show ?thesis by auto
qed

section \<open>Two flaws\<close>

text \<open>
  The author of a post with one attachment edits its text; the connection fails while the row of the
  attachment is fetched.
\<close>

definition example_edit_request :: http_request where
  "example_edit_request = (example_request 1 1)\<lparr>rq_Method := ''PUT'',
     rq_Multipart := Some \<lparr>mp_Value = (\<lambda>k. if k = ''text'' then ''edited'' else []),
       mp_File = (\<lambda>_. [])\<rparr>\<rparr>"

definition example_flaky :: world where
  "example_flaky = example_content\<lparr>faults := [None, None, Some ''connection reset'']\<rparr>"

text \<open>
  Editing the text of a post can lose its attachments. When fetching their rows fails half-way,
  \<open>getPostAttachments\<close> does not notice (it does not check \<open>rows.Err\<close>), and the update writes back the
  shorter list: the author's request is answered 200 and the attachment is gone.
\<close>

theorem editing_a_text_can_lose_attachments:
  "let (o', w') = content_endpoint example_libs example_http_libs example_valid Route_UpdatePost
      example_edit_request example_flaky
   in status_of o' = Some 200 \<and> select_files (post_attachments (db example_flaky)) 1 = [''a.pdf''] \<and>
      select_files (post_attachments (db w')) 1 = []"
  by code_simp

text \<open>A post refused because the user did not create the community leaves its uploaded file behind.\<close>

definition example_post_request :: http_request where
  "example_post_request = (example_request 2 1)\<lparr>
     rq_Multipart := Some \<lparr>mp_Value = (\<lambda>k. if k = ''communityID'' then ''1'' else []),
       mp_File = (\<lambda>k. if k = ''attachments'' then [example_file] else [])\<rparr>\<rparr>"

definition example_upload_world :: world where
  "example_upload_world = example_content\<lparr>cwd := ''/app'', uuids := (\<lambda>_. ''u0'')\<rparr>"

lemma refused_post_leaves_its_file:
  "let (o', w') = content_endpoint example_libs example_http_libs example_valid Route_CreatePost
      example_post_request example_upload_world
   in status_of o' = Some 403 \<and> filesystem example_upload_world ''/app/uploads/u0.png'' = None \<and>
      filesystem w' ''/app/uploads/u0.png'' = Some (RegularFile [1])"
  by code_simp

end
