(* ===== verification/Community_Service.thy ===== *)
theory Community_Service
  imports Community_Store Elastic_Community_Store Post_Store Uploads
begin

text \<open>
  The service of communities (src/internal/service/community.go). Tag validation (govalidator) of a
  request is the parameter \<open>valid\<close>. A slice of files that is nil and one that is empty are the same
  list here; the handlers only pass nil or a slice with a file in it.
\<close>

record CommunityService =
  csv_communityStore :: CommunityStore
  csv_postStore :: PostStore
  csv_authService :: AuthServiceClient
  csv_elasticCommunityStore :: ElasticCommunityStore
  csv_profileService :: ProfileServiceClient

text \<open>\<open>if path != nil { DeleteFile(*path) }\<close>, the error ignored.\<close>

definition discard_file :: "string option \<Rightarrow> 'a action \<Rightarrow> 'a action" where
  "discard_file path k =
     (case path of None \<Rightarrow> k | Some p \<Rightarrow> call (DeleteFile p) (\<lambda>_. k) (\<lambda>_. k))"

text \<open>
  The first file of a slice that is not nil is uploaded; the result is the pointer to its name.
\<close>

definition upload_first :: "File list \<Rightarrow> string option \<Rightarrow> string option action" where
  "upload_first files otherwise =
     (case files of
        [] \<Rightarrow> ret otherwise
      | file # _ \<Rightarrow> call (UploadFile file) throw (\<lambda>path. ret (Some path)))"

subsection \<open>Writing\<close>

definition CommunityService_CreateCommunity ::
    "(CommunityRequest \<Rightarrow> bool) \<Rightarrow> CommunityService \<Rightarrow> int32 \<Rightarrow> CommunityRequest \<Rightarrow> File list \<Rightarrow>
     File list \<Rightarrow> Community action" where
  "CommunityService_CreateCommunity valid s userID req avatarFiles coverFiles =
     (if \<not> valid req then throw ErrInvalidInput
      else call (upload_first avatarFiles None) (\<lambda>err. throw ErrService)
      (\<lambda>avatarPath.
        call (upload_first coverFiles None) (\<lambda>err. discard_file avatarPath (throw ErrService))
      (\<lambda>coverPath.
        let community = \<lparr>com_ID = 0, com_Name = cq_Name req, com_Description = cq_Description req,
              com_CreatorID = userID, com_AvatarPath = avatarPath, com_CoverPath = coverPath,
              com_CreatedAt = zero_time, com_UpdatedAt = zero_time, com_SubscribersCount = 0\<rparr>
        in call (cms_CreateCommunity (csv_communityStore s) community)
             (\<lambda>err. discard_file avatarPath (discard_file coverPath (throw ErrDB)))
      (\<lambda>community.
        let subscribe =
              call (cms_Subscribe (csv_communityStore s) (com_ID community) userID)
                (\<lambda>err. ret community) (\<lambda>_. ret community)
        in call (ecs_CreateCommunity (csv_elasticCommunityStore s) (com_Name community) (com_ID community))
             (\<lambda>err. subscribe) (\<lambda>_. subscribe)))))"

text \<open>
  \<open>newAvatarPath != existingCommunity.AvatarPath\<close> compares pointers: they differ exactly when a new
  avatar was uploaded, whatever its name is. So for the cover.
\<close>

definition CommunityService_UpdateCommunity ::
    "(CommunityRequest \<Rightarrow> bool) \<Rightarrow> CommunityService \<Rightarrow> int32 \<Rightarrow> int32 \<Rightarrow> CommunityRequest \<Rightarrow>
     File list \<Rightarrow> File list \<Rightarrow> unit action" where
  "CommunityService_UpdateCommunity valid s communityID userID req avatarFiles coverFiles =
     (if \<not> valid req then throw ErrInvalidInput
      else call (cms_GetCommunityByID (csv_communityStore s) communityID)
        (\<lambda>err. if errors_Is err ErrNotFound then throw ErrNotFound else throw ErrDB)
      (\<lambda>existing.
        if com_CreatorID existing \<noteq> userID then throw ErrAccessDenied
        else
        let newAvatar = (avatarFiles \<noteq> []); newCover = (coverFiles \<noteq> []);
            oldAvatarPath = (if newAvatar then com_AvatarPath existing else None);
            oldCoverPath = (if newCover then com_CoverPath existing else None)
        in call (upload_first avatarFiles (com_AvatarPath existing)) (\<lambda>err. throw ErrService)
        (\<lambda>newAvatarPath.
           let uploadedAvatar = (if newAvatar then newAvatarPath else None)
           in call (upload_first coverFiles (com_CoverPath existing))
                (\<lambda>err. discard_file uploadedAvatar (throw ErrService))
        (\<lambda>newCoverPath.
           let uploadedCover = (if newCover then newCoverPath else None);
               updated = \<lparr>com_ID = communityID, com_Name = cq_Name req,
                 com_Description = cq_Description req, com_CreatorID = userID,
                 com_AvatarPath = newAvatarPath, com_CoverPath = newCoverPath,
                 com_CreatedAt = zero_time, com_UpdatedAt = zero_time, com_SubscribersCount = 0\<rparr>;
               finish = discard_file oldAvatarPath (discard_file oldCoverPath (ret ()))
           in call (cms_UpdateCommunity (csv_communityStore s) updated)
                (\<lambda>err. discard_file uploadedAvatar (discard_file uploadedCover (throw ErrDB)))
           (\<lambda>updated. call (ecs_UpdateCommunity (csv_elasticCommunityStore s)
                               (com_Name updated) (com_ID updated))
                        (\<lambda>err. finish) (\<lambda>_. finish))))))"

definition CommunityService_DeleteCommunity ::
    "CommunityService \<Rightarrow> int32 \<Rightarrow> int32 \<Rightarrow> unit action" where
  "CommunityService_DeleteCommunity s communityID userID =
     call (cms_GetCommunityByID (csv_communityStore s) communityID)
       (\<lambda>err. if errors_Is err ErrNotFound then throw ErrNotFound else throw ErrDB)
     (\<lambda>existing.
        if com_CreatorID existing \<noteq> userID then throw ErrAccessDenied
        else call (cms_DeleteCommunity (csv_communityStore s) communityID userID)
          (\<lambda>err. throw ErrDB)
        (\<lambda>_. let finish = discard_file (com_AvatarPath existing)
                   (discard_file (com_CoverPath existing) (ret ()))
          in call (ecs_DeleteCommunity (csv_elasticCommunityStore s) communityID)
               (\<lambda>err. finish) (\<lambda>_. finish)))"

subsection \<open>Reading\<close>

definition CommunityService_GetCommunity ::
    "CommunityService \<Rightarrow> int32 \<Rightarrow> int32 \<Rightarrow> CommunityForView action" where
  "CommunityService_GetCommunity s userID communityID =
     call (cms_GetCommunityByID (csv_communityStore s) communityID)
       (\<lambda>err. if errors_Is err ErrNotFound then throw ErrNotFound else throw ErrDB)
     (\<lambda>community.
        call (cms_IsSubscribed (csv_communityStore s) communityID userID) (\<lambda>err. throw ErrDB)
     (\<lambda>isSubscribed. ret
        \<lparr>vc_ID = com_ID community, vc_Name = com_Name community,
         vc_Description = com_Description community, vc_CreatorID = com_CreatorID community,
         vc_AvatarPath = com_AvatarPath community, vc_CoverPath = com_CoverPath community,
         vc_CreatedAt = com_CreatedAt community,
         vc_SubscribersCount = com_SubscribersCount community, vc_IsSubscribed = isSubscribed\<rparr>))"

definition CommunityService_GetUserCommunities ::
    "CommunityService \<Rightarrow> int32 \<Rightarrow> PaginateQueryParams \<Rightarrow> ShortCommunity list action" where
  "CommunityService_GetUserCommunities s userID params =
     (let (offset, limit) = ValidatePaginationParams params
      in call (cms_GetUserCommunities (csv_communityStore s) userID limit offset)
           (\<lambda>err. throw ErrDB) ret)"

definition CommunityService_GetOtherCommunities ::
    "CommunityService \<Rightarrow> int32 \<Rightarrow> PaginateQueryParams \<Rightarrow> ShortCommunity list action" where
  "CommunityService_GetOtherCommunities s userID params =
     (let (offset, limit) = ValidatePaginationParams params
      in call (cms_GetOtherCommunities (csv_communityStore s) userID limit offset)
           (\<lambda>err. throw ErrDB) ret)"

definition CommunityService_GetUserCommunitiesByID ::
    "CommunityService \<Rightarrow> int32 \<Rightarrow> PaginateQueryParams \<Rightarrow> ShortCommunity list action" where
  "CommunityService_GetUserCommunitiesByID s targetUserID params =
     (let (offset, limit) = ValidatePaginationParams params
      in call (ac_IsUserExists (csv_authService s) targetUserID) (\<lambda>err. throw ErrDB)
      (\<lambda>isUserExist. if \<not> isUserExist then throw ErrNotExist
       else call (cms_GetUserCommunitiesByID (csv_communityStore s) targetUserID limit offset)
              (\<lambda>err. throw ErrDB) ret))"

definition CommunityService_GetUserSubscribedCommunityIDs ::
    "CommunityService \<Rightarrow> int32 \<Rightarrow> int32 list action" where
  "CommunityService_GetUserSubscribedCommunityIDs s targetUserID =
     call (ac_IsUserExists (csv_authService s) targetUserID) (\<lambda>err. throw ErrDB)
     (\<lambda>isUserExist. if \<not> isUserExist then throw ErrNotExist
      else call (cms_GetUserSubscribedCommunityIDs (csv_communityStore s) targetUserID)
             (\<lambda>err. throw ErrDB) ret)"

definition CommunityService_GetCreatedCommunities ::
    "CommunityService \<Rightarrow> int32 \<Rightarrow> PaginateQueryParams \<Rightarrow> CommunityForMyCommunity list action" where
  "CommunityService_GetCreatedCommunities s userID params =
     (let (offset, limit) = ValidatePaginationParams params
      in call (cms_GetCreatedCommunities (csv_communityStore s) userID limit offset)
           (\<lambda>err. throw ErrDB) ret)"

text \<open>Subscribers without a profile are left out.\<close>

definition subscribers_of ::
    "(int32 \<Rightarrow> ShortProfile option) \<Rightarrow> int32 list \<Rightarrow> CommunitySubscriber list" where
  "subscribers_of profilesMap subscriberIDs =
     concat (map (\<lambda>userID. case profilesMap userID of
        None \<Rightarrow> []
      | Some profile \<Rightarrow> [\<lparr>cu_UserID = userID, cu_FullName = sp_FullName profile,
                         cu_AvatarPath = sp_AvatarPath profile\<rparr>]) subscriberIDs)"

definition CommunityService_GetCommunitySubscribers ::
    "CommunityService \<Rightarrow> int32 \<Rightarrow> PaginateQueryParams \<Rightarrow> CommunitySubscriber list action" where
  "CommunityService_GetCommunitySubscribers s communityID params =
     (let (offset, limit) = ValidatePaginationParams params
      in call (cms_GetCommunityByID (csv_communityStore s) communityID)
           (\<lambda>err. if errors_Is err ErrNotFound then throw ErrNotFound else throw ErrDB)
      (\<lambda>_. call (cms_GetCommunitySubscribers (csv_communityStore s) communityID limit offset)
             (\<lambda>err. throw ErrDB)
      (\<lambda>subscriberIDs. if length subscriberIDs = 0 then ret []
       else call (pc_GetShortProfileMapByUserIDs (csv_profileService s) subscriberIDs)
              (\<lambda>err. throw ErrService)
       (\<lambda>profileResp. let profilesMap = FromProtoShortProfileMap profileResp
         in ret (subscribers_of profilesMap subscriberIDs)))))"

subsection \<open>Subscriptions and search\<close>

definition CommunityService_Subscribe :: "CommunityService \<Rightarrow> int32 \<Rightarrow> int32 \<Rightarrow> unit action" where
  "CommunityService_Subscribe s communityID userID =
     call (cms_GetCommunityByID (csv_communityStore s) communityID)
       (\<lambda>err. if errors_Is err ErrNotFound then throw ErrNotFound else throw ErrDB)
     (\<lambda>_. call (ac_IsUserExists (csv_authService s) userID) (\<lambda>err. throw ErrDB)
     (\<lambda>isUserExist. if \<not> isUserExist then throw ErrNotExist
      else call (cms_Subscribe (csv_communityStore s) communityID userID) (\<lambda>err. throw ErrDB)
      (\<lambda>_. ret ())))"

definition CommunityService_Unsubscribe :: "CommunityService \<Rightarrow> int32 \<Rightarrow> int32 \<Rightarrow> unit action" where
  "CommunityService_Unsubscribe s communityID userID =
     call (cms_Unsubscribe (csv_communityStore s) communityID userID)
       (\<lambda>err. if errors_Is err ErrNotFound then throw ErrNotFound else throw ErrDB)
     (\<lambda>_. ret ())"

text \<open>Any type but "recommended" searches the communities the user is subscribed to.\<close>

definition CommunityService_SearchShortCommunityByNameAndType ::
    "CommunityService \<Rightarrow> int32 \<Rightarrow> PaginateQueryParams \<Rightarrow> string \<Rightarrow> CommunityType \<Rightarrow>
     ShortCommunity list action" where
  "CommunityService_SearchShortCommunityByNameAndType s userID params name cType =
     (let (offset, limit) = ValidatePaginationParams params;
          isTerms = (if cType = Recommended then False else True)
      in call (cms_GetUserSubscribedCommunityIDs (csv_communityStore s) userID) (\<lambda>err. throw ErrDB)
      (\<lambda>filterIDs.
         call (ecs_SearchCommunityIDsByName (csv_elasticCommunityStore s) name filterIDs isTerms
                 limit offset) (\<lambda>err. throw ErrDB)
      (\<lambda>foundIDs.
         call (cms_GetCommunitiesByIDs (csv_communityStore s) foundIDs) (\<lambda>err. throw ErrDB) ret)))"

end
