(* ===== verification/Community_Handler.thy ===== *)
theory Community_Handler
  imports Http Community_Service
begin

text \<open>
  The HTTP handlers of communities (src/internal/handler/community.go), and the service as \<open>main\<close>
  (src/cmd/main/main.go) builds it from the stores and the clients of the other processes.
\<close>

definition elastic_communities :: "libraries \<Rightarrow> ElasticCommunityStore" where
  "elastic_communities E = ElasticCommunityStore_of (lib_unidecode E) (lib_communityEngine E)"

definition community_main :: "libraries \<Rightarrow> CommunityService" where
  "community_main E = \<lparr>csv_communityStore = DBCommunityStore, csv_postStore = DBPostStore,
     csv_authService = auth_conn E, csv_elasticCommunityStore = elastic_communities E,
     csv_profileService = profile_conn E\<rparr>"

subsection \<open>Writing\<close>

definition CommunityHandler_CreateCommunity ::
    "(CommunityRequest \<Rightarrow> bool) \<Rightarrow> CommunityService \<Rightarrow> http_handler" where
  "CommunityHandler_CreateCommunity valid h r =
     call (ParseMultipart r) sendJSONError
     (\<lambda>form. let name = mp_Value form ''name''; description = mp_Value form ''description'';
                userID = ctx_userID r
      in call (MultipartFiles form ''avatar'') sendJSONError
      (\<lambda>avatarFiles. call (MultipartFiles form ''cover'') sendJSONError
      (\<lambda>coverFiles. let req = \<lparr>cq_Name = name, cq_Description = description\<rparr>
       in call (CommunityService_CreateCommunity valid h userID req avatarFiles coverFiles)
            sendJSONError
       (\<lambda>community. sendJSONData (CommunityResponse ''Community created successfully'' community)))))"

definition CommunityHandler_UpdateCommunity ::
    "(CommunityRequest \<Rightarrow> bool) \<Rightarrow> CommunityService \<Rightarrow> http_handler" where
  "CommunityHandler_UpdateCommunity valid h r =
     call (PathInt32 r ''id'') sendJSONError
     (\<lambda>communityID. call (ParseMultipart r) sendJSONError
     (\<lambda>form. let name = mp_Value form ''name''; description = mp_Value form ''description'';
                userID = ctx_userID r
      in call (MultipartFiles form ''avatar'') sendJSONError
      (\<lambda>avatarFiles. call (MultipartFiles form ''cover'') sendJSONError
      (\<lambda>coverFiles. let req = \<lparr>cq_Name = name, cq_Description = description\<rparr>
       in call (CommunityService_UpdateCommunity valid h communityID userID req avatarFiles coverFiles)
            sendJSONError
       (\<lambda>_. sendJSONSuccess ''Community updated successfully'')))))"

definition CommunityHandler_DeleteCommunity :: "CommunityService \<Rightarrow> http_handler" where
  "CommunityHandler_DeleteCommunity h r =
     call (PathInt32 r ''id'') sendJSONError
     (\<lambda>communityID. let userID = ctx_userID r
      in call (CommunityService_DeleteCommunity h communityID userID) sendJSONError
      (\<lambda>_. sendJSONSuccess ''Community deleted successfully''))"

subsection \<open>Reading\<close>

definition CommunityHandler_GetCommunity :: "CommunityService \<Rightarrow> http_handler" where
  "CommunityHandler_GetCommunity h r =
     call (PathInt32 r ''id'') sendJSONError
     (\<lambda>communityID. let userID = ctx_userID r
      in call (CommunityService_GetCommunity h userID communityID) sendJSONError
      (\<lambda>community. sendJSONData (CommunityPayload community)))"

definition CommunityHandler_GetUserCommunities :: "http_libs \<Rightarrow> CommunityService \<Rightarrow> http_handler" where
  "CommunityHandler_GetUserCommunities H h r =
     call (DecodeQueryParams (hl_decodePaginate H) r) sendJSONError
     (\<lambda>qParams. let userID = ctx_userID r
      in call (CommunityService_GetUserCommunities h userID qParams) sendJSONError
      (\<lambda>list. sendJSONData (ShortCommunityList list)))"

definition CommunityHandler_GetOtherCommunities :: "http_libs \<Rightarrow> CommunityService \<Rightarrow> http_handler" where
  "CommunityHandler_GetOtherCommunities H h r =
     call (DecodeQueryParams (hl_decodePaginate H) r) sendJSONError
     (\<lambda>qParams. let userID = ctx_userID r
      in call (CommunityService_GetOtherCommunities h userID qParams) sendJSONError
      (\<lambda>list. sendJSONData (ShortCommunityList list)))"

definition CommunityHandler_GetUserCommunitiesByID ::
    "http_libs \<Rightarrow> CommunityService \<Rightarrow> http_handler" where
  "CommunityHandler_GetUserCommunitiesByID H h r =
     call (PathInt32 r ''id'') sendJSONError
     (\<lambda>targetUserID. call (DecodeQueryParams (hl_decodePaginate H) r) sendJSONError
     (\<lambda>qParams.
      call (CommunityService_GetUserCommunitiesByID h targetUserID qParams) sendJSONError
      (\<lambda>list. sendJSONData (ShortCommunityList list))))"

definition CommunityHandler_GetUserSubscribedCommunityIDs :: "CommunityService \<Rightarrow> http_handler" where
  "CommunityHandler_GetUserSubscribedCommunityIDs h r =
     call (PathInt32 r ''userID'') sendJSONError
     (\<lambda>targetUserID.
      call (CommunityService_GetUserSubscribedCommunityIDs h targetUserID) sendJSONError
      (\<lambda>communityIDs. sendJSONData (Int32List communityIDs)))"

definition CommunityHandler_GetCreatedCommunities ::
    "http_libs \<Rightarrow> CommunityService \<Rightarrow> http_handler" where
  "CommunityHandler_GetCreatedCommunities H h r =
     call (DecodeQueryParams (hl_decodePaginate H) r) sendJSONError
     (\<lambda>qParams. let userID = ctx_userID r
      in call (CommunityService_GetCreatedCommunities h userID qParams) sendJSONError
      (\<lambda>list. sendJSONData (CommunityForMyCommunityList list)))"

definition CommunityHandler_GetCommunitySubscribers ::
    "http_libs \<Rightarrow> CommunityService \<Rightarrow> http_handler" where
  "CommunityHandler_GetCommunitySubscribers H h r =
     call (PathInt32 r ''id'') sendJSONError
     (\<lambda>communityID. call (DecodeQueryParams (hl_decodePaginate H) r) sendJSONError
     (\<lambda>qParams.
      call (CommunityService_GetCommunitySubscribers h communityID qParams) sendJSONError
      (\<lambda>list. sendJSONData (CommunitySubscriberList list))))"

subsection \<open>Subscriptions and search\<close>

definition CommunityHandler_Subscribe :: "CommunityService \<Rightarrow> http_handler" where
  "CommunityHandler_Subscribe h r =
     call (PathInt32 r ''id'') sendJSONError
     (\<lambda>communityID. let userID = ctx_userID r
      in call (CommunityService_Subscribe h communityID userID) sendJSONError
      (\<lambda>_. sendJSONSuccess ''Subscribed successfully''))"

definition CommunityHandler_Unsubscribe :: "CommunityService \<Rightarrow> http_handler" where
  "CommunityHandler_Unsubscribe h r =
     call (PathInt32 r ''id'') sendJSONError
     (\<lambda>communityID. let userID = ctx_userID r
      in call (CommunityService_Unsubscribe h communityID userID) sendJSONError
      (\<lambda>_. sendJSONSuccess ''Unsubscribed successfully''))"

definition CommunityHandler_SearchCommunityByName ::
    "http_libs \<Rightarrow> CommunityService \<Rightarrow> http_handler" where
  "CommunityHandler_SearchCommunityByName H h r =
     (let name = query_Get r ''name''
      in if name = [] then ret (sendJSONResponse ''Missing name query parameter'' http_BadRequest)
      else
      let cTypeStr = query_Get r ''type'';
          cType = (if cTypeStr = [] then Subscriber else cTypeStr)
      in call (DecodeQueryParams (hl_decodePaginate H) r) sendJSONError
      (\<lambda>qParams. let userID = ctx_userID r
       in call (CommunityService_SearchShortCommunityByNameAndType h userID qParams name cType)
            sendJSONError
       (\<lambda>list. sendJSONData (ShortCommunityList list))))"

end
