(* ===== verification/Community_Tables.thy ===== *)
theory Community_Tables
  imports Community_Handler Post_Tables
begin

text \<open>
  The invariant of the tables of communities and subscriptions, the endpoints of communities as
  \<open>main\<close> routes to them, and that every request keeps what its statements keep.
\<close>

definition wf_communities :: "database \<Rightarrow> bool" where
  "wf_communities d \<longleftrightarrow> distinct (map cm_id (communities d)) \<and>
     (\<forall>c \<in> set (communities d). communities_check c \<and> user_exists d (cm_creator_id c)) \<and>
     distinct (map (\<lambda>s. (sb_community_id s, sb_user_id s)) (community_subscriptions d)) \<and>
     (\<forall>s \<in> set (community_subscriptions d).
        community_exists d (sb_community_id s) \<and> user_exists d (sb_user_id s))"

lemma exists_update_communities [simp]:
  "user_exists (d\<lparr>communities := cs\<rparr>) = user_exists d"
  "user_exists (d\<lparr>community_subscriptions := ss\<rparr>) = user_exists d"
  "community_exists (d\<lparr>community_subscriptions := ss\<rparr>) = community_exists d"
  "post_exists (d\<lparr>communities := cs\<rparr>) = post_exists d"
  "post_exists (d\<lparr>community_subscriptions := ss\<rparr>) = post_exists d"
  by (simp_all add: user_exists_def community_exists_def post_exists_def fun_eq_iff)

lemma community_exists_ids: "community_exists d i \<longleftrightarrow> i \<in> set (map cm_id (communities d))"
  by (auto simp: community_exists_def)

text \<open>Posts refer to communities: more communities, or the same ids, keep them well-formed.\<close>

lemma wf_content_communities:
  assumes "wf_content d" "\<And>i. community_exists d i \<Longrightarrow> community_exists (d\<lparr>communities := cs\<rparr>) i"
  shows "wf_content (d\<lparr>communities := cs\<rparr>)"
  using assms by (auto simp: wf_content_defs intro: refers_mono)

lemma wf_content_subscriptions [simp]:
  "wf_content (d\<lparr>community_subscriptions := ss\<rparr>) = wf_content d"
  by (simp add: wf_content_defs)

subsection \<open>The statements\<close>

lemma wf_insert_community:
  assumes "insert_community c i now d = Some (d', row)" "wf_communities d" "wf_content d"
  shows "wf_communities d' \<and> wf_content d'"
proof -
  have d': "d' = d\<lparr>communities := communities d @ [row]\<rparr>" and "communities_check row"
      "user_exists d (cm_creator_id row)" "cm_id row \<notin> cm_id ` set (communities d)"
    using assms(1) by (auto simp: insert_community_def Let_def split: if_splits)
  moreover have "community_exists d j \<Longrightarrow> community_exists d' j" for j
    by (auto simp: community_exists_def d')
  ultimately show ?thesis
    using assms(2,3) wf_content_communities unfolding d' by (auto simp: wf_communities_def)
qed

lemma wf_update_community:
  assumes "update_community c now d = Some (d', x)" "wf_communities d" "wf_content d"
  shows "wf_communities d' \<and> wf_content d'"
proof -
  define hit where "hit = (\<lambda>r :: community_row. cm_id r = com_ID c \<and> cm_creator_id r = com_CreatorID c)"
  define f where "f = (\<lambda>r :: community_row. r\<lparr>cm_name := com_Name c, cm_description := com_Description c,
    cm_avatar_path := com_AvatarPath c, cm_cover_path := com_CoverPath c, cm_updated_at := now\<rparr>)"
  have d': "d' = d\<lparr>communities := update_where hit f (communities d)\<rparr>"
    and ok: "\<forall>r \<in> set (communities d). hit r \<longrightarrow> communities_check (f r)"
    using assms(1) by (auto simp: update_community_def f_def hit_def Let_def split: if_splits)
  have keys: "cm_id (f r) = cm_id r" "cm_creator_id (f r) = cm_creator_id r" for r
    by (simp_all add: f_def)
  have ids: "map cm_id (communities d') = map cm_id (communities d)"
    unfolding d' by (simp add: map_update_where_same keys)
  then have same: "community_exists d' = community_exists d"
    by (simp add: fun_eq_iff community_exists_ids del: set_map)
  have "wf_communities d'"
    using assms(2) ok ids same unfolding wf_communities_def
    by (simp add: d') (auto simp: set_update_where keys)
  then show ?thesis
    using assms(3) wf_content_communities same unfolding d' by auto
qed

lemma delete_communities_sel:
  "users (delete_communities q d) = users d"
  "communities (delete_communities q d) = filter (\<lambda>r. \<not> q r) (communities d)"
  "community_subscriptions (delete_communities q d) =
     filter (\<lambda>s. sb_community_id s \<notin> cm_id ` {c \<in> set (communities d). q c}) (community_subscriptions d)"
  by (simp_all add: delete_communities_def delete_posts_def Let_def)

lemma wf_delete_communities:
  assumes "wf_communities d" "wf_content d"
  shows "wf_communities (delete_communities q d) \<and> wf_content (delete_communities q d)"
proof
  have u: "user_exists (delete_communities q d) = user_exists d"
    by (simp add: user_exists_def delete_communities_sel fun_eq_iff)
  have kept: "community_exists (delete_communities q d) i"
    if "community_exists d i" "i \<notin> cm_id ` {c \<in> set (communities d). q c}" for i
    using that by (auto simp: community_exists_def delete_communities_sel)
  show "wf_communities (delete_communities q d)"
    using assms(1) kept
    by (simp add: wf_communities_def u delete_communities_sel distinct_map_filter)
  define gone where "gone = set (map cm_id (filter q (communities d)))"
  define d1 where "d1 = delete_posts (\<lambda>r. case po_community_id r of None \<Rightarrow> False | Some i \<Rightarrow> i \<in> gone) d"
  have d1: "communities d1 = communities d" by (simp add: d1_def delete_posts_sel)
  have wf1: "wf_content d1" unfolding d1_def by (rule wf_delete_posts [OF assms(2)])
  have "refers (\<lambda>i. community_exists d1 i \<and> i \<notin> gone) (po_community_id p)" if "p \<in> set (posts d1)" for p
  proof -
    have "refers (community_exists d1) (po_community_id p)"
      using wf1 that by (auto simp: wf_content_def wf_posts_def)
    moreover have "\<not> (case po_community_id p of None \<Rightarrow> False | Some i \<Rightarrow> i \<in> gone)"
      using that by (simp add: d1_def delete_posts_sel)
    ultimately show ?thesis by (cases "po_community_id p") auto
  qed
  moreover have "community_exists d1 i \<and> i \<notin> gone \<Longrightarrow> community_exists (delete_communities q d) i" for i
    using kept d1 by (auto simp: gone_def community_exists_def)
  ultimately have refs: "refers (community_exists (delete_communities q d)) (po_community_id p)"
    if "p \<in> set (posts d1)" for p
    using that refers_mono by blast
  have eq: "delete_communities q d = d1\<lparr>communities := communities (delete_communities q d),
      community_subscriptions := community_subscriptions (delete_communities q d)\<rparr>"
    unfolding delete_communities_def Let_def gone_def [symmetric] d1_def [symmetric] by simp
  have "wf_content (d1\<lparr>communities := cs, community_subscriptions := ss\<rparr>)"
    if "\<And>p. p \<in> set (posts d1) \<Longrightarrow>
      refers (community_exists (d1\<lparr>communities := cs\<rparr>)) (po_community_id p)" for cs ss
    using wf1 that by (auto simp: wf_content_defs)
  moreover have "community_exists (delete_communities q d) =
      community_exists (d1\<lparr>communities := communities (delete_communities q d)\<rparr>)"
    by (simp add: community_exists_def fun_eq_iff)
  ultimately show "wf_content (delete_communities q d)"
    using refs eq by metis
qed

lemma wf_insert_subscription:
  "insert_subscription c u now d = Some (d', n) \<Longrightarrow> wf_communities d \<Longrightarrow> wf_content d \<Longrightarrow>
   wf_communities d' \<and> wf_content d'"
  by (auto simp: insert_subscription_def wf_communities_def split: if_splits)

lemma wf_delete_subscriptions:
  "wf_communities d \<Longrightarrow>
   wf_communities (d\<lparr>community_subscriptions := filter q (community_subscriptions d)\<rparr>)"
  by (simp add: wf_communities_def distinct_map_filter)

subsection \<open>The endpoints\<close>

datatype community_route =
  Route_SearchCommunities | Route_CreateCommunity | Route_GetUserCommunities
| Route_GetOtherCommunities | Route_GetUserCommunitiesByID | Route_GetUserSubscribedCommunityIDs
| Route_GetCreatedCommunities | Route_GetCommunity | Route_UpdateCommunity | Route_DeleteCommunity
| Route_GetCommunitySubscribers | Route_Subscribe | Route_Unsubscribe

fun community_endpoint ::
    "libraries \<Rightarrow> http_libs \<Rightarrow> (CommunityRequest \<Rightarrow> bool) \<Rightarrow> community_route \<Rightarrow> http_handler" where
  "community_endpoint E H v Route_SearchCommunities =
     CommunityHandler_SearchCommunityByName H (community_main E)"
| "community_endpoint E H v Route_CreateCommunity =
     CommunityHandler_CreateCommunity v (community_main E)"
| "community_endpoint E H v Route_GetUserCommunities =
     CommunityHandler_GetUserCommunities H (community_main E)"
| "community_endpoint E H v Route_GetOtherCommunities =
     CommunityHandler_GetOtherCommunities H (community_main E)"
| "community_endpoint E H v Route_GetUserCommunitiesByID =
     CommunityHandler_GetUserCommunitiesByID H (community_main E)"
| "community_endpoint E H v Route_GetUserSubscribedCommunityIDs =
     CommunityHandler_GetUserSubscribedCommunityIDs (community_main E)"
| "community_endpoint E H v Route_GetCreatedCommunities =
     CommunityHandler_GetCreatedCommunities H (community_main E)"
| "community_endpoint E H v Route_GetCommunity = CommunityHandler_GetCommunity (community_main E)"
| "community_endpoint E H v Route_UpdateCommunity =
     CommunityHandler_UpdateCommunity v (community_main E)"
| "community_endpoint E H v Route_DeleteCommunity =
     CommunityHandler_DeleteCommunity (community_main E)"
| "community_endpoint E H v Route_GetCommunitySubscribers =
     CommunityHandler_GetCommunitySubscribers H (community_main E)"
| "community_endpoint E H v Route_Subscribe = CommunityHandler_Subscribe (community_main E)"
| "community_endpoint E H v Route_Unsubscribe = CommunityHandler_Unsubscribe (community_main E)"

lemma DBCommunityStore_sel [simp]:
  "cms_CreateCommunity DBCommunityStore = DBCommunityStore_CreateCommunity"
  "cms_UpdateCommunity DBCommunityStore = DBCommunityStore_UpdateCommunity"
  "cms_DeleteCommunity DBCommunityStore = DBCommunityStore_DeleteCommunity"
  "cms_GetCommunityByID DBCommunityStore = DBCommunityStore_GetCommunityByID"
  "cms_GetUserCommunities DBCommunityStore = DBCommunityStore_GetUserCommunities"
  "cms_GetOtherCommunities DBCommunityStore = DBCommunityStore_GetOtherCommunities"
  "cms_GetUserCommunitiesByID DBCommunityStore = DBCommunityStore_GetUserCommunitiesByID"
  "cms_GetUserSubscribedCommunityIDs DBCommunityStore = DBCommunityStore_GetUserSubscribedCommunityIDs"
  "cms_GetCreatedCommunities DBCommunityStore = DBCommunityStore_GetCreatedCommunities"
  "cms_GetCommunitySubscribers DBCommunityStore = DBCommunityStore_GetCommunitySubscribers"
  "cms_Subscribe DBCommunityStore = DBCommunityStore_Subscribe"
  "cms_Unsubscribe DBCommunityStore = DBCommunityStore_Unsubscribe"
  "cms_IsSubscribed DBCommunityStore = DBCommunityStore_IsSubscribed"
  "cms_GetCommunitiesByIDs DBCommunityStore = DBCommunityStore_GetCommunitiesByIDs"
  by (simp_all add: DBCommunityStore_def)

lemma community_main_sel [simp]:
  "csv_communityStore (community_main E) = DBCommunityStore"
  "csv_authService (community_main E) = auth_conn E"
  "csv_profileService (community_main E) = profile_conn E"
  "ecs_CreateCommunity (csv_elasticCommunityStore (community_main E)) =
     ElasticCommunityStore_CreateCommunity (lib_unidecode E)"
  "ecs_UpdateCommunity (csv_elasticCommunityStore (community_main E)) =
     ElasticCommunityStore_UpdateCommunity (lib_unidecode E)"
  "ecs_DeleteCommunity (csv_elasticCommunityStore (community_main E)) =
     ElasticCommunityStore_DeleteCommunity"
  "ecs_SearchCommunityIDsByName (csv_elasticCommunityStore (community_main E)) =
     ElasticCommunityStore_SearchCommunityIDsByName (lib_communityEngine E)"
  by (simp_all add: community_main_def elastic_communities_def ElasticCommunityStore_of_def)

lemmas community_services =
  CommunityService_CreateCommunity_def CommunityService_UpdateCommunity_def
  CommunityService_DeleteCommunity_def CommunityService_GetCommunity_def
  CommunityService_GetUserCommunities_def CommunityService_GetOtherCommunities_def
  CommunityService_GetUserCommunitiesByID_def CommunityService_GetUserSubscribedCommunityIDs_def
  CommunityService_GetCreatedCommunities_def CommunityService_GetCommunitySubscribers_def
  CommunityService_Subscribe_def CommunityService_Unsubscribe_def
  CommunityService_SearchShortCommunityByNameAndType_def

lemmas community_handlers =
  CommunityHandler_CreateCommunity_def CommunityHandler_UpdateCommunity_def
  CommunityHandler_DeleteCommunity_def CommunityHandler_GetCommunity_def
  CommunityHandler_GetUserCommunities_def CommunityHandler_GetOtherCommunities_def
  CommunityHandler_GetUserCommunitiesByID_def CommunityHandler_GetUserSubscribedCommunityIDs_def
  CommunityHandler_GetCreatedCommunities_def CommunityHandler_GetCommunitySubscribers_def
  CommunityHandler_Subscribe_def CommunityHandler_Unsubscribe_def
  CommunityHandler_SearchCommunityByName_def

subsection \<open>What the requests keep\<close>

lemma reads_scan_communities [intro]:
  "reads (scan_ShortCommunity r)" "reads (scan_CommunityForMyCommunity c)"
  by (auto simp: scan_ShortCommunity_def scan_CommunityForMyCommunity_def intro!: reads_call
      split: option.splits)

lemma reads_communities [intro]:
  "reads (DBCommunityStore_GetUserCommunities u l off)"
  "reads (DBCommunityStore_GetOtherCommunities u l off)"
  "reads (DBCommunityStore_GetUserCommunitiesByID u l off)"
  "reads (DBCommunityStore_GetUserSubscribedCommunityIDs u)"
  "reads (DBCommunityStore_GetCreatedCommunities u l off)"
  "reads (DBCommunityStore_GetCommunitySubscribers i l off)"
  "reads (DBCommunityStore_GetCommunitiesByIDs ids)" "reads (DBCommunityStore_IsSubscribed i u)"
  by (auto simp: DBCommunityStore_GetUserCommunities_def DBCommunityStore_GetOtherCommunities_def
      DBCommunityStore_GetUserCommunitiesByID_def DBCommunityStore_GetUserSubscribedCommunityIDs_def
      DBCommunityStore_GetCreatedCommunities_def DBCommunityStore_GetCommunitySubscribers_def
      DBCommunityStore_GetCommunitiesByIDs_def DBCommunityStore_IsSubscribed_def
      intro!: reads_call reads_rows_loop_unchecked)

lemmas keeps_community_reads [wf_intros] =
  reads_communities [THEN keeps_reads] keeps_reads [OF reads_SearchCommunityIDs]

lemma keeps_elastic_communities [wf_intros]:
  "keeps I (ElasticCommunityStore_CreateCommunity f n i)"
  "keeps I (ElasticCommunityStore_UpdateCommunity f n i)"
  "keeps I (ElasticCommunityStore_DeleteCommunity i)"
  by (auto simp: ElasticCommunityStore_CreateCommunity_def ElasticCommunityStore_UpdateCommunity_def
      ElasticCommunityStore_DeleteCommunity_def Let_def es_request_def keeps_def external_def
      split: option.splits)

lemma keeps_discard_file [wf_intros]: "keeps I k \<Longrightarrow> keeps I (discard_file path k)"
  by (auto simp: discard_file_def intro!: wf_intros split: option.splits)

lemma keeps_upload_first [wf_intros]: "keeps I (upload_first files p)"
  by (auto simp: upload_first_def intro!: wf_intros split: list.splits)

locale community_statements =
  fixes I :: "database \<Rightarrow> bool"
  assumes insert_community: "insert_community c i now d = Some (d', row) \<Longrightarrow> I d \<Longrightarrow> I d'"
    and update_community: "update_community c now d = Some (d', x) \<Longrightarrow> I d \<Longrightarrow> I d'"
    and delete_communities: "I d \<Longrightarrow> I (delete_communities q d)"
    and insert_subscription: "insert_subscription j u now d = Some (d', n) \<Longrightarrow> I d \<Longrightarrow> I d'"
    and delete_subscriptions:
      "I d \<Longrightarrow> I (d\<lparr>community_subscriptions := filter s (community_subscriptions d)\<rparr>)"
begin

lemma keeps_community_store [wf_intros]:
  "keeps I (DBCommunityStore_CreateCommunity c)" "keeps I (DBCommunityStore_UpdateCommunity c)"
  "keeps I (DBCommunityStore_DeleteCommunity i u)" "keeps I (DBCommunityStore_Subscribe i u)"
  "keeps I (DBCommunityStore_Unsubscribe i u)"
  by (auto simp: DBCommunityStore_CreateCommunity_def DBCommunityStore_UpdateCommunity_def
      DBCommunityStore_DeleteCommunity_def DBCommunityStore_Subscribe_def
      DBCommunityStore_Unsubscribe_def Let_def intro!: wf_intros
      dest: insert_community update_community delete_communities insert_subscription
        delete_subscriptions)

lemma keeps_community_service [wf_intros]:
  "keeps I (CommunityService_CreateCommunity v (community_main E) u req fs gs)"
  "keeps I (CommunityService_UpdateCommunity v (community_main E) i u req fs gs)"
  "keeps I (CommunityService_DeleteCommunity (community_main E) i u)"
  "keeps I (CommunityService_Subscribe (community_main E) i u)"
  "keeps I (CommunityService_Unsubscribe (community_main E) i u)"
  by (auto simp: community_services Let_def intro!: wf_intros)

lemma keeps_community_queries [wf_intros]:
  "keeps I (CommunityService_GetCommunity (community_main E) u i)"
  "keeps I (CommunityService_GetUserCommunities (community_main E) u q)"
  "keeps I (CommunityService_GetOtherCommunities (community_main E) u q)"
  "keeps I (CommunityService_GetUserCommunitiesByID (community_main E) u q)"
  "keeps I (CommunityService_GetUserSubscribedCommunityIDs (community_main E) u)"
  "keeps I (CommunityService_GetCreatedCommunities (community_main E) u q)"
  "keeps I (CommunityService_GetCommunitySubscribers (community_main E) i q)"
  "keeps I (CommunityService_SearchShortCommunityByNameAndType (community_main E) u q n t)"
  by (auto simp: community_services Let_def intro!: wf_intros split: prod.splits)

lemma keeps_community_endpoint: "keeps I (community_endpoint E H v route r)"
  by (cases route) (auto simp: community_handlers Let_def intro!: wf_intros)

end

interpretation community_wf: community_statements "\<lambda>d. wf_communities d \<and> wf_content d"
  by unfold_locales
     (auto dest: wf_insert_community wf_update_community wf_delete_communities
       wf_insert_subscription wf_delete_subscriptions)

text \<open>
  Communities, subscriptions and, when a community goes, its posts with what hangs on them are all
  that such a request changes in the tables.
\<close>

definition other_than_communities :: "database \<Rightarrow> database" where
  "other_than_communities d =
     (other_than_content d)\<lparr>communities := [], community_subscriptions := []\<rparr>"

interpretation community_frame: community_statements "\<lambda>d. other_than_communities d = v" for v
  by unfold_locales
     (auto simp: other_than_communities_def other_than_content_def insert_community_def
       update_community_def delete_communities_def delete_posts_def insert_subscription_def
       Let_def split: if_splits)

end
