(* ===== verification/Community_Facts.thy ===== *)
theory Community_Facts
  imports Community_Tables Post_Facts
begin

text \<open>
  What the operations of communities return and change: facts on every world, so on every
  combination of failing calls.
\<close>

subsection \<open>Every request is answered\<close>

lemma no_panic_discard_file [intro!]: "no_panic k \<Longrightarrow> no_panic (discard_file path k)"
  by (auto simp: discard_file_def split: option.splits)

lemma no_panic_upload_first [intro!]: "no_panic (upload_first files p)"
  by (auto simp: upload_first_def split: list.splits)

lemma no_panic_community_store [intro!]:
  "no_panic (DBCommunityStore_CreateCommunity c)" "no_panic (DBCommunityStore_UpdateCommunity c)"
  "no_panic (DBCommunityStore_DeleteCommunity i u)" "no_panic (DBCommunityStore_Subscribe i u)"
  "no_panic (DBCommunityStore_Unsubscribe i u)" "no_panic (DBCommunityStore_IsSubscribed i u)"
  "no_panic (DBCommunityStore_GetUserCommunities u l off)"
  "no_panic (DBCommunityStore_GetOtherCommunities u l off)"
  "no_panic (DBCommunityStore_GetUserCommunitiesByID u l off)"
  "no_panic (DBCommunityStore_GetUserSubscribedCommunityIDs u)"
  "no_panic (DBCommunityStore_GetCreatedCommunities u l off)"
  "no_panic (DBCommunityStore_GetCommunitySubscribers i l off)"
  "no_panic (DBCommunityStore_GetCommunitiesByIDs ids)"
proof -
  have s: "no_panic (scan_ShortCommunity r)" "no_panic (scan_CommunityForMyCommunity c)" for r c
    by (auto simp: scan_ShortCommunity_def scan_CommunityForMyCommunity_def split: option.splits)
  show "no_panic (DBCommunityStore_CreateCommunity c)" "no_panic (DBCommunityStore_UpdateCommunity c)"
      "no_panic (DBCommunityStore_DeleteCommunity i u)" "no_panic (DBCommunityStore_Subscribe i u)"
      "no_panic (DBCommunityStore_Unsubscribe i u)" "no_panic (DBCommunityStore_IsSubscribed i u)"
    by (auto simp: DBCommunityStore_CreateCommunity_def DBCommunityStore_UpdateCommunity_def
        DBCommunityStore_DeleteCommunity_def DBCommunityStore_Subscribe_def
        DBCommunityStore_Unsubscribe_def DBCommunityStore_IsSubscribed_def Let_def)
  show "no_panic (DBCommunityStore_GetUserCommunities u l off)"
      "no_panic (DBCommunityStore_GetOtherCommunities u l off)"
      "no_panic (DBCommunityStore_GetUserCommunitiesByID u l off)"
      "no_panic (DBCommunityStore_GetUserSubscribedCommunityIDs u)"
      "no_panic (DBCommunityStore_GetCreatedCommunities u l off)"
      "no_panic (DBCommunityStore_GetCommunitySubscribers i l off)"
      "no_panic (DBCommunityStore_GetCommunitiesByIDs ids)"
    by (auto simp: DBCommunityStore_GetUserCommunities_def DBCommunityStore_GetOtherCommunities_def
        DBCommunityStore_GetUserCommunitiesByID_def DBCommunityStore_GetUserSubscribedCommunityIDs_def
        DBCommunityStore_GetCreatedCommunities_def DBCommunityStore_GetCommunitySubscribers_def
        DBCommunityStore_GetCommunitiesByIDs_def intro!: s)
qed

lemma no_panic_elastic_communities [intro!]:
  "no_panic (ElasticCommunityStore_CreateCommunity f n i)"
  "no_panic (ElasticCommunityStore_UpdateCommunity f n i)"
  "no_panic (ElasticCommunityStore_DeleteCommunity i)"
  "no_panic (ElasticCommunityStore_SearchCommunityIDsByName e n ids t l off)"
  by (auto simp: ElasticCommunityStore_CreateCommunity_def ElasticCommunityStore_UpdateCommunity_def
      ElasticCommunityStore_DeleteCommunity_def ElasticCommunityStore_SearchCommunityIDsByName_def
      Let_def no_panic_def act split: option.splits)

lemma answers_discard_file: "answers S k \<Longrightarrow> answers S (discard_file path k)"
  by (auto simp: discard_file_def intro!: answers_intros split: option.splits)

lemma answers_community_service:
  "answers content_errors (CommunityService_CreateCommunity v (community_main E) u req fs gs)"
  "answers content_errors (CommunityService_UpdateCommunity v (community_main E) i u req fs gs)"
  "answers content_errors (CommunityService_DeleteCommunity (community_main E) i u)"
  "answers content_errors (CommunityService_Subscribe (community_main E) i u)"
  "answers content_errors (CommunityService_Unsubscribe (community_main E) i u)"
  by (auto simp: community_services Let_def content_errors_def
      intro!: answers_intros answers_discard_file)

lemma answers_community_queries:
  "answers content_errors (CommunityService_GetCommunity (community_main E) u i)"
  "answers content_errors (CommunityService_GetUserCommunities (community_main E) u q)"
  "answers content_errors (CommunityService_GetOtherCommunities (community_main E) u q)"
  "answers content_errors (CommunityService_GetUserCommunitiesByID (community_main E) u q)"
  "answers content_errors (CommunityService_GetUserSubscribedCommunityIDs (community_main E) u)"
  "answers content_errors (CommunityService_GetCreatedCommunities (community_main E) u q)"
  "answers content_errors (CommunityService_GetCommunitySubscribers (community_main E) i q)"
  "answers content_errors (CommunityService_SearchShortCommunityByNameAndType (community_main E) u q n t)"
  by (auto simp: community_services Let_def content_errors_def intro!: answers_intros
      split: prod.splits)

lemma replies_branch: "replies m \<Longrightarrow> replies m' \<Longrightarrow> replies (if b then m else m')"
  by simp

lemma replies_bad_request: "replies (ret (sendJSONResponse msg 400))"
  by (simp add: replies_def sendJSONResponse_def ret_def)

lemma replies_community_endpoint: "replies (community_endpoint E H v route r)"
  by (cases route)
     (auto simp: community_handlers Let_def
       intro!: replies_branch replies_bad_request replies_call replies_data replies_success
         answers_helpers answers_community_service answers_community_queries)

subsection \<open>Only the creator\<close>

lemma scan_count_Some: "scan_count n = Some i \<Longrightarrow> sint i = int n"
proof -
  assume "scan_count n = Some i"
  then have "i = word_of_nat n" "int n < 2 ^ 31" by (auto simp: scan_count_def split: if_splits)
  then show ?thesis using sint_word_of_int_mod [of "int n"] by simp
qed

lemma scan_Community_Ret:
  "scan_Community (row, n) w = (Ret c, w') \<Longrightarrow> com_ID c = cm_id row \<and> com_Name c = cm_name row \<and>
    com_Description c = cm_description row \<and> com_CreatorID c = cm_creator_id row \<and>
    com_AvatarPath c = cm_avatar_path row \<and> com_CoverPath c = cm_cover_path row \<and>
    sint (com_SubscribersCount c) = int n"
  by (auto simp: scan_Community_def act dest: scan_count_Some split: option.splits)

lemma GetCommunityByID_Ret:
  assumes "DBCommunityStore_GetCommunityByID i w = (Ret c, w')"
  shows "\<exists>row \<in> set (communities (db w)). cm_id row = i \<and> com_ID c = i \<and>
    com_Name c = cm_name row \<and> com_Description c = cm_description row \<and>
    com_CreatorID c = cm_creator_id row \<and> com_AvatarPath c = cm_avatar_path row \<and>
    com_CoverPath c = cm_cover_path row \<and>
    sint (com_SubscribersCount c) = int (count_subscribers (db w) i)"
proof -
  obtain row v where f: "find (\<lambda>c. cm_id c = i) (communities (db w)) = Some row"
    and s: "scan_Community (row, count_subscribers (db w) (cm_id row)) (tick w) = (Ret c, v)"
    using assms
    by (auto simp: DBCommunityStore_GetCommunityByID_def call_def query_row_def external_def throw_def
        ret_def split: option.splits prod.splits res.splits if_splits)
  from f have "row \<in> set (communities (db w))" "cm_id row = i" by (auto simp: find_Some_iff)
  with scan_Community_Ret [OF s] show ?thesis by (intro bexI [of _ row]) simp_all
qed

interpretation own_community: owned_item "DBCommunityStore_GetCommunityByID i"
    "\<lambda>c. com_CreatorID c = u"
    "\<lambda>d. \<exists>c \<in> set (communities d). cm_id c = i \<and> cm_creator_id c = u" for i u
  by unfold_locales (auto dest!: GetCommunityByID_Ret)

lemma UpdateCommunity_not_creator:
  assumes "CommunityService_UpdateCommunity v (community_main E) i u req fs gs w = (r, w')"
    and "\<not> (\<exists>c \<in> set (communities (db w)). cm_id c = i \<and> cm_creator_id c = u)"
  shows "quiet w w' \<and> (\<exists>e \<in> content_errors. r = Fail e)"
proof (cases "v req")
  case True
  show ?thesis
    by (rule own_community.guard_refuses [OF _ assms(2)])
       (use assms(1) True in \<open>auto simp: CommunityService_UpdateCommunity_def content_errors_def\<close>)
qed (use assms(1) in \<open>simp add: CommunityService_UpdateCommunity_def content_errors_def throw_def\<close>)

lemma DeleteCommunity_not_creator:
  assumes "CommunityService_DeleteCommunity (community_main E) i u w = (r, w')"
    and "\<not> (\<exists>c \<in> set (communities (db w)). cm_id c = i \<and> cm_creator_id c = u)"
  shows "quiet w w' \<and> (\<exists>e \<in> content_errors. r = Fail e)"
  by (rule own_community.guard_refuses [OF _ assms(2)])
     (use assms(1) in \<open>auto simp: CommunityService_DeleteCommunity_def content_errors_def\<close>)

text \<open>The user created the community that the request is to change.\<close>

fun created :: "community_route \<Rightarrow> database \<Rightarrow> int32 \<Rightarrow> int32 \<Rightarrow> bool" where
  "created Route_UpdateCommunity d u i = (\<exists>c \<in> set (communities d). cm_id c = i \<and> cm_creator_id c = u)"
| "created Route_DeleteCommunity d u i = (\<exists>c \<in> set (communities d). cm_id c = i \<and> cm_creator_id c = u)"
| "created _ d u i = True"

lemma bad_community_id_refused:
  assumes "path_int32 (rq_Vars r) ''id'' = None" "\<not> created route d u i"
  shows "refused w (community_endpoint E H v route r w)"
  using assms
  by (cases route)
     (auto simp: CommunityHandler_UpdateCommunity_def CommunityHandler_DeleteCommunity_def call_def
       PathInt32_path content_errors_def intro: refused_error)

lemma not_creator_refused:
  assumes user: "ctx_userID r = u" and i: "path_int32 (rq_Vars r) ''id'' = Some i"
    and not: "\<not> created route (db w) u i"
  shows "refused w (community_endpoint E H v route r w)"
proof -
  have path: "call (PathInt32 r ''id'') sendJSONError k w = k i w" for k :: "int32 \<Rightarrow> http_response action"
    using i by (simp add: call_def PathInt32_path)
  have q: "db v = db w" if "quiet w v" for v using that by (simp add: quiet_sel)
  consider "route = Route_UpdateCommunity" | "route = Route_DeleteCommunity"
    using not by (cases route) auto
  then show ?thesis
  proof cases
    case 1
    have refusal: "refused w (call (CommunityService_UpdateCommunity vt (community_main E) i u req fs gs)
        sendJSONError k z)" if "quiet w z" for vt req fs gs k z
      using not 1 q [OF that] by (intro refused_last [OF that]) (auto dest!: UpdateCommunity_not_creator)
    then show ?thesis
      unfolding 1 by (simp add: CommunityHandler_UpdateCommunity_def path user Let_def)
        (rule refusal, assumption | rule refused_call reads_handler_helpers answers_helpers quiet_refl
          | assumption)+
  next
    case 2
    with not show ?thesis
      by (auto simp: CommunityHandler_DeleteCommunity_def path user Let_def
          intro!: refused_last dest!: DeleteCommunity_not_creator)
  qed
qed

subsection \<open>Subscriptions\<close>

definition subscription_pairs :: "database \<Rightarrow> (int32 \<times> int32) set" where
  "subscription_pairs d =
     (\<lambda>s. (sb_community_id s, sb_user_id s)) ` set (community_subscriptions d)"

lemma in_subscription_pairs:
  "(i, u) \<in> subscription_pairs d \<longleftrightarrow>
     (\<exists>s \<in> set (community_subscriptions d). sb_community_id s = i \<and> sb_user_id s = u)"
  by (auto simp: subscription_pairs_def)

lemma insert_subscription_pairs:
  "insert_subscription i u now d = Some (d', n) \<Longrightarrow>
   subscription_pairs d' = insert (i, u) (subscription_pairs d)"
  by (auto simp: insert_subscription_def subscription_pairs_def split: if_splits)

text \<open>
  Subscribing adds the pair, unsubscribing removes it; an error other than "not found" comes with no
  change, and "not found" says what is missing.
\<close>

lemma Subscribe_pairs:
  assumes "CommunityService_Subscribe (community_main E) i u w = (r, w')"
  shows "subscription_pairs (db w') =
      (if r = Ret () then insert (i, u) (subscription_pairs (db w)) else subscription_pairs (db w))"
proof -
  obtain q1 v1 where 1: "DBCommunityStore_GetCommunityByID i w = (q1, v1)" by fastforce
  have d1: "db v1 = db w" using readsD [OF reads_GetCommunityByID 1] by (simp add: quiet_sel)
  obtain q2 v2 where 2: "ac_IsUserExists (auth_conn E) u v1 = (q2, v2)" by fastforce
  have d2: "db v2 = db w" using db_kept [OF keeps_auth_conn_IsUserExists 2] d1 by simp
  obtain q3 v3 where 3: "DBCommunityStore_Subscribe i u v2 = (q3, v3)" by fastforce
  have "subscription_pairs (db v3) = (if q3 = Ret () then insert (i, u) (subscription_pairs (db v2))
      else subscription_pairs (db v2))"
    using 3 by (auto simp: DBCommunityStore_Subscribe_def act insert_subscription_pairs
        split: option.splits prod.splits)
  then show ?thesis
    using assms 1 2 3 d1 d2
    by (auto simp: CommunityService_Subscribe_def call_def throw_def ret_def
        split: res.splits if_splits)
qed

lemma Unsubscribe_pairs:
  assumes "CommunityService_Unsubscribe (community_main E) i u w = (r, w')"
  shows "subscription_pairs (db w') = (if r = Ret () then subscription_pairs (db w) - {(i, u)}
      else subscription_pairs (db w)) \<and>
    (r = Ret () \<longrightarrow> (i, u) \<in> subscription_pairs (db w)) \<and>
    (r = Fail ErrNotFound \<longrightarrow> (i, u) \<notin> subscription_pairs (db w))"
  using assms
  by (auto simp: CommunityService_Unsubscribe_def DBCommunityStore_Unsubscribe_def Let_def act
      subscription_pairs_def filter_empty_conv split: option.splits if_splits)

subsection \<open>Creating a community\<close>

text \<open>The community, and the subscription of its creator unless that failed.\<close>

definition adds_community ::
    "database \<Rightarrow> int32 \<Rightarrow> CommunityRequest \<Rightarrow> Community \<Rightarrow> database \<Rightarrow> bool" where
  "adds_community d u req c d' \<longleftrightarrow>
     com_CreatorID c = u \<and> com_Name c = cq_Name req \<and> com_Description c = cq_Description req \<and>
     com_ID c \<notin> cm_id ` set (communities d) \<and>
     (\<exists>row ss. cm_id row = com_ID c \<and> cm_creator_id row = u \<and> cm_name row = cq_Name req \<and>
        cm_description row = cq_Description req \<and> cm_avatar_path row = com_AvatarPath c \<and>
        cm_cover_path row = com_CoverPath c \<and>
        d' = d\<lparr>communities := communities d @ [row],
               community_subscriptions := community_subscriptions d @ ss\<rparr> \<and>
        set (map (\<lambda>s. (sb_community_id s, sb_user_id s)) ss) \<subseteq> {(com_ID c, u)})"

lemma store_CreateCommunity_Ret:
  assumes "DBCommunityStore_CreateCommunity c w = (Ret c', w')"
  shows "\<exists>row. db w' = db w\<lparr>communities := communities (db w) @ [row]\<rparr> \<and>
    cm_id row \<notin> cm_id ` set (communities (db w)) \<and> com_ID c' = cm_id row \<and>
    cm_name row = com_Name c \<and> cm_description row = com_Description c \<and>
    cm_creator_id row = com_CreatorID c \<and> cm_avatar_path row = com_AvatarPath c \<and>
    cm_cover_path row = com_CoverPath c \<and> com_Name c' = com_Name c \<and>
    com_Description c' = com_Description c \<and> com_CreatorID c' = com_CreatorID c \<and>
    com_AvatarPath c' = com_AvatarPath c \<and> com_CoverPath c' = com_CoverPath c"
proof -
  obtain i now row where ins: "insert_community c i now (db w) = Some (db w', row)"
    and c': "c' = c\<lparr>com_ID := cm_id row, com_CreatedAt := cm_created_at row,
                   com_UpdatedAt := cm_updated_at row\<rparr>"
    using assms
    by (auto simp: DBCommunityStore_CreateCommunity_def nextval_def act
        split: option.splits prod.splits if_splits)
  show ?thesis
    by (rule exI [of _ row]) (use ins in \<open>auto simp: c' insert_community_def Let_def split: if_splits\<close>)
qed

lemma store_CreateCommunity_Fail:
  "DBCommunityStore_CreateCommunity c w = (Fail e, w') \<Longrightarrow> db w' = db w"
  by (auto simp: DBCommunityStore_CreateCommunity_def nextval_def act
      split: option.splits prod.splits if_splits)

lemma discard_file_step:
  assumes "discard_file path k v = (r, v')"
  shows "\<exists>u. db u = db v \<and> k u = (r, v')"
proof (cases path)
  case (Some p)
  obtain q u where d: "DeleteFile p v = (q, u)" by fastforce
  have "db u = db v" using keeps_DeleteFile d by (rule db_kept)
  moreover have "q \<noteq> Panic" using no_panic_files(1) d by (rule no_panicD)
  ultimately show ?thesis
    using assms d Some by (cases q) (auto simp: discard_file_def call_def)
qed (use assms in \<open>auto simp: discard_file_def\<close>)

lemma insert_subscription_rows:
  assumes "insert_subscription i u now d = Some (d', n)"
  shows "\<exists>ss. d' = d\<lparr>community_subscriptions := community_subscriptions d @ ss\<rparr> \<and>
    set (map (\<lambda>s. (sb_community_id s, sb_user_id s)) ss) \<subseteq> {(i, u)}"
proof (cases "\<exists>s \<in> set (community_subscriptions d). sb_community_id s = i \<and> sb_user_id s = u")
  case True
  then show ?thesis
    using assms by (intro exI [of _ "[]"]) (auto simp: insert_subscription_def)
next
  case False
  then show ?thesis
    using assms
    by (intro exI [of _ "[\<lparr>sb_community_id = i, sb_user_id = u, sb_created_at = now\<rparr>]"])
       (auto simp: insert_subscription_def split: if_splits)
qed

lemma Subscribe_rows:
  assumes "DBCommunityStore_Subscribe i u w = (r, w')"
  shows "\<exists>ss. db w' = db w\<lparr>community_subscriptions := community_subscriptions (db w) @ ss\<rparr> \<and>
    set (map (\<lambda>s. (sb_community_id s, sb_user_id s)) ss) \<subseteq> {(i, u)}"
proof (cases "db w' = db w")
  case False
  then obtain n where "insert_subscription i u (clock w) (db w) = Some (db w', n)"
    using assms by (auto simp: DBCommunityStore_Subscribe_def act split: option.splits)
  then show ?thesis by (rule insert_subscription_rows)
qed (auto intro: exI [of _ "[]"])

text \<open>After the row is in, nothing fails the request.\<close>

lemma CreateCommunity_rest:
  assumes "call (ElasticCommunityStore_CreateCommunity f n i)
      (\<lambda>err. call (DBCommunityStore_Subscribe i u) (\<lambda>err. ret c) (\<lambda>_. ret c))
      (\<lambda>_. call (DBCommunityStore_Subscribe i u) (\<lambda>err. ret c) (\<lambda>_. ret c)) w = (r, w')"
  shows "r = Ret c \<and> (\<exists>ss. db w' = db w\<lparr>community_subscriptions := community_subscriptions (db w) @ ss\<rparr> \<and>
    set (map (\<lambda>s. (sb_community_id s, sb_user_id s)) ss) \<subseteq> {(i, u)})"
proof -
  obtain q v where e: "ElasticCommunityStore_CreateCommunity f n i w = (q, v)" by fastforce
  obtain q' v' where s: "DBCommunityStore_Subscribe i u v = (q', v')" by fastforce
  have "db v = db w" using keeps_elastic_communities(1) e by (rule db_kept)
  moreover have "q \<noteq> Panic" using no_panic_elastic_communities(1) e by (rule no_panicD)
  moreover have "q \<noteq> Panic \<Longrightarrow> r = Ret c \<and> w' = v'"
    using assms e s no_panicD [OF no_panic_community_store(4) s]
    by (cases q; cases q') (auto simp: call_def ret_def)
  ultimately show ?thesis using Subscribe_rows [OF s] by simp
qed

lemma CreateCommunity_service:
  assumes "CommunityService_CreateCommunity v (community_main E) u req fs gs w = (r, w')"
  shows "case r of Ret c \<Rightarrow> adds_community (db w) u req c (db w') | Fail e \<Rightarrow> db w' = db w | Panic \<Rightarrow> False"
proof -
  obtain q1 v1 where 1: "upload_first fs None w = (q1, v1)" by fastforce
  obtain q2 v2 where 2: "upload_first gs None v1 = (q2, v2)" by fastforce
  have d1: "db v1 = db w" using db_kept [OF keeps_upload_first 1] .
  have d2: "db v2 = db w" using db_kept [OF keeps_upload_first 2] d1 by simp
  show ?thesis
  proof (cases "v req \<and> (\<exists>a b. q1 = Ret a \<and> q2 = Ret b)")
    case True
    then obtain a b where q: "q1 = Ret a" "q2 = Ret b" by blast
    define c where "c = \<lparr>com_ID = 0, com_Name = cq_Name req, com_Description = cq_Description req,
      com_CreatorID = u, com_AvatarPath = a, com_CoverPath = b, com_CreatedAt = zero_time,
      com_UpdatedAt = zero_time, com_SubscribersCount = 0\<rparr>"
    obtain q3 v3 where 3: "DBCommunityStore_CreateCommunity c v2 = (q3, v3)" by fastforce
    show ?thesis
    proof (cases q3)
      case (Ret c')
      have "r = Ret c' \<and> (\<exists>ss. db w' = db v3\<lparr>community_subscriptions := community_subscriptions (db v3) @ ss\<rparr> \<and>
          set (map (\<lambda>s. (sb_community_id s, sb_user_id s)) ss) \<subseteq> {(com_ID c', u)})"
        by (rule CreateCommunity_rest)
          (use assms 1 2 3 q Ret True in \<open>auto simp: CommunityService_CreateCommunity_def call_def Let_def c_def\<close>)
      then obtain ss where r: "r = Ret c'" and
        ss: "db w' = db v3\<lparr>community_subscriptions := community_subscriptions (db v3) @ ss\<rparr>"
          "set (map (\<lambda>s. (sb_community_id s, sb_user_id s)) ss) \<subseteq> {(com_ID c', u)}"
        by blast
      obtain row where row: "db v3 = db w\<lparr>communities := communities (db w) @ [row]\<rparr>"
          "cm_id row \<notin> cm_id ` set (communities (db w))" "com_ID c' = cm_id row"
          "cm_name row = cq_Name req" "cm_description row = cq_Description req"
          "cm_creator_id row = u" "cm_avatar_path row = a" "cm_cover_path row = b"
          "com_Name c' = cq_Name req" "com_Description c' = cq_Description req"
          "com_CreatorID c' = u" "com_AvatarPath c' = a" "com_CoverPath c' = b"
        using store_CreateCommunity_Ret [OF 3 [unfolded Ret]] d2 by (auto simp: c_def)
      then show ?thesis
        unfolding r adds_community_def res.case using ss by (intro conjI exI [of _ row] exI [of _ ss]) simp_all
    next
      case (Fail e)
      then show ?thesis
        using assms 1 2 3 q True d2 store_CreateCommunity_Fail [of c v2 e v3]
        by (auto simp: CommunityService_CreateCommunity_def call_def Let_def c_def throw_def
            dest!: discard_file_step)
    next
      case Panic
      then show ?thesis using no_panicD [OF no_panic_community_store(1) 3] by simp
    qed
  next
    case False
    have "q1 \<noteq> Panic" "q2 \<noteq> Panic"
      using no_panicD [OF no_panic_upload_first 1] no_panicD [OF no_panic_upload_first 2] by auto
    then show ?thesis
      using assms 1 2 False d1 d2
      by (cases q1; cases q2) (auto simp: CommunityService_CreateCommunity_def call_def Let_def throw_def
          dest!: discard_file_step split: if_splits)
  qed
qed

subsection \<open>Listings and search\<close>

text \<open>
  A loop that does not check \<open>rows.Err\<close> returns the rows up to some point; without failing calls, all.
\<close>

lemma rows_loop_unchecked_take:
  assumes "\<And>r v x v'. body r v = (Ret x, v') \<Longrightarrow> f x = g r"
  shows "rows_loop_unchecked body rs w = (Ret xs, w') \<Longrightarrow> \<exists>n. map f xs = map g (take n rs)"
proof (induction rs arbitrary: w xs)
  case (Cons r rs)
  show ?case
  proof (cases "next_fault w")
    case (Some m)
    then show ?thesis using Cons.prems by (auto intro: exI [of _ 0])
  next
    case None
    then obtain x v ys where b: "body r (tick w) = (Ret x, v)"
        and l: "rows_loop_unchecked body rs v = (Ret ys, w')" and "xs = x # ys"
      using Cons.prems by (auto simp: act split: prod.splits res.splits)
    obtain n where "map f ys = map g (take n rs)" using Cons.IH [OF l] by blast
    then show ?thesis
      using assms [OF b] \<open>xs = x # ys\<close> by (intro exI [of _ "Suc n"]) simp
  qed
qed simp

lemma rows_loop_unchecked_all:
  assumes "\<And>r v x v'. body r v = (Ret x, v') \<Longrightarrow> f x = g r"
    and "\<And>r v x v'. no_faults v \<Longrightarrow> body r v = (Ret x, v') \<Longrightarrow> no_faults v'"
  shows "rows_loop_unchecked body rs w = (Ret xs, w') \<Longrightarrow> no_faults w \<Longrightarrow> map f xs = map g rs"
proof (induction rs arbitrary: w xs)
  case (Cons r rs)
  obtain x v ys where b: "body r (tick w) = (Ret x, v)"
      and l: "rows_loop_unchecked body rs v = (Ret ys, w')" and "xs = x # ys"
    using Cons.prems by (auto simp: act split: prod.splits res.splits)
  then show ?case
    using assms(1) [OF b] assms(2) [OF no_faults_tick [OF Cons.prems(2)] b] Cons.IH [OF l] by simp
qed simp

lemma scan_ShortCommunity_Ret:
  assumes "scan_ShortCommunity r w = (Ret c, w')"
  shows "sc_ID c = cm_id (fst r) \<and> sc_Name c = cm_name (fst r) \<and>
    sint (sc_SubscribersCount c) = int (snd r) \<and> (no_faults w \<longrightarrow> no_faults w')"
  using assms by (auto simp: scan_ShortCommunity_def act dest: scan_count_Some split: option.splits)

text \<open>What a listing shows of a community.\<close>

definition shown :: "database \<Rightarrow> community_row \<Rightarrow> int32 \<times> string \<times> int" where
  "shown d c = (cm_id c, cm_name c, int (count_subscribers d (cm_id c)))"

definition shows_of :: "ShortCommunity list \<Rightarrow> (int32 \<times> string \<times> int) list" where
  "shows_of cs = map (\<lambda>c. (sc_ID c, sc_Name c, sint (sc_SubscribersCount c))) cs"

definition newest_communities ::
    "(database \<Rightarrow> community_row \<Rightarrow> bool) \<Rightarrow> int32 \<Rightarrow> int32 \<Rightarrow> database \<Rightarrow> (int32 \<times> string \<times> int) list"
  where
  "newest_communities c limit offset d = map (shown d)
     (window limit offset (sort_key (\<lambda>r. - cm_created_at r) (filter (c d) (communities d))))"

lemma community_page:
  assumes "call (query_page (select_communities c) limit offset) (\<lambda>err. throw (g err))
      (\<lambda>rows. rows_loop_unchecked scan_ShortCommunity rows) w = (Ret cs, w')"
  shows "(\<exists>n. shows_of cs = take n (newest_communities c limit offset (db w))) \<and>
    (no_faults w \<longrightarrow> shows_of cs = newest_communities c limit offset (db w))"
proof -
  let ?rows = "window limit offset (select_communities c (db w))"
  let ?f = "\<lambda>c. (sc_ID c, sc_Name c, sint (sc_SubscribersCount c))"
  let ?g = "\<lambda>r. (cm_id (fst r), cm_name (fst r), int (snd r))"
  have l: "rows_loop_unchecked scan_ShortCommunity ?rows (tick w) = (Ret cs, w')"
    using assms by (auto simp: call_def query_page_def external_def throw_def split: option.splits if_splits)
  have g: "map ?g ?rows = newest_communities c limit offset (db w)"
    by (simp add: newest_communities_def select_communities_def window_map shown_def o_def)
  obtain n where "map ?f cs = map ?g (take n ?rows)"
    using rows_loop_unchecked_take [of scan_ShortCommunity ?f ?g, OF _ l] scan_ShortCommunity_Ret by auto
  then have "shows_of cs = take n (newest_communities c limit offset (db w))"
    by (simp add: shows_of_def take_map [symmetric] g)
  moreover have "shows_of cs = newest_communities c limit offset (db w)" if "no_faults w"
    using rows_loop_unchecked_all [of scan_ShortCommunity ?f ?g, OF _ _ l] scan_ShortCommunity_Ret that g
    by (auto simp: shows_of_def)
  ultimately show ?thesis by blast
qed

lemma GetUserCommunities_page:
  assumes "CommunityService_GetUserCommunities (community_main E) u params w = (Ret cs, w')"
    and "ValidatePaginationParams params = (offset, limit)"
  shows "(\<exists>n. shows_of cs = take n (newest_communities (subscribed_by u) limit offset (db w))) \<and>
    (no_faults w \<longrightarrow> shows_of cs = newest_communities (subscribed_by u) limit offset (db w))"
proof -
  have "DBCommunityStore_GetUserCommunities u limit offset w = (Ret cs, w')"
    using assms by (auto simp: CommunityService_GetUserCommunities_def call_def throw_def ret_def
        split: prod.splits res.splits)
  then show ?thesis unfolding DBCommunityStore_GetUserCommunities_def by (rule community_page)
qed

lemma GetOtherCommunities_page:
  assumes "CommunityService_GetOtherCommunities (community_main E) u params w = (Ret cs, w')"
    and "ValidatePaginationParams params = (offset, limit)"
  shows "(\<exists>n. shows_of cs = take n (newest_communities (\<lambda>d c. \<not> subscribed_by u d c) limit offset (db w))) \<and>
    (no_faults w \<longrightarrow> shows_of cs = newest_communities (\<lambda>d c. \<not> subscribed_by u d c) limit offset (db w))"
proof -
  have "DBCommunityStore_GetOtherCommunities u limit offset w = (Ret cs, w')"
    using assms by (auto simp: CommunityService_GetOtherCommunities_def call_def throw_def ret_def
        split: prod.splits res.splits)
  then show ?thesis unfolding DBCommunityStore_GetOtherCommunities_def by (rule community_page)
qed

text \<open>The ids the search filters by.\<close>

lemma GetUserSubscribedCommunityIDs_Ret:
  assumes "DBCommunityStore_GetUserSubscribedCommunityIDs u w = (Ret ids, w')"
  shows "(\<forall>i \<in> set ids. (i, u) \<in> subscription_pairs (db w)) \<and>
    (no_faults w \<longrightarrow> set ids = {i. (i, u) \<in> subscription_pairs (db w)} \<and> no_faults w')"
proof -
  let ?rows = "map sb_community_id (select_subscriptions (\<lambda>s. sb_user_id s = u) (db w))"
  let ?body = "\<lambda>i. call (external Plain (ret i))
    (\<lambda>err. throw (Wrapf ''failed to scan community ID: '' err)) ret"
  have l: "rows_loop_unchecked ?body ?rows (tick w) = (Ret ids, w')"
    using assms by (auto simp: DBCommunityStore_GetUserSubscribedCommunityIDs_def call_def query_def
        external_def throw_def split: option.splits)
  have set: "set ?rows = {i. (i, u) \<in> subscription_pairs (db w)}"
    by (auto simp: select_subscriptions_def in_subscription_pairs)
  have b: "x = i \<and> (no_faults v \<longrightarrow> no_faults v')" if "?body i v = (Ret x, v')" for i v x v'
    using that by (auto simp: act split: option.splits)
  obtain n where "map id ids = map id (take n ?rows)"
    using rows_loop_unchecked_take [of ?body id id, OF _ l] b by fastforce
  then have "set ids \<subseteq> set ?rows" using set_take_subset [of n ?rows] by (simp del: set_map)
  then have 1: "\<forall>i \<in> set ids. (i, u) \<in> subscription_pairs (db w)" unfolding set by blast
  have "ids = ?rows \<and> no_faults w'" if "no_faults w"
  proof
    show "ids = ?rows"
      using rows_loop_unchecked_all [of ?body id id, OF _ _ l] b that by fastforce
    have "no_faults v'" if "rows_loop_unchecked ?body rs v = (Ret xs, v')" "no_faults v" for rs v xs v'
      using that
    proof (induction rs arbitrary: v xs)
      case (Cons r rs)
      then show ?case
        by (auto simp: act split: prod.splits res.splits)
    qed auto
    then show "no_faults w'" using l no_faults_tick [OF that] by blast
  qed
  then have "set ids = {i. (i, u) \<in> subscription_pairs (db w)} \<and> no_faults w'" if "no_faults w"
    using that set by simp
  with 1 show ?thesis by blast
qed

text \<open>
  The search: whatever the type, it filters by the subscriptions it managed to read; a search for
  recommended communities excludes all of them only if every one was read.
\<close>

lemma GetCommunitiesByIDs_Ret:
  assumes "DBCommunityStore_GetCommunitiesByIDs ids w = (Ret cs, w')"
  shows "\<forall>c \<in> set cs. sc_ID c \<in> set ids"
proof (cases "ids = []")
  case False
  let ?rows = "select_communities (\<lambda>d c. cm_id c \<in> set ids) (db w)"
  obtain xs v v' where "rows_loop scan_ShortCommunity ?rows v = (Ret xs, v')" "cs = xs"
    using assms False
    by (auto simp: DBCommunityStore_GetCommunitiesByIDs_def call_def query_def rows_Err_def external_def
        throw_def ret_def split: option.splits prod.splits res.splits)
  then have "map sc_ID cs = map (\<lambda>r. cm_id (fst r)) ?rows"
    using rows_loop_map [of scan_ShortCommunity sc_ID "\<lambda>r. cm_id (fst r)"] scan_ShortCommunity_Ret by blast
  then have "sc_ID ` set cs = (\<lambda>r. cm_id (fst r)) ` set ?rows" by (metis list.set_map)
  also have "\<dots> \<subseteq> set ids" by (auto simp: select_communities_def)
  finally show ?thesis by blast
qed (use assms in \<open>auto simp: DBCommunityStore_GetCommunitiesByIDs_def ret_def\<close>)

lemma Search_communities:
  assumes "honours_community_filters (lib_communityEngine E)"
    and "CommunityService_SearchShortCommunityByNameAndType (community_main E) u params name t w = (Ret cs, w')"
  shows "(t \<noteq> Recommended \<longrightarrow> (\<forall>c \<in> set cs. (sc_ID c, u) \<in> subscription_pairs (db w))) \<and>
    (t = Recommended \<and> no_faults w \<longrightarrow> (\<forall>c \<in> set cs. (sc_ID c, u) \<notin> subscription_pairs (db w)))"
proof -
  obtain offset limit where p: "ValidatePaginationParams params = (offset, limit)" by fastforce
  obtain ids v1 found v2 where
    1: "DBCommunityStore_GetUserSubscribedCommunityIDs u w = (Ret ids, v1)" and
    2: "ElasticCommunityStore_SearchCommunityIDsByName (lib_communityEngine E) name ids
         (t \<noteq> Recommended) limit offset v1 = (Ret found, v2)" and
    3: "DBCommunityStore_GetCommunitiesByIDs found v2 = (Ret cs, w')"
    using assms(2) p
    by (cases "t = Recommended")
       (auto simp: CommunityService_SearchShortCommunityByNameAndType_def call_def throw_def ret_def
        split: prod.splits res.splits)
  have "sc_ID c \<in> set found" if "c \<in> set cs" for c
    using GetCommunitiesByIDs_Ret [OF 3] that by blast
  then have "if t \<noteq> Recommended then sc_ID c \<in> set ids else sc_ID c \<notin> set ids" if "c \<in> set cs" for c
    using community_search_respects_filter [OF assms(1) 2] that by blast
  moreover have "\<forall>i \<in> set ids. (i, u) \<in> subscription_pairs (db w)"
      "no_faults w \<Longrightarrow> (i, u) \<in> subscription_pairs (db w) \<Longrightarrow> i \<in> set ids" for i
    using GetUserSubscribedCommunityIDs_Ret [OF 1] by blast+
  ultimately show ?thesis by (cases "t = Recommended") auto
qed

subsection \<open>The page of a community\<close>

text \<open>The number of subscribers that a view shows counts the users of the pairs, each once.\<close>

lemma count_subscribers_pairs:
  assumes "wf_communities d"
  shows "count_subscribers d i = card {u. (i, u) \<in> subscription_pairs d}"
proof -
  let ?rows = "filter (\<lambda>s. sb_community_id s = i) (community_subscriptions d)"
  have "distinct (map (\<lambda>s. (sb_community_id s, sb_user_id s)) ?rows)"
    using assms by (simp add: wf_communities_def distinct_map_filter)
  then have "distinct (map sb_user_id ?rows)"
    by (auto simp: distinct_map inj_on_def)
  moreover have "set (map sb_user_id ?rows) = {u. (i, u) \<in> subscription_pairs d}"
    by (auto simp: in_subscription_pairs)
  ultimately show ?thesis
    by (metis count_subscribers_def distinct_card length_map)
qed

lemma GetCommunity_view:
  assumes "CommunityService_GetCommunity (community_main E) u i w = (Ret v, w')" "wf_communities (db w)"
  shows "vc_ID v = i \<and> (vc_IsSubscribed v \<longleftrightarrow> (i, u) \<in> subscription_pairs (db w)) \<and>
    sint (vc_SubscribersCount v) = int (card {u. (i, u) \<in> subscription_pairs (db w)})"
proof -
  obtain c v1 b where 1: "DBCommunityStore_GetCommunityByID i w = (Ret c, v1)" and
    2: "DBCommunityStore_IsSubscribed i u v1 = (Ret b, w')" and
    v: "vc_ID v = com_ID c" "vc_IsSubscribed v = b" "vc_SubscribersCount v = com_SubscribersCount c"
    using assms(1) by (auto simp: CommunityService_GetCommunity_def call_def throw_def ret_def
        split: prod.splits res.splits if_splits)
  have "db v1 = db w" using readsD [OF reads_GetCommunityByID 1] by (simp add: quiet_sel)
  then have "b \<longleftrightarrow> (i, u) \<in> subscription_pairs (db w)"
    using 2 by (auto simp: DBCommunityStore_IsSubscribed_def act in_subscription_pairs
        split: option.splits)
  then show ?thesis
    using GetCommunityByID_Ret [OF 1] v count_subscribers_pairs [OF assms(2)] by auto
qed

subsection \<open>Deleting a community\<close>

lemma discard_files_db: "discard_file p (discard_file q (ret ())) v = (r, v') \<Longrightarrow> db v' = db v"
  by (auto dest!: discard_file_step simp: ret_def)

text \<open>
  On success the community is gone with its subscriptions and posts, and no other community,
  subscription or post has changed; otherwise nothing has.
\<close>

lemma DeleteCommunity_effect:
  assumes "CommunityService_DeleteCommunity (community_main E) i u w = (r, w')" "wf_communities (db w)"
  shows "case r of
      Ret _ \<Rightarrow> (\<exists>c \<in> set (communities (db w)). cm_id c = i \<and> cm_creator_id c = u) \<and>
        db w' = delete_communities (\<lambda>c. cm_id c = i) (db w)
    | Fail e \<Rightarrow> db w' = db w | Panic \<Rightarrow> False"
proof -
  obtain q v where l: "DBCommunityStore_GetCommunityByID i w = (q, v)" by fastforce
  have d: "db v = db w" using readsD [OF reads_GetCommunityByID l] by (simp add: quiet_sel)
  show ?thesis
  proof (cases "\<exists>c. q = Ret c \<and> com_CreatorID c = u")
    case False
    moreover have "q \<noteq> Panic" using no_panicD [OF no_panic_clients(3) l] .
    ultimately show ?thesis
      using assms(1) l d by (cases q)
        (auto simp: CommunityService_DeleteCommunity_def call_def throw_def split: if_splits)
  next
    case True
    then obtain c where c: "q = Ret c" "com_CreatorID c = u" by blast
    then obtain row where row: "row \<in> set (communities (db w))" "cm_id row = i" "cm_creator_id row = u"
      using GetCommunityByID_Ret [OF l [unfolded c(1)]] by auto
    define hit where "hit = (\<lambda>r :: community_row. cm_id r = i \<and> cm_creator_id r = u)"
    have "filter hit (communities (db w)) = filter (\<lambda>c. cm_id c = i) (communities (db w))"
      using assms(2) row by (intro filter_cong)
        (auto simp: hit_def wf_communities_def dest: distinct_key_inj)
    moreover have "filter (\<lambda>c. \<not> hit c) (communities (db w)) = filter (\<lambda>c. cm_id c \<noteq> i) (communities (db w))"
      using assms(2) row by (intro filter_cong)
        (auto simp: hit_def wf_communities_def dest: distinct_key_inj)
    ultimately have same: "delete_communities hit (db w) = delete_communities (\<lambda>c. cm_id c = i) (db w)"
      by (simp add: delete_communities_def Let_def delete_posts_sel)
    obtain q' v' where del: "DBCommunityStore_DeleteCommunity i u v = (q', v')" by fastforce
    have "filter hit (communities (db w)) \<noteq> []"
      using row by (auto simp: hit_def filter_empty_conv)
    then have q': "(case q' of Ret _ \<Rightarrow> db v' = delete_communities (\<lambda>c. cm_id c = i) (db w)
        | Fail e \<Rightarrow> db v' = db w | Panic \<Rightarrow> False)"
      using del d same by (auto simp: DBCommunityStore_DeleteCommunity_def Let_def act hit_def
          split: option.splits)
    obtain q2 v2 where e: "ElasticCommunityStore_DeleteCommunity i v' = (q2, v2)" by fastforce
    have "db v2 = db v'" using keeps_elastic_communities(3) e by (rule db_kept)
    moreover have "q2 \<noteq> Panic" using no_panicD [OF no_panic_elastic_communities(3) e] .
    ultimately have "case r of Ret _ \<Rightarrow> db w' = delete_communities (\<lambda>c. cm_id c = i) (db w)
        | Fail e \<Rightarrow> db w' = db w | Panic \<Rightarrow> False"
      using assms(1) l c del e q'
      by (cases q'; cases q2) (auto simp: CommunityService_DeleteCommunity_def call_def throw_def Let_def
          ret_def dest!: discard_file_step)
    with row show ?thesis by (cases r) auto
  qed
qed

end
