(* ===== verification/Community_Properties.thy ===== *)
theory Community_Properties
  imports Examples Community_Facts Comment_Threads
begin

text \<open>
  The properties of communities: their creation and deletion with everything that depends on them, the
  set of subscriptions, and the search by type.
\<close>

subsection \<open>An instance\<close>

text \<open>
  Community 1 of user 1, to which users 1 and 2 are subscribed and which is in the search index; post 1
  in it has a comment of user 2 with a reply of user 1, and post 2 is in no community.
\<close>

definition example_comment :: "int32 \<Rightarrow> int32 \<Rightarrow> int32 \<Rightarrow> int32 option \<Rightarrow> comment_row" where
  "example_comment i p u parent = \<lparr>co_id = i, co_post_id = p, co_author_id = u, co_parent_id = parent,
     co_text = ''text'', co_created_at = 12, co_updated_at = 12\<rparr>"

definition example_post :: "int32 \<Rightarrow> int32 option \<Rightarrow> post_row" where
  "example_post i c = \<lparr>po_id = i, po_author_id = 1, po_community_id = c, po_text = ''hello'',
     po_created_at = 10, po_updated_at = 10\<rparr>"

definition example_club_db :: database where
  "example_club_db = (db example_world)\<lparr>
     communities := [\<lparr>cm_id = 1, cm_name = ''club'', cm_description = [], cm_creator_id = 1,
       cm_avatar_path = None, cm_cover_path = None, cm_created_at = 5, cm_updated_at = 5\<rparr>],
     community_subscriptions := [\<lparr>sb_community_id = 1, sb_user_id = 1, sb_created_at = 5\<rparr>,
       \<lparr>sb_community_id = 1, sb_user_id = 2, sb_created_at = 6\<rparr>],
     posts := [example_post 1 (Some 1), example_post 2 None],
     comments := [example_comment 1 1 2 None, example_comment 2 1 1 (Some 1), example_comment 3 2 2 None]\<rparr>"

definition example_club :: world where
  "example_club = example_world\<lparr>db := example_club_db,
     community_index := [strconv_Itoa 1 \<mapsto>
       \<lparr>cd_CommunityID = 1, cd_CommunityName = ''club'', cd_CommunityNameTranslit = ''club''\<rparr>]\<rparr>"

lemma example_wf_club: "wf_communities (db example_club)" "wf_content (db example_club)"
  by code_simp+

section \<open>Communities\<close>

text \<open>
  C14. Creating a community is all or nothing for the community. On success there is exactly one new
  community, of the user, with the name and description of the request and the paths of its uploaded
  pictures, and at most the creator's own subscription to it; on any failure the tables are as
  before. It never panics, whatever calls fail.
\<close>

theorem creating_a_community_is_atomic:
  "case CommunityService_CreateCommunity valid (community_main E) u req avatars covers w of
     (Ret c, w') \<Rightarrow> adds_community (db w) u req c (db w')
   | (Fail e, w') \<Rightarrow> db w' = db w
   | (Panic, w') \<Rightarrow> False"
proof -
  obtain r w' where c: "CommunityService_CreateCommunity valid (community_main E) u req avatars covers w
      = (r, w')" by fastforce
  from CreateCommunity_service [OF c] show ?thesis by (cases r) (auto simp: c)
qed

text \<open>
  C15. Deleting a community takes along exactly what depends on it. A deletion that succeeds was asked by
  the creator; it removes the community, its subscriptions, the posts in it with their likes and files,
  the comments on those posts and, transitively, the replies to them; every other row of every table
  stays. A deletion that fails changes no table.
\<close>

theorem deleting_a_community_takes_its_content:
  assumes "CommunityService_DeleteCommunity (community_main E) i u w = (r, w')"
    and "wf_communities (db w)" "wf_content (db w)"
  defines "gone \<equiv> {p. \<exists>row \<in> set (posts (db w)). po_id row = p \<and> po_community_id row = Some i}"
  shows "case r of
      Ret _ \<Rightarrow> (\<exists>c \<in> set (communities (db w)). cm_id c = i \<and> cm_creator_id c = u) \<and>
        communities (db w') = filter (\<lambda>c. cm_id c \<noteq> i) (communities (db w)) \<and>
        community_subscriptions (db w') =
          filter (\<lambda>s. sb_community_id s \<noteq> i) (community_subscriptions (db w)) \<and>
        posts (db w') = filter (\<lambda>p. po_community_id p \<noteq> Some i) (posts (db w)) \<and>
        post_likes (db w') = filter (\<lambda>l. pl_post_id l \<notin> gone) (post_likes (db w)) \<and>
        post_attachments (db w') = filter (\<lambda>f. pf_post_id f \<notin> gone) (post_attachments (db w)) \<and>
        post_photos (db w') = filter (\<lambda>f. pf_post_id f \<notin> gone) (post_photos (db w)) \<and>
        comments (db w') = filter (\<lambda>c. \<not> doomed (\<lambda>c. co_post_id c \<in> gone) (comments (db w)) (co_id c))
          (comments (db w)) \<and>
        other_than_communities (db w') = other_than_communities (db w)
    | Fail e \<Rightarrow> db w' = db w | Panic \<Rightarrow> False"
proof -
  have comments: "distinct (map co_id (comments (db w)))"
      "parents_among (co_id ` set (comments (db w))) (comments (db w))"
    using assms(3) by (simp_all add: wf_content_def wf_comments_def)
  have "delete_communities (\<lambda>c. cm_id c = i) (db w) = (db w)
      \<lparr>communities := filter (\<lambda>c. cm_id c \<noteq> i) (communities (db w)),
       community_subscriptions := filter (\<lambda>s. sb_community_id s \<noteq> i) (community_subscriptions (db w)),
       posts := filter (\<lambda>p. po_community_id p \<noteq> Some i) (posts (db w)),
       post_likes := filter (\<lambda>l. pl_post_id l \<notin> gone) (post_likes (db w)),
       post_attachments := filter (\<lambda>f. pf_post_id f \<notin> gone) (post_attachments (db w)),
       post_photos := filter (\<lambda>f. pf_post_id f \<notin> gone) (post_photos (db w)),
       comments := delete_comments (\<lambda>c. co_post_id c \<in> gone) (comments (db w))\<rparr>"
    if "\<exists>c \<in> set (communities (db w)). cm_id c = i"
  proof -
    have g: "set (map cm_id (filter (\<lambda>c. cm_id c = i) (communities (db w)))) = {i}"
      using that by auto
    have p: "(case po_community_id r of None \<Rightarrow> False | Some j \<Rightarrow> j \<in> {i}) = (po_community_id r = Some i)"
      for r by (auto split: option.splits)
    have "set (map po_id (filter (\<lambda>r. po_community_id r = Some i) (posts (db w)))) = gone"
      by (auto simp: gone_def)
    then show ?thesis
      unfolding delete_communities_def delete_posts_def Let_def g p by simp
  qed
  note deleted = this
  show ?thesis
  proof (cases r)
    case (Ret x)
    then have c: "\<exists>c \<in> set (communities (db w)). cm_id c = i \<and> cm_creator_id c = u"
        "db w' = delete_communities (\<lambda>c. cm_id c = i) (db w)"
      using DeleteCommunity_effect [OF assms(1,2)] by simp_all
    then have "\<exists>c \<in> set (communities (db w)). cm_id c = i" by blast
    from deleted [OF this] c show ?thesis
      by (simp add: Ret delete_comments_doomed [OF comments] other_than_communities_def
          other_than_content_def)
  qed (use DeleteCommunity_effect [OF assms(1,2)] in simp_all)
qed

theorem deleting_a_community_takes_its_content_witness:
  "map co_id (comments (db (snd (CommunityService_DeleteCommunity (community_main example_libs) 1 1
     example_club)))) = [3] \<and>
   \<not> doomed (\<lambda>c. co_post_id c = 1) (comments (db example_club)) 3"
proof -
  let ?m = "CommunityService_DeleteCommunity (community_main example_libs) 1 1 example_club"
  have "fst ?m = Ret ()" by code_simp
  then have m: "?m = (Ret (), snd ?m)" by (simp add: prod_eq_iff)
  have ids: "map co_id (comments (db (snd ?m))) = [3]" by code_simp
  then obtain c where c: "comments (db (snd ?m)) = [c]" "co_id c = 3" by auto
  have "{p. \<exists>row \<in> set (posts (db example_club)). po_id row = p \<and> po_community_id row = Some 1} = {1}"
    by (auto simp: example_club_def example_club_db_def example_post_def)
  then have "comments (db (snd ?m)) = filter (\<lambda>c. \<not> doomed (\<lambda>c. co_post_id c = 1)
      (comments (db example_club)) (co_id c)) (comments (db example_club))"
    using deleting_a_community_takes_its_content [OF m example_wf_club] by simp
  then have "c \<in> set (filter (\<lambda>c. \<not> doomed (\<lambda>c. co_post_id c = 1)
      (comments (db example_club)) (co_id c)) (comments (db example_club)))"
    by (metis c(1) list.set_intros(1))
  with c(2) ids show ?thesis by auto
qed

text \<open>
  C16. Subscriptions are a set of pairs. Subscribing that succeeds adds the pair of community and user,
  unsubscribing that succeeds removes one that was there, "not found" means it was not there; a
  failure changes no pair, and neither touches any other pair, whatever calls fail.
\<close>

theorem subscriptions_refine_a_set:
  "(case CommunityService_Subscribe (community_main E) i u w of (r, w') \<Rightarrow>
      subscription_pairs (db w') =
        (if r = Ret () then insert (i, u) (subscription_pairs (db w)) else subscription_pairs (db w))) \<and>
   (case CommunityService_Unsubscribe (community_main E) i u w of (r, w') \<Rightarrow>
      subscription_pairs (db w') =
        (if r = Ret () then subscription_pairs (db w) - {(i, u)} else subscription_pairs (db w)) \<and>
      (if (i, u) \<in> subscription_pairs (db w) then r \<noteq> Fail ErrNotFound else r \<noteq> Ret ()))"
proof
  show "case CommunityService_Subscribe (community_main E) i u w of (r, w') \<Rightarrow>
      subscription_pairs (db w') =
        (if r = Ret () then insert (i, u) (subscription_pairs (db w)) else subscription_pairs (db w))"
    using Subscribe_pairs by (auto split: prod.split)
  obtain r w' where c: "CommunityService_Unsubscribe (community_main E) i u w = (r, w')" by fastforce
  from Unsubscribe_pairs [OF c]
  show "case CommunityService_Unsubscribe (community_main E) i u w of (r, w') \<Rightarrow>
      subscription_pairs (db w') =
        (if r = Ret () then subscription_pairs (db w) - {(i, u)} else subscription_pairs (db w)) \<and>
      (if (i, u) \<in> subscription_pairs (db w) then r \<noteq> Fail ErrNotFound else r \<noteq> Ret ())"
    by (auto simp: c)
qed

text \<open>
  A search by type respects the subscriptions. A search for the communities of a user finds only
  ones the user is subscribed to, and a search for recommendations, when no call fails, only ones the
  user is not subscribed to, provided the search engine honours the filters of a query.
\<close>

theorem community_search_respects_type:
  assumes "honours_community_filters (lib_communityEngine E)"
    and "CommunityService_SearchShortCommunityByNameAndType (community_main E) u params name t w
      = (Ret cs, w')"
  shows "if t = Recommended
    then \<not> no_faults w \<or> (\<forall>c \<in> set cs. (sc_ID c, u) \<notin> subscription_pairs (db w))
    else (\<forall>c \<in> set cs. (sc_ID c, u) \<in> subscription_pairs (db w))"
  using Search_communities [OF assms] by auto

theorem community_search_respects_type_witness:
  "case fst (CommunityService_SearchShortCommunityByNameAndType (community_main example_libs) 2
      \<lparr>Limit = 10, Page = 1\<rparr> ''club'' Subscriber example_club) of
     Ret cs \<Rightarrow> map sc_ID cs = [1] \<and> (\<forall>c \<in> set cs. (sc_ID c, 2) \<in> subscription_pairs (db example_club))
   | _ \<Rightarrow> False"
proof -
  let ?m = "CommunityService_SearchShortCommunityByNameAndType (community_main example_libs) 2
      \<lparr>Limit = 10, Page = 1\<rparr> ''club'' Subscriber example_club"
  have i: "(case fst ?m of Ret cs \<Rightarrow> map sc_ID cs = [1] | _ \<Rightarrow> False)" by code_simp
  then obtain cs where f: "fst ?m = Ret cs" by (cases "fst ?m") auto
  then have m: "?m = (Ret cs, snd ?m)" by (simp add: prod_eq_iff)
  have "map sc_ID cs = [1]" using i by (simp add: f)
  moreover have "Subscriber \<noteq> Recommended" by (simp add: Subscriber_def Recommended_def)
  ultimately show ?thesis
    using community_search_respects_type [OF example_community_engine_honours m] by (simp add: f)
qed

end
