(* ===== verification/Message_Store.thy ===== *)
theory Message_Store
  imports Chat_Domain
begin

text \<open>
  The store of messages (src/internal/repository/db/message.go) on the tables messages, attachments
  and stickers.
\<close>

subsection \<open>Attachments\<close>

definition select_attachments :: "int32 \<Rightarrow> database \<Rightarrow> string list" where
  "select_attachments messageID d =
     map at_file_path (sort_key at_created_at
       (filter (\<lambda>a. at_obj_id a = messageID \<and> at_obj_type a = ''message'') (object_attachments d)))"

definition DBMessageStore_GetMessageAttachments :: "int32 \<Rightarrow> string list action" where
  "DBMessageStore_GetMessageAttachments messageID =
     call (query (select_attachments messageID))
       (\<lambda>err. throw (Wrapf ''failed to query message attachments: '' err))
     (\<lambda>rows. call (scan_rows (Wrapf ''failed to scan attachment: '') rows) throw
     (\<lambda>paths. call rows_Err throw (\<lambda>_. ret paths)))"

definition insert_message_attachment ::
    "int32 \<Rightarrow> string \<Rightarrow> int32 \<Rightarrow> int \<Rightarrow> database \<Rightarrow> (database \<times> unit) option" where
  "insert_message_attachment messageID path i now d =
     (let row = \<lparr>at_id = i, at_obj_id = messageID, at_obj_type = ''message'', at_file_path = path,
                 at_created_at = now\<rparr>
      in if attachments_check row \<and> i \<notin> at_id ` set (object_attachments d)
         then Some (d\<lparr>object_attachments := object_attachments d @ [row]\<rparr>, ()) else None)"

fun DBMessageStore_saveMessageAttachmentsTx :: "int32 \<Rightarrow> string list \<Rightarrow> unit action" where
  "DBMessageStore_saveMessageAttachmentsTx messageID [] = ret ()"
| "DBMessageStore_saveMessageAttachmentsTx messageID (path # paths) =
     (if only_space path then throw (Plain ''attachment path cannot be empty'')
      else if length path < 1 \<or> length path > 512
        then throw (Plain ''attachment path length must be between 1 and 512 characters'')
      else call (insert_returning ''attachments'' (insert_message_attachment messageID path))
             (\<lambda>err. throw (Wrapf ''failed to save message attachment: '' err))
           (\<lambda>_. DBMessageStore_saveMessageAttachmentsTx messageID paths))"

text \<open>
  The same in a transaction of its own: a path that fails its check leaves the transaction open, a
  failed INSERT rolls it back.
\<close>

fun save_attachments_loop :: "database \<Rightarrow> int32 \<Rightarrow> string list \<Rightarrow> unit action" where
  "save_attachments_loop tx messageID [] = ret ()"
| "save_attachments_loop tx messageID (path # paths) =
     (if only_space path
      then call (tx_Abandon tx) throw (\<lambda>_. throw (Plain ''attachment path cannot be empty''))
      else if length path < 1 \<or> length path > 512
      then call (tx_Abandon tx) throw
             (\<lambda>_. throw (Plain ''attachment path length must be between 1 and 512 characters''))
      else call (insert_returning ''attachments'' (insert_message_attachment messageID path))
             (\<lambda>err. call (tx_Rollback tx) throw
                (\<lambda>_. throw (Wrapf ''failed to save message attachment: '' err)))
           (\<lambda>_. save_attachments_loop tx messageID paths))"

definition DBMessageStore_SaveMessageAttachments :: "int32 \<Rightarrow> string list \<Rightarrow> unit action" where
  "DBMessageStore_SaveMessageAttachments messageID paths =
     (if length paths = 0 then ret ()
      else call tx_Begin (\<lambda>err. throw (Wrapf ''failed to begin transaction: '' err))
      (\<lambda>tx. call (save_attachments_loop tx messageID paths) throw
      (\<lambda>_. call (tx_Commit tx) (\<lambda>err. throw (Wrapf ''failed to commit transaction: '' err))
      (\<lambda>_. ret ()))))"

subsection \<open>Messages\<close>

text \<open>The foreign keys of a message: its author, its chat and its sticker, if any.\<close>

definition insert_message ::
    "int32 \<Rightarrow> int32 \<Rightarrow> string \<Rightarrow> int32 option \<Rightarrow> int32 \<Rightarrow> int \<Rightarrow> database \<Rightarrow> (database \<times> int32) option"
  where
  "insert_message authorID chatID text stickerID i now d =
     (let row = \<lparr>ms_id = i, ms_author_id = authorID, ms_chat_id = chatID, ms_text = text,
                 ms_sticker_id = stickerID, ms_created_at = now\<rparr>
      in if user_exists d authorID \<and> chat_exists d chatID \<and>
            (case stickerID of None \<Rightarrow> True | Some k \<Rightarrow> sticker_exists d k) \<and>
            i \<notin> ms_id ` set (messages d)
         then Some (d\<lparr>messages := messages d @ [row]\<rparr>, i) else None)"

text \<open>
  The deferred rollback sees the function's own \<open>err\<close>, which the INSERT of the message sets, and not
  the \<open>err\<close> of the inner scopes.
\<close>

definition DBMessageStore_CreateMessage :: "Message \<Rightarrow> int32 action" where
  "DBMessageStore_CreateMessage message =
     call tx_Begin (\<lambda>err. throw (Wrapf ''failed to begin transaction: '' err))
     (\<lambda>tx. call (insert_returning ''messages''
                  (insert_message (msg_AuthorID message) (msg_ChatID message) (msg_Text message)
                     (msg_StickerID message)))
        (\<lambda>err. call (tx_Rollback tx) throw (\<lambda>_. throw (Wrapf ''failed to create message: '' err)))
     (\<lambda>messageID.
        call (if length (msg_Attachments message) > 0 \<and> msg_StickerID message = None
              then DBMessageStore_saveMessageAttachmentsTx messageID (msg_Attachments message)
              else ret ())
          (\<lambda>err. call (tx_Abandon tx) throw
             (\<lambda>_. throw (Wrapf ''failed to save message attachments: '' err)))
     (\<lambda>_. call (tx_Commit tx) (\<lambda>err. throw (Wrapf ''failed to commit transaction: '' err))
     (\<lambda>_. ret messageID))))"

definition scan_message :: "message_row \<Rightarrow> Message" where
  "scan_message r =
     \<lparr>msg_ID = ms_id r, msg_AuthorID = ms_author_id r, msg_ChatID = ms_chat_id r,
      msg_Text = ms_text r, msg_StickerID = ms_sticker_id r, msg_CreatedAt = ms_created_at r,
      msg_Attachments = []\<rparr>"

definition select_messages :: "int32 \<Rightarrow> database \<Rightarrow> message_row list" where
  "select_messages chatID d =
     sort_key (\<lambda>m. - ms_created_at m) (filter (\<lambda>m. ms_chat_id m = chatID) (messages d))"

text \<open>A message without a sticker gets its attachments; when they cannot be loaded, it has none.\<close>

definition load_message :: "message_row \<Rightarrow> Message action" where
  "load_message r =
     call (external Plain (ret (scan_message r))) throw
     (\<lambda>msg. if msg_StickerID msg = None
        then call (DBMessageStore_GetMessageAttachments (msg_ID msg)) (\<lambda>err. ret msg)
             (\<lambda>paths. ret (msg\<lparr>msg_Attachments := paths\<rparr>))
        else ret msg)"

definition DBMessageStore_GetMessagesByChatId ::
    "int32 \<Rightarrow> int32 \<Rightarrow> int32 \<Rightarrow> Message list action" where
  "DBMessageStore_GetMessagesByChatId chatID limit offset =
     call (query_page (select_messages chatID) limit offset) throw
     (\<lambda>rows. call (rows_loop load_message rows) throw
     (\<lambda>list. call rows_Err throw (\<lambda>_. ret list)))"

definition DBMessageStore_GetStickerPath :: "int32 \<Rightarrow> string action" where
  "DBMessageStore_GetStickerPath stickerID =
     call (query_row (\<lambda>d. map_option sk_file_path (find (\<lambda>k. sk_id k = stickerID) (stickers d))))
       (\<lambda>err. if err = ErrNoRows then throw ErrNotFound
              else throw (Wrapf ''failed to get sticker path: '' err))
     ret"

definition DBMessageStore :: MessageStore where
  "DBMessageStore =
     \<lparr>mss_CreateMessage = DBMessageStore_CreateMessage,
      mss_GetMessagesByChatId = DBMessageStore_GetMessagesByChatId,
      mss_GetMessageAttachments = DBMessageStore_GetMessageAttachments,
      mss_SaveMessageAttachments = DBMessageStore_SaveMessageAttachments,
      mss_GetStickerPath = DBMessageStore_GetStickerPath\<rparr>"

end
