(* ===== verification/Chat_Store.thy ===== *)
theory Chat_Store
  imports Message_Store
begin

text \<open>
  The store of chats (src/internal/repository/db/chat.go) on the tables chats, chat_members and
  messages. A set of user ids that the code collects in a Go map is a list without repetitions here;
  its order does not matter to the callers.
\<close>

subsection \<open>The chat of two users\<close>

text \<open>
  SELECT chat_id ... WHERE member_id = ANY(ids) GROUP BY chat_id HAVING COUNT(*) = 2 AND
  bool_and(member_id = ANY(ids)) LIMIT 1.
\<close>

definition private_chat :: "int32 list \<Rightarrow> database \<Rightarrow> int32 option" where
  "private_chat ids d =
     (let rows = filter (\<lambda>m. cb_member_id m \<in> set ids) (chat_members d)
      in find (\<lambda>i. let group = filter (\<lambda>m. cb_chat_id m = i) rows
               in length group = 2 \<and> (\<forall>m \<in> set group. cb_member_id m \<in> set ids))
           (map cb_chat_id rows))"

text \<open>INSERT INTO chats DEFAULT VALUES, and the two members with their foreign keys.\<close>

definition insert_chat :: "int32 \<Rightarrow> int \<Rightarrow> database \<Rightarrow> (database \<times> int32) option" where
  "insert_chat i now d =
     (if i \<in> ch_id ` set (chats d) then None
      else Some (d\<lparr>chats := chats d @ [\<lparr>ch_id = i, ch_name = None, ch_is_group = False,
                    ch_avatar = None, ch_created_at = now\<rparr>]\<rparr>, i))"

definition insert_members :: "int32 \<Rightarrow> int32 list \<Rightarrow> int \<Rightarrow> database \<Rightarrow> (database \<times> nat) option" where
  "insert_members chatID ids now d =
     (let rows = map (\<lambda>u. \<lparr>cb_chat_id = chatID, cb_member_id = u, cb_last_read_message_id = 0\<rparr>) ids
      in if chat_exists d chatID \<and> (\<forall>u \<in> set ids. user_exists d u) \<and> distinct ids \<and>
            (\<forall>m \<in> set (chat_members d). cb_chat_id m = chatID \<longrightarrow> cb_member_id m \<notin> set ids)
         then Some (d\<lparr>chat_members := chat_members d @ rows\<rparr>, length rows) else None)"

definition sorted_pair :: "int32 \<Rightarrow> int32 \<Rightarrow> int32 list" where
  "sorted_pair selfUserID userID =
     (if sint selfUserID > sint userID then [userID, selfUserID] else [selfUserID, userID])"

definition DBChatStore_GetOrCreateChatWithUser :: "int32 \<Rightarrow> int32 \<Rightarrow> int32 action" where
  "DBChatStore_GetOrCreateChatWithUser selfUserID userID =
     (let ids = sorted_pair selfUserID userID
      in call tx_Begin throw
      (\<lambda>tx. let rollback = (\<lambda>e. call (tx_Rollback tx) throw (\<lambda>_. throw e));
               create =
                 call (insert_returning ''chats'' insert_chat)
                   (\<lambda>err. rollback (Wrapf ''failed to create chat: '' err))
                 (\<lambda>chatID. call (exec (insert_members chatID ids))
                   (\<lambda>err. rollback (Wrapf ''failed to add members: '' err))
                 (\<lambda>_. call (tx_Commit tx) (\<lambda>err. throw (Wrapf ''failed to commit tx: '' err))
                 (\<lambda>_. ret chatID)))
           in call (query_row (private_chat ids))
                (\<lambda>err. if errors_Is err ErrNoRows then create
                       else rollback (Wrapf ''failed to query chat: '' err))
              (\<lambda>chatID. call (tx_Commit tx) (\<lambda>err. ret chatID) (\<lambda>_. ret chatID))))"

definition is_member :: "database \<Rightarrow> int32 \<Rightarrow> int32 \<Rightarrow> bool" where
  "is_member d userID chatID \<longleftrightarrow>
     (\<exists>m \<in> set (chat_members d). cb_chat_id m = chatID \<and> cb_member_id m = userID)"

definition DBChatStore_IsMemberOfChat :: "int32 \<Rightarrow> int32 \<Rightarrow> bool action" where
  "DBChatStore_IsMemberOfChat userID chatID =
     call (query_row (\<lambda>d. Some (is_member d userID chatID))) throw ret"

definition DBChatStore_IsChatExist :: "int32 \<Rightarrow> bool action" where
  "DBChatStore_IsChatExist chatID =
     call (query_row (\<lambda>d. Some (chat_exists d chatID))) throw ret"

subsection \<open>Chats with their last message\<close>

definition last_message :: "database \<Rightarrow> int32 \<Rightarrow> message_row option" where
  "last_message d chatID =
     (case select_messages chatID d of [] \<Rightarrow> None | m # _ \<Rightarrow> Some m)"

text \<open>COUNT of the messages of a chat with an id above the last one read, whoever wrote them.\<close>

definition unread_count :: "database \<Rightarrow> chat_member_row \<Rightarrow> nat" where
  "unread_count d cm =
     length (filter (\<lambda>m. ms_chat_id m = cb_chat_id cm \<and>
       sint (ms_id m) > sint (cb_last_read_message_id cm)) (messages d))"

record chat_join =
  cj_chat :: chat_row
  cj_last :: message_row
  cj_private_user_id :: "int32 option"
  cj_unread_count :: nat
  cj_last_read :: int32

text \<open>
  The rows of a member's chats: a chat without messages has none, and the LEFT JOIN with the other
  members gives a row for each of them.
\<close>

definition join_chat :: "database \<Rightarrow> int32 \<Rightarrow> chat_member_row \<Rightarrow> chat_join list" where
  "join_chat d userID cm =
     (case (find (\<lambda>c. ch_id c = cb_chat_id cm) (chats d), last_message d (cb_chat_id cm)) of
        (Some c, Some lm) \<Rightarrow>
          let others = map cb_member_id (filter (\<lambda>m. cb_chat_id m = ch_id c \<and>
                         cb_member_id m \<noteq> userID) (chat_members d));
              joined = (if others = [] then [None] else map Some others)
          in map (\<lambda>pu. \<lparr>cj_chat = c, cj_last = lm,
                        cj_private_user_id = (if \<not> ch_is_group c then pu else None),
                        cj_unread_count = unread_count d cm,
                        cj_last_read = cb_last_read_message_id cm\<rparr>) joined
      | _ \<Rightarrow> [])"

definition select_full_chats :: "int32 \<Rightarrow> database \<Rightarrow> chat_join list" where
  "select_full_chats userID d =
     sort_key (\<lambda>r. - ms_created_at (cj_last r))
       (concat (map (join_chat d userID)
          (filter (\<lambda>cm. cb_member_id cm = userID) (chat_members d))))"

text \<open>The last message of a chat, as the queries of chats read it.\<close>

definition chat_message :: "chat_row \<Rightarrow> message_row \<Rightarrow> Message" where
  "chat_message c lm =
     \<lparr>msg_ID = ms_id lm, msg_AuthorID = ms_author_id lm, msg_ChatID = ch_id c,
      msg_Text = ms_text lm, msg_StickerID = None, msg_CreatedAt = ms_created_at lm,
      msg_Attachments = []\<rparr>"

definition scan_FullChat :: "chat_join \<Rightarrow> FullChat action" where
  "scan_FullChat r =
     call (external Plain
            (case scan_count (cj_unread_count r) of
               None \<Rightarrow> throw (Plain ''sql: Scan error'')
             | Some n \<Rightarrow> ret
                 \<lparr>fc_ID = ch_id (cj_chat r), fc_IsGroup = ch_is_group (cj_chat r),
                  fc_UserIDWith = cj_private_user_id r, fc_AvatarPath = ch_avatar (cj_chat r),
                  fc_Name = ch_name (cj_chat r),
                  fc_LastMessage = chat_message (cj_chat r) (cj_last r),
                  fc_LastMessageAuthor = zero_ShortProfile,
                  fc_LastReadMessageID = cj_last_read r, fc_UnreadCounts = n\<rparr>))
       (\<lambda>err. throw (Wrapf ''scan failed: '' err))
     ret"

definition users_of_chats :: "FullChat list \<Rightarrow> int32 list" where
  "users_of_chats fcs = remdups (concat (map (\<lambda>c.
     msg_AuthorID (fc_LastMessage c) #
       (case fc_UserIDWith c of Some u \<Rightarrow> if \<not> fc_IsGroup c then [u] else [] | None \<Rightarrow> [])) fcs))"

definition DBChatStore_GetUserFullChats ::
    "int32 \<Rightarrow> int32 \<Rightarrow> int32 \<Rightarrow> (FullChat list \<times> int32 list) action" where
  "DBChatStore_GetUserFullChats userID limit offset =
     call (query_page (select_full_chats userID) limit offset)
       (\<lambda>err. throw (Wrapf ''query failed: '' err))
     (\<lambda>rows. call (rows_loop scan_FullChat rows) throw
     (\<lambda>fcs. call rows_Err (\<lambda>err. throw (Wrapf ''rows error: '' err))
     (\<lambda>_. ret (fcs, users_of_chats fcs))))"

text \<open>
  The chat with the last message and the sender as its private user. A chat without messages has
  NULLs in the columns of the message, which do not scan. The pointer to the private user is
  dereferenced when the chat is not a group.
\<close>

definition DBChatStore_GetFullChatByIDAndSenderID ::
    "int32 \<Rightarrow> int32 \<Rightarrow> (FullChat \<times> int32 list) action" where
  "DBChatStore_GetFullChatByIDAndSenderID userID chatID =
     call (call (query_row (\<lambda>d. map_option (\<lambda>c. (c, last_message d chatID,
                    if \<not> ch_is_group c \<and> is_member d userID chatID then Some userID else None))
                  (find (\<lambda>c. ch_id c = chatID) (chats d)))) throw
            (\<lambda>(c, m, privateUserID).
               case m of None \<Rightarrow> throw (Plain ''sql: Scan error'')
               | Some lm \<Rightarrow> ret (c, lm, privateUserID)))
       (\<lambda>err. if errors_Is err ErrNoRows then throw (Wrapf ''chat not found: '' err)
              else throw (Wrapf ''scan failed: '' err))
     (\<lambda>(c, lm, privateUserID).
        let chat = \<lparr>fc_ID = ch_id c, fc_IsGroup = ch_is_group c, fc_UserIDWith = privateUserID,
                    fc_AvatarPath = ch_avatar c, fc_Name = ch_name c,
                    fc_LastMessage = chat_message c lm,
                    fc_LastMessageAuthor = zero_ShortProfile,
                    fc_LastReadMessageID = 0, fc_UnreadCounts = 0\<rparr>
        in if \<not> ch_is_group c
           then deref privateUserID (\<lambda>u. ret (chat, [u, ms_author_id lm]))
           else ret (chat, [ms_author_id lm]))"

subsection \<open>Members\<close>

definition select_other_members :: "int32 \<Rightarrow> int32 \<Rightarrow> database \<Rightarrow> (chat_member_row \<times> nat) list" where
  "select_other_members userID chatID d =
     map (\<lambda>cm. (cm, unread_count d cm))
       (filter (\<lambda>cm. cb_member_id cm \<noteq> userID \<and> cb_chat_id cm = chatID) (chat_members d))"

definition scan_member :: "chat_member_row \<times> nat \<Rightarrow> MemberWithLastReadMessage action" where
  "scan_member r =
     call (external Plain
            (case scan_count (snd r) of
               None \<Rightarrow> throw (Plain ''sql: Scan error'')
             | Some n \<Rightarrow> ret
                 \<lparr>mr_MemberID = cb_member_id (fst r),
                  mr_LastReadMessageID = cb_last_read_message_id (fst r), mr_UnreadCounts = n\<rparr>))
       (\<lambda>err. throw (Wrapf ''scan failed: '' err))
     ret"

definition DBChatStore_GetOtherChatMembersIdByAuthorId ::
    "int32 \<Rightarrow> int32 \<Rightarrow> MemberWithLastReadMessage list action" where
  "DBChatStore_GetOtherChatMembersIdByAuthorId userID chatID =
     call (query (select_other_members userID chatID))
       (\<lambda>err. throw (Wrapf ''query failed: '' err))
     (\<lambda>rows. call (rows_loop scan_member rows) throw
     (\<lambda>members. call rows_Err (\<lambda>err. throw (Wrapf ''rows error: '' err))
     (\<lambda>_. ret members)))"

text \<open>UPDATE ... WHERE the new id is above the stored one.\<close>

definition update_last_read ::
    "int32 \<Rightarrow> int32 \<Rightarrow> int32 \<Rightarrow> int \<Rightarrow> database \<Rightarrow> (database \<times> nat) option" where
  "update_last_read userID chatID lastReadMessageID now d =
     (let hit = (\<lambda>m. cb_chat_id m = chatID \<and> cb_member_id m = userID \<and>
                   sint lastReadMessageID > sint (cb_last_read_message_id m))
      in Some (d\<lparr>chat_members := update_where hit
                   (\<lambda>m. m\<lparr>cb_last_read_message_id := lastReadMessageID\<rparr>) (chat_members d)\<rparr>,
               length (filter hit (chat_members d))))"

definition DBChatStore_UpdateLastReadMessageByUserIDAndChatID ::
    "int32 \<Rightarrow> int32 \<Rightarrow> int32 \<Rightarrow> unit action" where
  "DBChatStore_UpdateLastReadMessageByUserIDAndChatID userID chatID lastReadMessageID =
     call (exec (update_last_read userID chatID lastReadMessageID))
       (\<lambda>err. throw (Wrapf ''query failed: '' err))
     (\<lambda>_. ret ())"

definition DBChatStore :: ChatStore where
  "DBChatStore =
     \<lparr>chs_GetOtherChatMembersIdByAuthorId = DBChatStore_GetOtherChatMembersIdByAuthorId,
      chs_GetOrCreateChatWithUser = DBChatStore_GetOrCreateChatWithUser,
      chs_IsMemberOfChat = DBChatStore_IsMemberOfChat,
      chs_IsChatExist = DBChatStore_IsChatExist,
      chs_GetUserFullChats = DBChatStore_GetUserFullChats,
      chs_GetFullChatByIDAndSenderID = DBChatStore_GetFullChatByIDAndSenderID,
      chs_UpdateLastReadMessageByUserIDAndChatID =
        DBChatStore_UpdateLastReadMessageByUserIDAndChatID\<rparr>"

end
