(* ===== verification/Chat_Service.thy ===== *)
theory Chat_Service
  imports Chat_Store Mapper Uploads Post_Service
begin

text \<open>
  The service of chats (src/internal/service/chat.go). \<open>CreateMessage\<close> starts a goroutine that tells
  the other members: it runs after the response, in a world of its own, and is an action of its own
  here, whose result is what it hands to the WebSocket hub, in order.
\<close>

record ChatService =
  cts_chatStore :: ChatStore
  cts_authService :: AuthServiceClient
  cts_profileService :: ProfileServiceClient
  cts_messageStore :: MessageStore

definition ChatService_GetOrCreateChatWithUser ::
    "ChatService \<Rightarrow> int32 \<Rightarrow> int32 \<Rightarrow> int32 action" where
  "ChatService_GetOrCreateChatWithUser api selfUserID userID =
     call (ac_IsUserExists (cts_authService api) userID) (\<lambda>err. throw ErrDB)
     (\<lambda>isUserExist. if \<not> isUserExist then throw ErrNotExist
      else if userID = selfUserID then throw ErrInvalidInput
      else call (chs_GetOrCreateChatWithUser (cts_chatStore api) selfUserID userID)
             (\<lambda>err. throw ErrDB)
      (\<lambda>chatID. ret chatID))"

subsection \<open>Messages\<close>

definition ChatService_GetMessagesByChatId ::
    "ChatService \<Rightarrow> PaginateQueryParams \<Rightarrow> int32 \<Rightarrow> int32 \<Rightarrow> MessagesWithAuthors action" where
  "ChatService_GetMessagesByChatId api params userID chatID =
     call (chs_IsMemberOfChat (cts_chatStore api) userID chatID) (\<lambda>err. throw ErrDB)
     (\<lambda>isMember. if \<not> isMember then throw ErrAccessDenied
      else let (offset, limit) = ValidatePaginationParams params
      in call (mss_GetMessagesByChatId (cts_messageStore api) chatID limit offset)
           (\<lambda>err. throw ErrDB)
      (\<lambda>list. let authorIDs = remdups (map msg_AuthorID list)
       in call (pc_GetShortProfileMapByUserIDs (cts_profileService api) authorIDs)
            (\<lambda>err. throw ErrDB)
       (\<lambda>authors. ret \<lparr>mwa_Messages = list, mwa_Authors = FromProtoShortProfileMap authors\<rparr>)))"

definition validateMessageContent :: "string \<Rightarrow> nat \<Rightarrow> int32 option \<Rightarrow> go_error option" where
  "validateMessageContent text attachmentsCount stickerID =
     (if stickerID \<noteq> None
      then if \<not> only_space text then Some ErrInvalidInput
           else if attachmentsCount > 0 then Some ErrInvalidInput
           else None
      else if only_space text \<and> attachmentsCount = 0 then Some ErrInvalidInput
           else None)"

definition ChatService_CreateMessage ::
    "ChatService \<Rightarrow> int32 \<Rightarrow> int32 \<Rightarrow> string \<Rightarrow> File list \<Rightarrow> int32 option \<Rightarrow> int32 action" where
  "ChatService_CreateMessage api userID chatID text attachmentFiles stickerID =
     (case validateMessageContent text (length attachmentFiles) stickerID of
        Some err \<Rightarrow> throw err
      | None \<Rightarrow>
          call (chs_IsChatExist (cts_chatStore api) chatID) (\<lambda>err. throw ErrDB)
          (\<lambda>chatFound. if \<not> chatFound then throw ErrNotFound
           else call (chs_IsMemberOfChat (cts_chatStore api) userID chatID) (\<lambda>err. throw ErrDB)
           (\<lambda>isMember. if \<not> isMember then throw ErrAccessDenied
            else call (if length attachmentFiles > 0 \<and> stickerID = None
                       then UploadFiles attachmentFiles else ret []) (\<lambda>err. throw ErrService)
            (\<lambda>attachmentPaths.
               let message = \<lparr>msg_ID = 0, msg_AuthorID = userID, msg_ChatID = chatID,
                     msg_Text = text, msg_StickerID = stickerID, msg_CreatedAt = zero_time,
                     msg_Attachments = attachmentPaths\<rparr>
               in call (mss_CreateMessage (cts_messageStore api) message)
                    (\<lambda>err. discard_files attachmentPaths (throw ErrDB))
               (\<lambda>messageID. ret messageID)))))"

text \<open>The name and picture of a private chat are those of its private user.\<close>

definition with_private_user :: "(int32 \<Rightarrow> ShortProfile option) \<Rightarrow> int32 \<Rightarrow> FullChat \<Rightarrow> FullChat" where
  "with_private_user profilesMap u chat =
     chat\<lparr>fc_AvatarPath := sp_AvatarPath (profile_at profilesMap u),
          fc_Name := Some (sp_FullName (profile_at profilesMap u))\<rparr>"

definition with_last_author :: "(int32 \<Rightarrow> ShortProfile option) \<Rightarrow> FullChat \<Rightarrow> FullChat" where
  "with_last_author profilesMap chat =
     chat\<lparr>fc_LastMessageAuthor :=
       profile_at profilesMap (msg_AuthorID (fc_LastMessage chat))\<rparr>"

text \<open>The goroutine of \<open>CreateMessage\<close>: what it passes to \<open>wsHub.SendJSON\<close>.\<close>

definition ChatService_CreateMessage_notify ::
    "ChatService \<Rightarrow> int32 \<Rightarrow> int32 \<Rightarrow> (int32 \<times> string \<times> FullChat) list action" where
  "ChatService_CreateMessage_notify api userID chatID =
     call (chs_GetFullChatByIDAndSenderID (cts_chatStore api) userID chatID) (\<lambda>err. ret [])
     (\<lambda>(chat, userIDs).
        call (pc_GetShortProfileMapByUserIDs (cts_profileService api) userIDs) (\<lambda>err. ret [])
     (\<lambda>resp. let profilesMap = FromProtoShortProfileMap resp;
        send = (\<lambda>chat.
          let chat = with_last_author profilesMap chat
          in call (chs_GetOtherChatMembersIdByAuthorId (cts_chatStore api) userID chatID)
               (\<lambda>err. ret [])
          (\<lambda>recipients. ret (map (\<lambda>m. (mr_MemberID m, ''new_message'',
               chat\<lparr>fc_LastReadMessageID := mr_LastReadMessageID m,
                    fc_UnreadCounts := mr_UnreadCounts m\<rparr>)) recipients)))
       in if \<not> fc_IsGroup chat
          then deref (fc_UserIDWith chat) (\<lambda>u. send (with_private_user profilesMap u chat))
          else send chat))"

subsection \<open>Chats\<close>

text \<open>A failure of the profile service is passed on as it came.\<close>

definition ChatService_GetUserChats ::
    "ChatService \<Rightarrow> int32 \<Rightarrow> PaginateQueryParams \<Rightarrow> FullChat list action" where
  "ChatService_GetUserChats api userID params =
     (let (offset, limit) = ValidatePaginationParams params
      in call (chs_GetUserFullChats (cts_chatStore api) userID limit offset) (\<lambda>err. throw ErrDB)
      (\<lambda>(list, userIDs).
         call (pc_GetShortProfileMapByUserIDs (cts_profileService api) userIDs) throw
      (\<lambda>resp. let profilesMap = FromProtoShortProfileMap resp
       in ret (map (\<lambda>chat.
            let chat = (case fc_UserIDWith chat of
                  Some u \<Rightarrow> if \<not> fc_IsGroup chat then with_private_user profilesMap u chat else chat
                | None \<Rightarrow> chat)
            in with_last_author profilesMap chat) list))))"

definition ChatService_UpdateLastReadMessage ::
    "ChatService \<Rightarrow> int32 \<Rightarrow> int32 \<Rightarrow> int32 \<Rightarrow> unit action" where
  "ChatService_UpdateLastReadMessage api userID chatID lastReadMessageID =
     call (chs_UpdateLastReadMessageByUserIDAndChatID (cts_chatStore api) userID chatID
             lastReadMessageID) (\<lambda>err. throw ErrDB)
     (\<lambda>_. ret ())"

end
