(* ===== verification/Sticker_Service.thy ===== *)
theory Sticker_Service
  imports Chat_Domain
begin

text \<open>
  Stickers: the store (src/internal/repository/db/sticker.go) on the tables sticker_packs and stickers,
  which only the migration fills, and the service (src/internal/service/sticker.go).
\<close>

definition scan_sticker :: "sticker_row \<Rightarrow> Sticker" where
  "scan_sticker k = \<lparr>stk_ID = sk_id k, stk_PackID = sk_pack_id k, stk_FilePath = sk_file_path k,
     stk_Position = sk_position k\<rparr>"

definition select_packs :: "database \<Rightarrow> StickerPack list" where
  "select_packs d = map (\<lambda>p. \<lparr>spk_ID = pk_id p, spk_Name = pk_name p, spk_CoverPath = pk_cover_path p\<rparr>)
     (sort_key (\<lambda>p. - pk_created_at p) (sticker_packs d))"

definition DBStickerStore_GetStickerPacks :: "StickerPack list action" where
  "DBStickerStore_GetStickerPacks =
     call (query select_packs) (\<lambda>err. throw (Wrapf ''failed to get sticker packs: '' err))
     (\<lambda>rows. call (scan_rows (Wrapf ''failed to scan sticker pack: '') rows) throw
     (\<lambda>packs. call rows_Err throw (\<lambda>_. ret packs)))"

definition select_stickers :: "int32 \<Rightarrow> database \<Rightarrow> Sticker list" where
  "select_stickers packID d = map scan_sticker
     (sort_key (\<lambda>k. sint (sk_position k)) (filter (\<lambda>k. sk_pack_id k = packID) (stickers d)))"

definition DBStickerStore_GetStickersByPackID :: "int32 \<Rightarrow> Sticker list action" where
  "DBStickerStore_GetStickersByPackID packID =
     call (query (select_stickers packID))
       (\<lambda>err. throw (Wrapf ''failed to get stickers by pack ID: '' err))
     (\<lambda>rows. call (scan_rows (Wrapf ''failed to scan sticker: '') rows) throw
     (\<lambda>list. call rows_Err throw (\<lambda>_. ret list)))"

definition DBStickerStore_GetStickerByID :: "int32 \<Rightarrow> Sticker action" where
  "DBStickerStore_GetStickerByID stickerID =
     call (query_row (\<lambda>d. map_option scan_sticker (find (\<lambda>k. sk_id k = stickerID) (stickers d))))
       (\<lambda>err. if err = ErrNoRows then throw ErrNotFound
              else throw (Wrapf ''failed to get sticker by ID: '' err))
     ret"

definition DBStickerStore :: StickerStore where
  "DBStickerStore = \<lparr>sks_GetStickerPacks = DBStickerStore_GetStickerPacks,
     sks_GetStickersByPackID = DBStickerStore_GetStickersByPackID,
     sks_GetStickerByID = DBStickerStore_GetStickerByID\<rparr>"

definition StickerService_GetStickerPacks :: "StickerStore \<Rightarrow> StickerPack list action" where
  "StickerService_GetStickerPacks s = call (sks_GetStickerPacks s) (\<lambda>err. throw ErrDB) ret"

definition StickerService_GetStickersByPackID :: "StickerStore \<Rightarrow> int32 \<Rightarrow> Sticker list action" where
  "StickerService_GetStickersByPackID s packID =
     call (sks_GetStickersByPackID s packID) (\<lambda>err. throw ErrDB) ret"

text \<open>The errors of the store are passed on.\<close>

definition StickerService_GetStickerByID :: "StickerStore \<Rightarrow> int32 \<Rightarrow> Sticker action" where
  "StickerService_GetStickerByID s stickerID = call (sks_GetStickerByID s stickerID) throw ret"

end
