(* ===== verification/Chat_Handler.thy ===== *)
theory Chat_Handler
  imports Http Chat_Service Sticker_Service
begin

text \<open>
  The HTTP handlers of chats and stickers (src/internal/handler/chat.go and sticker.go), and the
  services as \<open>main\<close> (src/cmd/main/main.go) builds them.
\<close>

definition chat_main :: "libraries \<Rightarrow> ChatService" where
  "chat_main E = \<lparr>cts_chatStore = DBChatStore, cts_authService = auth_conn E,
     cts_profileService = profile_conn E, cts_messageStore = DBMessageStore\<rparr>"

definition ChatHandler_GetOrCreateChatWithUser :: "ChatService \<Rightarrow> http_handler" where
  "ChatHandler_GetOrCreateChatWithUser api r =
     call (PathInt32 r ''id'') sendJSONError
     (\<lambda>userID. let selfUserID = ctx_userID r
      in call (ChatService_GetOrCreateChatWithUser api selfUserID userID) sendJSONError
      (\<lambda>chatID. sendJSONData (ChatIDResponse chatID)))"

definition ChatHandler_GetMessagesByChatId :: "http_libs \<Rightarrow> ChatService \<Rightarrow> http_handler" where
  "ChatHandler_GetMessagesByChatId H api r =
     call (PathInt32 r ''id'') sendJSONError
     (\<lambda>chatID. let userID = ctx_userID r
      in call (DecodeQueryParams (hl_decodePaginate H) r) sendJSONError
      (\<lambda>qParams.
       call (ChatService_GetMessagesByChatId api qParams userID chatID) sendJSONError
       (\<lambda>messagesWithAuthors. sendJSONData (MessagesPayload messagesWithAuthors))))"

definition ChatHandler_CreateMessage :: "ChatService \<Rightarrow> http_handler" where
  "ChatHandler_CreateMessage api r =
     call (PathInt32 r ''id'') sendJSONError
     (\<lambda>chatID. call (ParseMultipart r) sendJSONError
     (\<lambda>form. let text = mp_Value form ''text''; userID = ctx_userID r
      in call (parseIntParam form ''sticker_id'') sendJSONError
      (\<lambda>stickerID. call (MultipartFiles form ''attachments'') sendJSONError
      (\<lambda>attachmentFiles.
       call (ChatService_CreateMessage api userID chatID text attachmentFiles stickerID)
         sendJSONError
       (\<lambda>messageID. sendJSONData (MessageIDResponse messageID))))))"

definition ChatHandler_GetUserChats :: "http_libs \<Rightarrow> ChatService \<Rightarrow> http_handler" where
  "ChatHandler_GetUserChats H api r =
     call (DecodeQueryParams (hl_decodePaginate H) r) sendJSONError
     (\<lambda>qParams. let userID = ctx_userID r
      in call (ChatService_GetUserChats api userID qParams) sendJSONError
      (\<lambda>list. sendJSONData (FullChats list)))"

definition ChatHandler_UpdateLastReadMessage :: "http_libs \<Rightarrow> ChatService \<Rightarrow> http_handler" where
  "ChatHandler_UpdateLastReadMessage H api r =
     call (PathInt32 r ''id'') sendJSONError
     (\<lambda>chatID. call (DecodeJSONBody (hl_decodeLastRead H) r) sendJSONError
     (\<lambda>lastReadMessageID. let userID = ctx_userID r
      in call (ChatService_UpdateLastReadMessage api userID chatID lastReadMessageID) sendJSONError
      (\<lambda>_. sendJSONSuccess ''Last read message updated'')))"

subsection \<open>Stickers\<close>

definition StickerHandler_GetStickerPacks :: "StickerStore \<Rightarrow> http_handler" where
  "StickerHandler_GetStickerPacks s r =
     call (StickerService_GetStickerPacks s) sendJSONError
     (\<lambda>packs. sendJSONData (StickerPackList packs))"

text \<open>The error of the path variable is not checked: the pack is then 0.\<close>

definition StickerHandler_GetStickersByPackID :: "StickerStore \<Rightarrow> http_handler" where
  "StickerHandler_GetStickersByPackID s r =
     (let answer = (\<lambda>packID. call (StickerService_GetStickersByPackID s packID) sendJSONError
            (\<lambda>list. sendJSONData (StickerList list)))
      in call (PathInt32 r ''packID'') (\<lambda>err. answer 0) answer)"

end
