(* ===== verification/Chat_Tables.thy ===== *)
theory Chat_Tables
  imports Chat_Handler Post_Tables
begin

text \<open>
  The invariant of the tables of chats, members and messages: the keys and references of the schema,
  and what the program adds to it, that a chat has exactly two members and no two chats have the
  same two. The endpoints of chats and stickers, and that every request keeps the invariant.
\<close>

definition members_of :: "database \<Rightarrow> int32 \<Rightarrow> int32 set" where
  "members_of d i = cb_member_id ` {m \<in> set (chat_members d). cb_chat_id m = i}"

definition wf_members :: "database \<Rightarrow> bool" where
  "wf_members d \<longleftrightarrow> distinct (map ch_id (chats d)) \<and>
     distinct (map (\<lambda>m. (cb_chat_id m, cb_member_id m)) (chat_members d)) \<and>
     (\<forall>m \<in> set (chat_members d). chat_exists d (cb_chat_id m) \<and> user_exists d (cb_member_id m))"

definition wf_messages :: "database \<Rightarrow> bool" where
  "wf_messages d \<longleftrightarrow> distinct (map ms_id (messages d)) \<and>
     (\<forall>m \<in> set (messages d). user_exists d (ms_author_id m) \<and> chat_exists d (ms_chat_id m) \<and>
        refers (sticker_exists d) (ms_sticker_id m)) \<and>
     distinct (map at_id (object_attachments d)) \<and>
     (\<forall>a \<in> set (object_attachments d). attachments_check a)"

definition private_chats :: "database \<Rightarrow> bool" where
  "private_chats d \<longleftrightarrow>
     (\<forall>c \<in> set (chats d). \<not> ch_is_group c \<and>
        (\<exists>u v. u \<noteq> v \<and> members_of d (ch_id c) = {u, v})) \<and>
     (\<forall>c \<in> set (chats d). \<forall>c' \<in> set (chats d).
        members_of d (ch_id c) = members_of d (ch_id c') \<longrightarrow> ch_id c = ch_id c')"

definition wf_chats :: "database \<Rightarrow> bool" where
  "wf_chats d \<longleftrightarrow> wf_members d \<and> wf_messages d \<and> private_chats d"

lemma is_member_members_of: "is_member d u i \<longleftrightarrow> u \<in> members_of d i"
  by (auto simp: is_member_def members_of_def)

lemma members_of_pairs:
  "members_of d i = {u. (i, u) \<in> set (map (\<lambda>m. (cb_chat_id m, cb_member_id m)) (chat_members d))}"
  by (auto simp: members_of_def)

lemma exists_update_chats [simp]:
  "user_exists (d\<lparr>chats := x\<rparr>) = user_exists d" "user_exists (d\<lparr>chat_members := y\<rparr>) = user_exists d"
  "user_exists (d\<lparr>messages := z\<rparr>) = user_exists d"
  "user_exists (d\<lparr>object_attachments := a\<rparr>) = user_exists d"
  "chat_exists (d\<lparr>chat_members := y\<rparr>) = chat_exists d" "chat_exists (d\<lparr>messages := z\<rparr>) = chat_exists d"
  "chat_exists (d\<lparr>object_attachments := a\<rparr>) = chat_exists d"
  "sticker_exists (d\<lparr>chats := x\<rparr>) = sticker_exists d"
  "sticker_exists (d\<lparr>chat_members := y\<rparr>) = sticker_exists d"
  "sticker_exists (d\<lparr>messages := z\<rparr>) = sticker_exists d"
  "sticker_exists (d\<lparr>object_attachments := a\<rparr>) = sticker_exists d"
  "members_of (d\<lparr>chats := x\<rparr>) = members_of d" "members_of (d\<lparr>messages := z\<rparr>) = members_of d"
  "members_of (d\<lparr>object_attachments := a\<rparr>) = members_of d"
  by (simp_all add: user_exists_def chat_exists_def sticker_exists_def members_of_def fun_eq_iff)

lemmas wf_chats_defs = wf_chats_def wf_members_def wf_messages_def private_chats_def

subsection \<open>Messages\<close>

lemma wf_insert_message:
  "insert_message a c t k i now d = Some (d', j) \<Longrightarrow> wf_chats d \<Longrightarrow> wf_chats d'"
  by (auto simp: insert_message_def Let_def wf_chats_defs split: if_splits option.splits)

lemma wf_insert_message_attachment:
  "insert_message_attachment m path i now d = Some (d', u) \<Longrightarrow> wf_chats d \<Longrightarrow> wf_chats d'"
  by (auto simp: insert_message_attachment_def Let_def wf_chats_defs split: if_splits)

lemma wf_update_last_read:
  assumes "update_last_read u c l now d = Some (d', n)" "wf_chats d"
  shows "wf_chats d'"
proof -
  define hit where "hit = (\<lambda>m :: chat_member_row. cb_chat_id m = c \<and> cb_member_id m = u \<and>
    sint l > sint (cb_last_read_message_id m))"
  define f where "f = (\<lambda>m :: chat_member_row. m\<lparr>cb_last_read_message_id := l\<rparr>)"
  have d': "d' = d\<lparr>chat_members := update_where hit f (chat_members d)\<rparr>"
    using assms(1) by (simp add: update_last_read_def Let_def hit_def f_def)
  have keys: "cb_chat_id (f m) = cb_chat_id m" "cb_member_id (f m) = cb_member_id m" for m
    by (simp_all add: f_def)
  have pairs: "map (\<lambda>m. (cb_chat_id m, cb_member_id m)) (chat_members d') =
      map (\<lambda>m. (cb_chat_id m, cb_member_id m)) (chat_members d)"
    unfolding d' by (simp add: map_update_where_same keys)
  have "members_of d' i = members_of d i" for i
    unfolding members_of_pairs pairs by (rule refl)
  moreover note pairs
  moreover have "\<forall>m \<in> set (chat_members d'). chat_exists d (cb_chat_id m) \<and> user_exists d (cb_member_id m)"
    using assms(2) unfolding d' by (auto simp: wf_chats_defs set_update_where keys)
  ultimately show ?thesis
    using assms(2) unfolding wf_chats_defs by (simp add: d')
qed

subsection \<open>The chat of two users\<close>

text \<open>The query finds the chat that has both users, if there is one.\<close>

lemma private_chat_group:
  assumes "wf_members d" "a \<noteq> b"
  shows "length (filter (\<lambda>m. cb_chat_id m = i) (filter (\<lambda>m. cb_member_id m \<in> set [a, b]) (chat_members d))) = 2
     \<longleftrightarrow> {a, b} \<subseteq> members_of d i"
proof -
  let ?g = "filter (\<lambda>m. cb_chat_id m = i) (filter (\<lambda>m. cb_member_id m \<in> set [a, b]) (chat_members d))"
  have "distinct (map (\<lambda>m. (cb_chat_id m, cb_member_id m)) ?g)"
    using assms(1) unfolding wf_members_def by (intro distinct_map_filter) blast
  then have "distinct (map cb_member_id ?g)" by (auto simp: distinct_map inj_on_def)
  moreover have s: "set (map cb_member_id ?g) = members_of d i \<inter> {a, b}"
    by (auto simp: members_of_def)
  ultimately have "length ?g = card (members_of d i \<inter> {a, b})"
    by (metis distinct_card length_map)
  moreover have "card (members_of d i \<inter> {a, b}) = 2 \<longleftrightarrow> members_of d i \<inter> {a, b} = {a, b}"
  proof
    assume "card (members_of d i \<inter> {a, b}) = 2"
    then show "members_of d i \<inter> {a, b} = {a, b}"
      using assms(2) by (intro card_subset_eq) auto
  qed (use assms(2) in simp)
  ultimately show ?thesis by auto
qed

lemma private_chat_iff:
  assumes "wf_members d" "a \<noteq> b"
  shows "(private_chat [a, b] d = Some i \<longrightarrow> {a, b} \<subseteq> members_of d i) \<and>
    (private_chat [a, b] d = None \<longrightarrow> (\<forall>j. \<not> {a, b} \<subseteq> members_of d j))"
proof -
  let ?rows = "filter (\<lambda>m. cb_member_id m \<in> set [a, b]) (chat_members d)"
  have ok: "(let g = filter (\<lambda>m. cb_chat_id m = j) ?rows
       in length g = 2 \<and> (\<forall>m \<in> set g. cb_member_id m \<in> set [a, b])) \<longleftrightarrow> {a, b} \<subseteq> members_of d j" for j
    unfolding Let_def private_chat_group [OF assms] by auto
  have f: "private_chat [a, b] d = find (\<lambda>j. {a, b} \<subseteq> members_of d j) (map cb_chat_id ?rows)"
    unfolding private_chat_def Let_def using ok unfolding Let_def by presburger
  have "j \<in> set (map cb_chat_id ?rows)" if "{a, b} \<subseteq> members_of d j" for j
    using that by (force simp: members_of_def)
  then show ?thesis
    unfolding f by (auto simp: find_Some_iff find_None_iff)
qed


lemma GetOrCreate_cases:
  assumes "DBChatStore_GetOrCreateChatWithUser u v w = (r, w')"
  shows "case r of
      Ret i \<Rightarrow> private_chat (sorted_pair u v) (db w) = Some i \<and> db w' = db w \<or>
        private_chat (sorted_pair u v) (db w) = None \<and>
        (\<exists>now d n. insert_chat i now (db w) = Some (d, i) \<and>
           insert_members i (sorted_pair u v) now d = Some (db w', n))
    | Fail e \<Rightarrow> db w' = db w | Panic \<Rightarrow> False"
proof -
  have "insert_chat j now d = Some (d1, k) \<Longrightarrow> insert_chat k now d = Some (d1, k)" for j now d d1 k
    by (auto simp: insert_chat_def split: if_splits)
  then show ?thesis
    using assms
    by (auto simp: DBChatStore_GetOrCreateChatWithUser_def Let_def act nextval_def
        split: option.splits prod.splits if_splits) metis?
qed

lemma sorted_pair_set [simp]: "set (sorted_pair u v) = {u, v}"
  by (auto simp: sorted_pair_def)

lemma sorted_pair_commute: "sorted_pair u v = sorted_pair v u"
  by (simp add: sorted_pair_def)

lemma sorted_pair_cases:
  assumes "u \<noteq> v" obtains a b where "sorted_pair u v = [a, b]" "a \<noteq> b" "{a, b} = {u, v}"
  using assms by (cases "sint u > sint v") (auto simp: sorted_pair_def)

text \<open>A new chat: a row, and the two members.\<close>

lemma member_chat_id: "wf_members d \<Longrightarrow> m \<in> set (chat_members d) \<Longrightarrow> cb_chat_id m \<in> ch_id ` set (chats d)"
  unfolding wf_members_def chat_exists_def by (blast intro: rev_image_eqI [OF _ sym])

lemma new_chat_members:
  assumes "insert_chat i now d = Some (d1, i)" "insert_members i ids now d1 = Some (d', n)" "wf_members d"
  shows "members_of d' j = (if j = i then set ids else members_of d j)"
proof -
  have "i \<notin> ch_id ` set (chats d)" and
    d': "d' = d\<lparr>chats := chats d', chat_members := chat_members d @
      map (\<lambda>u. \<lparr>cb_chat_id = i, cb_member_id = u, cb_last_read_message_id = 0\<rparr>) ids\<rparr>"
    using assms(1,2) by (auto simp: insert_chat_def insert_members_def Let_def split: if_splits)
  then have "cb_chat_id m \<noteq> i" if "m \<in> set (chat_members d)" for m
    using member_chat_id [OF assms(3) that] by auto
  moreover have "chat_members d' = chat_members d @
      map (\<lambda>u. \<lparr>cb_chat_id = i, cb_member_id = u, cb_last_read_message_id = 0\<rparr>) ids"
    by (subst d') simp
  ultimately show ?thesis
    unfolding members_of_pairs by auto
qed

lemma wf_members_new_chat:
  assumes i: "insert_chat i now d = Some (d1, i)" and m: "insert_members i [a, b] now d1 = Some (d', n)"
    and wf: "wf_members d" and "a \<noteq> b"
  shows "wf_members d' \<and> i \<notin> ch_id ` set (chats d)"
proof -
  define row where "row = \<lparr>ch_id = i, ch_name = None, ch_is_group = False, ch_avatar = None,
    ch_created_at = now\<rparr>"
  define ms where "ms = map (\<lambda>u. \<lparr>cb_chat_id = i, cb_member_id = u, cb_last_read_message_id = 0\<rparr>) [a, b]"
  have new: "i \<notin> ch_id ` set (chats d)" "user_exists d a" "user_exists d b"
    and d': "d' = d\<lparr>chats := chats d @ [row], chat_members := chat_members d @ ms\<rparr>"
    using i m by (auto simp: insert_chat_def insert_members_def Let_def row_def ms_def split: if_splits)
  have ce: "chat_exists d' j \<longleftrightarrow> chat_exists d j \<or> j = i" for j
    by (auto simp: d' chat_exists_def row_def)
  have old: "cb_chat_id x \<noteq> i" if "x \<in> set (chat_members d)" for x
    using member_chat_id [OF wf that] new(1) by auto
  have "wf_members d'"
    using wf new \<open>a \<noteq> b\<close> old unfolding wf_members_def ce
    by (auto simp: d' row_def ms_def)
  then show ?thesis using new(1) by blast
qed

lemma wf_new_chat:
  assumes i: "insert_chat i now d = Some (d1, i)" and m: "insert_members i [a, b] now d1 = Some (d', n)"
    and "a \<noteq> b" and none: "private_chat [a, b] d = None" and wf: "wf_chats d"
  shows "wf_chats d'"
proof -
  define row where "row = \<lparr>ch_id = i, ch_name = None, ch_is_group = False, ch_avatar = None,
    ch_created_at = now\<rparr>"
  define ms where "ms = map (\<lambda>u. \<lparr>cb_chat_id = i, cb_member_id = u, cb_last_read_message_id = 0\<rparr>) [a, b]"
  have new: "i \<notin> ch_id ` set (chats d)" "user_exists d a" "user_exists d b"
    and d': "d' = d\<lparr>chats := chats d @ [row], chat_members := chat_members d @ ms\<rparr>"
    using i m by (auto simp: insert_chat_def insert_members_def Let_def row_def ms_def split: if_splits)
  have wfm: "wf_members d" using wf by (simp add: wf_chats_def)
  have of: "members_of d' j = (if j = i then {a, b} else members_of d j)" for j
    using new_chat_members [OF i m wfm] by simp
  have ce: "chat_exists d' j \<longleftrightarrow> chat_exists d j \<or> j = i" for j
    by (auto simp: d' chat_exists_def row_def)
  have "wf_members d'"
    using wf_members_new_chat [OF i m wfm \<open>a \<noteq> b\<close>] by blast
  moreover have "wf_messages d'"
    using wf unfolding wf_chats_def wf_messages_def ce by (auto simp: d')
  moreover have "private_chats d'"
    unfolding private_chats_def
  proof (intro conjI ballI impI)
    have no: "members_of d j \<noteq> {a, b}" for j
      using private_chat_iff [OF wfm \<open>a \<noteq> b\<close>] none by blast
    have rows: "set (chats d') = insert row (set (chats d))" by (simp add: d')
    have kept: "ch_id c \<noteq> i" if "c \<in> set (chats d)" for c using new(1) that by auto
    fix c assume c: "c \<in> set (chats d')"
    then show "\<not> ch_is_group c" using wf rows by (auto simp: wf_chats_def private_chats_def row_def)
    show "\<exists>u v. u \<noteq> v \<and> members_of d' (ch_id c) = {u, v}"
      using c rows \<open>a \<noteq> b\<close> wf kept by (auto simp: of row_def wf_chats_def private_chats_def)
    fix c' assume c': "c' \<in> set (chats d')"
    assume same: "members_of d' (ch_id c) = members_of d' (ch_id c')"
    show "ch_id c = ch_id c'"
    proof (cases "ch_id c = i \<or> ch_id c' = i")
      case True then show ?thesis using same no by (auto simp: of split: if_splits)
    next
      case False
      then have "c \<in> set (chats d)" "c' \<in> set (chats d)" using c c' rows by (auto simp: row_def)
      then show ?thesis
        using wf same False by (auto simp: of wf_chats_def private_chats_def)
    qed
  qed
  ultimately show ?thesis by (simp add: wf_chats_def)
qed


subsection \<open>The endpoints\<close>

datatype chat_route =
  Route_GetOrCreateChat | Route_GetMessages | Route_CreateMessage | Route_GetUserChats
| Route_UpdateLastRead | Route_GetStickerPacks | Route_GetStickers

fun chat_endpoint :: "libraries \<Rightarrow> http_libs \<Rightarrow> chat_route \<Rightarrow> http_handler" where
  "chat_endpoint E H Route_GetOrCreateChat = ChatHandler_GetOrCreateChatWithUser (chat_main E)"
| "chat_endpoint E H Route_GetMessages = ChatHandler_GetMessagesByChatId H (chat_main E)"
| "chat_endpoint E H Route_CreateMessage = ChatHandler_CreateMessage (chat_main E)"
| "chat_endpoint E H Route_GetUserChats = ChatHandler_GetUserChats H (chat_main E)"
| "chat_endpoint E H Route_UpdateLastRead = ChatHandler_UpdateLastReadMessage H (chat_main E)"
| "chat_endpoint E H Route_GetStickerPacks = StickerHandler_GetStickerPacks DBStickerStore"
| "chat_endpoint E H Route_GetStickers = StickerHandler_GetStickersByPackID DBStickerStore"

lemma chat_main_sel [simp]:
  "cts_chatStore (chat_main E) = DBChatStore" "cts_messageStore (chat_main E) = DBMessageStore"
  "cts_authService (chat_main E) = auth_conn E" "cts_profileService (chat_main E) = profile_conn E"
  by (simp_all add: chat_main_def)

lemma DBChatStore_sel [simp]:
  "chs_GetOtherChatMembersIdByAuthorId DBChatStore = DBChatStore_GetOtherChatMembersIdByAuthorId"
  "chs_GetOrCreateChatWithUser DBChatStore = DBChatStore_GetOrCreateChatWithUser"
  "chs_IsMemberOfChat DBChatStore = DBChatStore_IsMemberOfChat"
  "chs_IsChatExist DBChatStore = DBChatStore_IsChatExist"
  "chs_GetUserFullChats DBChatStore = DBChatStore_GetUserFullChats"
  "chs_GetFullChatByIDAndSenderID DBChatStore = DBChatStore_GetFullChatByIDAndSenderID"
  "chs_UpdateLastReadMessageByUserIDAndChatID DBChatStore =
     DBChatStore_UpdateLastReadMessageByUserIDAndChatID"
  by (simp_all add: DBChatStore_def)

lemma DBMessageStore_sel [simp]:
  "mss_CreateMessage DBMessageStore = DBMessageStore_CreateMessage"
  "mss_GetMessagesByChatId DBMessageStore = DBMessageStore_GetMessagesByChatId"
  "mss_GetMessageAttachments DBMessageStore = DBMessageStore_GetMessageAttachments"
  "mss_SaveMessageAttachments DBMessageStore = DBMessageStore_SaveMessageAttachments"
  "mss_GetStickerPath DBMessageStore = DBMessageStore_GetStickerPath"
  by (simp_all add: DBMessageStore_def)

lemma DBStickerStore_sel [simp]:
  "sks_GetStickerPacks DBStickerStore = DBStickerStore_GetStickerPacks"
  "sks_GetStickersByPackID DBStickerStore = DBStickerStore_GetStickersByPackID"
  "sks_GetStickerByID DBStickerStore = DBStickerStore_GetStickerByID"
  by (simp_all add: DBStickerStore_def)

lemmas chat_services =
  ChatService_GetOrCreateChatWithUser_def ChatService_GetMessagesByChatId_def
  ChatService_CreateMessage_def ChatService_GetUserChats_def ChatService_UpdateLastReadMessage_def
  StickerService_GetStickerPacks_def StickerService_GetStickersByPackID_def

lemmas chat_handlers =
  ChatHandler_GetOrCreateChatWithUser_def ChatHandler_GetMessagesByChatId_def
  ChatHandler_CreateMessage_def ChatHandler_GetUserChats_def ChatHandler_UpdateLastReadMessage_def
  StickerHandler_GetStickerPacks_def StickerHandler_GetStickersByPackID_def

subsection \<open>What the requests keep\<close>

lemma reads_message_store [intro]:
  "reads (DBMessageStore_GetMessageAttachments i)" "reads (DBMessageStore_GetMessagesByChatId i l off)"
  "reads (DBMessageStore_GetStickerPath k)"
proof -
  show a: "reads (DBMessageStore_GetMessageAttachments i)" for i
    by (auto simp: DBMessageStore_GetMessageAttachments_def)
  have "reads (load_message r)" for r
    by (auto simp: load_message_def intro!: reads_call a)
  then show "reads (DBMessageStore_GetMessagesByChatId i l off)"
    by (auto simp: DBMessageStore_GetMessagesByChatId_def intro!: reads_call)
  show "reads (DBMessageStore_GetStickerPath k)"
    by (auto simp: DBMessageStore_GetStickerPath_def)
qed

lemma reads_chat_store [intro]:
  "reads (DBChatStore_IsMemberOfChat u i)" "reads (DBChatStore_IsChatExist i)"
  "reads (DBChatStore_GetUserFullChats u l off)" "reads (DBChatStore_GetFullChatByIDAndSenderID u i)"
  "reads (DBChatStore_GetOtherChatMembersIdByAuthorId u i)"
proof -
  have s: "reads (scan_FullChat r)" "reads (scan_member m)" for r m
    by (auto simp: scan_FullChat_def scan_member_def intro!: reads_call split: option.splits)
  have d: "reads (k x) \<Longrightarrow> reads (deref p k)" if "\<And>x. reads (k x)" for p and k :: "'a \<Rightarrow> 'b action" and x
    using that by (auto simp: deref_def split: option.splits)
  show "reads (DBChatStore_IsMemberOfChat u i)" "reads (DBChatStore_IsChatExist i)"
    by (auto simp: DBChatStore_IsMemberOfChat_def DBChatStore_IsChatExist_def)
  show "reads (DBChatStore_GetUserFullChats u l off)"
      "reads (DBChatStore_GetOtherChatMembersIdByAuthorId u i)"
    by (auto simp: DBChatStore_GetUserFullChats_def DBChatStore_GetOtherChatMembersIdByAuthorId_def
        intro!: reads_call reads_rows_loop s)
  show "reads (DBChatStore_GetFullChatByIDAndSenderID u i)"
    by (auto simp: DBChatStore_GetFullChatByIDAndSenderID_def Let_def deref_def
        intro!: reads_call reads_branch split: option.splits prod.splits)
qed

lemma reads_sticker_store [intro]:
  "reads DBStickerStore_GetStickerPacks" "reads (DBStickerStore_GetStickersByPackID i)"
  "reads (DBStickerStore_GetStickerByID i)"
  by (auto simp: DBStickerStore_GetStickerPacks_def DBStickerStore_GetStickersByPackID_def
      DBStickerStore_GetStickerByID_def)

lemmas keeps_chat_reads [wf_intros] =
  reads_message_store [THEN keeps_reads] reads_chat_store [THEN keeps_reads]
  reads_sticker_store [THEN keeps_reads]

text \<open>
  Invariants of the statements on chats and messages. A new chat is for two different users who have
  none yet: the query and the check of the service see to that.
\<close>

locale chat_statements =
  fixes I :: "database \<Rightarrow> bool"
  assumes new_chat: "insert_chat i now d = Some (d1, i) \<Longrightarrow>
      insert_members i [a, b] now d1 = Some (d', n) \<Longrightarrow> a \<noteq> b \<Longrightarrow> private_chat [a, b] d = None \<Longrightarrow>
      I d \<Longrightarrow> I d'"
    and insert_message: "insert_message u c t k i now d = Some (d', j) \<Longrightarrow> I d \<Longrightarrow> I d'"
    and insert_message_attachment:
      "insert_message_attachment m path i now d = Some (d', x) \<Longrightarrow> I d \<Longrightarrow> I d'"
    and update_last_read: "update_last_read u c l now d = Some (d', n) \<Longrightarrow> I d \<Longrightarrow> I d'"
begin

lemma keeps_get_or_create:
  assumes "u \<noteq> v" shows "keeps I (DBChatStore_GetOrCreateChatWithUser u v)"
  unfolding keeps_def
proof (intro allI impI)
  fix w :: world assume I: "I (db w)"
  obtain r w' where m: "DBChatStore_GetOrCreateChatWithUser u v w = (r, w')" by fastforce
  obtain a b where p: "sorted_pair u v = [a, b]" "a \<noteq> b"
    using sorted_pair_cases [OF assms] by metis
  have "I (db w')"
    using GetOrCreate_cases [OF m] I p new_chat
    by (cases r) (auto simp del: split_paired_All)
  then show "I (db (snd (DBChatStore_GetOrCreateChatWithUser u v w)))" by (simp add: m)
qed

lemma keeps_message_store [wf_intros]:
  "keeps I (DBMessageStore_CreateMessage m)" "keeps I (DBMessageStore_SaveMessageAttachments i ps)"
  "keeps I (DBChatStore_UpdateLastReadMessageByUserIDAndChatID u c l)"
proof -
  have t: "keeps I (DBMessageStore_saveMessageAttachmentsTx i ps)" for i ps
    by (induction ps) (auto intro!: wf_intros dest: insert_message_attachment)
  have l: "I tx \<Longrightarrow> keeps I (save_attachments_loop tx i ps)" for tx i ps
    by (induction ps) (auto intro!: wf_intros dest: insert_message_attachment)
  show "keeps I (DBMessageStore_CreateMessage m)"
    by (auto simp: DBMessageStore_CreateMessage_def intro!: wf_intros keeps_tx_Begin t
        dest: insert_message)
  show "keeps I (DBMessageStore_SaveMessageAttachments i ps)"
    by (auto simp: DBMessageStore_SaveMessageAttachments_def intro!: wf_intros keeps_tx_Begin l)
  show "keeps I (DBChatStore_UpdateLastReadMessageByUserIDAndChatID u c l)"
    by (auto simp: DBChatStore_UpdateLastReadMessageByUserIDAndChatID_def intro!: wf_intros
        dest: update_last_read)
qed

lemma keeps_chat_service [wf_intros]:
  "keeps I (ChatService_GetOrCreateChatWithUser (chat_main E) u v)"
  "keeps I (ChatService_GetMessagesByChatId (chat_main E) q u c)"
  "keeps I (ChatService_CreateMessage (chat_main E) u c t fs k)"
  "keeps I (ChatService_GetUserChats (chat_main E) u q)"
  "keeps I (ChatService_UpdateLastReadMessage (chat_main E) u c l)"
  "keeps I (StickerService_GetStickerPacks DBStickerStore)"
  "keeps I (StickerService_GetStickersByPackID DBStickerStore i)"
  by (auto simp: chat_services Let_def intro!: wf_intros keeps_get_or_create
      split: prod.splits option.splits)

lemma keeps_chat_endpoint: "keeps I (chat_endpoint E H route r)"
  by (cases route) (auto simp: chat_handlers Let_def intro!: wf_intros)

end

interpretation chat_wf: chat_statements wf_chats
  by unfold_locales
     (auto dest: wf_new_chat wf_insert_message wf_insert_message_attachment wf_update_last_read)

text \<open>Chats, members and messages are all that such a request changes in the tables.\<close>

definition other_than_chats :: "database \<Rightarrow> database" where
  "other_than_chats d = d\<lparr>chats := [], chat_members := [], messages := [], object_attachments := []\<rparr>"

interpretation chat_frame: chat_statements "\<lambda>d. other_than_chats d = v" for v
  by unfold_locales
     (auto simp: other_than_chats_def insert_chat_def insert_members_def insert_message_def
       insert_message_attachment_def update_last_read_def Let_def split: if_splits option.splits)

end
