(* ===== verification/Chat_Facts.thy ===== *)
theory Chat_Facts
  imports Chat_Tables Community_Facts
begin

text \<open>
  What the operations of chats and messages return and change: facts on every world, so on every
  combination of failing calls.
\<close>

subsection \<open>Every request is answered\<close>

lemma no_panic_message_store [intro!]:
  "no_panic (DBMessageStore_CreateMessage m)" "no_panic (DBMessageStore_SaveMessageAttachments i ps)"
  "no_panic (DBMessageStore_GetMessageAttachments i)" "no_panic (DBMessageStore_GetMessagesByChatId i l off)"
proof -
  have "no_panic (DBMessageStore_saveMessageAttachmentsTx i ps)" for i ps
    by (induction ps) auto
  moreover have "no_panic (save_attachments_loop tx i ps)" for tx i ps
    by (induction ps) auto
  moreover show a: "no_panic (DBMessageStore_GetMessageAttachments i)" for i
    by (auto simp: DBMessageStore_GetMessageAttachments_def)
  moreover have "no_panic (load_message r)" for r
    by (auto simp: load_message_def intro!: a)
  ultimately show "no_panic (DBMessageStore_CreateMessage m)"
      "no_panic (DBMessageStore_SaveMessageAttachments i ps)"
      "no_panic (DBMessageStore_GetMessagesByChatId i l off)"
    by (auto simp: DBMessageStore_CreateMessage_def DBMessageStore_SaveMessageAttachments_def
        DBMessageStore_GetMessagesByChatId_def)
qed

lemma no_panic_chat_store [intro!]:
  "no_panic (DBChatStore_IsMemberOfChat u i)" "no_panic (DBChatStore_IsChatExist i)"
  "no_panic (DBChatStore_GetUserFullChats u l off)"
  "no_panic (DBChatStore_GetOtherChatMembersIdByAuthorId u i)"
  "no_panic (DBChatStore_GetOrCreateChatWithUser u v)"
  "no_panic (DBChatStore_UpdateLastReadMessageByUserIDAndChatID u i l)"
proof -
  have s: "no_panic (scan_FullChat r)" "no_panic (scan_member m)" for r m
    by (auto simp: scan_FullChat_def scan_member_def split: option.splits)
  show "no_panic (DBChatStore_IsMemberOfChat u i)" "no_panic (DBChatStore_IsChatExist i)"
      "no_panic (DBChatStore_GetUserFullChats u l off)"
      "no_panic (DBChatStore_GetOtherChatMembersIdByAuthorId u i)"
      "no_panic (DBChatStore_GetOrCreateChatWithUser u v)"
      "no_panic (DBChatStore_UpdateLastReadMessageByUserIDAndChatID u i l)"
    by (auto simp: DBChatStore_IsMemberOfChat_def DBChatStore_IsChatExist_def
        DBChatStore_GetUserFullChats_def DBChatStore_GetOtherChatMembersIdByAuthorId_def
        DBChatStore_GetOrCreateChatWithUser_def DBChatStore_UpdateLastReadMessageByUserIDAndChatID_def
        Let_def intro!: s)
qed

lemma no_panic_sticker_store [intro!]:
  "no_panic DBStickerStore_GetStickerPacks" "no_panic (DBStickerStore_GetStickersByPackID i)"
  by (auto simp: DBStickerStore_GetStickerPacks_def DBStickerStore_GetStickersByPackID_def)

text \<open>The errors of the chat service: also what the profile service's connection returned.\<close>

definition grpc_errors :: "go_error set" where
  "grpc_errors = {GrpcStatus c m |c m. True}"

lemma answers_profile_map:
  "answers grpc_errors (pc_GetShortProfileMapByUserIDs (profile_conn E) ids)"
proof -
  have "\<exists>c m. e = GrpcStatus c m"
    if "pc_GetShortProfileMapByUserIDs (profile_conn E) ids w = (Fail e, w')" for e w w'
    using that
    by (auto simp: profile_conn_def profile_client_def GrpcProfileHandler_GetShortProfileMapByUserIDs_def
        grpc_call_def grpc_serve_def external_def call_def throw_def ret_def ToGrpcError_def
        split: option.splits res.splits prod.splits if_splits)
  then show ?thesis
    using no_panic_clients(1) [of E ids]
    unfolding answers_def grpc_errors_def no_panic_def
    by (auto split: res.splits) (metis prod.collapse)
qed

definition chat_errors :: "go_error set" where
  "chat_errors = content_errors \<union> grpc_errors"

lemma answers_mono: "answers S m \<Longrightarrow> S \<subseteq> T \<Longrightarrow> answers T m"
  by (fastforce simp: answers_def split: res.splits)

lemma answers_chat_service:
  "answers content_errors (ChatService_GetOrCreateChatWithUser (chat_main E) u v)"
  "answers content_errors (ChatService_GetMessagesByChatId (chat_main E) q u c)"
  "answers content_errors (ChatService_CreateMessage (chat_main E) u c t fs k)"
  "answers content_errors (ChatService_UpdateLastReadMessage (chat_main E) u c l)"
  "answers content_errors (StickerService_GetStickerPacks DBStickerStore)"
  "answers content_errors (StickerService_GetStickersByPackID DBStickerStore i)"
  by (auto simp: chat_services Let_def content_errors_def validateMessageContent_def
      intro!: answers_intros split: prod.splits)

lemma answers_GetUserChats: "answers chat_errors (ChatService_GetUserChats (chat_main E) u q)"
  by (auto simp: ChatService_GetUserChats_def Let_def chat_errors_def content_errors_def
      intro!: answers_call no_panic_chat_store answers_call_throw answers_mono [OF answers_profile_map]
        answers_ret answers_throw split: prod.splits)

lemma chat_errors_status: "e \<in> chat_errors \<Longrightarrow> fst (MapErrorToHTTP e) \<in> {400, 403, 404, 500}"
proof -
  have "fst (MapErrorToHTTP (GrpcStatus c m)) = http_InternalServerError" for c m
    by (simp add: MapErrorToHTTP_def)
  then show "e \<in> chat_errors \<Longrightarrow> ?thesis"
    using content_errors_status [of e] by (auto simp: chat_errors_def grpc_errors_def)
qed

lemma replies_chat_endpoint: "replies (chat_endpoint E H route r)"
proof -
  have sticker: "replies (call (PathInt32 r n) (\<lambda>err. k 0) k)" if "\<And>x. replies (k x)" for n k
    using that by (auto simp: PathInt32_def call_def throw_def ret_def replies_def split: option.splits)
  show ?thesis
    by (cases route)
       (auto simp: chat_handlers Let_def
         intro!: sticker replies_call replies_call_of [OF answers_GetUserChats chat_errors_status] replies_data
           replies_success answers_helpers answers_chat_service)
qed


subsection \<open>The chat of two users\<close>

text \<open>
  \<open>has_private_chat d u v i\<close>: chat \<open>i\<close> is the chat of the two, and the only one that has both.
\<close>

definition has_private_chat :: "database \<Rightarrow> int32 \<Rightarrow> int32 \<Rightarrow> int32 \<Rightarrow> bool" where
  "has_private_chat d u v i \<longleftrightarrow>
     members_of d i = {u, v} \<and> (\<forall>j. {u, v} \<subseteq> members_of d j \<longrightarrow> j = i)"

lemma wf_chats_two:
  assumes "wf_chats d" "members_of d j \<noteq> {}" "u \<noteq> v" "{u, v} \<subseteq> members_of d j"
  shows "members_of d j = {u, v}"
proof -
  have "wf_members d" using assms(1) by (simp add: wf_chats_def)
  obtain m where "m \<in> set (chat_members d)" "cb_chat_id m = j"
    using assms(2) by (auto simp: members_of_def)
  then have "j \<in> ch_id ` set (chats d)" using member_chat_id [OF \<open>wf_members d\<close>] by blast
  then obtain a b where "members_of d j = {a, b}"
    using assms(1) by (auto simp: wf_chats_def private_chats_def)
  then show ?thesis using assms(3,4) by auto
qed

lemma private_chat_unique:
  assumes wf: "wf_chats d" and "u \<noteq> v" "private_chat (sorted_pair u v) d = Some i"
  shows "has_private_chat d u v i"
proof -
  have m: "wf_members d" using wf by (simp add: wf_chats_def)
  obtain a b where p: "sorted_pair u v = [a, b]" "a \<noteq> b" "{a, b} = {u, v}"
    using sorted_pair_cases [OF assms(2)] by metis
  then have "{u, v} \<subseteq> members_of d i"
    using private_chat_iff [OF m p(2), of i] assms(3) by auto
  then have i: "members_of d i = {u, v}"
    using wf_chats_two [OF wf _ assms(2)] by auto
  have "j = i" if "{u, v} \<subseteq> members_of d j" for j
  proof -
    have j: "members_of d j = {u, v}" using wf_chats_two [OF wf _ assms(2) that] that by auto
    have "x \<in> ch_id ` set (chats d)" if "members_of d x \<noteq> {}" for x
      using that member_chat_id [OF m] by (auto simp: members_of_def)
    then have "i \<in> ch_id ` set (chats d)" "j \<in> ch_id ` set (chats d)" using i j by auto
    then show "j = i"
      using i j wf by (auto simp: wf_chats_def private_chats_def)
  qed
  with i show ?thesis by (simp add: has_private_chat_def)
qed

lemma GetOrCreate_service:
  assumes "ChatService_GetOrCreateChatWithUser (chat_main E) u v w = (r, w')" "wf_chats (db w)"
  shows "case r of
      Ret i \<Rightarrow> u \<noteq> v \<and> has_private_chat (db w') u v i \<and>
        (\<forall>j. members_of (db w') j = (if j = i then {u, v} else members_of (db w) j)) \<and>
        (has_private_chat (db w) u v i \<and> db w' = db w \<or>
         (\<forall>j. \<not> {u, v} \<subseteq> members_of (db w) j) \<and> i \<notin> ch_id ` set (chats (db w)))
    | Fail e \<Rightarrow> db w' = db w | Panic \<Rightarrow> False"
proof -
  obtain q v1 where a: "ac_IsUserExists (auth_conn E) v w = (q, v1)" by fastforce
  have d: "db v1 = db w" using db_kept [OF keeps_auth_conn_IsUserExists a] .
  obtain q' v2 where g: "DBChatStore_GetOrCreateChatWithUser u v v1 = (q', v2)" by fastforce
  have np: "r \<noteq> Panic"
    using answers_chat_service(1) assms(1) by (rule answers_cases) auto
  consider e where "r = Fail e" "db w' = db w"
    | i where "r = Ret i" "u \<noteq> v" "q' = Ret i" "w' = v2"
    using assms(1) a g d np GetOrCreate_cases [OF g]
    by (auto simp: ChatService_GetOrCreateChatWithUser_def call_def throw_def ret_def
        split: res.splits if_splits)
  then show ?thesis
  proof cases
    case (2 i)
    obtain a b where p: "sorted_pair u v = [a, b]" "a \<noteq> b" "{a, b} = {u, v}"
      using sorted_pair_cases [OF 2(2)] by metis
    have wfm: "wf_members (db w)" using assms(2) by (simp add: wf_chats_def)
    from GetOrCreate_cases [OF g] 2 d
    consider "private_chat (sorted_pair u v) (db w) = Some i" "db w' = db w"
      | now d n where "private_chat (sorted_pair u v) (db w) = None"
          "insert_chat i now (db w) = Some (d, i)"
          "insert_members i (sorted_pair u v) now d = Some (db w', n)"
      by auto
    then show ?thesis
    proof cases
      case 1
      then have "has_private_chat (db w) u v i"
        using private_chat_unique [OF assms(2) 2(2)] by blast
      then show ?thesis
        using 2(1,2) 1(2) by (simp add: has_private_chat_def)
    next
      case (2 now d' n)
      have none: "\<not> {u, v} \<subseteq> members_of (db w) j" for j
        using private_chat_iff [OF wfm p(2)] 2(1) p by auto
      have "members_of (db w') j = (if j = i then {u, v} else members_of (db w) j)" for j
        using new_chat_members [OF 2(2,3) wfm, of j] by simp
      moreover have "i \<notin> ch_id ` set (chats (db w))"
        using 2(2) by (auto simp: insert_chat_def split: if_splits)
      ultimately show ?thesis
        using \<open>r = Ret i\<close> \<open>u \<noteq> v\<close> none by (auto simp: has_private_chat_def split: if_splits)
    qed
  qed simp
qed

subsection \<open>Only members\<close>

lemma IsMemberOfChat_Ret:
  "DBChatStore_IsMemberOfChat u i w = (Ret b, w') \<Longrightarrow> b \<longleftrightarrow> u \<in> members_of (db w) i"
  by (auto simp: DBChatStore_IsMemberOfChat_def act is_member_members_of split: option.splits)

interpretation own_chat: owned_item "DBChatStore_IsMemberOfChat u i" "\<lambda>b. b"
    "\<lambda>d. u \<in> members_of d i" for u i
  by unfold_locales (auto dest: IsMemberOfChat_Ret)

lemma GetMessages_not_member:
  assumes "ChatService_GetMessagesByChatId (chat_main E) q u i w = (r, w')"
    and "u \<notin> members_of (db w) i"
  shows "quiet w w' \<and> (\<exists>e \<in> content_errors. r = Fail e)"
  by (rule own_chat.guard_refuses [OF _ assms(2)])
     (use assms(1) in \<open>auto simp: ChatService_GetMessagesByChatId_def content_errors_def\<close>)

lemma CreateMessage_not_member:
  assumes "ChatService_CreateMessage (chat_main E) u i t fs k w = (r, w')"
    and "u \<notin> members_of (db w) i"
  shows "quiet w w' \<and> (\<exists>e \<in> content_errors. r = Fail e)"
proof (cases "validateMessageContent t (length fs) k")
  case None
  obtain q v where c: "DBChatStore_IsChatExist i w = (q, v)" by fastforce
  have quiet: "quiet w v" using reads_chat_store(2) c by (rule readsD)
  have np: "q \<noteq> Panic" using no_panicD [OF no_panic_chat_store(2) c] .
  have not: "u \<notin> members_of (db v) i" using assms(2) quiet by (simp add: quiet_sel)
  consider "q = Ret True" | "q \<noteq> Ret True" by blast
  then show ?thesis
  proof cases
    case 1
    have "quiet v w' \<and> (\<exists>e \<in> content_errors. r = Fail e)"
      by (rule own_chat.guard_refuses [OF _ not])
        (use assms(1) None c 1 in \<open>auto simp: ChatService_CreateMessage_def call_def [of "DBChatStore_IsChatExist i"]
            content_errors_def\<close>)
    then show ?thesis using quiet_trans [OF quiet] by blast
  next
    case 2
    then show ?thesis
      using assms(1) None c quiet np
      by (cases q) (auto simp: ChatService_CreateMessage_def call_def [of "DBChatStore_IsChatExist i"]
          throw_def content_errors_def)
  qed
next
  case (Some e)
  then show ?thesis
    using assms(1) by (auto simp: ChatService_CreateMessage_def validateMessageContent_def throw_def
        content_errors_def split: if_splits)
qed


text \<open>The user belongs to the chat that the request is about.\<close>

fun participates :: "chat_route \<Rightarrow> database \<Rightarrow> int32 \<Rightarrow> int32 \<Rightarrow> bool" where
  "participates Route_GetMessages d u i = (u \<in> members_of d i)"
| "participates Route_CreateMessage d u i = (u \<in> members_of d i)"
| "participates _ d u i = True"

lemma bad_chat_id_refused:
  assumes "path_int32 (rq_Vars r) ''id'' = None" "\<not> participates route d u i"
  shows "refused w (chat_endpoint E H route r w)"
  using assms
  by (cases route)
     (auto simp: ChatHandler_GetMessagesByChatId_def ChatHandler_CreateMessage_def call_def
       PathInt32_path content_errors_def intro: refused_error)

lemma not_member_refused:
  assumes user: "ctx_userID r = u" and i: "path_int32 (rq_Vars r) ''id'' = Some i"
    and not: "\<not> participates route (db w) u i"
  shows "refused w (chat_endpoint E H route r w)"
proof -
  have path: "call (PathInt32 r ''id'') sendJSONError k w = k i w" for k :: "int32 \<Rightarrow> http_response action"
    using i by (simp add: call_def PathInt32_path)
  have q: "db v = db w" if "quiet w v" for v using that by (simp add: quiet_sel)
  have reads: "reads (parseIntParam form n)" "reads (DecodeQueryParams dq r)" for form n and dq :: "(string \<Rightarrow> string list) \<Rightarrow> 'a option"
    by (auto simp: parseIntParam_def DecodeQueryParams_def Let_def split: option.splits)
  consider "route = Route_GetMessages" | "route = Route_CreateMessage"
    using not by (cases route) auto
  then show ?thesis
  proof cases
    case 1
    have refusal: "refused w (call (ChatService_GetMessagesByChatId (chat_main E) qp u i) sendJSONError k v)"
      if "quiet w v" for qp k v
      using not 1 q [OF that] by (intro refused_last [OF that]) (auto dest!: GetMessages_not_member)
    show ?thesis
      unfolding 1 by (simp add: ChatHandler_GetMessagesByChatId_def path user Let_def)
        (rule refusal, assumption | rule refused_call reads answers_helpers quiet_refl | assumption)+
  next
    case 2
    have refusal: "refused w (call (ChatService_CreateMessage (chat_main E) u i t fs k) sendJSONError k' v)"
      if "quiet w v" for t fs k k' v
      using not 2 q [OF that] by (intro refused_last [OF that]) (auto dest!: CreateMessage_not_member)
    show ?thesis
      unfolding 2 by (simp add: ChatHandler_CreateMessage_def path user Let_def)
        (rule refusal, assumption | rule refused_call reads reads_handler_helpers answers_helpers quiet_refl
          | assumption)+
  qed
qed

subsection \<open>The last message read\<close>

definition last_read_of :: "database \<Rightarrow> int32 \<Rightarrow> int32 \<Rightarrow> int32 option" where
  "last_read_of d i u = map_option cb_last_read_message_id
     (find (\<lambda>m. (cb_chat_id m, cb_member_id m) = (i, u)) (chat_members d))"

text \<open>The pointer only moves up, and only that of the user in the chat.\<close>

lemma update_last_read_of:
  assumes "update_last_read u i l now d = Some (d', n)"
  shows "last_read_of d' j v =
    (if (j, v) = (i, u) then map_option (\<lambda>k. if sint k < sint l then l else k) (last_read_of d i u)
     else last_read_of d j v)"
proof -
  define hit where "hit = (\<lambda>m :: chat_member_row. cb_chat_id m = i \<and> cb_member_id m = u \<and>
    sint l > sint (cb_last_read_message_id m))"
  have d': "chat_members d' = update_where hit (\<lambda>m. m\<lparr>cb_last_read_message_id := l\<rparr>) (chat_members d)"
    using assms by (auto simp: update_last_read_def Let_def hit_def)
  have "map_option cb_last_read_message_id (find (\<lambda>m. (cb_chat_id m, cb_member_id m) = (j, v))
        (update_where hit (\<lambda>m. m\<lparr>cb_last_read_message_id := l\<rparr>) rows)) =
    (if (j, v) = (i, u) then map_option (\<lambda>k. if sint k < sint l then l else k)
        (map_option cb_last_read_message_id (find (\<lambda>m. (cb_chat_id m, cb_member_id m) = (i, u)) rows))
     else map_option cb_last_read_message_id (find (\<lambda>m. (cb_chat_id m, cb_member_id m) = (j, v)) rows))"
    for rows by (induction rows) (auto simp: update_where_def hit_def)
  then show ?thesis
    unfolding last_read_of_def d' .
qed

lemma UpdateLastRead_effect:
  assumes "ChatService_UpdateLastReadMessage (chat_main E) u i l w = (r, w')"
  shows "last_read_of (db w') j v =
    (if r = Ret () \<and> (j, v) = (i, u)
     then map_option (\<lambda>k. if sint k < sint l then l else k) (last_read_of (db w) i u)
     else last_read_of (db w) j v)"
proof (cases "next_fault w")
  case None
  obtain d n where u: "update_last_read u i l (clock w) (db w) = Some (d, n)"
    by (auto simp: update_last_read_def Let_def)
  then have "r = Ret ()" "db w' = d"
    using assms None
    by (auto simp: ChatService_UpdateLastReadMessage_def
        DBChatStore_UpdateLastReadMessageByUserIDAndChatID_def act)
  then show ?thesis using update_last_read_of [OF u] by simp
qed (use assms in \<open>auto simp: ChatService_UpdateLastReadMessage_def
      DBChatStore_UpdateLastReadMessageByUserIDAndChatID_def act\<close>)

subsection \<open>Creating a message\<close>

text \<open>The message, and the rows of its attachments in their order.\<close>

definition adds_message ::
    "database \<Rightarrow> int32 \<Rightarrow> int32 \<Rightarrow> string \<Rightarrow> int32 option \<Rightarrow> string list \<Rightarrow> int32 \<Rightarrow> database \<Rightarrow> bool" where
  "adds_message d u i t k paths j d' \<longleftrightarrow>
     j \<notin> ms_id ` set (messages d) \<and>
     (\<exists>row new. ms_id row = j \<and> ms_author_id row = u \<and> ms_chat_id row = i \<and> ms_text row = t \<and>
        ms_sticker_id row = k \<and>
        map (\<lambda>a. (at_obj_id a, at_obj_type a, at_file_path a)) new =
          map (\<lambda>p. (j, ''message'', p)) paths \<and>
        d' = d\<lparr>messages := messages d @ [row], object_attachments := object_attachments d @ new\<rparr>)"

lemma insert_returning_Ret:
  "insert_returning t f w = (Ret x, w') \<Longrightarrow> \<exists>i now. f i now (db w) = Some (db w', x)"
  by (auto simp: act nextval_def split: option.splits prod.splits if_splits
      intro!: exI [of _ "word_of_int (seqs w t) + 1"] exI [of _ "clock w"])

lemma insert_message_attachment_row:
  assumes "insert_returning t (insert_message_attachment j p) w = (Ret u, w')"
  shows "\<exists>row. db w' = db w\<lparr>object_attachments := object_attachments (db w) @ [row]\<rparr> \<and>
    at_obj_id row = j \<and> at_obj_type row = ''message'' \<and> at_file_path row = p"
proof -
  have "insert_message_attachment j p i now d = Some (d', u) \<Longrightarrow>
      \<exists>row. d' = d\<lparr>object_attachments := object_attachments d @ [row]\<rparr> \<and>
        at_obj_id row = j \<and> at_obj_type row = ''message'' \<and> at_file_path row = p" for i now d d'
    by (auto simp: insert_message_attachment_def Let_def split: if_splits)
  with insert_returning_Ret [OF assms] show ?thesis by blast
qed

lemma insert_message_row:
  assumes "insert_returning s (insert_message u c t k) w = (Ret j, w')"
  shows "\<exists>row. db w' = db w\<lparr>messages := messages (db w) @ [row]\<rparr> \<and> ms_id row = j \<and>
    ms_author_id row = u \<and> ms_chat_id row = c \<and> ms_text row = t \<and> ms_sticker_id row = k \<and>
    j \<notin> ms_id ` set (messages (db w))"
proof -
  have "insert_message u c t k i now d = Some (d', j) \<Longrightarrow>
      \<exists>row. d' = d\<lparr>messages := messages d @ [row]\<rparr> \<and> ms_id row = j \<and>
        ms_author_id row = u \<and> ms_chat_id row = c \<and> ms_text row = t \<and> ms_sticker_id row = k \<and>
        j \<notin> ms_id ` set (messages d)" for i now d d'
    by (auto simp: insert_message_def Let_def split: if_splits)
  with insert_returning_Ret [OF assms] show ?thesis by blast
qed

lemma saveMessageAttachments_rows:
  "DBMessageStore_saveMessageAttachmentsTx j paths w = (r, w') \<Longrightarrow>
   \<exists>new. db w' = db w\<lparr>object_attachments := object_attachments (db w) @ new\<rparr> \<and>
     (r = Ret () \<longrightarrow> map (\<lambda>a. (at_obj_id a, at_obj_type a, at_file_path a)) new =
        map (\<lambda>p. (j, ''message'', p)) paths)"
proof (induction paths arbitrary: w)
  case Nil
  then show ?case by (auto simp: ret_def intro!: exI [of _ "[]"])
next
  case (Cons p ps)
  let ?ins = "insert_returning ''attachments'' (insert_message_attachment j p)"
  obtain q v where i: "?ins w = (q, v)" by fastforce
  show ?case
  proof (cases "only_space p \<or> length p < 1 \<or> 512 < length p \<or> (\<forall>x. q \<noteq> Ret x)")
    case True
    have f: "db v = db w" if "\<forall>x. q \<noteq> Ret x"
      using i that by (auto simp: act nextval_def split: option.splits prod.splits if_splits)
    have "q \<noteq> Panic" using i no_panicD no_panic_database(8) by blast
    then have "r \<noteq> Ret () \<and> (w' = w \<or> w' = v \<and> (\<forall>x. q \<noteq> Ret x))"
      using Cons.prems i True by (cases q) (auto simp: call_def throw_def split: if_splits)
    then have "r \<noteq> Ret ()" "db w' = db w" using f by auto
    then show ?thesis by (intro exI [of _ "[]"]) simp
  next
    case False
    then have q: "q = Ret ()" by auto
    then obtain row where row: "db v = db w\<lparr>object_attachments := object_attachments (db w) @ [row]\<rparr>"
      "at_obj_id row = j" "at_obj_type row = ''message''" "at_file_path row = p"
      using insert_message_attachment_row [OF i [unfolded q]] by blast
    have "DBMessageStore_saveMessageAttachmentsTx j ps v = (r, w')"
      using Cons.prems False i q by (simp add: call_def)
    from Cons.IH [OF this] obtain new where
      "db w' = db v\<lparr>object_attachments := object_attachments (db v) @ new\<rparr>"
      "r = Ret () \<longrightarrow> map (\<lambda>a. (at_obj_id a, at_obj_type a, at_file_path a)) new =
        map (\<lambda>p. (j, ''message'', p)) ps" by blast
    then show ?thesis unfolding row(1) by (intro exI [of _ "row # new"]) (simp add: row(2-4))
  qed
qed

lemma store_CreateMessage_Fail: "DBMessageStore_CreateMessage m w = (Fail e, w') \<Longrightarrow> db w' = db w"
  by (auto simp: DBMessageStore_CreateMessage_def call_def throw_def ret_def
      tx_Begin_def tx_Commit_def tx_Rollback_def tx_Abandon_def external_def
      split: option.splits prod.splits res.splits if_splits)

lemma store_CreateMessage_Ret:
  assumes "DBMessageStore_CreateMessage m w = (Ret j, w')"
  shows "adds_message (db w) (msg_AuthorID m) (msg_ChatID m) (msg_Text m) (msg_StickerID m)
    (if msg_StickerID m = None then msg_Attachments m else []) j (db w')"
proof -
  let ?save = "if length (msg_Attachments m) > 0 \<and> msg_StickerID m = None
    then DBMessageStore_saveMessageAttachmentsTx j (msg_Attachments m) else ret ()"
  obtain v1 v2 where
    ins: "insert_returning ''messages'' (insert_message (msg_AuthorID m) (msg_ChatID m) (msg_Text m)
       (msg_StickerID m)) (tick w) = (Ret j, v1)" and
    save: "?save v1 = (Ret (), v2)" and "db w' = db v2"
    using assms
    by (auto simp: DBMessageStore_CreateMessage_def call_def throw_def ret_def
        tx_Begin_def tx_Commit_def tx_Rollback_def tx_Abandon_def external_def
        split: option.splits prod.splits res.splits if_splits)
  obtain row where row: "db v1 = db w\<lparr>messages := messages (db w) @ [row]\<rparr>" "ms_id row = j"
    "ms_author_id row = msg_AuthorID m" "ms_chat_id row = msg_ChatID m" "ms_text row = msg_Text m"
    "ms_sticker_id row = msg_StickerID m" "j \<notin> ms_id ` set (messages (db w))"
    using insert_message_row [OF ins] by (auto simp del: split_paired_Ex)
  obtain new where "db v2 = db v1\<lparr>object_attachments := object_attachments (db v1) @ new\<rparr>"
    "map (\<lambda>a. (at_obj_id a, at_obj_type a, at_file_path a)) new =
       map (\<lambda>p. (j, ''message'', p)) (if msg_StickerID m = None then msg_Attachments m else [])"
  proof (cases "length (msg_Attachments m) > 0 \<and> msg_StickerID m = None")
    case True
    then have "DBMessageStore_saveMessageAttachmentsTx j (msg_Attachments m) v1 = (Ret (), v2)"
      using save by simp
    from saveMessageAttachments_rows [OF this] that True show ?thesis by auto
  next
    case False
    then show ?thesis using save that [of "[]"] by (auto simp: ret_def)
  qed
  moreover have "db v2 = db w\<lparr>messages := messages (db w) @ [row],
      object_attachments := object_attachments (db w) @ new\<rparr>"
    using calculation(1) unfolding row(1) by simp
  ultimately show ?thesis
    unfolding adds_message_def \<open>db w' = db v2\<close> using row(2-)
    by (intro conjI exI [of _ row] exI [of _ new]) simp_all
qed

lemma upload_loop_length:
  "upload_loop names files w = (Ret paths, w') \<Longrightarrow> length paths = length names + length files"
  by (induction files arbitrary: names w)
     (auto simp: call_def throw_def ret_def split: res.splits prod.splits)

lemma CreateMessage_service:
  assumes "ChatService_CreateMessage (chat_main E) u i t fs k w = (r, w')"
  shows "case r of
      Ret j \<Rightarrow> u \<in> members_of (db w) i \<and> validateMessageContent t (length fs) k = None \<and>
        (\<exists>paths. length paths = length fs \<and> adds_message (db w) u i t k paths j (db w'))
    | Fail e \<Rightarrow> db w' = db w | Panic \<Rightarrow> False"
proof -
  let ?up = "if length fs > 0 \<and> k = None then UploadFiles fs else ret []"
  obtain q1 v1 where 1: "DBChatStore_IsChatExist i w = (q1, v1)" by fastforce
  obtain q2 v2 where 2: "DBChatStore_IsMemberOfChat u i v1 = (q2, v2)" by fastforce
  obtain q3 v3 where 3: "?up v2 = (q3, v3)" by fastforce
  have d1: "db v1 = db w" using readsD [OF reads_chat_store(2) 1] by (simp add: quiet_sel)
  have d2: "db v2 = db w" using readsD [OF reads_chat_store(1) 2] d1 by (simp add: quiet_sel)
  have "keeps (\<lambda>d. d = db v2) ?up" by (auto intro!: wf_intros)
  from db_kept [OF this 3] have d3: "db v3 = db w" using d2 by simp
  have np: "r \<noteq> Panic"
    using answers_chat_service(3) assms by (rule answers_cases) auto
  show ?thesis
  proof (cases r)
    case Panic
    with np show ?thesis by simp
  next
    case (Ret j)
    obtain paths where v: "validateMessageContent t (length fs) k = None" and
      q: "q2 = Ret True" "q3 = Ret paths" and
      m: "DBMessageStore_CreateMessage \<lparr>msg_ID = 0, msg_AuthorID = u, msg_ChatID = i, msg_Text = t,
        msg_StickerID = k, msg_CreatedAt = zero_time, msg_Attachments = paths\<rparr> v3 = (Ret j, w')"
      using assms 1 2 3 unfolding Ret
      by (auto simp: ChatService_CreateMessage_def call_def Let_def ret_def [of "_ :: int32"] throw_def
          dest!: discard_files_step split: if_splits prod.splits res.splits option.splits)
    then have "length paths = length fs"
      using 3 v by (auto simp: UploadFiles_def ret_def validateMessageContent_def
          dest: upload_loop_length split: if_splits)
    moreover have "paths = (if k = None then paths else [])"
      using calculation v by (auto simp: validateMessageContent_def split: if_splits)
    moreover have "adds_message (db w) u i t k (if k = None then paths else []) j (db w')"
      using store_CreateMessage_Ret [OF m] unfolding d3 Message.simps .
    ultimately show ?thesis
      using IsMemberOfChat_Ret [of u i v1 True v2] 2 q(1) v d1 Ret by auto
  next
    case (Fail e)
    show ?thesis
      using assms 1 2 3 d1 d2 d3 unfolding Fail
      by (auto simp: ChatService_CreateMessage_def call_def Let_def ret_def [of "_ :: int32"] throw_def
          dest!: discard_files_step store_CreateMessage_Fail
          split: if_splits prod.splits res.splits option.splits)
  qed
qed


subsection \<open>Telling the other member\<close>

text \<open>
  \<open>announces d u i v c\<close>: the message \<open>c\<close> for member \<open>v\<close> shows the chat as one with the sender \<open>u\<close>,
  the last message of the chat, and the pointer and the count of \<open>v\<close>.
\<close>

definition announces :: "database \<Rightarrow> int32 \<Rightarrow> int32 \<Rightarrow> int32 \<Rightarrow> FullChat \<Rightarrow> bool" where
  "announces d u i v c \<longleftrightarrow> fc_ID c = i \<and> \<not> fc_IsGroup c \<and> fc_UserIDWith c = Some u \<and>
     (\<exists>lm. last_message d i = Some lm \<and> msg_ID (fc_LastMessage c) = ms_id lm \<and>
        msg_Text (fc_LastMessage c) = ms_text lm \<and> msg_AuthorID (fc_LastMessage c) = ms_author_id lm) \<and>
     (\<exists>cm \<in> set (chat_members d). cb_chat_id cm = i \<and> cb_member_id cm = v \<and>
        fc_LastReadMessageID c = cb_last_read_message_id cm \<and>
        sint (fc_UnreadCounts c) = int (unread_count d cm))"

lemma other_member:
  assumes wf: "wf_chats d" and u: "u \<in> members_of d i"
  obtains v cm where "v \<noteq> u" "members_of d i = {u, v}" "cm \<in> set (chat_members d)" "cb_chat_id cm = i"
    "cb_member_id cm = v"
    "filter (\<lambda>cm. cb_member_id cm \<noteq> u \<and> cb_chat_id cm = i) (chat_members d) = [cm]"
proof -
  let ?g = "filter (\<lambda>cm. cb_member_id cm \<noteq> u \<and> cb_chat_id cm = i) (chat_members d)"
  let ?pair = "\<lambda>m. (cb_chat_id m, cb_member_id m)"
  have wfm: "wf_members d" using wf by (simp add: wf_chats_def)
  have "i \<in> ch_id ` set (chats d)"
    using u member_chat_id [OF wfm] by (auto simp: members_of_def)
  then obtain a b where "a \<noteq> b" "members_of d i = {a, b}"
    using wf by (auto simp: wf_chats_def private_chats_def)
  moreover from this have "{a, b} = {b, a}" "u = a \<or> u = b" using u by auto
  ultimately obtain v where v: "v \<noteq> u" "members_of d i = {u, v}" by metis
  have "set (map ?pair ?g) = Pair i ` (members_of d i - {u})"
    by (auto simp: members_of_def)
  also have "\<dots> = {(i, v)}" using v by auto
  finally have "set (map ?pair ?g) = {(i, v)}" .
  moreover have "distinct (map ?pair ?g)"
    using wfm by (auto simp: wf_members_def intro: distinct_map_filter)
  ultimately have "length ?g = 1"
    using distinct_card [of "map ?pair ?g"] by simp
  then obtain cm where cm: "?g = [cm]" by (auto simp: length_Suc_conv)
  moreover have "cm \<in> set (chat_members d)" "cb_chat_id cm = i" "cb_member_id cm \<noteq> u"
    using arg_cong [OF cm, of set] by auto
  moreover from this have "cb_member_id cm = v"
    using v by (auto simp: members_of_def)
  ultimately show ?thesis using v that by blast
qed

lemma GetOtherMembers_Ret:
  assumes "DBChatStore_GetOtherChatMembersIdByAuthorId u i w = (Ret ms, w')"
  shows "map (\<lambda>m. (mr_MemberID m, mr_LastReadMessageID m, sint (mr_UnreadCounts m))) ms =
    map (\<lambda>cm. (cb_member_id cm, cb_last_read_message_id cm, int (unread_count (db w) cm)))
      (filter (\<lambda>cm. cb_member_id cm \<noteq> u \<and> cb_chat_id cm = i) (chat_members (db w)))"
proof -
  let ?f = "\<lambda>m. (mr_MemberID m, mr_LastReadMessageID m, sint (mr_UnreadCounts m))"
  let ?g = "\<lambda>r. (cb_member_id (fst r), cb_last_read_message_id (fst r), int (snd r))"
  obtain v v' where l: "rows_loop scan_member (select_other_members u i (db w)) v = (Ret ms, v')"
    using assms
    by (auto simp: DBChatStore_GetOtherChatMembersIdByAuthorId_def call_def query_def external_def
        rows_Err_def throw_def ret_def split: option.splits prod.splits res.splits)
  have "?f x = ?g r" if "scan_member r w1 = (Ret x, w2)" for r w1 x w2
    using that by (auto simp: scan_member_def act dest: scan_count_Some split: option.splits)
  then have "map ?f ms = map ?g (select_other_members u i (db w))" by (rule rows_loop_map [OF _ l])
  then show ?thesis by (simp add: select_other_members_def o_def)
qed

text \<open>For a member of a chat the query does not dereference nil.\<close>

lemma GetFullChat_member:
  assumes "DBChatStore_GetFullChatByIDAndSenderID u i w = (r, w')" "wf_chats (db w)"
    and "u \<in> members_of (db w) i"
  shows "case r of
      Ret (c, ids) \<Rightarrow> (\<exists>lm. last_message (db w) i = Some lm \<and> fc_ID c = i \<and> \<not> fc_IsGroup c \<and>
        fc_UserIDWith c = Some u \<and> msg_ID (fc_LastMessage c) = ms_id lm \<and>
        msg_Text (fc_LastMessage c) = ms_text lm \<and> msg_AuthorID (fc_LastMessage c) = ms_author_id lm)
    | Fail e \<Rightarrow> True | Panic \<Rightarrow> False"
proof -
  have "is_member (db w) u i" using assms(3) by (simp add: is_member_members_of)
  moreover have "\<not> ch_is_group c" if "c \<in> set (chats (db w))" for c
    using assms(2) that by (auto simp: wf_chats_def private_chats_def)
  ultimately show ?thesis
    using assms(1)
    by (auto simp: DBChatStore_GetFullChatByIDAndSenderID_def act Let_def chat_message_def
        dest!: find_SomeD split: option.splits if_splits prod.splits res.splits)
qed

lemma notify_result:
  assumes notify: "ChatService_CreateMessage_notify (chat_main E) u i w = (r, w')"
    and wf: "wf_chats (db w)" and u: "u \<in> members_of (db w) i"
  shows "quiet w w' \<and> (r = Ret [] \<or> (\<exists>v c. v \<noteq> u \<and> members_of (db w) i = {u, v} \<and>
    r = Ret [(v, ''new_message'', c)] \<and> announces (db w) u i v c))"
proof -
  obtain q1 v1 where 1: "DBChatStore_GetFullChatByIDAndSenderID u i w = (q1, v1)" by fastforce
  have y1: "quiet w v1" using reads_chat_store(4) 1 by (rule readsD)
  note full = GetFullChat_member [OF 1 wf u]
  show ?thesis
  proof (cases q1)
    case Panic
    with full show ?thesis by simp
  next
    case (Fail e)
    then show ?thesis
      using notify 1 y1 by (simp add: ChatService_CreateMessage_notify_def call_def ret_def)
  next
    case (Ret x)
    then obtain c ids lm where x: "q1 = Ret (c, ids)" and
      c: "last_message (db w) i = Some lm" "fc_ID c = i" "\<not> fc_IsGroup c" "fc_UserIDWith c = Some u"
        "msg_ID (fc_LastMessage c) = ms_id lm" "msg_Text (fc_LastMessage c) = ms_text lm"
        "msg_AuthorID (fc_LastMessage c) = ms_author_id lm"
      using full by (cases x) auto
    obtain q2 v2 where 2: "pc_GetShortProfileMapByUserIDs (profile_conn E) ids v1 = (q2, v2)" by fastforce
    have y2: "quiet w v2" using quiet_trans [OF y1] reads_profile_map 2 readsD by blast
    obtain q3 v3 where 3: "DBChatStore_GetOtherChatMembersIdByAuthorId u i v2 = (q3, v3)" by fastforce
    have y3: "quiet w v3" using quiet_trans [OF y2] reads_chat_store(5) 3 readsD by blast
    have np: "q2 \<noteq> Panic" "q3 \<noteq> Panic"
      using no_panicD [OF no_panic_clients(1) 2] no_panicD [OF no_panic_chat_store(4) 3] by auto
    show ?thesis
    proof (cases "\<exists>m ms. q2 = Ret m \<and> q3 = Ret ms")
      case False
      then have "r = Ret [] \<and> (w' = v2 \<or> w' = v3)"
        using notify 1 2 3 x c np
        by (cases q2; cases q3) (auto simp: ChatService_CreateMessage_notify_def call_def ret_def deref_def
            Let_def with_private_user_def with_last_author_def)
      then show ?thesis using y2 y3 by auto
    next
      case True
      then obtain m ms where q: "q2 = Ret m" "q3 = Ret ms" by auto
      let ?c = "with_last_author (FromProtoShortProfileMap m)
        (with_private_user (FromProtoShortProfileMap m) u c)"
      let ?msg = "\<lambda>m. (mr_MemberID m, ''new_message'', ?c\<lparr>fc_LastReadMessageID := mr_LastReadMessageID m,
        fc_UnreadCounts := mr_UnreadCounts m\<rparr>)"
      have r: "r = Ret (map ?msg ms)" "w' = v3"
        using notify 1 2 3 x c q
        by (simp_all add: ChatService_CreateMessage_notify_def call_def ret_def deref_def Let_def)
      have d: "db v2 = db w" using y2 by (simp add: quiet_sel)
      obtain v cm where v: "v \<noteq> u" "members_of (db w) i = {u, v}" "cm \<in> set (chat_members (db w))"
        "cb_chat_id cm = i" "cb_member_id cm = v"
        "filter (\<lambda>cm. cb_member_id cm \<noteq> u \<and> cb_chat_id cm = i) (chat_members (db w)) = [cm]"
        by (rule other_member [OF wf u]) (rule that)
      obtain m' where ms: "ms = [m']" "mr_MemberID m' = v"
        "mr_LastReadMessageID m' = cb_last_read_message_id cm"
        "sint (mr_UnreadCounts m') = int (unread_count (db w) cm)"
        using GetOtherMembers_Ret [OF 3 [unfolded q]] v(5,6) unfolding d
        by (auto simp: map_eq_Cons_conv)
      have "announces (db w) u i v (snd (snd (?msg m')))"
        unfolding announces_def using c v(3-5) ms
        by (auto simp: with_last_author_def with_private_user_def)
      then show ?thesis using r y3 v(1,2) ms by auto
    qed
  qed
qed


text \<open>When nothing fails, the other member is told.\<close>

lemma rows_loop_no_faults:
  assumes "\<And>r v. r \<in> set rs \<Longrightarrow> no_faults v \<Longrightarrow> \<exists>x v'. body r v = (Ret x, v') \<and> no_faults v'"
    and "no_faults w"
  shows "\<exists>xs w'. rows_loop body rs w = (Ret xs, w') \<and> no_faults w'"
  using assms
proof (induction rs arbitrary: w)
  case (Cons r rs)
  obtain x v where x: "body r w = (Ret x, v)" "no_faults v" using Cons.prems by force
  obtain xs w' where "rows_loop body rs v = (Ret xs, w')" "no_faults w'"
    using Cons.IH [OF _ x(2)] Cons.prems(1) by force
  with x show ?case by (simp add: call_def ret_def)
qed (simp add: ret_def)

lemma GetOtherMembers_no_faults:
  assumes "no_faults w" "int (length (messages (db w))) < 2 ^ 31"
  shows "\<exists>ms w'. DBChatStore_GetOtherChatMembersIdByAuthorId u i w = (Ret ms, w') \<and> no_faults w'"
proof -
  have small: "scan_count (unread_count (db w) cm) \<noteq> None" for cm
  proof -
    have "unread_count (db w) cm \<le> length (messages (db w))" by (simp add: unread_count_def)
    then have "int (unread_count (db w) cm) < 2 ^ 31" using assms(2) by linarith
    then show ?thesis by (simp add: scan_count_def)
  qed
  have "\<exists>xs v. rows_loop scan_member (select_other_members u i (db w)) (tick w) = (Ret xs, v) \<and> no_faults v"
  proof (rule rows_loop_no_faults)
    fix r v assume "r \<in> set (select_other_members u i (db w))" "no_faults v"
    moreover obtain cm where cm: "r = (cm, unread_count (db w) cm)"
      using calculation by (auto simp: select_other_members_def)
    moreover obtain n where "scan_count (unread_count (db w) cm) = Some n"
      using small [of cm] by blast
    ultimately show "\<exists>x v'. scan_member r v = (Ret x, v') \<and> no_faults v'"
      by (simp add: scan_member_def call_def ret_def external_def)
  qed (use assms(1) in simp)
  then show ?thesis
    using assms(1) by (auto simp: DBChatStore_GetOtherChatMembersIdByAuthorId_def call_def query_def
        external_def rows_Err_def ret_def)
qed

lemma notify_no_faults:
  assumes "no_faults w" "wf_chats (db w)" "u \<in> members_of (db w) i" "last_message (db w) i \<noteq> None"
    and "int (length (messages (db w))) < 2 ^ 31"
  shows "\<exists>v c w'. v \<noteq> u \<and> members_of (db w) i = {u, v} \<and> announces (db w) u i v c \<and> quiet w w' \<and>
    ChatService_CreateMessage_notify (chat_main E) u i w = (Ret [(v, ''new_message'', c)], w')"
proof -
  obtain r w' where n: "ChatService_CreateMessage_notify (chat_main E) u i w = (r, w')" by fastforce
  note result = notify_result [OF n assms(2,3)]
  have wfm: "wf_members (db w)" using assms(2) by (simp add: wf_chats_def)
  obtain v where mem: "v \<noteq> u" "v \<in> members_of (db w) i"
    using other_member [OF assms(2,3)] by (metis insertI1 insertI2)
  have "i \<in> ch_id ` set (chats (db w))"
    using assms(3) member_chat_id [OF wfm] by (auto simp: members_of_def)
  then have "find (\<lambda>c. ch_id c = i) (chats (db w)) \<noteq> None" by (auto simp: find_None_iff)
  then obtain cr where cr: "find (\<lambda>c. ch_id c = i) (chats (db w)) = Some cr" by blast
  have ng: "\<not> ch_is_group cr"
    using find_SomeD [OF cr] assms(2) by (auto simp: wf_chats_def private_chats_def)
  have im: "is_member (db w) u i" using assms(3) by (simp add: is_member_members_of)
  obtain c ids where 1: "DBChatStore_GetFullChatByIDAndSenderID u i w = (Ret (c, ids), tick w)"
      "\<not> fc_IsGroup c" "fc_UserIDWith c = Some u"
    using assms(1,4) cr ng im by (auto simp: DBChatStore_GetFullChatByIDAndSenderID_def act Let_def)
  obtain m w2 where 2: "pc_GetShortProfileMapByUserIDs (profile_conn E) ids (tick w) = (Ret m, w2)"
      "quiet (tick w) w2" "no_faults w2"
    using profile_map_no_faults [OF no_faults_tick [OF assms(1)]] by blast
  have d2: "db w2 = db w" using 2(2) by (simp add: quiet_sel)
  obtain ms w3 where 3: "DBChatStore_GetOtherChatMembersIdByAuthorId u i w2 = (Ret ms, w3)"
    using GetOtherMembers_no_faults [OF 2(3), unfolded d2, OF assms(5), of u i] by blast
  have "ms \<noteq> []"
  proof
    assume "ms = []"
    then have "filter (\<lambda>cm. cb_member_id cm \<noteq> u \<and> cb_chat_id cm = i) (chat_members (db w)) = []"
      using GetOtherMembers_Ret [OF 3] d2 by simp
    then show False using mem by (auto simp: filter_empty_conv members_of_def)
  qed
  moreover have "\<exists>f. r = Ret (map f ms)"
    using n 1 2 3 by (auto simp: ChatService_CreateMessage_notify_def call_def ret_def deref_def Let_def)
  ultimately have "r \<noteq> Ret []" by auto
  with result n show ?thesis by blast
qed

text \<open>The message's time is later than those of the other messages of its chat.\<close>

definition newest :: "database \<Rightarrow> int32 \<Rightarrow> int32 \<Rightarrow> bool" where
  "newest d i j \<longleftrightarrow> (\<exists>row \<in> set (messages d). ms_id row = j \<and> ms_chat_id row = i \<and>
     (\<forall>m \<in> set (messages d). ms_chat_id m = i \<and> m \<noteq> row \<longrightarrow> ms_created_at m < ms_created_at row))"

lemma newest_last:
  assumes "newest d i j"
  shows "\<exists>row \<in> set (messages d). last_message d i = Some row \<and> ms_id row = j"
proof -
  obtain row where row: "row \<in> set (messages d)" "ms_id row = j" "ms_chat_id row = i"
    "\<And>m. m \<in> set (messages d) \<Longrightarrow> ms_chat_id m = i \<Longrightarrow> m \<noteq> row \<Longrightarrow> ms_created_at m < ms_created_at row"
    using assms by (auto simp: newest_def)
  let ?xs = "filter (\<lambda>m. ms_chat_id m = i) (messages d)"
  have s: "sorted (map (\<lambda>m. - ms_created_at m) (select_messages i d))"
    and set: "set (select_messages i d) = set ?xs"
    by (simp_all add: select_messages_def)
  from row(1,3) set have "row \<in> set (select_messages i d)" by simp
  then obtain m ms where ms: "select_messages i d = m # ms" by (cases "select_messages i d") auto
  with s \<open>row \<in> set (select_messages i d)\<close> have "- ms_created_at m \<le> - ms_created_at row" by auto
  moreover have "m \<in> set (messages d)" "ms_chat_id m = i" using set ms by auto
  ultimately have "m = row" using row(4) [of m] by fastforce
  with ms row(1,2) show ?thesis by (simp add: last_message_def)
qed

lemma message_announced:
  assumes created: "ChatService_CreateMessage (chat_main E) u i t fs k w = (Ret j, w1)"
    and wf: "wf_chats (db w)" and "no_faults w1" "newest (db w1) i j"
    and small: "int (length (messages (db w1))) < 2 ^ 31"
  shows "\<exists>v c w2. v \<noteq> u \<and> members_of (db w) i = {u, v} \<and> quiet w1 w2 \<and>
    ChatService_CreateMessage_notify (chat_main E) u i w1 = (Ret [(v, ''new_message'', c)], w2) \<and>
    msg_ID (fc_LastMessage c) = j \<and> msg_Text (fc_LastMessage c) = t \<and>
    msg_AuthorID (fc_LastMessage c) = u \<and> announces (db w1) u i v c"
proof -
  obtain paths where u: "u \<in> members_of (db w) i" and add: "adds_message (db w) u i t k paths j (db w1)"
    using CreateMessage_service [OF created] by auto
  have mem: "members_of (db w1) = members_of (db w)"
    using add by (auto simp: adds_message_def members_of_def fun_eq_iff)
  have wf1: "wf_chats (db w1)"
    using chat_wf.keeps_chat_service(3) wf created by (rule keepsD)
  obtain row where row: "row \<in> set (messages (db w1))" "last_message (db w1) i = Some row" "ms_id row = j"
    using newest_last [OF assms(4)] by blast
  have "distinct (map ms_id (messages (db w1)))" using wf1 by (simp add: wf_chats_def wf_messages_def)
  moreover have "\<exists>row' \<in> set (messages (db w1)). ms_id row' = j \<and> ms_text row' = t \<and>
      ms_author_id row' = u"
    using add by (auto simp: adds_message_def)
  then obtain row' where "row' \<in> set (messages (db w1))" "ms_id row' = j" "ms_text row' = t"
    "ms_author_id row' = u"
    by blast
  ultimately have "ms_text row = t" "ms_author_id row = u"
    using row distinct_key_inj [of ms_id "messages (db w1)" row row'] by auto
  moreover obtain v c w2 where "v \<noteq> u" "members_of (db w1) i = {u, v}" "announces (db w1) u i v c"
    "quiet w1 w2" "ChatService_CreateMessage_notify (chat_main E) u i w1 = (Ret [(v, ''new_message'', c)], w2)"
    using notify_no_faults [OF assms(3) wf1 _ _ small, of u i E] u mem row(2) by auto
  ultimately show ?thesis
    using row mem by (intro exI [of _ v] exI [of _ c] exI [of _ w2]) (auto simp: announces_def)
qed

end
