(* ===== verification/Chat_Delivery.thy ===== *)
theory Chat_Delivery
  imports Chat_Facts Hub
begin

text \<open>
  The end of the goroutine of \<open>CreateMessage\<close> (src/internal/service/chat.go): the loop over the
  recipients, which hands each announcement to the WebSocket hub. What the chat's tables say about
  the recipients meets what the hub says about its clients.
\<close>

text \<open>An announcement that cannot be marshalled is logged and skipped.\<close>

fun ChatService_CreateMessage_deliver ::
    "(FullChat \<Rightarrow> string option) \<Rightarrow> (string \<Rightarrow> string \<Rightarrow> string option) \<Rightarrow>
     (int32 \<times> string \<times> FullChat) list \<Rightarrow> Hub \<Rightarrow> Hub" where
  "ChatService_CreateMessage_deliver marshal envelope [] h = h"
| "ChatService_CreateMessage_deliver marshal envelope ((userID, kind, chat) # rest) h =
     ChatService_CreateMessage_deliver marshal envelope rest
       (fst (Hub_SendJSON marshal envelope userID kind chat h))"

text \<open>The announcements that \<open>h'\<close> has on the way and \<open>h\<close> has not go to clients of the users in \<open>S\<close>.\<close>

definition sends_only_to :: "int32 set \<Rightarrow> Hub \<Rightarrow> Hub \<Rightarrow> bool" where
  "sends_only_to S h h' \<longleftrightarrow> hub_clients h' = hub_clients h \<and> hub_heap h' = hub_heap h \<and>
     hub_panic h' = hub_panic h \<and>
     (\<exists>new. hub_sending h' = hub_sending h @ new \<and>
        (\<forall>(k, m) \<in> set new. k < length (hub_heap h) \<and> wc_userID (hub_heap h ! k) \<in> S))"

lemma sends_only_to_refl: "sends_only_to S h h"
  by (simp add: sends_only_to_def)

lemma sends_only_to_trans:
  "sends_only_to S h h1 \<Longrightarrow> sends_only_to S h1 h2 \<Longrightarrow> sends_only_to S h h2"
  by (fastforce simp: sends_only_to_def)

lemma SendJSON_sends_to:
  assumes "hub_inv h"
  shows "sends_only_to {u} h (fst (Hub_SendJSON marshal envelope u kind x h))"
  using assms
  by (auto simp: Hub_SendJSON_def Hub_SendToUser_lookup_def sends_only_to_def hub_inv_def
      split: option.splits)

lemma sends_only_to_inv:
  "hub_inv h \<Longrightarrow> sends_only_to S h h' \<Longrightarrow> hub_inv h'"
  by (auto simp: sends_only_to_def hub_inv_def)

lemma sends_only_to_mono: "sends_only_to S h h' \<Longrightarrow> S \<subseteq> T \<Longrightarrow> sends_only_to T h h'"
  by (fastforce simp: sends_only_to_def)

lemma deliver_sends_to:
  assumes "hub_inv h"
  shows "sends_only_to (fst ` set ms) h (ChatService_CreateMessage_deliver marshal envelope ms h)"
  using assms
proof (induction ms arbitrary: h)
  case Nil
  show ?case by (simp add: sends_only_to_refl)
next
  case (Cons m ms)
  obtain u kind c where m: "m = (u, kind, c)" by (cases m)
  let ?h = "fst (Hub_SendJSON marshal envelope u kind c h)"
  have sent: "sends_only_to {u} h ?h" using Cons.prems by (rule SendJSON_sends_to)
  note rest = Cons.IH [OF sends_only_to_inv [OF Cons.prems sent]]
  have "sends_only_to (insert u (fst ` set ms)) h
      (ChatService_CreateMessage_deliver marshal envelope ms ?h)"
    by (rule sends_only_to_trans [OF sends_only_to_mono [OF sent] sends_only_to_mono [OF rest]]) auto
  then show ?case by (simp add: m)
qed

end
