(* ===== verification/Chat_Race.thy ===== *)
theory Chat_Race
  imports Chat_Facts
begin

text \<open>
  Requests for the chat with a user that run at the same time (GetOrCreateChatWithUser of
  src/internal/repository/db/chat.go). The transaction is at the default level of PostgreSQL: its query
  sees what is committed when it runs, and what it inserts becomes visible, all at once, when it
  commits. So a request has two points at which another one can come between: its query, and the
  commit of the chat it creates when the query found none. Between them no lock is held.
\<close>

datatype asker = Asking | Missing | Answered int32 | Refused

definition GetOrCreate_lookup :: "int32 list \<Rightarrow> world \<Rightarrow> asker \<times> world" where
  "GetOrCreate_lookup ids w =
     (case query_row (private_chat ids) w of
        (Ret chatID, w') \<Rightarrow> (Answered chatID, w')
      | (Fail err, w') \<Rightarrow> (if errors_Is err ErrNoRows then Missing else Refused, w')
      | (Panic, w') \<Rightarrow> (Refused, w'))"

definition GetOrCreate_create :: "int32 list \<Rightarrow> world \<Rightarrow> asker \<times> world" where
  "GetOrCreate_create ids w =
     (let tx = db w;
          rollback = (\<lambda>err. call (tx_Rollback tx) throw (\<lambda>_. throw err))
      in case call (insert_returning ''chats'' insert_chat) rollback
           (\<lambda>chatID. call (exec (insert_members chatID ids)) rollback
           (\<lambda>_. call (tx_Commit tx) throw (\<lambda>_. ret chatID))) w of
        (Ret chatID, w') \<Rightarrow> (Answered chatID, w')
      | (_, w') \<Rightarrow> (Refused, w'))"

text \<open>
  One step of the request numbered \<open>k\<close>, which asks for the chat of \<open>pairs k\<close>, and the run of a
  schedule. Every interleaving of any number of requests is a schedule.
\<close>

definition race_step ::
    "(nat \<Rightarrow> int32 \<times> int32) \<Rightarrow> nat \<Rightarrow> world \<times> (nat \<Rightarrow> asker) \<Rightarrow> world \<times> (nat \<Rightarrow> asker)" where
  "race_step pairs k s =
     (let (w, pc) = s; ids = sorted_pair (fst (pairs k)) (snd (pairs k))
      in case pc k of
           Asking \<Rightarrow> (let (a, w') = GetOrCreate_lookup ids w in (w', pc(k := a)))
         | Missing \<Rightarrow> (let (a, w') = GetOrCreate_create ids w in (w', pc(k := a)))
         | _ \<Rightarrow> s)"

fun race_run ::
    "(nat \<Rightarrow> int32 \<times> int32) \<Rightarrow> nat list \<Rightarrow> world \<times> (nat \<Rightarrow> asker) \<Rightarrow> world \<times> (nat \<Rightarrow> asker)" where
  "race_run pairs [] s = s"
| "race_run pairs (k # ks) s = race_run pairs ks (race_step pairs k s)"

subsection \<open>The two steps\<close>

lemma lookup_result:
  assumes "GetOrCreate_lookup ids w = (a, w')"
  shows "db w' = db w \<and> (case a of
      Answered i \<Rightarrow> private_chat ids (db w) = Some i
    | Missing \<Rightarrow> private_chat ids (db w) = None
    | Refused \<Rightarrow> True | Asking \<Rightarrow> False)"
  using assms
  by (auto simp: GetOrCreate_lookup_def query_row_def external_def tick_def
      split: option.splits prod.splits res.splits if_splits)

lemma create_result:
  assumes "GetOrCreate_create ids w = (a, w')"
  shows "case a of
      Answered i \<Rightarrow> (\<exists>now d n. insert_chat i now (db w) = Some (d, i) \<and> insert_members i ids now d = Some (db w', n))
    | Refused \<Rightarrow> db w' = db w | _ \<Rightarrow> False"
proof -
  have "insert_chat j now d = Some (d1, k) \<Longrightarrow> insert_chat k now d = Some (d1, k)" for j now d d1 k
    by (auto simp: insert_chat_def split: if_splits)
  then show ?thesis
    using assms
    by (auto simp: GetOrCreate_create_def Let_def act nextval_def
        split: option.splits prod.splits if_splits) metis?
qed

text \<open>One request alone takes the two steps at once: they are the method of the store.\<close>

lemma alone:
  assumes "no_faults w"
  shows "case DBChatStore_GetOrCreateChatWithUser u v w of (r, w1) \<Rightarrow>
    (case race_run (\<lambda>_. (u, v)) [k, k] (w, \<lambda>_. Asking) of (w2, pc) \<Rightarrow>
       pc k = (case r of Ret i \<Rightarrow> Answered i | _ \<Rightarrow> Refused) \<and> db w2 = db w1)"
proof -
  have nf: "next_fault w = None" "next_fault (tick w) = None" "next_fault (tick (tick w)) = None"
      "next_fault (tick (tick (tick w))) = None" "next_fault (tick (tick (tick (tick w)))) = None"
    using assms by simp_all
  have commute: "tick (v\<lparr>db := d\<rparr>) = (tick v)\<lparr>db := d\<rparr>" "tick (v\<lparr>seqs := q\<rparr>) = (tick v)\<lparr>seqs := q\<rparr>"
      "next_fault (v\<lparr>db := d\<rparr>) = next_fault v" "next_fault (v\<lparr>seqs := q\<rparr>) = next_fault v" for v d q
    by (simp_all add: tick_def next_fault_def)
  show ?thesis
    by (simp add: DBChatStore_GetOrCreateChatWithUser_def race_step_def GetOrCreate_lookup_def
        GetOrCreate_create_def Let_def act nextval_def nf commute split: option.split prod.split if_split)
qed

subsection \<open>Any interleaving\<close>

text \<open>No chat has more than two members.\<close>

definition pairs_only :: "database \<Rightarrow> bool" where
  "pairs_only d \<longleftrightarrow> (\<forall>j. \<exists>u v. members_of d j \<subseteq> {u, v})"

text \<open>
  What holds of every schedule that starts at \<open>d0\<close>: chats have at most two members, those of \<open>d0\<close> keep
  theirs, an answer is a chat of the two users, and a request that found no chat asks for a pair that
  had none.
\<close>

definition asker_ok :: "int32 \<times> int32 \<Rightarrow> database \<Rightarrow> database \<Rightarrow> asker \<Rightarrow> bool" where
  "asker_ok p d0 d a \<longleftrightarrow>
     (case a of
        Answered i \<Rightarrow> members_of d i = {fst p, snd p}
      | Missing \<Rightarrow> \<forall>j. \<not> {fst p, snd p} \<subseteq> members_of d0 j
      | _ \<Rightarrow> True)"

definition race_inv :: "(nat \<Rightarrow> int32 \<times> int32) \<Rightarrow> database \<Rightarrow> world \<times> (nat \<Rightarrow> asker) \<Rightarrow> bool" where
  "race_inv pairs d0 s \<longleftrightarrow>
     wf_members (db (fst s)) \<and> pairs_only (db (fst s)) \<and>
     (\<forall>j. members_of d0 j \<noteq> {} \<longrightarrow> members_of (db (fst s)) j = members_of d0 j) \<and>
     (\<forall>k. asker_ok (pairs k) d0 (db (fst s)) (snd s k)) \<and>
     (\<forall>j. members_of d0 j = {} \<longrightarrow> members_of (db (fst s)) j \<noteq> {} \<longrightarrow>
        (\<exists>k. snd s k = Answered j \<and> (\<forall>i. \<not> {fst (pairs k), snd (pairs k)} \<subseteq> members_of d0 i)))"

lemma race_inv_step:
  assumes inv: "race_inv pairs d0 s" and ne: "\<And>k. fst (pairs k) \<noteq> snd (pairs k)"
  shows "race_inv pairs d0 (race_step pairs k s)"
proof -
  obtain w pc where s: "s = (w, pc)" by fastforce
  let ?u = "fst (pairs k)" and ?v = "snd (pairs k)"
  let ?ids = "sorted_pair ?u ?v"
  obtain a b where p: "?ids = [a, b]" "a \<noteq> b" "{a, b} = {?u, ?v}"
    using sorted_pair_cases [OF ne] by metis
  have wfm: "wf_members (db w)" and two: "pairs_only (db w)"
    and old: "\<And>j. members_of d0 j \<noteq> {} \<Longrightarrow> members_of (db w) j = members_of d0 j"
    and pcs: "\<And>k. asker_ok (pairs k) d0 (db w) (pc k)"
    and fresh: "\<And>j. members_of d0 j = {} \<Longrightarrow> members_of (db w) j \<noteq> {} \<Longrightarrow>
        \<exists>k. pc k = Answered j \<and> (\<forall>i. \<not> {fst (pairs k), snd (pairs k)} \<subseteq> members_of d0 i)"
    using inv unfolding race_inv_def s fst_conv snd_conv by blast+
  show ?thesis
  proof (cases "pc k")
    case Asking
    obtain q w' where l: "GetOrCreate_lookup ?ids w = (q, w')" by fastforce
    note L = lookup_result [OF l]
    have step: "race_step pairs k s = (w', pc(k := q))" by (simp add: race_step_def s Asking l)
    have ok: "asker_ok (pairs k) d0 (db w) q"
    proof (cases q)
      case (Answered i)
      then have "{?u, ?v} \<subseteq> members_of (db w) i"
        using L private_chat_iff [OF wfm p(2), of i] p(1,3) by auto
      moreover obtain x y where "members_of (db w) i \<subseteq> {x, y}"
        using two unfolding pairs_only_def by blast
      ultimately show ?thesis using Answered ne [of k] by (auto simp: asker_ok_def)
    next
      case Missing
      then have none: "\<not> {?u, ?v} \<subseteq> members_of (db w) j" for j
        using L private_chat_iff [OF wfm p(2)] p(1,3) by auto
      have "\<not> {?u, ?v} \<subseteq> members_of d0 j" for j
        using none [of j] old [of j] by (cases "members_of d0 j = {}") auto
      then show ?thesis by (simp add: asker_ok_def Missing)
    qed (simp_all add: asker_ok_def)
    have d: "db w' = db w" using L by blast
    have keep: "(pc(k := q)) k' = pc k'" if "pc k' = Answered j" for k' j using that Asking by auto
    show ?thesis
      unfolding race_inv_def step fst_conv snd_conv d
    proof (intro conjI allI impI)
      show "asker_ok (pairs k') d0 (db w) ((pc(k := q)) k')" for k'
        using ok pcs by simp
      show "\<exists>k'. (pc(k := q)) k' = Answered j \<and> (\<forall>i. \<not> {fst (pairs k'), snd (pairs k')} \<subseteq> members_of d0 i)"
        if "members_of d0 j = {}" "members_of (db w) j \<noteq> {}" for j
        using fresh [OF that] keep by metis
    qed (use wfm two old in blast)+
  next
    case Missing
    obtain q w' where c: "GetOrCreate_create ?ids w = (q, w')" by fastforce
    note C = create_result [OF c]
    have step: "race_step pairs k s = (w', pc(k := q))" by (simp add: race_step_def s Missing c)
    have none: "\<not> {?u, ?v} \<subseteq> members_of d0 j" for j
      using pcs [of k] by (simp add: asker_ok_def Missing)
    consider "q = Refused" "db w' = db w"
      | i now d1 n where "q = Answered i" "insert_chat i now (db w) = Some (d1, i)"
          "insert_members i [a, b] now d1 = Some (db w', n)"
      using C p(1) by (cases q) auto
    then show ?thesis
    proof cases
      case 1
      have keep: "(pc(k := q)) k' = pc k'" if "pc k' = Answered j" for k' j using that Missing by auto
      show ?thesis
        unfolding race_inv_def step fst_conv snd_conv 1(2)
      proof (intro conjI allI impI)
        show "asker_ok (pairs k') d0 (db w) ((pc(k := q)) k')" for k'
          using pcs by (simp add: 1(1) asker_ok_def)
        show "\<exists>k'. (pc(k := q)) k' = Answered j \<and> (\<forall>i. \<not> {fst (pairs k'), snd (pairs k')} \<subseteq> members_of d0 i)"
          if "members_of d0 j = {}" "members_of (db w) j \<noteq> {}" for j
          using fresh [OF that] keep by metis
      qed (use wfm two old in blast)+
    next
      case (2 i now d1 n)
      note wf' = wf_members_new_chat [OF 2(2,3) wfm p(2)]
      have mem: "members_of (db w') j = (if j = i then {?u, ?v} else members_of (db w) j)" for j
        using new_chat_members [OF 2(2,3) wfm, of j] p(3) by simp
      have empty: "members_of (db w) i = {}"
        using wf' member_chat_id [OF wfm] by (auto simp: members_of_def)
      show ?thesis
        unfolding race_inv_def step fst_conv snd_conv
      proof (intro conjI allI impI)
        show "wf_members (db w')" using wf' by blast
        show "pairs_only (db w')"
          unfolding pairs_only_def
        proof
          fix j
          show "\<exists>x y. members_of (db w') j \<subseteq> {x, y}"
          proof (cases "j = i")
            case True
            then have "members_of (db w') j \<subseteq> {?u, ?v}" using mem [of j] by simp
            then show ?thesis by blast
          next
            case False
            then show ?thesis using two mem [of j] by (simp add: pairs_only_def)
          qed
        qed
        show "members_of (db w') j = members_of d0 j" if "members_of d0 j \<noteq> {}" for j
          using old [OF that] empty that mem [of j] by auto
        show "asker_ok (pairs k') d0 (db w') ((pc(k := q)) k')" for k'
        proof (cases "k' = k")
          case True
          then show ?thesis using 2(1) mem by (simp add: asker_ok_def)
        next
          case False
          have "members_of (db w') j = members_of (db w) j" if "members_of (db w) j \<noteq> {}" for j
            using that empty mem [of j] by auto
          then show ?thesis
            using pcs [of k'] False by (cases "pc k'") (auto simp: asker_ok_def)
        qed
        show "\<exists>k'. (pc(k := q)) k' = Answered j \<and> (\<forall>i. \<not> {fst (pairs k'), snd (pairs k')} \<subseteq> members_of d0 i)"
          if "members_of d0 j = {}" "members_of (db w') j \<noteq> {}" for j
        proof (cases "j = i")
          case True
          then show ?thesis using none 2(1) by (intro exI [of _ k]) simp
        next
          case False
          then have "members_of (db w) j \<noteq> {}" using that(2) mem [of j] by simp
          from fresh [OF that(1) this] obtain k' where
              "pc k' = Answered j" "\<forall>i. \<not> {fst (pairs k'), snd (pairs k')} \<subseteq> members_of d0 i" by blast
          then show ?thesis using Missing by (intro exI [of _ k']) auto
        qed
      qed
    qed
  qed (use inv in \<open>simp_all add: race_step_def s\<close>)
qed

lemma race_inv_run:
  assumes "\<And>k. fst (pairs k) \<noteq> snd (pairs k)"
  shows "race_inv pairs d0 s \<Longrightarrow> race_inv pairs d0 (race_run pairs ks s)"
proof (induction ks arbitrary: s)
  case (Cons k ks)
  then show ?case using race_inv_step [OF Cons.prems assms] by simp
qed simp

text \<open>Well-formed tables, before any request has asked, satisfy it.\<close>

lemma race_inv_start:
  assumes "wf_chats (db w)"
  shows "race_inv pairs (db w) (w, \<lambda>_. Asking)"
proof -
  have "\<exists>u v. members_of (db w) j \<subseteq> {u, v}" for j
  proof (cases "members_of (db w) j = {}")
    case False
    then obtain m where "m \<in> set (chat_members (db w))" "cb_chat_id m = j"
      by (auto simp: members_of_def)
    then have "j \<in> ch_id ` set (chats (db w))"
      using member_chat_id assms by (auto simp: wf_chats_def)
    then obtain u v where "members_of (db w) j = {u, v}"
      using assms by (auto simp: wf_chats_def private_chats_def)
    then show ?thesis by blast
  qed simp
  then show ?thesis
    using assms by (simp add: race_inv_def pairs_only_def asker_ok_def wf_chats_def)
qed

text \<open>An answer names the chat the two users had, when they had one.\<close>

lemma race_inv_old_chat:
  assumes inv: "race_inv pairs d0 (w, pc)" and a: "pc k = Answered i"
    and has: "has_private_chat d0 (fst (pairs k)) (snd (pairs k)) j"
  shows "i = j"
proof -
  let ?u = "fst (pairs k)" and ?v = "snd (pairs k)"
  have i: "members_of (db w) i = {?u, ?v}"
  proof -
    have "asker_ok (pairs k) d0 (db w) (pc k)" using inv by (simp add: race_inv_def)
    then show ?thesis by (simp add: asker_ok_def a)
  qed
  have "members_of d0 i \<noteq> {}"
  proof
    assume "members_of d0 i = {}"
    moreover have "members_of (db w) i \<noteq> {}" by (simp add: i)
    ultimately obtain k' where k': "pc k' = Answered i"
        and none: "\<not> {fst (pairs k'), snd (pairs k')} \<subseteq> members_of d0 j"
      using inv unfolding race_inv_def fst_conv snd_conv by blast
    have "asker_ok (pairs k') d0 (db w) (pc k')" using inv by (simp add: race_inv_def)
    then have "asker_ok (pairs k') d0 (db w) (Answered i)" by (simp only: k')
    then have "{fst (pairs k'), snd (pairs k')} = {?u, ?v}" by (simp add: asker_ok_def i)
    then show False using none has by (simp add: has_private_chat_def)
  qed
  then have "members_of d0 i = {?u, ?v}"
    using inv i by (simp add: race_inv_def)
  then show ?thesis using has by (simp add: has_private_chat_def)
qed

end
