(* ===== verification/Chat_Properties.thy ===== *)
theory Chat_Properties
  imports Examples Chat_Delivery Chat_Race
begin

text \<open>
  The properties of chats and messages: the one chat of two users, the creation of a message, its
  announcement to the other member through the hub, and the pointer to the last message read.
\<close>

subsection \<open>An instance\<close>

text \<open>Users 1 and 2 have chat 1 without messages; user 2 is connected.\<close>

definition example_chat_db :: database where
  "example_chat_db = (db example_world)\<lparr>
     chats := [\<lparr>ch_id = 1, ch_name = None, ch_is_group = False, ch_avatar = None, ch_created_at = 5\<rparr>],
     chat_members := [\<lparr>cb_chat_id = 1, cb_member_id = 1, cb_last_read_message_id = 0\<rparr>,
                      \<lparr>cb_chat_id = 1, cb_member_id = 2, cb_last_read_message_id = 0\<rparr>]\<rparr>"

definition example_chat :: world where
  "example_chat = example_world\<lparr>db := example_chat_db\<rparr>"

lemma example_chat_members: "members_of (db example_chat) i = (if i = 1 then {1, 2} else {})"
proof -
  have "members_of (db example_chat) i = set (map cb_member_id
      (filter (\<lambda>m. cb_chat_id m = i) (chat_members (db example_chat))))"
    by (auto simp: members_of_def)
  then show ?thesis by (simp add: example_chat_def example_chat_db_def)
qed

lemma example_wf_chats: "wf_chats (db example_chat)"
proof -
  have "wf_members (db example_chat)" "wf_messages (db example_chat)" by code_simp+
  moreover have "private_chats (db example_chat)"
  proof -
    obtain c where c: "chats (db example_chat) = [c]" "ch_id c = 1" "\<not> ch_is_group c"
      by (simp add: example_chat_def example_chat_db_def)
    have "\<exists>u v :: int32. u \<noteq> v \<and> {1, 2} = {u, v}"
      by (intro exI [of _ 1] exI [of _ 2]) simp
    then show ?thesis by (simp add: private_chats_def c example_chat_members)
  qed
  ultimately show ?thesis by (simp add: wf_chats_def)
qed

section \<open>Chats\<close>

text \<open>
  C8. Two users share one chat. Asking for the chat with another user returns, on well-formed tables,
  the only chat both are members of, which has no other member: the one they had, with nothing
  changed, or a new one, and then no other chat has gained or lost a member. In any later well-formed
  state in which that chat still has the two members, the other user is given the same chat. A request
  that fails changes no table, and asking for a chat with oneself fails.
\<close>

theorem two_users_share_one_chat:
  assumes "ChatService_GetOrCreateChatWithUser (chat_main E) u v w = (r, w')" "wf_chats (db w)"
  shows "case r of
      Ret i \<Rightarrow> u \<noteq> v \<and> has_private_chat (db w') u v i \<and>
        (\<forall>j. members_of (db w') j = (if j = i then {u, v} else members_of (db w) j)) \<and>
        (has_private_chat (db w) u v i \<and> db w' = db w \<or>
         (\<forall>j. \<not> {u, v} \<subseteq> members_of (db w) j) \<and> i \<notin> ch_id ` set (chats (db w))) \<and>
        (\<forall>w2 j w3. wf_chats (db w2) \<longrightarrow> members_of (db w2) i = {u, v} \<longrightarrow>
           ChatService_GetOrCreateChatWithUser (chat_main E) v u w2 = (Ret j, w3) \<longrightarrow> j = i)
    | Fail e \<Rightarrow> db w' = db w | Panic \<Rightarrow> False"
proof -
  have same: "j = i"
    if "wf_chats (db w2)" "members_of (db w2) i = {u, v}"
      "ChatService_GetOrCreateChatWithUser (chat_main E) v u w2 = (Ret j, w3)" for i w2 j w3
  proof -
    have uv: "{v, u} \<subseteq> members_of (db w2) i" using that(2) by simp
    from GetOrCreate_service [OF that(3,1), unfolded res.case] uv
    have "has_private_chat (db w2) v u j" by blast
    then show ?thesis using uv unfolding has_private_chat_def by blast
  qed
  show ?thesis
  proof (cases r)
    case (Ret i)
    note first = GetOrCreate_service [OF assms, unfolded Ret res.case]
    have "\<forall>w2 j w3. wf_chats (db w2) \<longrightarrow> members_of (db w2) i = {u, v} \<longrightarrow>
        ChatService_GetOrCreateChatWithUser (chat_main E) v u w2 = (Ret j, w3) \<longrightarrow> j = i"
      using same by blast
    with first show ?thesis unfolding Ret res.case by (elim conjE) (intro conjI)
  qed (use GetOrCreate_service [OF assms] in simp_all)
qed

theorem two_users_share_one_chat_witness:
  "has_private_chat (db example_chat) 2 1 1 \<and>
   (\<exists>i. fst (ChatService_GetOrCreateChatWithUser (chat_main example_libs) 1 3 example_chat) = Ret i \<and>
      members_of (db (snd (ChatService_GetOrCreateChatWithUser (chat_main example_libs) 1 3
        example_chat))) i = {1, 3})"
proof
  let ?m = "ChatService_GetOrCreateChatWithUser (chat_main example_libs) 2 1 example_chat"
  have "fst ?m = Ret 1" by code_simp
  then have m: "?m = (Ret 1, snd ?m)" by (simp add: prod_eq_iff)
  have "has_private_chat (db example_chat) 2 1 1 \<or> (\<forall>j. \<not> {2, 1} \<subseteq> members_of (db example_chat) j)"
    using two_users_share_one_chat [OF m example_wf_chats] by (simp only: res.case) blast
  moreover have "{2, 1} \<subseteq> members_of (db example_chat) 1" by (simp add: example_chat_members)
  ultimately show "has_private_chat (db example_chat) 2 1 1" by blast
  let ?n = "ChatService_GetOrCreateChatWithUser (chat_main example_libs) 1 3 example_chat"
  have "(case fst ?n of Ret _ \<Rightarrow> True | _ \<Rightarrow> False)" by code_simp
  then obtain i where n: "?n = (Ret i, snd ?n)" by (cases ?n; cases "fst ?n") auto
  from two_users_share_one_chat [OF n example_wf_chats] n
  show "\<exists>i. fst ?n = Ret i \<and> members_of (db (snd ?n)) i = {1, 3}"
    by (intro exI [of _ i]) (simp add: prod_eq_iff)
qed

section \<open>Messages\<close>

text \<open>
  C36. Interleaved requests keep chats private. Whatever the schedule of any number of simultaneous
  requests for chats, each between its query and its commit at any point of the others, an answer is a
  chat whose members are exactly the two users of the request, and the chat they had if they had one at
  the start; chats of the start keep their members, every new chat answers a request, and no chat has
  more than two members.
\<close>

theorem interleaved_requests_keep_chats_private:
  assumes "wf_chats (db w)" and "\<And>k. fst (pairs k) \<noteq> snd (pairs k)"
    and "race_run pairs ks (w, \<lambda>_. Asking) = (w', pc)"
  shows "(\<forall>k i. pc k = Answered i \<longrightarrow> members_of (db w') i = {fst (pairs k), snd (pairs k)} \<and>
        (\<forall>j. has_private_chat (db w) (fst (pairs k)) (snd (pairs k)) j \<longrightarrow> i = j)) \<and>
      (\<forall>j. members_of (db w) j \<noteq> {} \<longrightarrow> members_of (db w') j = members_of (db w) j) \<and>
      (\<forall>j. members_of (db w) j = {} \<longrightarrow> members_of (db w') j \<noteq> {} \<longrightarrow> (\<exists>k. pc k = Answered j)) \<and>
      (\<forall>j. \<exists>u v. members_of (db w') j \<subseteq> {u, v})"
proof -
  have "race_inv pairs (db w) (race_run pairs ks (w, \<lambda>_. Asking))"
    by (rule race_inv_run [OF assms(2) race_inv_start [OF assms(1)]])
  then have inv: "race_inv pairs (db w) (w', pc)" by (simp only: assms(3))
  note parts = inv [unfolded race_inv_def fst_conv snd_conv pairs_only_def]
  show ?thesis
  proof (intro conjI allI impI)
    fix k i assume a: "pc k = Answered i"
    have "asker_ok (pairs k) (db w) (db w') (pc k)" using parts by blast
    then show "members_of (db w') i = {fst (pairs k), snd (pairs k)}" by (simp add: asker_ok_def a)
    show "i = j" if "has_private_chat (db w) (fst (pairs k)) (snd (pairs k)) j" for j
      using race_inv_old_chat [OF inv a that] .
  next
    fix j assume "members_of (db w) j \<noteq> {}"
    then show "members_of (db w') j = members_of (db w) j" using parts by blast
  next
    fix j assume "members_of (db w) j = {}" "members_of (db w') j \<noteq> {}"
    then show "\<exists>k. pc k = Answered j" using parts by blast
  next
    show "\<exists>u v. members_of (db w') j \<subseteq> {u, v}" for j using parts by blast
  qed
qed

text \<open>
  Users 2 and 3, without a chat, ask for theirs at the same moment: both queries run before the first
  commit, and each is answered with a chat of its own.
\<close>

definition example_pairs :: "nat \<Rightarrow> int32 \<times> int32" where
  "example_pairs k = (if k = 0 then (2, 3) else (3, 2))"

definition example_race :: "world \<times> (nat \<Rightarrow> asker)" where
  "example_race = race_run example_pairs [0, 1, 0, 1] (example_chat, \<lambda>_. Asking)"

lemma simultaneous_requests_create_two_chats:
  "snd example_race 0 = Answered 4" "snd example_race 1 = Answered 5"
  by code_simp+

theorem interleaved_requests_keep_chats_private_witness:
  "members_of (db (fst example_race)) 4 = {2, 3} \<and> members_of (db (fst example_race)) 5 = {2, 3} \<and>
   members_of (db (fst example_race)) 1 = {1, 2}"
proof -
  have ne: "\<And>k. fst (example_pairs k) \<noteq> snd (example_pairs k)" by (simp add: example_pairs_def)
  have run: "race_run example_pairs [0, 1, 0, 1] (example_chat, \<lambda>_. Asking) =
      (fst example_race, snd example_race)"
    by (simp only: example_race_def prod.collapse)
  note I = interleaved_requests_keep_chats_private [OF example_wf_chats ne run]
  have "members_of (db (fst example_race)) 4 = {fst (example_pairs 0), snd (example_pairs 0)}"
    "members_of (db (fst example_race)) 5 = {fst (example_pairs 1), snd (example_pairs 1)}"
    using I simultaneous_requests_create_two_chats by blast+
  moreover have "members_of (db (fst example_race)) 1 = members_of (db example_chat) 1"
    using I [THEN conjunct2, THEN conjunct1] by (simp add: example_chat_members)
  ultimately show ?thesis by (simp add: example_pairs_def example_chat_members insert_commute)
qed

text \<open>
  C9. Creating a message is all or nothing. On success the sender is a member of the chat, the text or
  the sticker was valid, and the tables have gained exactly one message with its sender, chat, text
  and sticker and one attachment for each uploaded file in their order; on any failure of any call
  the tables are as before. It never panics.
\<close>

theorem creating_a_message_is_atomic:
  "case ChatService_CreateMessage (chat_main E) u i t files sticker w of
     (Ret j, w') \<Rightarrow> u \<in> members_of (db w) i \<and> validateMessageContent t (length files) sticker = None \<and>
       (\<exists>paths. length paths = length files \<and> adds_message (db w) u i t sticker paths j (db w'))
   | (Fail e, w') \<Rightarrow> db w' = db w
   | (Panic, w') \<Rightarrow> False"
proof -
  obtain r w' where c: "ChatService_CreateMessage (chat_main E) u i t files sticker w = (r, w')"
    by fastforce
  from CreateMessage_service [OF c] show ?thesis by (cases r) (auto simp: c)
qed

text \<open>
  C10. A message is announced to nobody but the other member. Whatever calls fail, the goroutine that
  announces a message changes no table; it computes at most one event, for the one other member of the
  chat, with the chat's last message and that member's own last-read pointer and unread count; and
  delivering it to any reachable hub only adds sends to clients of that member.
\<close>

theorem announcement_reaches_only_the_other_member:
  assumes "ChatService_CreateMessage_notify (chat_main E) u i w = (r, w')"
    and "wf_chats (db w)" "u \<in> members_of (db w) i" "hub_reachable h out"
  shows "quiet w w' \<and> (\<exists>events. r = Ret events \<and>
    (events = [] \<or> (\<exists>v c. v \<noteq> u \<and> members_of (db w) i = {u, v} \<and>
       events = [(v, ''new_message'', c)] \<and> announces (db w) u i v c)) \<and>
    sends_only_to (members_of (db w) i - {u}) h
      (ChatService_CreateMessage_deliver marshal envelope events h))"
proof -
  note result = notify_result [OF assms(1-3)]
  obtain events where r: "r = Ret events" using result by auto
  have "fst ` set events \<subseteq> members_of (db w) i - {u}"
    using conjunct2 [OF result] unfolding r
  proof (elim disjE exE conjE)
    fix v c assume "v \<noteq> u" "members_of (db w) i = {u, v}" "Ret events = Ret [(v, ''new_message'', c)]"
    then show ?thesis by simp
  qed simp
  with deliver_sends_to [OF hub_inv_reachable [OF assms(4)]]
  have "sends_only_to (members_of (db w) i - {u}) h
      (ChatService_CreateMessage_deliver marshal envelope events h)"
    by (rule sends_only_to_mono)
  with result r show ?thesis by simp
qed

text \<open>User 1 sends a message; user 2 is connected and user 3 as well.\<close>

definition example_sent :: world where
  "example_sent = snd (ChatService_CreateMessage (chat_main example_libs) 1 1 ''hello'' [] None example_chat)"

lemma example_sent_run:
  "ChatService_CreateMessage (chat_main example_libs) 1 1 ''hello'' [] None example_chat
     = (Ret 4, example_sent)"
proof -
  have "fst (ChatService_CreateMessage (chat_main example_libs) 1 1 ''hello'' [] None example_chat)
      = Ret 4" by code_simp
  then show ?thesis by (simp add: prod_eq_iff example_sent_def)
qed

lemma example_sent_members: "members_of (db example_sent) i = (if i = 1 then {1, 2} else {})"
proof -
  have "members_of (db example_sent) i = members_of (db example_chat) i"
    using CreateMessage_service [OF example_sent_run]
    by (auto simp: adds_message_def members_of_def)
  then show ?thesis by (simp add: example_chat_members)
qed

lemma example_wf_sent: "wf_chats (db example_sent)"
  using chat_wf.keeps_chat_service(3) example_wf_chats example_sent_run by (rule keepsD)

lemma example_hub: "\<exists>h out. hub_reachable h out \<and> hub_exec [Add 3, Add 2] NewHub = Some (h, out)"
proof -
  have "hub_exec [Add 3, Add 2] NewHub \<noteq> None" by code_simp
  then obtain h out where e: "hub_exec [Add 3, Add 2] NewHub = Some (h, out)" by fastforce
  from hub_exec_reachable [OF e hub_reachable.init] e show ?thesis by auto
qed

theorem announcement_reaches_only_the_other_member_witness:
  "\<exists>h out events. hub_exec [Add 3, Add 2] NewHub = Some (h, out) \<and>
     fst (ChatService_CreateMessage_notify (chat_main example_libs) 1 1 example_sent) = Ret events \<and>
     map fst events = [2] \<and>
     sends_only_to {2} h (ChatService_CreateMessage_deliver (\<lambda>c. Some (msg_Text (fc_LastMessage c)))
       (\<lambda>k m. Some (k @ m)) events h)"
proof -
  let ?n = "ChatService_CreateMessage_notify (chat_main example_libs) 1 1 example_sent"
  obtain h out where h: "hub_reachable h out" "hub_exec [Add 3, Add 2] NewHub = Some (h, out)"
    using example_hub by blast
  have u: "1 \<in> members_of (db example_sent) 1" by (simp add: example_sent_members)
  have n: "?n = (fst ?n, snd ?n)" by simp
  from announcement_reaches_only_the_other_member [OF n example_wf_sent u h(1)]
  obtain events where e: "fst ?n = Ret events"
    and s: "sends_only_to (members_of (db example_sent) 1 - {1}) h (ChatService_CreateMessage_deliver
      (\<lambda>c. Some (msg_Text (fc_LastMessage c))) (\<lambda>k m. Some (k @ m)) events h)"
    by blast
  have "(case fst ?n of Ret events \<Rightarrow> map fst events = [2] | _ \<Rightarrow> False)" by code_simp
  with e have "map fst events = [2]" by simp
  moreover have "members_of (db example_sent) 1 - {1} = {2}" by (auto simp: example_sent_members)
  ultimately show ?thesis using e h(2) s by auto
qed

text \<open>
  C11. When nothing fails, the other member is told. After a message was created, if no call fails and
  the message is the newest of its chat, the goroutine announces exactly that message, its text and
  its author to the other member; if that member is connected and the event can be encoded, one send
  of it to the member's client is now pending in the hub. (The unread count must fit 32 bits.)
\<close>

theorem message_is_announced:
  assumes "ChatService_CreateMessage (chat_main E) u i t files sticker w = (Ret j, w1)"
    and "wf_chats (db w)" "no_faults w1" "newest (db w1) i j"
    and "int (length (messages (db w1))) < 2 ^ 31"
    and "\<And>c. marshal c \<noteq> None" "\<And>k m. envelope k m \<noteq> None"
  shows "\<exists>v c w2 message. v \<noteq> u \<and> members_of (db w) i = {u, v} \<and>
    ChatService_CreateMessage_notify (chat_main E) u i w1 = (Ret [(v, ''new_message'', c)], w2) \<and>
    msg_ID (fc_LastMessage c) = j \<and> msg_Text (fc_LastMessage c) = t \<and>
    msg_AuthorID (fc_LastMessage c) = u \<and>
    envelope ''new_message'' (the (marshal c)) = Some message \<and>
    (\<forall>h k. hub_clients h v = Some k \<longrightarrow>
       hub_sending (ChatService_CreateMessage_deliver marshal envelope [(v, ''new_message'', c)] h)
         = hub_sending h @ [(k, message)])"
proof -
  obtain v c w2 where n: "v \<noteq> u" "members_of (db w) i = {u, v}"
    "ChatService_CreateMessage_notify (chat_main E) u i w1 = (Ret [(v, ''new_message'', c)], w2)"
    "msg_ID (fc_LastMessage c) = j" "msg_Text (fc_LastMessage c) = t" "msg_AuthorID (fc_LastMessage c) = u"
    using message_announced [OF assms(1-5)] by blast
  obtain payload where p: "marshal c = Some payload" using assms(6) [of c] by blast
  obtain message where m: "envelope ''new_message'' payload = Some message"
    using assms(7) [of "''new_message''" payload] by blast
  have "hub_sending (ChatService_CreateMessage_deliver marshal envelope [(v, ''new_message'', c)] h)
      = hub_sending h @ [(k, message)]" if "hub_clients h v = Some k" for h k
    using that by (simp add: Hub_SendJSON_def p m Hub_SendToUser_lookup_def)
  with n p m show ?thesis
    by (intro exI [of _ v] exI [of _ c] exI [of _ w2] exI [of _ message]) simp
qed

theorem message_is_announced_witness:
  "\<exists>c w2. ChatService_CreateMessage_notify (chat_main example_libs) 1 1 example_sent
      = (Ret [(2, ''new_message'', c)], w2) \<and> msg_Text (fc_LastMessage c) = ''hello''"
proof -
  have f: "no_faults example_sent" by code_simp
  have len: "length (messages (db example_sent)) = 1" by code_simp
  have s: "int (length (messages (db example_sent))) < 2 ^ 31" by (simp add: len)
  have n: "newest (db example_sent) 1 4"
  proof -
    have "map (\<lambda>m. (ms_id m, ms_chat_id m)) (messages (db example_sent)) = [(4, 1)]" by code_simp
    then show ?thesis by (auto simp: newest_def)
  qed
  obtain v c w2 where v: "v \<noteq> 1" "members_of (db example_chat) 1 = {1, v}"
    "ChatService_CreateMessage_notify (chat_main example_libs) 1 1 example_sent
      = (Ret [(v, ''new_message'', c)], w2)" "msg_Text (fc_LastMessage c) = ''hello''"
    using message_is_announced [OF example_sent_run example_wf_chats f n s, of "\<lambda>c. Some []" "\<lambda>k m. Some m"]
    by blast
  have "v = 2" using v(1,2) by (auto simp: example_chat_members doubleton_eq_iff)
  with v(3,4) show ?thesis by auto
qed

text \<open>
  C37. The last-read pointer only rises. Marking a chat as read up to a message moves the pointer of the
  caller in that chat to the larger of the two ids, whatever order such requests arrive in, and moves
  nobody else's pointer and no other chat's; a request that fails moves none.
\<close>

theorem last_read_pointer_only_rises:
  assumes "ChatService_UpdateLastReadMessage (chat_main E) u i l w = (r, w')"
  shows "last_read_of (db w') j v =
    (if r = Ret () \<and> (j, v) = (i, u)
     then map_option (\<lambda>k. if sint k < sint l then l else k) (last_read_of (db w) i u)
     else last_read_of (db w) j v)"
  by (rule UpdateLastRead_effect [OF assms])

theorem last_read_pointer_only_rises_witness:
  "last_read_of (db example_sent) 1 2 = Some 0 \<and>
   last_read_of (db (snd (ChatService_UpdateLastReadMessage (chat_main example_libs) 2 1 4
     example_sent))) 1 2 = Some 4"
proof
  let ?m = "ChatService_UpdateLastReadMessage (chat_main example_libs) 2 1 4 example_sent"
  show z: "last_read_of (db example_sent) 1 2 = Some 0" by code_simp
  have "fst ?m = Ret ()" by code_simp
  then have m: "?m = (Ret (), snd ?m)" by (simp add: prod_eq_iff)
  show "last_read_of (db (snd ?m)) 1 2 = Some 4"
    using last_read_pointer_only_rises [OF m, of 1 2] by (simp add: z)
qed

end
