(* ===== verification/Application_Service.thy ===== *)
theory Application_Service
  imports Chat_Domain Mapper
begin

text \<open>
  Support applications: the store (src/internal/repository/db/application.go) on the table
  applications, and the service (src/internal/service/application.go). What the code reads from the
  request's context (the user id, 0 when there is none, and the \<open>TempSessionInfo\<close>) is an argument.
\<close>

subsection \<open>The store\<close>

text \<open>
  A row as the queries read it; the INT of the author is scanned into a \<open>*string\<close>.
\<close>

definition scan_application :: "application_row \<Rightarrow> Application" where
  "scan_application a =
     \<lparr>app_ID = ap_id a, app_Status = ap_status a, app_Category = ap_category a,
      app_Text = ap_text a, app_AuthorID = map_option (\<lambda>u. strconv_Itoa (sint u)) (ap_author_id a),
      app_CreatedAt = ap_created_at a, app_UpdatedAt = ap_updated_at a, app_FullName = [],
      app_EmailReg = ap_email_req a, app_EmailFeedBack = ap_email_feedback a\<rparr>"

definition select_applications :: "(application_row \<Rightarrow> bool) \<Rightarrow> database \<Rightarrow> Application list" where
  "select_applications c d =
     map scan_application (sort_key (\<lambda>a. - ap_created_at a) (filter c (applications d)))"

definition info_or_zero :: "TempSessionInfo option \<Rightarrow> TempSessionInfo" where
  "info_or_zero info =
     (case info of None \<Rightarrow> \<lparr>ts_UserID = None, ts_TempSessionID = None\<rparr> | Some i \<Rightarrow> i)"

text \<open>A comparison with a NULL parameter is not true.\<close>

definition equals_param :: "'a option \<Rightarrow> 'a option \<Rightarrow> bool" where
  "equals_param column param = (param \<noteq> None \<and> column = param)"

definition owns_application :: "TempSessionInfo option \<Rightarrow> application_row \<Rightarrow> bool" where
  "owns_application info a \<longleftrightarrow>
     equals_param (ap_author_id a) (ts_UserID (info_or_zero info)) \<or>
     equals_param (ap_temp_session_id a) (ts_TempSessionID (info_or_zero info))"

definition DBApplicationStore_GetApplications :: "int32 \<Rightarrow> int32 \<Rightarrow> Application list action" where
  "DBApplicationStore_GetApplications limit offset =
     call (query_page (select_applications (\<lambda>_. True)) limit offset) throw
     (\<lambda>rows. rows_loop_unchecked (\<lambda>a. external Plain (ret a)) rows)"

definition DBApplicationStore_GetApplicationsByUser ::
    "TempSessionInfo option \<Rightarrow> int32 \<Rightarrow> int32 \<Rightarrow> Application list action" where
  "DBApplicationStore_GetApplicationsByUser info limit offset =
     call (query_page (select_applications (owns_application info)) limit offset) throw
     (\<lambda>rows. rows_loop_unchecked (\<lambda>a. external Plain (ret a)) rows)"

text \<open>An UPDATE of the row with an id; the trigger of the schema sets its \<open>updated_at\<close>.\<close>

definition update_applications ::
    "(application_row \<Rightarrow> bool) \<Rightarrow> (application_row \<Rightarrow> application_row) \<Rightarrow> int \<Rightarrow> database \<Rightarrow>
     (database \<times> nat) option" where
  "update_applications hit f now d =
     (let g = (\<lambda>a. (f a)\<lparr>ap_updated_at := now\<rparr>)
      in if \<forall>a \<in> set (applications d). hit a \<longrightarrow> applications_check (g a) \<and>
              (case ap_author_id (g a) of None \<Rightarrow> True | Some u \<Rightarrow> user_exists d u)
         then Some (d\<lparr>applications := update_where hit g (applications d)\<rparr>,
                    length (filter hit (applications d)))
         else None)"

definition DBApplicationStore_UpdateApplicationText :: "int32 \<Rightarrow> string \<Rightarrow> unit action" where
  "DBApplicationStore_UpdateApplicationText i newText =
     call (exec (update_applications (\<lambda>a. ap_id a = i) (\<lambda>a. a\<lparr>ap_text := newText\<rparr>))) throw
     (\<lambda>_. ret ())"

definition DBApplicationStore_UpdateApplicationStatus :: "int32 \<Rightarrow> string \<Rightarrow> unit action" where
  "DBApplicationStore_UpdateApplicationStatus i newStatus =
     call (exec (update_applications (\<lambda>a. ap_id a = i) (\<lambda>a. a\<lparr>ap_status := newStatus\<rparr>))) throw
     (\<lambda>_. ret ())"

definition insert_application ::
    "TempSessionInfo \<Rightarrow> Application \<Rightarrow> int32 \<Rightarrow> int \<Rightarrow> database \<Rightarrow> (database \<times> int32) option" where
  "insert_application info app i now d =
     (let row = \<lparr>ap_id = i, ap_author_id = ts_UserID info, ap_temp_session_id = ts_TempSessionID info,
                 ap_text = app_Text app, ap_category = app_Category app, ap_status = ''open'',
                 ap_created_at = now, ap_updated_at = now, ap_email_req = app_EmailReg app,
                 ap_email_feedback = app_EmailFeedBack app\<rparr>
      in if applications_check row \<and> i \<notin> ap_id ` set (applications d) \<and>
            (case ts_UserID info of None \<Rightarrow> True | Some u \<Rightarrow> user_exists d u)
         then Some (d\<lparr>applications := applications d @ [row]\<rparr>, i) else None)"

definition DBApplicationStore_CreateApplication ::
    "TempSessionInfo option \<Rightarrow> Application \<Rightarrow> int32 action" where
  "DBApplicationStore_CreateApplication info app =
     call (insert_returning ''applications'' (insert_application (info_or_zero info) app)) throw
     (\<lambda>i. ret i)"

definition DBApplicationStore_MergeTempSession :: "TempSessionInfo option \<Rightarrow> unit action" where
  "DBApplicationStore_MergeTempSession info =
     call (exec (update_applications
             (\<lambda>a. equals_param (ap_temp_session_id a) (ts_TempSessionID (info_or_zero info)))
             (\<lambda>a. a\<lparr>ap_author_id := ts_UserID (info_or_zero info), ap_temp_session_id := None\<rparr>)))
       throw
     (\<lambda>_. ret ())"

definition DBApplicationStore :: ApplicationStore where
  "DBApplicationStore =
     \<lparr>aps_GetApplicationsByUser = DBApplicationStore_GetApplicationsByUser,
      aps_GetApplications = DBApplicationStore_GetApplications,
      aps_UpdateApplicationText = DBApplicationStore_UpdateApplicationText,
      aps_UpdateApplicationStatus = DBApplicationStore_UpdateApplicationStatus,
      aps_CreateApplication = DBApplicationStore_CreateApplication,
      aps_MergeTempSession = DBApplicationStore_MergeTempSession\<rparr>"

subsection \<open>The service\<close>

record ApplicationService =
  als_authService :: AuthServiceClient
  als_applicationStore :: ApplicationStore

text \<open>
  The role is read from the response before the error is checked, and a gRPC client returns a nil
  response with an error: a failed call dereferences nil, and the check behind it is never reached.
\<close>

definition read_role :: "ApplicationService \<Rightarrow> int32 \<Rightarrow> (string \<Rightarrow> 'a action) \<Rightarrow> 'a action" where
  "read_role s userID k =
     call (ac_GetUserRole (als_authService s) userID) (\<lambda>err. nil_dereference) k"

definition ApplicationService_GetApplications ::
    "ApplicationService \<Rightarrow> int32 \<Rightarrow> TempSessionInfo option \<Rightarrow> PaginateQueryParams \<Rightarrow>
     Application list action" where
  "ApplicationService_GetApplications s userID info params =
     (let (offset, limit) = ValidatePaginationParams params
      in read_role s userID
      (\<lambda>role. if role = ''admin'' then aps_GetApplications (als_applicationStore s) limit offset
       else aps_GetApplicationsByUser (als_applicationStore s) info limit offset))"

definition ApplicationService_UpdateApplicationText ::
    "ApplicationService \<Rightarrow> int32 \<Rightarrow> string \<Rightarrow> unit action" where
  "ApplicationService_UpdateApplicationText s i newText =
     aps_UpdateApplicationText (als_applicationStore s) i newText"

definition ApplicationService_UpdateApplicationStatus ::
    "ApplicationService \<Rightarrow> int32 \<Rightarrow> int32 \<Rightarrow> string \<Rightarrow> unit action" where
  "ApplicationService_UpdateApplicationStatus s userID i newStatus =
     read_role s userID
     (\<lambda>role. if role \<noteq> ''admin'' \<and> newStatus \<noteq> ''closed'' then throw ErrAccessDenied
      else aps_UpdateApplicationStatus (als_applicationStore s) i newStatus)"

definition ApplicationService_CreateApplication ::
    "ApplicationService \<Rightarrow> TempSessionInfo option \<Rightarrow> Application \<Rightarrow> int32 action" where
  "ApplicationService_CreateApplication s info app =
     aps_CreateApplication (als_applicationStore s) info app"

definition ApplicationService_MergeTempSession ::
    "ApplicationService \<Rightarrow> TempSessionInfo option \<Rightarrow> unit action" where
  "ApplicationService_MergeTempSession s info = aps_MergeTempSession (als_applicationStore s) info"

end
