(* ===== verification/Application_Handler.thy ===== *)
theory Application_Handler
  imports Auth_Handler Application_Service
begin

text \<open>
  The HTTP handlers of support applications (src/internal/handler/application.go), the middleware for
  temporary sessions (src/internal/handler/middleware.go), and the service as \<open>main\<close> builds it.
\<close>

definition application_main :: "libraries \<Rightarrow> ApplicationService" where
  "application_main E =
     \<lparr>als_authService = auth_conn E, als_applicationStore = DBApplicationStore\<rparr>"

text \<open>
  An anonymous author gets a temporary session: a cookie, and, through the pointer in the request's
  context, the id that the store writes. Without a \<open>TempSessionInfo\<close> in the context the id does not
  reach the store. The cookie is in the header of every response that follows.
\<close>

definition ApplicationHandler_CreateApplication ::
    "http_libs \<Rightarrow> ApplicationService \<Rightarrow> http_handler" where
  "ApplicationHandler_CreateApplication H api r =
     call (DecodeJSONBody (hl_decodeApplication H) r) sendJSONError
     (\<lambda>req.
       let info = info_or_zero (rq_TempSession r);
           create = (\<lambda>ctx. call (ApplicationService_CreateApplication api ctx req) sendJSONError
                      (\<lambda>i. sendJSONData (ApplicationIDResponse i)))
       in if ts_TempSessionID info = None \<and> ts_UserID info = None
          then call uuid_New throw
            (\<lambda>newID. call time_Now throw
            (\<lambda>now.
              let sessionCookie = \<lparr>ck_Name = ''temp_session_id'', ck_Value = newID, ck_Path = ''/'',
                    ck_Expires = now + 36000, ck_HttpOnly = True\<rparr>
              in with_cookies [sessionCookie]
                   (create (map_option (\<lambda>i. i\<lparr>ts_TempSessionID := Some newID\<rparr>) (rq_TempSession r)))))
          else create (rq_TempSession r))"

definition ApplicationHandler_GetApplications ::
    "http_libs \<Rightarrow> ApplicationService \<Rightarrow> http_handler" where
  "ApplicationHandler_GetApplications H h r =
     call (DecodeQueryParams (hl_decodePaginate H) r) sendJSONError
     (\<lambda>qParams.
      call (ApplicationService_GetApplications h (ctx_userID r) (rq_TempSession r) qParams)
        sendJSONError
      (\<lambda>apps. sendJSONData (ApplicationsPayload apps)))"

definition ApplicationHandler_UpdateApplicationText ::
    "http_libs \<Rightarrow> ApplicationService \<Rightarrow> http_handler" where
  "ApplicationHandler_UpdateApplicationText H h r =
     call (PathInt32 r ''id'') sendJSONError
     (\<lambda>i. call (DecodeJSONBody (hl_decodeApplicationText H) r) sendJSONError
     (\<lambda>text. call (ApplicationService_UpdateApplicationText h i text) sendJSONError
     (\<lambda>_. sendJSONSuccess ''main updated'')))"

definition ApplicationHandler_UpdateApplicationStatus ::
    "http_libs \<Rightarrow> ApplicationService \<Rightarrow> http_handler" where
  "ApplicationHandler_UpdateApplicationStatus H h r =
     call (PathInt32 r ''id'') sendJSONError
     (\<lambda>i. call (DecodeJSONBody (hl_decodeApplicationStatus H) r) sendJSONError
     (\<lambda>newStatus.
      call (ApplicationService_UpdateApplicationStatus h (ctx_userID r) i newStatus) sendJSONError
      (\<lambda>_. sendJSONSuccess ''main updated'')))"

subsection \<open>The middleware\<close>

definition GetTempSessionID :: "http_libs \<Rightarrow> http_request \<Rightarrow> string option" where
  "GetTempSessionID H r = Option.bind (r_Cookie r ''temp_session_id'') (hl_parseUUID H)"

definition temp_session_info :: "http_libs \<Rightarrow> http_request \<Rightarrow> TempSessionInfo" where
  "temp_session_info H r = \<lparr>ts_UserID = rq_UserID r, ts_TempSessionID = GetTempSessionID H r\<rparr>"

text \<open>
  A logged-in user with a temporary session loses its cookie, and after the response a goroutine moves
  the applications of that session to the user.
\<close>

definition TempSessionMiddleware :: "http_libs \<Rightarrow> http_handler \<Rightarrow> http_handler" where
  "TempSessionMiddleware H next r =
     (let info = temp_session_info H r; ctx = r\<lparr>rq_TempSession := Some info\<rparr>
      in if ts_UserID info \<noteq> None \<and> ts_TempSessionID info \<noteq> None
         then with_cookies [\<lparr>ck_Name = ''temp_session_id'', ck_Value = [], ck_Path = ''/'',
                ck_Expires = 0, ck_HttpOnly = True\<rparr>] (next ctx)
         else next ctx)"

definition TempSessionMiddleware_merge :: "http_libs \<Rightarrow> ApplicationService \<Rightarrow> http_request \<Rightarrow> unit action"
  where
  "TempSessionMiddleware_merge H api r =
     (let info = temp_session_info H r
      in if ts_UserID info \<noteq> None \<and> ts_TempSessionID info \<noteq> None
         then call (ApplicationService_MergeTempSession api (Some info)) (\<lambda>err. ret ()) (\<lambda>_. ret ())
         else ret ())"

end
