(* ===== verification/Application_Facts.thy ===== *)
theory Application_Facts
  imports Application_Handler Chat_Facts
begin

text \<open>
  Support applications: the invariant of their table, the endpoints, and what they check and what they
  do not.
\<close>

definition wf_applications :: "database \<Rightarrow> bool" where
  "wf_applications d \<longleftrightarrow> distinct (map ap_id (applications d)) \<and>
     (\<forall>a \<in> set (applications d). applications_check a \<and> refers (user_exists d) (ap_author_id a))"

datatype application_route =
  Route_CreateApplication | Route_GetApplications | Route_UpdateApplicationText
| Route_UpdateApplicationStatus

fun application_endpoint :: "libraries \<Rightarrow> http_libs \<Rightarrow> application_route \<Rightarrow> http_handler" where
  "application_endpoint E H Route_CreateApplication =
     ApplicationHandler_CreateApplication H (application_main E)"
| "application_endpoint E H Route_GetApplications =
     ApplicationHandler_GetApplications H (application_main E)"
| "application_endpoint E H Route_UpdateApplicationText =
     ApplicationHandler_UpdateApplicationText H (application_main E)"
| "application_endpoint E H Route_UpdateApplicationStatus =
     ApplicationHandler_UpdateApplicationStatus H (application_main E)"

lemma application_main_sel [simp]:
  "als_authService (application_main E) = auth_conn E"
  "als_applicationStore (application_main E) = DBApplicationStore"
  by (simp_all add: application_main_def)

lemma DBApplicationStore_sel [simp]:
  "aps_GetApplicationsByUser DBApplicationStore = DBApplicationStore_GetApplicationsByUser"
  "aps_GetApplications DBApplicationStore = DBApplicationStore_GetApplications"
  "aps_UpdateApplicationText DBApplicationStore = DBApplicationStore_UpdateApplicationText"
  "aps_UpdateApplicationStatus DBApplicationStore = DBApplicationStore_UpdateApplicationStatus"
  "aps_CreateApplication DBApplicationStore = DBApplicationStore_CreateApplication"
  "aps_MergeTempSession DBApplicationStore = DBApplicationStore_MergeTempSession"
  by (simp_all add: DBApplicationStore_def)

lemmas application_stores =
  DBApplicationStore_GetApplicationsByUser_def DBApplicationStore_GetApplications_def
  DBApplicationStore_UpdateApplicationText_def DBApplicationStore_UpdateApplicationStatus_def
  DBApplicationStore_CreateApplication_def DBApplicationStore_MergeTempSession_def

lemmas application_services =
  ApplicationService_GetApplications_def ApplicationService_UpdateApplicationText_def
  ApplicationService_UpdateApplicationStatus_def ApplicationService_CreateApplication_def
  ApplicationService_MergeTempSession_def

lemmas application_handlers =
  ApplicationHandler_CreateApplication_def ApplicationHandler_GetApplications_def
  ApplicationHandler_UpdateApplicationText_def ApplicationHandler_UpdateApplicationStatus_def

subsection \<open>What the requests keep\<close>

lemma refers_case: "refers P x = (case x of None \<Rightarrow> True | Some i \<Rightarrow> P i)"
  by (cases x) simp_all

lemma wf_insert_application:
  "insert_application info app i now d = Some (d', j) \<Longrightarrow> wf_applications d \<Longrightarrow> wf_applications d'"
proof -
  assume i: "insert_application info app i now d = Some (d', j)" and wf: "wf_applications d"
  then obtain row where d': "d' = d\<lparr>applications := applications d @ [row]\<rparr>" and row: "applications_check row"
    "ap_id row \<notin> ap_id ` set (applications d)" "refers (user_exists d) (ap_author_id row)"
    by (auto simp: insert_application_def Let_def split: if_splits option.splits)
  have "user_exists d' = user_exists d" by (simp add: d' user_exists_def fun_eq_iff)
  with wf row show ?thesis by (auto simp: wf_applications_def d')
qed

lemma wf_update_applications:
  assumes "update_applications hit f now d = Some (d', n)" "wf_applications d"
    and "\<And>a. ap_id (f a) = ap_id a"
  shows "wf_applications d'"
proof -
  define g where "g = (\<lambda>a. (f a)\<lparr>ap_updated_at := now\<rparr>)"
  have d': "d' = d\<lparr>applications := update_where hit g (applications d)\<rparr>"
    and ok: "\<forall>a \<in> set (applications d). hit a \<longrightarrow> applications_check (g a) \<and>
      refers (user_exists d) (ap_author_id (g a))"
    using assms(1)
    by (auto simp: update_applications_def Let_def g_def split: if_splits)
       (simp_all add: refers_case)
  have ids: "map ap_id (applications d') = map ap_id (applications d)"
    unfolding d' by (simp add: map_update_where_same g_def assms(3))
  have u: "user_exists d' = user_exists d" by (simp add: d' user_exists_def fun_eq_iff)
  show ?thesis
    using assms(2) ok unfolding wf_applications_def ids u by (auto simp: d' set_update_where)
qed

locale application_statements =
  fixes I :: "database \<Rightarrow> bool"
  assumes insert_application: "insert_application info app i now d = Some (d', j) \<Longrightarrow> I d \<Longrightarrow> I d'"
    and update_applications: "update_applications hit f now d = Some (d', n) \<Longrightarrow>
      (\<And>a. ap_id (f a) = ap_id a) \<Longrightarrow> I d \<Longrightarrow> I d'"
begin

lemma keeps_application_store [wf_intros]:
  "keeps I (DBApplicationStore_GetApplicationsByUser info l off)"
  "keeps I (DBApplicationStore_GetApplications l off)"
  "keeps I (DBApplicationStore_UpdateApplicationText i t)"
  "keeps I (DBApplicationStore_UpdateApplicationStatus i s)"
  "keeps I (DBApplicationStore_CreateApplication info app)"
  "keeps I (DBApplicationStore_MergeTempSession info)"
proof -
  have r: "reads (DBApplicationStore_GetApplicationsByUser info l off)"
      "reads (DBApplicationStore_GetApplications l off)"
    by (auto simp: application_stores intro!: reads_call reads_rows_loop_unchecked)
  then show "keeps I (DBApplicationStore_GetApplicationsByUser info l off)"
      "keeps I (DBApplicationStore_GetApplications l off)"
    by (simp_all add: keeps_reads)
  show "keeps I (DBApplicationStore_UpdateApplicationText i t)"
      "keeps I (DBApplicationStore_UpdateApplicationStatus i s)"
      "keeps I (DBApplicationStore_CreateApplication info app)"
      "keeps I (DBApplicationStore_MergeTempSession info)"
    by (auto simp: application_stores intro!: wf_intros dest: insert_application update_applications)
qed

lemma keeps_get_user_role [wf_intros]: "keeps I (ac_GetUserRole (auth_conn E) u)"
  by (auto simp: auth_conn_def auth_client_def GrpcAuthHandler_GetUserRole_def
      AuthService_GetUserRole_def auth_main_def DBUserStore_def DBUserStore_GetUserByID_def
      intro!: wf_intros)

lemma keeps_application_service [wf_intros]:
  "keeps I (ApplicationService_GetApplications (application_main E) u info q)"
  "keeps I (ApplicationService_UpdateApplicationText (application_main E) i t)"
  "keeps I (ApplicationService_UpdateApplicationStatus (application_main E) u i s)"
  "keeps I (ApplicationService_CreateApplication (application_main E) info app)"
  "keeps I (ApplicationService_MergeTempSession (application_main E) info)"
  by (auto simp: application_services read_role_def Let_def intro!: wf_intros split: prod.splits)

lemma keeps_application_endpoint: "keeps I (application_endpoint E H route r)"
proof -
  have c: "keeps I (with_cookies cs m)" if "keeps I m" for cs and m :: "http_response action"
    using that by (auto simp: with_cookies_def intro!: wf_intros)
  have u: "keeps I uuid_New" "keeps I time_Now" by (auto simp: keeps_def uuid_New_def time_Now_def ret_def)
  show ?thesis
    by (cases route) (auto simp: application_handlers Let_def intro!: wf_intros c u)
qed

end


interpretation application_wf: application_statements wf_applications
  by unfold_locales (auto dest: wf_insert_application wf_update_applications)

text \<open>The table of applications is all that such a request changes in the tables.\<close>

definition other_than_applications :: "database \<Rightarrow> database" where
  "other_than_applications d = d\<lparr>applications := []\<rparr>"

interpretation application_frame: application_statements "\<lambda>d. other_than_applications d = v" for v
  by unfold_locales
     (auto simp: other_than_applications_def insert_application_def update_applications_def Let_def
       split: if_splits)

subsection \<open>Who may change an application\<close>

text \<open>Only an administrator sets another status than \<open>closed\<close>.\<close>

lemma GetUserRole_Ret:
  "ac_GetUserRole (auth_conn E) u w = (r, w') \<Longrightarrow> quiet w w' \<and> (case r of
     Ret role \<Rightarrow> \<exists>row \<in> set (users (db w)). u_id row = u \<and> u_role row = role
   | Fail e \<Rightarrow> True | Panic \<Rightarrow> False)"
  by (auto simp: auth_conn_def auth_client_def GrpcAuthHandler_GetUserRole_def AuthService_GetUserRole_def
      auth_main_def DBUserStore_def DBUserStore_GetUserByID_def act user_of_def quiet_tick_trans
      dest!: find_SomeD split: option.splits if_splits)

lemma UpdateApplicationStatus_effect:
  assumes "ApplicationService_UpdateApplicationStatus (application_main E) u i s w = (r, w')"
  shows "if r = Ret ()
    then (s = ''closed'' \<or> (\<exists>row \<in> set (users (db w)). u_id row = u \<and> u_role row = ''admin'')) \<and>
      db w' = db w\<lparr>applications := update_where (\<lambda>a. ap_id a = i)
        (\<lambda>a. a\<lparr>ap_status := s, ap_updated_at := clock w\<rparr>) (applications (db w))\<rparr>
    else db w' = db w"
proof -
  obtain q v where g: "ac_GetUserRole (auth_conn E) u w = (q, v)" by fastforce
  note G = GetUserRole_Ret [OF g]
  have d: "db v = db w" "clock v = clock w" using G by (simp_all add: quiet_sel)
  obtain q' v' where m: "DBApplicationStore_UpdateApplicationStatus i s v = (q', v')" by fastforce
  have "if q' = Ret () then db v' = db w\<lparr>applications := update_where (\<lambda>a. ap_id a = i)
        (\<lambda>a. a\<lparr>ap_status := s, ap_updated_at := clock w\<rparr>) (applications (db w))\<rparr> else db v' = db w"
    using m d by (auto simp: DBApplicationStore_UpdateApplicationStatus_def update_applications_def act
        Let_def split: option.splits if_splits)
  then show ?thesis
    using assms g G m d
    by (cases q) (auto simp: ApplicationService_UpdateApplicationStatus_def read_role_def call_def
        nil_dereference_def throw_def split: if_splits)
qed

text \<open>The text of an application is anybody's to change.\<close>

lemma UpdateApplicationText_anybody:
  assumes "no_faults w" "rq_Vars r ''id'' = Some (strconv_Itoa (sint i))"
    and "hl_decodeApplicationText H (rq_Body r) = Some t" and wf: "wf_applications (db w)"
  shows "\<exists>w'. application_endpoint E H Route_UpdateApplicationText r w =
      (Ret (sendJSONResponse ''main updated'' http_OK), w') \<and>
    applications (db w') = update_where (\<lambda>a. ap_id a = i)
      (\<lambda>a. a\<lparr>ap_text := t, ap_updated_at := clock w\<rparr>) (applications (db w))"
proof -
  have "update_applications (\<lambda>a. ap_id a = i) (\<lambda>a. a\<lparr>ap_text := t\<rparr>) (clock w) (db w) =
      Some (db w\<lparr>applications := update_where (\<lambda>a. ap_id a = i)
          (\<lambda>a. a\<lparr>ap_text := t, ap_updated_at := clock w\<rparr>) (applications (db w))\<rparr>,
        length (filter (\<lambda>a. ap_id a = i) (applications (db w))))"
    using wf unfolding update_applications_def wf_applications_def applications_check_def refers_case
    by simp
  moreover have "next_fault w = None" "next_fault (tick w) = None" using assms(1) by simp_all
  ultimately show ?thesis
    using assms(2,3) PathInt32_value [OF assms(2)]
    by (simp add: ApplicationHandler_UpdateApplicationText_def ApplicationService_UpdateApplicationText_def
        DBApplicationStore_UpdateApplicationText_def DecodeJSONBody_def act sendJSONSuccess_def)
qed

lemma anonymous_passes:
  assumes "rq_Method r \<noteq> ''OPTIONS''" "r_Cookie r ''session_id'' = None" "rq_UserID r = None"
    and "strings_HasPrefix (rq_Path r) ''/api/applications''"
  shows "AuthMiddleware api debug (TempSessionMiddleware H next) r w =
    next (r\<lparr>rq_TempSession := Some (temp_session_info H r)\<rparr>) w"
  using assms
  by (simp add: AuthMiddleware_def AuthHandler_IsLoggedIn_def call_def throw_def Let_def
      TempSessionMiddleware_def temp_session_info_def)

text \<open>Without a user the role cannot be read.\<close>

lemma GetUserRole_unknown:
  assumes "\<not> user_exists (db w) u"
  shows "\<exists>w'. read_role (application_main E) u k w = (Panic, w')"
proof -
  obtain q v where g: "ac_GetUserRole (auth_conn E) u w = (q, v)" by fastforce
  with GetUserRole_Ret [OF g] assms show ?thesis
    by (cases q) (auto simp: read_role_def call_def nil_dereference_def user_exists_def)
qed

subsection \<open>Applications made before logging in\<close>

lemma MergeTempSession_owner:
  assumes "ApplicationService_MergeTempSession (application_main E)
      (Some \<lparr>ts_UserID = Some u, ts_TempSessionID = Some s\<rparr>) w = (r, w')"
  shows "if r = Ret ()
    then map ap_id (filter (owns_application (Some \<lparr>ts_UserID = Some u, ts_TempSessionID = None\<rparr>))
          (applications (db w'))) =
        map ap_id (filter (owns_application (Some \<lparr>ts_UserID = Some u, ts_TempSessionID = Some s\<rparr>))
          (applications (db w))) \<and>
      (\<forall>a \<in> set (applications (db w')). ap_temp_session_id a \<noteq> Some s)
    else db w' = db w"
proof -
  define hit where "hit = (\<lambda>a :: application_row. equals_param (ap_temp_session_id a) (Some s))"
  define g where "g = (\<lambda>a :: application_row. a\<lparr>ap_author_id := Some u, ap_temp_session_id := None, ap_updated_at := clock w\<rparr>)"
  have "if r = Ret () then applications (db w') = update_where hit g (applications (db w)) else db w' = db w"
    using assms
    by (auto simp: ApplicationService_MergeTempSession_def DBApplicationStore_MergeTempSession_def
        update_applications_def info_or_zero_def act Let_def hit_def g_def split: option.splits if_splits)
  moreover have "map ap_id (filter (owns_application (Some \<lparr>ts_UserID = Some u, ts_TempSessionID = None\<rparr>))
        (update_where hit g rows)) =
      map ap_id (filter (owns_application (Some \<lparr>ts_UserID = Some u, ts_TempSessionID = Some s\<rparr>)) rows)"
    for rows
    by (induction rows) (auto simp: update_where_def owns_application_def equals_param_def info_or_zero_def
        hit_def g_def)
  moreover have "\<forall>a \<in> set (update_where hit g rows). ap_temp_session_id a \<noteq> Some s" for rows
    by (auto simp: set_update_where hit_def g_def equals_param_def)
  ultimately show ?thesis by (auto split: if_splits)
qed

end
