(* ===== verification/Router.thy ===== *)
theory Router
  imports Application_Facts Profile_Tables Friend_Handler
begin

text \<open>
  The router of the main process (\<open>NewApiRouter\<close> in src/cmd/main/main.go): the table of routes with
  their templates and methods, in the order of registration, and the middlewares around each handler.
  The matching of a template is gorilla/mux's: the parameter \<open>matches\<close>, which returns the variables.
  Left out are the routes that answer outside this model: the static files and the documents, the
  metrics and the health check, and the upgrade to a WebSocket.
\<close>

subsection \<open>The handlers\<close>

datatype auth_route = Route_Register | Route_Login | Route_Logout | Route_IsLoggedIn

fun auth_endpoint :: "libraries \<Rightarrow> http_libs \<Rightarrow> auth_route \<Rightarrow> http_handler" where
  "auth_endpoint E H Route_Register = AuthHandler_Register H (auth_conn E)"
| "auth_endpoint E H Route_Login = AuthHandler_Login H (auth_conn E)"
| "auth_endpoint E H Route_Logout = AuthHandler_Logout (auth_conn E)"
| "auth_endpoint E H Route_IsLoggedIn = AuthHandler_IsLoggedInHandler (auth_conn E)"

datatype profile_route =
  Route_GetProfile | Route_UpdateProfile | Route_UpdateAvatar | Route_DeleteAvatar | Route_UpdateHeader

fun profile_endpoint :: "libraries \<Rightarrow> http_libs \<Rightarrow> profile_route \<Rightarrow> http_handler" where
  "profile_endpoint E H Route_GetProfile = ProfileHandler_GetProfileByUserID (profile_conn E)"
| "profile_endpoint E H Route_UpdateProfile = ProfileHandler_UpdateProfile H (profile_conn E)"
| "profile_endpoint E H Route_UpdateAvatar = ProfileHandler_UpdateAvatar (profile_conn E)"
| "profile_endpoint E H Route_DeleteAvatar = ProfileHandler_DeleteAvatar (profile_conn E)"
| "profile_endpoint E H Route_UpdateHeader = ProfileHandler_UpdateHeader (profile_conn E)"

datatype friend_route =
  Route_GetFriends | Route_GetAllUsers | Route_GetFriendRequests | Route_GetSentRequests
| Route_SendFriendRequest | Route_AcceptFriendRequest | Route_RejectFriendRequest
| Route_GetFriendshipStatus | Route_RemoveFriend | Route_CountUserRelations | Route_SearchProfiles

fun friend_endpoint :: "libraries \<Rightarrow> http_libs \<Rightarrow> friend_route \<Rightarrow> http_handler" where
  "friend_endpoint E H Route_GetFriends = FriendHandler_GetFriends H (friend_conn E)"
| "friend_endpoint E H Route_GetAllUsers = FriendHandler_GetAllUsers H (friend_conn E)"
| "friend_endpoint E H Route_GetFriendRequests = FriendHandler_GetFriendRequests H (friend_conn E)"
| "friend_endpoint E H Route_GetSentRequests = FriendHandler_GetSentRequests H (friend_conn E)"
| "friend_endpoint E H Route_SendFriendRequest = FriendHandler_SendFriendRequest (friend_conn E)"
| "friend_endpoint E H Route_AcceptFriendRequest = FriendHandler_AcceptFriendRequest (friend_conn E)"
| "friend_endpoint E H Route_RejectFriendRequest = FriendHandler_RejectFriendRequest (friend_conn E)"
| "friend_endpoint E H Route_GetFriendshipStatus = FriendHandler_GetFriendshipStatus (friend_conn E)"
| "friend_endpoint E H Route_RemoveFriend = FriendHandler_RemoveFriend (friend_conn E)"
| "friend_endpoint E H Route_CountUserRelations = FriendHandler_CountUserRelations (friend_conn E)"
| "friend_endpoint E H Route_SearchProfiles = FriendHandler_SearchProfilesByFullName H (friend_conn E)"

text \<open>The validators of the request structs (govalidator's struct tags).\<close>

record validators =
  val_content :: content_valid
  val_Community :: "CommunityRequest \<Rightarrow> bool"

datatype api_route =
  Auth_Route auth_route | Profile_Route profile_route | Friend_Route friend_route
| Content_Route content_route | Community_Route community_route | Chat_Route chat_route
| Application_Route application_route

fun api_handler :: "libraries \<Rightarrow> http_libs \<Rightarrow> validators \<Rightarrow> api_route \<Rightarrow> http_handler" where
  "api_handler E H V (Auth_Route x) = auth_endpoint E H x"
| "api_handler E H V (Profile_Route x) = profile_endpoint E H x"
| "api_handler E H V (Friend_Route x) = friend_endpoint E H x"
| "api_handler E H V (Content_Route x) = content_endpoint E H (val_content V) x"
| "api_handler E H V (Community_Route x) = community_endpoint E H (val_Community V) x"
| "api_handler E H V (Chat_Route x) = chat_endpoint E H x"
| "api_handler E H V (Application_Route x) = application_endpoint E H x"

subsection \<open>The table\<close>

record mux_route =
  mx_Template :: string
  mx_Methods :: "string list"
  mx_Guarded :: bool
  mx_Route :: api_route

text \<open>\<open>mx_Guarded\<close>: the route's subrouter applies \<open>AuthMiddleware\<close> a second time.\<close>

abbreviation mux_path :: "string \<Rightarrow> string list \<Rightarrow> api_route \<Rightarrow> mux_route" where
  "mux_path t ms x \<equiv> \<lparr>mx_Template = t, mx_Methods = ms, mx_Guarded = False, mx_Route = x\<rparr>"

abbreviation mux_guarded :: "string \<Rightarrow> string list \<Rightarrow> api_route \<Rightarrow> mux_route" where
  "mux_guarded t ms x \<equiv> \<lparr>mx_Template = t, mx_Methods = ms, mx_Guarded = True, mx_Route = x\<rparr>"

definition account_routes :: "mux_route list" where
  "account_routes =
    [mux_path ''/api/auth/register'' [''POST'', ''OPTIONS''] (Auth_Route Route_Register),
     mux_path ''/api/auth/login'' [''POST'', ''OPTIONS''] (Auth_Route Route_Login),
     mux_path ''/api/auth/logout'' [''POST'', ''OPTIONS''] (Auth_Route Route_Logout),
     mux_path ''/api/auth/isloggedin'' [''GET''] (Auth_Route Route_IsLoggedIn),
     mux_path ''/api/profile/{id:[0-9]+}'' [''GET''] (Profile_Route Route_GetProfile),
     mux_path ''/api/profile'' [''PUT'', ''OPTIONS''] (Profile_Route Route_UpdateProfile),
     mux_path ''/api/profile/avatar'' [''PUT'', ''OPTIONS''] (Profile_Route Route_UpdateAvatar),
     mux_path ''/api/profile/avatar'' [''DELETE'', ''OPTIONS''] (Profile_Route Route_DeleteAvatar),
     mux_path ''/api/profile/header'' [''PUT'', ''OPTIONS''] (Profile_Route Route_UpdateHeader)]"

definition chat_routes :: "mux_route list" where
  "chat_routes =
    [mux_path ''/api/chats'' [''GET''] (Chat_Route Route_GetUserChats),
     mux_path ''/api/chats/user/{id:[0-9]+}'' [''GET''] (Chat_Route Route_GetOrCreateChat),
     mux_path ''/api/chats/{id:[0-9]+}/message'' [''POST'', ''OPTIONS''] (Chat_Route Route_CreateMessage),
     mux_path ''/api/chats/{id:[0-9]+}/messages'' [''GET''] (Chat_Route Route_GetMessages),
     mux_path ''/api/chats/{id:[0-9]+}/last-read'' [''PUT'', ''OPTIONS''] (Chat_Route Route_UpdateLastRead),
     mux_guarded ''/api/sticker-packs'' [''GET''] (Chat_Route Route_GetStickerPacks),
     mux_guarded ''/api/sticker-packs/{packID:[0-9]+}/stickers'' [''GET''] (Chat_Route Route_GetStickers),
     mux_path ''/api/applications'' [''POST'', ''OPTIONS''] (Application_Route Route_CreateApplication),
     mux_path ''/api/applications'' [''GET''] (Application_Route Route_GetApplications),
     mux_path ''/api/applications/{id:[0-9]+}/text'' [''PUT'', ''OPTIONS'']
       (Application_Route Route_UpdateApplicationText),
     mux_path ''/api/applications/{id:[0-9]+}/status'' [''PUT'', ''OPTIONS'']
       (Application_Route Route_UpdateApplicationStatus)]"

definition post_routes :: "mux_route list" where
  "post_routes =
    [mux_path ''/api/posts'' [''GET''] (Content_Route Route_PostsPaginate),
     mux_path ''/api/posts/{id:[0-9]+}'' [''GET''] (Content_Route Route_GetPost),
     mux_path ''/api/users/{userID:[0-9]+}/posts'' [''GET''] (Content_Route Route_GetUserPosts),
     mux_path ''/api/posts/communities/{id:[0-9]+}'' [''GET''] (Content_Route Route_GetCommunityPosts),
     mux_guarded ''/api/posts'' [''POST'', ''OPTIONS''] (Content_Route Route_CreatePost),
     mux_guarded ''/api/posts/{id:[0-9]+}'' [''PUT'', ''OPTIONS''] (Content_Route Route_UpdatePost),
     mux_guarded ''/api/posts/{id:[0-9]+}'' [''DELETE'', ''OPTIONS''] (Content_Route Route_DeletePost),
     mux_guarded ''/api/posts/{id:[0-9]+}/like'' [''PUT'', ''OPTIONS''] (Content_Route Route_UpdateLike),
     mux_guarded ''/api/comments'' [''POST'', ''OPTIONS''] (Content_Route Route_CreateComment),
     mux_guarded ''/api/comments/{id:[0-9]+}'' [''GET''] (Content_Route Route_GetComment),
     mux_guarded ''/api/comments/{id:[0-9]+}'' [''PUT'', ''OPTIONS''] (Content_Route Route_UpdateComment),
     mux_guarded ''/api/comments/{id:[0-9]+}'' [''DELETE'', ''OPTIONS''] (Content_Route Route_DeleteComment),
     mux_path ''/api/posts/{postID:[0-9]+}/comments'' [''GET''] (Content_Route Route_GetPostComments),
     mux_path ''/api/posts/{postID:[0-9]+}/comments/count'' [''GET'']
       (Content_Route Route_GetPostCommentsCount)]"

definition friend_routes :: "mux_route list" where
  "friend_routes =
    [mux_guarded ''/api/friends'' [''GET''] (Friend_Route Route_GetFriends),
     mux_guarded ''/api/friends/users/all'' [''GET''] (Friend_Route Route_GetAllUsers),
     mux_guarded ''/api/friends/requests'' [''GET''] (Friend_Route Route_GetFriendRequests),
     mux_guarded ''/api/friends/sent'' [''GET''] (Friend_Route Route_GetSentRequests),
     mux_guarded ''/api/friends/{id:[0-9]+}'' [''POST'', ''OPTIONS''] (Friend_Route Route_SendFriendRequest),
     mux_guarded ''/api/friends/{id:[0-9]+}/accept'' [''PUT'', ''OPTIONS'']
       (Friend_Route Route_AcceptFriendRequest),
     mux_guarded ''/api/friends/{id:[0-9]+}/reject'' [''PUT'', ''OPTIONS'']
       (Friend_Route Route_RejectFriendRequest),
     mux_guarded ''/api/friends/{id:[0-9]+}/status'' [''GET''] (Friend_Route Route_GetFriendshipStatus),
     mux_guarded ''/api/friends/{id:[0-9]+}'' [''DELETE''] (Friend_Route Route_RemoveFriend),
     mux_guarded ''/api/friends/{id:[0-9]+}/count'' [''GET''] (Friend_Route Route_CountUserRelations),
     mux_guarded ''/api/friends/search'' [''GET''] (Friend_Route Route_SearchProfiles)]"

definition community_routes :: "mux_route list" where
  "community_routes =
    [mux_guarded ''/api/communities/search'' [''GET''] (Community_Route Route_SearchCommunities),
     mux_guarded ''/api/communities'' [''POST'', ''OPTIONS''] (Community_Route Route_CreateCommunity),
     mux_guarded ''/api/communities/my'' [''GET''] (Community_Route Route_GetUserCommunities),
     mux_guarded ''/api/communities/other'' [''GET''] (Community_Route Route_GetOtherCommunities),
     mux_guarded ''/api/communities/users/{id:[0-9]+}'' [''GET'']
       (Community_Route Route_GetUserCommunitiesByID),
     mux_guarded ''/api/communities/users/{userID:[0-9]+}/subscribed-ids'' [''GET'']
       (Community_Route Route_GetUserSubscribedCommunityIDs),
     mux_guarded ''/api/communities/created'' [''GET''] (Community_Route Route_GetCreatedCommunities),
     mux_guarded ''/api/communities/{id:[0-9]+}'' [''GET''] (Community_Route Route_GetCommunity),
     mux_guarded ''/api/communities/{id:[0-9]+}'' [''PUT'', ''OPTIONS''] (Community_Route Route_UpdateCommunity),
     mux_guarded ''/api/communities/{id:[0-9]+}'' [''DELETE'', ''OPTIONS'']
       (Community_Route Route_DeleteCommunity),
     mux_guarded ''/api/communities/{id:[0-9]+}/subscribers'' [''GET'']
       (Community_Route Route_GetCommunitySubscribers),
     mux_guarded ''/api/communities/{id:[0-9]+}/subscribe'' [''POST'', ''OPTIONS'']
       (Community_Route Route_Subscribe),
     mux_guarded ''/api/communities/{id:[0-9]+}/unsubscribe'' [''POST'', ''OPTIONS'']
       (Community_Route Route_Unsubscribe)]"

definition api_routes :: "mux_route list" where
  "api_routes = account_routes @ chat_routes @ post_routes @ friend_routes @ community_routes"

subsection \<open>Serving a request\<close>

type_synonym mux_matcher = "string \<Rightarrow> string \<Rightarrow> (string \<Rightarrow> string option) option"

text \<open>
  The first route that matches the path and has the method serves the request. A path that only
  matches with other methods is answered 405, any other one by the \<open>NotFoundHandler\<close>. (Where a later
  route of the same subrouter fails to match, gorilla/mux may forget the mismatch of the method and answer
  404 instead of 405; what is shown of refusals allows both.)
\<close>

fun mux_find :: "mux_matcher \<Rightarrow> string \<Rightarrow> string \<Rightarrow> mux_route list \<Rightarrow>
    (mux_route \<times> (string \<Rightarrow> string option)) option" where
  "mux_find matches meth path [] = None"
| "mux_find matches meth path (x # xs) =
     (case matches (mx_Template x) path of
        None \<Rightarrow> mux_find matches meth path xs
      | Some vars \<Rightarrow> if meth \<in> set (mx_Methods x) then Some (x, vars)
                     else mux_find matches meth path xs)"

definition api_middlewares :: "libraries \<Rightarrow> http_libs \<Rightarrow> bool \<Rightarrow> bool \<Rightarrow> http_handler \<Rightarrow> http_handler" where
  "api_middlewares E H debug guarded next =
     CorsMiddleware (AuthMiddleware (auth_conn E) debug (TempSessionMiddleware H
       (if guarded then AuthMiddleware (auth_conn E) debug next else next)))"

definition NewApiRouter ::
    "mux_matcher \<Rightarrow> libraries \<Rightarrow> http_libs \<Rightarrow> validators \<Rightarrow> bool \<Rightarrow> http_handler" where
  "NewApiRouter matches E H V debug r =
     (case mux_find matches (rq_Method r) (rq_Path r) api_routes of
        Some (x, vars) \<Rightarrow>
          api_middlewares E H debug (mx_Guarded x) (api_handler E H V (mx_Route x))
            (r\<lparr>rq_Vars := vars, rq_UserID := None, rq_TempSession := None\<rparr>)
      | None \<Rightarrow>
          if \<exists>x \<in> set api_routes. matches (mx_Template x) (rq_Path r) \<noteq> None
          then ret \<lparr>rs_Status = 405, rs_Cookies = [], rs_Body = NoBody\<rparr>
          else NotFoundHandler r)"

lemma mux_find_Some:
  "mux_find matches meth path xs = Some (x, vars) \<Longrightarrow>
   x \<in> set xs \<and> matches (mx_Template x) path = Some vars \<and> meth \<in> set (mx_Methods x)"
  by (induction xs) (auto split: option.splits if_splits)

text \<open>Every handler has exactly one route.\<close>

lemma api_routes_distinct: "distinct (map mx_Route api_routes)"
  by code_simp

lemma api_routes_complete: "\<exists>x \<in> set api_routes. mx_Route x = route"
proof (cases route)
  case (Auth_Route a) then show ?thesis by (cases a) (simp_all add: api_routes_def account_routes_def)
next
  case (Profile_Route a) then show ?thesis by (cases a) (simp_all add: api_routes_def account_routes_def)
next
  case (Friend_Route a) then show ?thesis by (cases a) (simp_all add: api_routes_def friend_routes_def)
next
  case (Content_Route a) then show ?thesis by (cases a) (simp_all add: api_routes_def post_routes_def)
next
  case (Community_Route a)
  then show ?thesis by (cases a) (simp_all add: api_routes_def community_routes_def)
next
  case (Chat_Route a) then show ?thesis by (cases a) (simp_all add: api_routes_def chat_routes_def)
next
  case (Application_Route a)
  then show ?thesis by (cases a) (simp_all add: api_routes_def chat_routes_def)
qed


subsection \<open>Who gets to a handler\<close>

text \<open>
  \<open>acts_as sessions debug r u\<close>: the request may be handled in the name of \<open>u\<close>: of nobody on an open
  path, or of the user of its session, with the session's token when the method is unsafe.
\<close>

definition acts_as ::
    "(string \<Rightarrow> Session option) \<Rightarrow> bool \<Rightarrow> http_request \<Rightarrow> int32 option \<Rightarrow> bool" where
  "acts_as sessions debug r u \<longleftrightarrow>
     (open_path (rq_Path r) \<and> u = None) \<or>
     (\<exists>sid s. r_Cookie r ''session_id'' = Some sid \<and> sessions sid = Some s \<and>
        rq_Path r \<notin> set ForbiddenPathsWithAuth \<and>
        (rq_Method r \<in> set SafeMethods \<or> debug \<or>
         rq_Header r ''X-CSRF-Token'' = se_CSRFToken s) \<and>
        u = Some (se_UserID s))"

lemma authorised_acts_as:
  "authorised sessions debug r r' \<Longrightarrow> rq_UserID r = None \<Longrightarrow> acts_as sessions debug r (rq_UserID r')"
  unfolding authorised_def acts_as_def by auto

lemma TempSession_passes:
  assumes "TempSessionMiddleware H next r w = (x, w')"
  shows "\<exists>x1. next (r\<lparr>rq_TempSession := Some (temp_session_info H r)\<rparr>) w = (x1, w') \<and>
    status_of x1 = status_of x"
  using assms
  by (auto simp: TempSessionMiddleware_def with_cookies_def call_def throw_def ret_def Let_def
      split: if_splits prod.splits res.splits)

lemma api_middlewares_guard:
  assumes run: "api_middlewares E H debug guarded next r w = (x, w')"
    and fresh: "rq_UserID r = None" and no_options: "rq_Method r \<noteq> ''OPTIONS''"
  shows "(quiet w w' \<and> status_of x \<in> {Some 403, Some 500}) \<or>
    (\<exists>r' w1 x1. quiet w w1 \<and> next r' w1 = (x1, w') \<and> status_of x1 = status_of x \<and>
       acts_as (session_view (lib_unmarshalSession E) w) debug r (rq_UserID r') \<and> rq_Vars r' = rq_Vars r)"
proof -
  let ?S = "session_view (lib_unmarshalSession E)"
  let ?inner = "if guarded then AuthMiddleware (auth_conn E) debug next else next"
  have first: "AuthMiddleware (auth_conn E) debug (TempSessionMiddleware H ?inner) r w = (x, w')"
    using run no_options by (simp add: api_middlewares_def CorsMiddleware_def)
  from AuthMiddleware_guards [OF first no_options]
  consider "quiet w w'" "status_of x \<in> {Some 403, Some 500}"
    | r1 w1 where "quiet w w1" "authorised (?S w) debug r r1"
        "TempSessionMiddleware H ?inner r1 w1 = (x, w')"
    by auto
  then show ?thesis
  proof cases
    case 1 then show ?thesis by blast
  next
    case (2 r1 w1)
    note q1 = 2(1) and a1 = 2(2) and n1 = 2(3)
    let ?r2 = "r1\<lparr>rq_TempSession := Some (temp_session_info H r1)\<rparr>"
    obtain x1 where n2: "?inner ?r2 w1 = (x1, w')" and st: "status_of x1 = status_of x"
      using TempSession_passes [OF n1] by blast
    have r1: "r1 = r\<lparr>rq_UserID := rq_UserID r1\<rparr>"
      using a1 fresh by (auto simp: authorised_def)
    have acts: "acts_as (?S w) debug r (rq_UserID r1)"
      using authorised_acts_as [OF a1 fresh] .
    have same: "rq_Path ?r2 = rq_Path r" "rq_Method ?r2 = rq_Method r" "rq_Header ?r2 = rq_Header r"
        "rq_Vars ?r2 = rq_Vars r" "rq_UserID ?r2 = rq_UserID r1" "rq_Cookies ?r2 = rq_Cookies r"
      by (subst r1, simp)+
    show ?thesis
    proof (cases guarded)
      case False
      then have "next ?r2 w1 = (x1, w')" using n2 by simp
      moreover have "acts_as (?S w) debug r (rq_UserID ?r2) \<and> rq_Vars ?r2 = rq_Vars r"
        using acts same(4,5) by simp
      ultimately show ?thesis using q1 st by blast
    next
      case True
      then have second: "AuthMiddleware (auth_conn E) debug next ?r2 w1 = (x1, w')" using n2 by simp
      have m2: "rq_Method ?r2 \<noteq> ''OPTIONS''" using no_options same by simp
      from AuthMiddleware_guards [OF second m2]
      consider "quiet w1 w'" "status_of x1 \<in> {Some 403, Some 500}"
        | r3 w2 where "quiet w1 w2" "authorised (?S w1) debug ?r2 r3" "next r3 w2 = (x1, w')"
        by auto
      then show ?thesis
      proof cases
        case 1 then show ?thesis using quiet_trans [OF q1] st by auto
      next
        case (2 r3 w2)
        note q2 = 2(1) and a2 = 2(2) and n3 = 2(3)
        have sv: "?S w1 = ?S w"
          using q1 by (simp add: session_view_def redis_live_def quiet_sel fun_eq_iff)
        have "acts_as (?S w) debug r (rq_UserID r3) \<and> rq_Vars r3 = rq_Vars r"
          using a2 acts same unfolding authorised_def sv
          by (elim disjE exE conjE) (auto simp: acts_as_def r_Cookie_def)
        then show ?thesis
          using quiet_trans [OF q1 q2] n3 st by blast
      qed
    qed
  qed
qed

lemma router_run:
  assumes run: "NewApiRouter matches E H V debug r w = (x, w')"
  shows "(quiet w w' \<and> status_of x \<in> {Some 403, Some 404, Some 405, Some 500}) \<or>
    (rq_Method r = ''OPTIONS'' \<and> quiet w w' \<and> status_of x = Some 200) \<or>
    (\<exists>m vars r' w1 x1. mux_find matches (rq_Method r) (rq_Path r) api_routes = Some (m, vars) \<and>
       quiet w w1 \<and> api_handler E H V (mx_Route m) r' w1 = (x1, w') \<and> status_of x1 = status_of x \<and>
       rq_Vars r' = vars \<and>
       acts_as (session_view (lib_unmarshalSession E) w) debug r (rq_UserID r'))"
proof (cases "mux_find matches (rq_Method r) (rq_Path r) api_routes")
  case None
  then have "quiet w w' \<and> status_of x \<in> {Some 404, Some 405}"
    using run by (auto simp: NewApiRouter_def NotFoundHandler_def sendJSONResponse_def ret_def split: if_splits)
  then show ?thesis by auto
next
  case (Some p)
  obtain m vars where p: "p = (m, vars)" by fastforce
  let ?r = "r\<lparr>rq_Vars := vars, rq_UserID := None, rq_TempSession := None\<rparr>"
  have mw: "api_middlewares E H debug (mx_Guarded m) (api_handler E H V (mx_Route m)) ?r w = (x, w')"
    using run Some p by (simp add: NewApiRouter_def)
  show ?thesis
  proof (cases "rq_Method r = ''OPTIONS''")
    case True
    then show ?thesis using mw by (auto simp: api_middlewares_def CorsMiddleware_def ret_def)
  next
    case False
    with api_middlewares_guard [OF mw]
    consider "quiet w w'" "status_of x \<in> {Some 403, Some 500}"
      | r' w1 x1 where "quiet w w1" "api_handler E H V (mx_Route m) r' w1 = (x1, w')"
          "status_of x1 = status_of x" "rq_Vars r' = vars"
          "acts_as (session_view (lib_unmarshalSession E) w) debug ?r (rq_UserID r')"
      by fastforce
    then show ?thesis
    proof cases
      case 2
      have "acts_as S debug ?r u = acts_as S debug r u" for S u
        by (simp add: acts_as_def r_Cookie_def)
      with 2 Some p show ?thesis by blast
    qed auto
  qed
qed

lemma router_guards:
  assumes "NewApiRouter matches E H V debug r w = (x, w')" "rq_Method r \<noteq> ''OPTIONS''"
  shows "(quiet w w' \<and> status_of x \<in> {Some 403, Some 404, Some 405, Some 500}) \<or>
    (\<exists>m \<in> set api_routes. \<exists>vars r' w1 x1. matches (mx_Template m) (rq_Path r) = Some vars \<and>
       rq_Method r \<in> set (mx_Methods m) \<and> quiet w w1 \<and>
       api_handler E H V (mx_Route m) r' w1 = (x1, w') \<and> status_of x1 = status_of x \<and>
       rq_Vars r' = vars \<and>
       acts_as (session_view (lib_unmarshalSession E) w) debug r (rq_UserID r'))"
  using router_run [OF assms(1)] assms(2) by (blast dest: mux_find_Some)

end
