(* ===== verification/Platform_Tables.thy ===== *)
theory Platform_Tables
  imports Router
begin

text \<open>
  The invariant of the whole database, and that every request the router serves keeps it, with all
  middlewares and whatever calls fail. Each component keeps its own part through its locale of
  statements; the other parts read only tables that the component's statements do not touch.
\<close>

subsection \<open>Reading requests\<close>

lemma reads_friend_lists [intro]:
  "reads (DBFriendStore_GetUserFriends u l off)" "reads (DBFriendStore_GetAllUsers u)"
  "reads (DBFriendStore_GetFriendshipRequests u l off)" "reads (DBFriendStore_GetSentRequests u l off)"
  "reads (DBFriendStore_CountUserRelations u)" "reads (DBFriendStore_GetUserIDsByFriendType u t)"
proof -
  have s: "reads (scan_counts c)" for c
    by (auto simp: scan_counts_def split: prod.splits)
  show "reads (DBFriendStore_GetUserFriends u l off)" "reads (DBFriendStore_GetAllUsers u)"
      "reads (DBFriendStore_GetFriendshipRequests u l off)" "reads (DBFriendStore_GetSentRequests u l off)"
      "reads (DBFriendStore_CountUserRelations u)" "reads (DBFriendStore_GetUserIDsByFriendType u t)"
    by (auto simp: DBFriendStore_GetUserFriends_def DBFriendStore_GetAllUsers_def
        DBFriendStore_GetFriendshipRequests_def DBFriendStore_GetSentRequests_def
        DBFriendStore_CountUserRelations_def DBFriendStore_GetUserIDsByFriendType_def Let_def
        split: option.splits prod.splits intro!: reads_call reads_branch s)
qed

lemma reads_profile_clients [intro]:
  "reads (pc_GetShortProfileByUserIDs (profile_conn E) ids)"
  "reads (pc_GetOtherShortProfileByUserIDs (profile_conn E) ids l off)"
  by (auto simp: profile_conn_def profile_client_def GrpcProfileHandler_GetShortProfileByUserIDs_def
      GrpcProfileHandler_GetOtherShortProfileByUserIDs_def ProfileService_GetShortProfileByUserIDs_def
      ProfileService_GetOtherShortProfileByUserIDs_def DBProfileStore_def
      DBProfileStore_GetShortProfileByUserIDs_def DBProfileStore_GetOtherShortProfileByUserIDs_def
      intro!: reads_grpc reads_call reads_branch)

lemma keeps_search_profiles [wf_intros]:
  "keeps I (es_SearchUserIDsByFullNameWithFilter (elastic_profiles E) n ids b l off)"
  by (auto simp: elastic_profiles_def ElasticProfileStore_of_def
      ElasticProfileStore_SearchUserIDsByFullNameWithFilter_def Let_def keeps_def act split: option.splits)

lemmas keeps_list_reads [wf_intros] =
  reads_friend_lists [THEN keeps_reads] reads_profile_clients [THEN keeps_reads]

lemma keeps_profile_query [wf_intros]:
  "keeps I (ProfileService_GetProfileByUserID (profile_main E) u v)"
  by (auto simp: ProfileService_GetProfileByUserID_def DBProfileStore_def DBFriendStore_def Let_def
      intro!: wf_intros)

lemma friend_main_sel [simp]:
  "frs_friendStore (friend_main E) = DBFriendStore" "frs_authService (friend_main E) = auth_conn E"
  "frs_profileService (friend_main E) = profile_conn E"
  "frs_elasticProfileStore (friend_main E) = elastic_profiles E"
  by (simp_all add: friend_main_def)

lemma keeps_friend_queries [wf_intros]:
  "keeps I (FriendService_GetFriends (friend_main E) u q)"
  "keeps I (FriendService_GetAllUsers (friend_main E) u q)"
  "keeps I (FriendService_GetFriendRequests (friend_main E) u q)"
  "keeps I (FriendService_GetSentRequests (friend_main E) u q)"
  "keeps I (FriendService_GetFriendshipStatus (friend_main E) u v)"
  "keeps I (FriendService_CountUserRelations (friend_main E) u)"
  "keeps I (FriendService_SearchShortProfilesByFullNameAndRelationType (friend_main E) u q n t)"
  by (auto simp: FriendService_GetFriends_def FriendService_GetAllUsers_def
      FriendService_GetFriendRequests_def FriendService_GetSentRequests_def
      FriendService_GetFriendshipStatus_def FriendService_CountUserRelations_def
      FriendService_SearchShortProfilesByFullNameAndRelationType_def DBFriendStore_def Let_def
      intro!: wf_intros split: prod.splits)

subsection \<open>Requests on friends and profiles\<close>

lemmas friend_grpc_handlers =
  GrpcFriendHandler_SendFriendRequest_def GrpcFriendHandler_AcceptFriendRequest_def
  GrpcFriendHandler_RejectFriendRequest_def GrpcFriendHandler_RemoveFriend_def
  GrpcFriendHandler_GetFriends_def GrpcFriendHandler_GetAllUsers_def
  GrpcFriendHandler_GetFriendRequests_def GrpcFriendHandler_GetSentRequests_def
  GrpcFriendHandler_GetFriendshipStatus_def GrpcFriendHandler_CountUserRelations_def
  GrpcFriendHandler_SearchShortProfilesByFullNameAndRelationType_def

lemmas friend_http_handlers =
  FriendHandler_SendFriendRequest_def FriendHandler_AcceptFriendRequest_def
  FriendHandler_RejectFriendRequest_def FriendHandler_RemoveFriend_def FriendHandler_GetFriends_def
  FriendHandler_GetAllUsers_def FriendHandler_GetFriendRequests_def FriendHandler_GetSentRequests_def
  FriendHandler_GetFriendshipStatus_def FriendHandler_CountUserRelations_def
  FriendHandler_SearchProfilesByFullName_def

context friend_statements begin

lemma keeps_friend_endpoint: "keeps I (friend_endpoint E H route r)"
proof -
  have p: "keeps I (perform (friend_main E) op)" for op
    by (rule keeps_perform) (auto intro: wf_intros)
  have ps: "keeps I (FriendService_SendFriendRequest (friend_main E) a b)"
      "keeps I (FriendService_AcceptFriendRequest (friend_main E) a b)"
      "keeps I (FriendService_RejectFriendRequest (friend_main E) a b)"
      "keeps I (FriendService_RemoveFriend (friend_main E) a b)" for a b
    using p [of "Send a b"] p [of "Accept a b"] p [of "Reject a b"] p [of "Remove a b"] by simp_all
  show ?thesis
    by (cases route)
       (auto simp: friend_http_handlers friend_conn_def friend_client_def friend_grpc_handlers Let_def
         intro!: wf_intros ps split: prod.splits)
qed

end

lemmas profile_grpc_handlers =
  GrpcProfileHandler_CreateProfile_def GrpcProfileHandler_UpdateProfile_def
  GrpcProfileHandler_UpdateAvatar_def GrpcProfileHandler_UpdateHeader_def
  GrpcProfileHandler_GetProfileByUserID_def GrpcProfileHandler_DeleteAvatarByUserID_def

lemmas profile_http_handlers =
  ProfileHandler_UpdateProfile_def ProfileHandler_UpdateAvatar_def ProfileHandler_UpdateHeader_def
  ProfileHandler_GetProfileByUserID_def ProfileHandler_DeleteAvatar_def

context profile_statements begin

lemma keeps_profile_endpoint: "keeps I (profile_endpoint E H route r)"
  by (cases route)
     (auto simp: profile_http_handlers profile_conn_def profile_client_def profile_grpc_handlers Let_def
       intro!: wf_intros keeps_profile_service split: option.splits)

end


subsection \<open>Requests on accounts\<close>

lemma keeps_redis [wf_intros]:
  "keeps I (RedisSessionStore_AddSession enc u)" "keeps I (RedisSessionStore_DeleteSession sid)"
  "keeps I (RedisSessionStore_GetSessionBySessionID dec sid)"
proof -
  have "keeps I generateRandomToken" "keeps I (redis_SET k v t)" "keeps I (redis_DEL k)"
      "keeps I (redis_GET k)" for k v t
    by (auto simp: keeps_def generateRandomToken_def act split: option.splits)
  then show "keeps I (RedisSessionStore_AddSession enc u)" "keeps I (RedisSessionStore_DeleteSession sid)"
      "keeps I (RedisSessionStore_GetSessionBySessionID dec sid)"
    by (auto simp: RedisSessionStore_AddSession_def RedisSessionStore_DeleteSession_def
        RedisSessionStore_GetSessionBySessionID_def Let_def intro!: wf_intros)
qed

lemma auth_main_sel [simp]:
  "ss_AddSession (aus_sessionStore (auth_main E)) = RedisSessionStore_AddSession (lib_marshalSession E)"
  "ss_GetSessionBySessionID (aus_sessionStore (auth_main E)) =
     RedisSessionStore_GetSessionBySessionID (lib_unmarshalSession E)"
  "ss_DeleteSession (aus_sessionStore (auth_main E)) = RedisSessionStore_DeleteSession"
  "us_CreateUser (aus_userStore (auth_main E)) = DBUserStore_CreateUser"
  "us_GetUserByEmail (aus_userStore (auth_main E)) = DBUserStore_GetUserByEmail"
  "us_GetUserByID (aus_userStore (auth_main E)) = DBUserStore_GetUserByID"
  "aus_profileService (auth_main E) = profile_conn E"
  "aus_elasticProfileStore (auth_main E) = elastic_profiles E"
  by (simp_all add: auth_main_def RedisSessionStore_def DBUserStore_def)

lemma keeps_user_reads [wf_intros]:
  "keeps I (DBUserStore_GetUserByEmail e)" "keeps I (DBUserStore_GetUserByID u)"
  by (auto simp: DBUserStore_GetUserByEmail_def DBUserStore_GetUserByID_def intro!: wf_intros)

lemma keeps_es_CreateProfile [wf_intros]: "keeps I (es_CreateProfile (elastic_profiles E) n i)"
  by (auto simp: elastic_profiles_def ElasticProfileStore_of_def ElasticProfileStore_CreateProfile_def
      Let_def keeps_def es_request_def external_def split: option.splits)

lemma keeps_bcrypt:
  assumes "bcrypt_contract L" shows "keeps I (GenerateFromPassword L p)"
  unfolding keeps_def
proof (intro allI impI)
  fix w :: world assume I: "I (db w)"
  obtain r w' where m: "GenerateFromPassword L p w = (r, w')" by fastforce
  then obtain g fs where "w' = w\<lparr>entropy := g, faults := fs\<rparr>"
    using assms by (fastforce simp: bcrypt_contract_def)
  with I m show "I (db (snd (GenerateFromPassword L p w)))" by simp
qed

lemmas auth_grpc_handlers =
  GrpcAuthHandler_Register_def GrpcAuthHandler_Login_def GrpcAuthHandler_Logout_def
  GrpcAuthHandler_IsLoggedIn_def GrpcAuthHandler_AddSession_def GrpcAuthHandler_GetUserRole_def

lemmas auth_services =
  AuthService_Register_def AuthService_Login_def AuthService_Logout_def AuthService_IsLoggedIn_def
  AuthService_AddSession_def AuthService_GetUserRole_def

lemma keeps_auth_client [wf_intros]:
  "keeps I (ac_Login (auth_conn E) e p)" "keeps I (ac_Logout (auth_conn E) sid)"
  "keeps I (ac_IsLoggedIn (auth_conn E) sid)" "keeps I (ac_AddSession (auth_conn E) u)"
  "keeps I (ac_GetUserRole (auth_conn E) u)"
  by (auto simp: auth_conn_def auth_client_def auth_grpc_handlers auth_services Let_def
      intro!: wf_intros)

lemma keeps_cookies [wf_intros]: "keeps I m \<Longrightarrow> keeps I (with_cookies cs m)"
  by (auto simp: with_cookies_def intro!: wf_intros)

lemma keeps_clock [wf_intros]: "keeps I time_Now"
  by (simp add: keeps_def time_Now_def)

lemmas auth_http_handlers =
  AuthHandler_Register_def AuthHandler_Login_def AuthHandler_Logout_def
  AuthHandler_IsLoggedInHandler_def AuthHandler_AddSession_def

locale account_statements = profile_statements +
  assumes insert_user: "insert_user e p i now d = Some (d', j) \<Longrightarrow> I d \<Longrightarrow> I d'"
begin

lemma keeps_auth_endpoint:
  assumes "bcrypt_contract (lib_auth E)"
  shows "keeps I (auth_endpoint E H route r)"
proof -
  have u: "keeps I (DBUserStore_CreateUser u)" for u
    by (auto simp: DBUserStore_CreateUser_def intro!: wf_intros keeps_tx_Begin dest: insert_user)
  have p: "keeps I (pc_CreateProfile (profile_conn E) p)" for p
    by (auto simp: profile_conn_def profile_client_def GrpcProfileHandler_CreateProfile_def
        intro!: wf_intros keeps_profile_service)
  have "keeps I (AuthService_Register (lib_auth E) (auth_main E) req)" for req
    unfolding AuthService_Register_def Let_def auth_main_sel
    by (intro wf_intros u p keeps_bcrypt assms)
  then have "keeps I (ac_Register (auth_conn E) m)" for m
    by (auto simp: auth_conn_def auth_client_def GrpcAuthHandler_Register_def Let_def intro!: wf_intros)
  then show ?thesis
    by (cases route) (auto simp: auth_http_handlers Let_def intro!: wf_intros split: option.splits)
qed

end

subsection \<open>The invariant of the database\<close>

definition wf_users :: "database \<Rightarrow> bool" where
  "wf_users d \<longleftrightarrow> distinct (map u_id (users d)) \<and> distinct (map u_email (users d)) \<and>
     (\<forall>u \<in> set (users d). users_check u)"

definition wf_platform :: "database \<Rightarrow> bool" where
  "wf_platform d \<longleftrightarrow> wf_users d \<and> wf_profiles d \<and> wf_friends d \<and> wf_content d \<and> wf_communities d \<and>
     wf_chats d \<and> wf_applications d"

lemmas wf_unfold = wf_users_def wf_profiles_def wf_friends_def wf_content_defs wf_communities_def
  wf_chats_defs wf_applications_def user_exists_def community_exists_def post_exists_def
  chat_exists_def sticker_exists_def members_of_def

text \<open>What a component does not touch does not matter to it.\<close>

lemma wf_other_than_friends [simp]:
  "wf_users (other_than_friends d) = wf_users d" "wf_profiles (other_than_friends d) = wf_profiles d"
  "wf_content (other_than_friends d) = wf_content d"
  "wf_communities (other_than_friends d) = wf_communities d"
  "wf_chats (other_than_friends d) = wf_chats d"
  "wf_applications (other_than_friends d) = wf_applications d"
  by (simp_all add: wf_unfold [abs_def] other_than_friends_def)

lemma wf_other_than_profiles [simp]:
  "wf_users (other_than_profiles d) = wf_users d" "wf_friends (other_than_profiles d) = wf_friends d"
  "wf_content (other_than_profiles d) = wf_content d"
  "wf_communities (other_than_profiles d) = wf_communities d"
  "wf_chats (other_than_profiles d) = wf_chats d"
  "wf_applications (other_than_profiles d) = wf_applications d"
  by (simp_all add: wf_unfold [abs_def] other_than_profiles_def)

lemma wf_other_than_content [simp]:
  "wf_users (other_than_content d) = wf_users d" "wf_friends (other_than_content d) = wf_friends d"
  "wf_profiles (other_than_content d) = wf_profiles d"
  "wf_communities (other_than_content d) = wf_communities d"
  "wf_chats (other_than_content d) = wf_chats d"
  "wf_applications (other_than_content d) = wf_applications d"
  by (simp_all add: wf_unfold [abs_def] other_than_content_def)

lemma wf_other_than_communities [simp]:
  "wf_users (other_than_communities d) = wf_users d" "wf_friends (other_than_communities d) = wf_friends d"
  "wf_profiles (other_than_communities d) = wf_profiles d"
  "wf_chats (other_than_communities d) = wf_chats d"
  "wf_applications (other_than_communities d) = wf_applications d"
  by (simp_all add: wf_unfold [abs_def] other_than_communities_def other_than_content_def)

lemma wf_other_than_chats [simp]:
  "wf_users (other_than_chats d) = wf_users d" "wf_friends (other_than_chats d) = wf_friends d"
  "wf_profiles (other_than_chats d) = wf_profiles d" "wf_content (other_than_chats d) = wf_content d"
  "wf_communities (other_than_chats d) = wf_communities d"
  "wf_applications (other_than_chats d) = wf_applications d"
  by (simp_all add: wf_unfold [abs_def] other_than_chats_def)

lemma wf_other_than_applications [simp]:
  "wf_users (other_than_applications d) = wf_users d" "wf_friends (other_than_applications d) = wf_friends d"
  "wf_profiles (other_than_applications d) = wf_profiles d"
  "wf_content (other_than_applications d) = wf_content d"
  "wf_communities (other_than_applications d) = wf_communities d"
  "wf_chats (other_than_applications d) = wf_chats d"
  by (simp_all add: wf_unfold [abs_def] other_than_applications_def)


lemma wf_platform_frames:
  "wf_platform d \<longleftrightarrow> wf_friends d \<and> wf_platform (other_than_friends d)"
  "wf_platform d \<longleftrightarrow> wf_profiles d \<and> wf_platform (other_than_profiles d)"
  "wf_platform d \<longleftrightarrow> wf_content d \<and> wf_platform (other_than_content d)"
  "wf_platform d \<longleftrightarrow> (wf_communities d \<and> wf_content d) \<and> wf_platform (other_than_communities d)"
  "wf_platform d \<longleftrightarrow> wf_chats d \<and> wf_platform (other_than_chats d)"
  "wf_platform d \<longleftrightarrow> wf_applications d \<and> wf_platform (other_than_applications d)"
proof -
  have "wf_friends (other_than_friends d)" "wf_profiles (other_than_profiles d)"
      "wf_content (other_than_content d)" "wf_content (other_than_communities d)"
      "wf_communities (other_than_communities d)" "wf_chats (other_than_chats d)"
      "wf_applications (other_than_applications d)"
    by (simp_all add: wf_unfold other_than_friends_def other_than_profiles_def other_than_content_def
        other_than_communities_def other_than_chats_def other_than_applications_def parents_among_def)
  then show "wf_platform d \<longleftrightarrow> wf_friends d \<and> wf_platform (other_than_friends d)"
      "wf_platform d \<longleftrightarrow> wf_profiles d \<and> wf_platform (other_than_profiles d)"
      "wf_platform d \<longleftrightarrow> wf_content d \<and> wf_platform (other_than_content d)"
      "wf_platform d \<longleftrightarrow> (wf_communities d \<and> wf_content d) \<and> wf_platform (other_than_communities d)"
      "wf_platform d \<longleftrightarrow> wf_chats d \<and> wf_platform (other_than_chats d)"
      "wf_platform d \<longleftrightarrow> wf_applications d \<and> wf_platform (other_than_applications d)"
    unfolding wf_platform_def by auto
qed

lemma keeps_framed:
  assumes "keeps J m" "\<And>v. keeps (\<lambda>d. f d = v) m" "\<And>d. I d \<longleftrightarrow> J d \<and> P (f d)"
  shows "keeps I m"
  unfolding keeps_def
proof (intro allI impI)
  fix w :: world assume "I (db w)"
  then have "J (db w)" "P (f (db w))" using assms(3) by auto
  moreover have "f (db (snd (m w))) = f (db w)" using assms(2) [of "f (db w)"] by (simp add: keeps_def)
  moreover have "J (db (snd (m w)))" using assms(1) \<open>J (db w)\<close> by (simp add: keeps_def)
  ultimately show "I (db (snd (m w)))" using assms(3) by simp
qed

text \<open>A new account keeps every part: the rows it could break refer to users that are still there.\<close>

lemma user_exists_insert: "user_exists (d\<lparr>users := users d @ us\<rparr>) u \<longleftrightarrow> user_exists d u \<or> u \<in> u_id ` set us"
  by (auto simp: user_exists_def)

lemma wf_insert_user:
  assumes "insert_user e p i now d = Some (d', j)" "wf_platform d"
  shows "wf_platform d'"
proof -
  obtain row where d': "d' = d\<lparr>users := users d @ [row]\<rparr>" and row: "users_check row"
    "\<forall>r \<in> set (users d). u_id r \<noteq> u_id row \<and> u_email r \<noteq> u_email row"
    using assms(1) by (auto simp: insert_user_def Let_def split: if_splits)
  have u: "user_exists d x \<Longrightarrow> user_exists d' x" for x by (simp add: d' user_exists_insert)
  have same: "community_exists d' = community_exists d" "post_exists d' = post_exists d"
      "chat_exists d' = chat_exists d" "sticker_exists d' = sticker_exists d" "members_of d' = members_of d"
    by (simp_all add: d' community_exists_def post_exists_def chat_exists_def sticker_exists_def
        members_of_def fun_eq_iff)
  have tables: "profiles d' = profiles d" "friend_relationships d' = friend_relationships d"
      "posts d' = posts d" "post_likes d' = post_likes d" "post_attachments d' = post_attachments d"
      "post_photos d' = post_photos d" "comments d' = comments d" "communities d' = communities d"
      "community_subscriptions d' = community_subscriptions d" "chats d' = chats d"
      "chat_members d' = chat_members d" "messages d' = messages d"
      "object_attachments d' = object_attachments d" "applications d' = applications d"
    by (simp_all add: d')
  have "wf_users d'" using assms(2) row by (auto simp: wf_platform_def wf_users_def d')
  moreover have "wf_profiles d'" "wf_friends d'" "wf_communities d'" "wf_content d'" "wf_chats d'"
    using assms(2) u
    by (simp_all add: wf_platform_def wf_profiles_def wf_friends_def wf_communities_def wf_content_defs
        wf_chats_defs same tables)
  moreover have "wf_applications d'"
    using assms(2) u by (auto simp: wf_platform_def wf_applications_def tables intro: refers_mono)
  ultimately show ?thesis by (simp add: wf_platform_def)
qed

interpretation platform_accounts: account_statements wf_platform
proof unfold_locales
  have f: "wf_profiles d \<Longrightarrow> other_than_profiles d = other_than_profiles d0 \<Longrightarrow> wf_platform d0 \<Longrightarrow> wf_platform d"
    for d d0 using wf_platform_frames(2) by metis
  show "insert_profile p now d = Some (d', n) \<Longrightarrow> wf_platform d \<Longrightarrow> wf_platform d'" for p now d d' n
    using f insert_profile_wf profile_frame.insert_profile by (metis wf_platform_def)
  show "update_profiles u g now d = Some (d', n) \<Longrightarrow> (\<And>a. p_user_id (g a) = p_user_id a) \<Longrightarrow>
      wf_platform d \<Longrightarrow> wf_platform d'" for u g now d d' n
    using f update_profiles_wf profile_frame.update_profiles by (metis wf_platform_def)
qed (rule wf_insert_user)

lemma platform_api_handler:
  assumes "bcrypt_contract (lib_auth E)"
  shows "keeps wf_platform (api_handler E H V route r)"
proof (cases route)
  case (Auth_Route x)
  then show ?thesis using platform_accounts.keeps_auth_endpoint [OF assms] by simp
next
  case (Profile_Route x)
  then show ?thesis using platform_accounts.keeps_profile_endpoint by simp
next
  case (Friend_Route x)
  then show ?thesis
    using keeps_framed [OF friend_wf.keeps_friend_endpoint friend_frame.keeps_friend_endpoint
        wf_platform_frames(1)] by simp
next
  case (Content_Route x)
  then show ?thesis
    using keeps_framed [OF content_wf.keeps_content_endpoint content_frame.keeps_content_endpoint
        wf_platform_frames(3)] by simp
next
  case (Community_Route x)
  then show ?thesis
    using keeps_framed [OF community_wf.keeps_community_endpoint community_frame.keeps_community_endpoint
        wf_platform_frames(4)] by simp
next
  case (Chat_Route x)
  then show ?thesis
    using keeps_framed [OF chat_wf.keeps_chat_endpoint chat_frame.keeps_chat_endpoint
        wf_platform_frames(5)] by simp
next
  case (Application_Route x)
  then show ?thesis
    using keeps_framed [OF application_wf.keeps_application_endpoint
        application_frame.keeps_application_endpoint wf_platform_frames(6)] by simp
qed

subsection \<open>The middlewares and the router\<close>

lemma keeps_middlewares:
  assumes "\<And>r. keeps I (next r)"
  shows "keeps I (AuthMiddleware (auth_conn E) debug next r)" "keeps I (TempSessionMiddleware H next r)"
    "keeps I (CorsMiddleware next r)"
  using assms
  by (auto simp: AuthMiddleware_def AuthHandler_IsLoggedIn_def TempSessionMiddleware_def CorsMiddleware_def
      Let_def intro!: wf_intros split: option.splits)

lemma keeps_router:
  assumes "\<And>route r. keeps I (api_handler E H V route r)"
  shows "keeps I (NewApiRouter matches E H V debug r)"
  by (auto simp: NewApiRouter_def api_middlewares_def NotFoundHandler_def
      intro!: wf_intros keeps_middlewares assms split: option.splits prod.splits)

text \<open>
  What reaches the main process: requests, and the goroutines that requests leave behind to move the
  applications of a temporary session. Whatever the order, each runs to its end.
\<close>

datatype api_event = Request http_request | Merge_Background http_request

fun serve_api ::
    "mux_matcher \<Rightarrow> libraries \<Rightarrow> http_libs \<Rightarrow> validators \<Rightarrow> bool \<Rightarrow> api_event list \<Rightarrow> world \<Rightarrow> world" where
  "serve_api matches E H V debug [] w = w"
| "serve_api matches E H V debug (Request r # evs) w =
     serve_api matches E H V debug evs (snd (NewApiRouter matches E H V debug r w))"
| "serve_api matches E H V debug (Merge_Background r # evs) w =
     serve_api matches E H V debug evs
       (snd (TempSessionMiddleware_merge H (application_main E) r w))"

lemma keeps_merge: "keeps wf_platform (TempSessionMiddleware_merge H (application_main E) r)"
proof -
  have m: "keeps I (TempSessionMiddleware_merge H (application_main E) r)"
    if "\<And>info. keeps I (ApplicationService_MergeTempSession (application_main E) info)" for I
    using that by (auto simp: TempSessionMiddleware_merge_def Let_def intro!: wf_intros)
  show ?thesis
    by (rule keeps_framed [OF m [OF application_wf.keeps_application_service(5)]
          m [OF application_frame.keeps_application_service(5)] wf_platform_frames(6)])
qed

lemma serve_api_keeps:
  assumes "bcrypt_contract (lib_auth E)"
  shows "wf_platform (db w) \<Longrightarrow> wf_platform (db (serve_api matches E H V debug evs w))"
proof (induction evs arbitrary: w)
  case (Cons ev evs)
  show ?case
  proof (cases ev)
    case (Request r)
    then show ?thesis
      using Cons keeps_router [OF platform_api_handler [OF assms]] by (simp add: keeps_def)
  next
    case (Merge_Background r)
    then show ?thesis using Cons keeps_merge by (simp add: keeps_def)
  qed
qed simp

end
