(* ===== verification/Platform_Properties.thy ===== *)
theory Platform_Properties
  imports Examples Platform_Tables Community_Facts Chat_Facts
begin

text \<open>
  The properties of the whole server: what the router lets through, what it answers, and the invariant
  of the database under every sequence of requests.
\<close>

subsection \<open>An instance\<close>

text \<open>
  A matcher of templates: segment by segment, a segment in braces takes a number. The validators accept
  every text that is short enough.
\<close>

fun match_segments :: "string list \<Rightarrow> string list \<Rightarrow> (string \<Rightarrow> string option) option" where
  "match_segments [] [] = Some (\<lambda>_. None)"
| "match_segments (t # ts) (p # ps) =
     (if t = p then match_segments ts ps
      else if take 1 t = ''{'' \<and> p \<noteq> [] \<and> list_all (\<lambda>c. digit_value c \<noteq> None) p
      then map_option (\<lambda>vars. vars(takeWhile (\<lambda>c. c \<noteq> CHR '':'') (tl t) \<mapsto> p)) (match_segments ts ps)
      else None)"
| "match_segments ts ps = None"

definition example_matcher :: mux_matcher where
  "example_matcher template path = match_segments (split_slash template) (split_slash path)"

definition example_validators :: validators where
  "example_validators =
     \<lparr>val_content = \<lparr>valid_PostText = (\<lambda>t. length t \<le> 4096), valid_CommentCreate = (\<lambda>_. True),
        valid_CommentUpdate = (\<lambda>_. True)\<rparr>, val_Community = (\<lambda>_. True)\<rparr>"

text \<open>User 1 has a session and a post; user 2 asks to delete the post in the name of user 1's session.\<close>

definition example_server :: world where
  "example_server = example_session_world\<lparr>db := (db example_world)\<lparr>
     posts := [\<lparr>po_id = 1, po_author_id = 1, po_community_id = None, po_text = ''hello'',
                po_created_at = 10, po_updated_at = 10\<rparr>]\<rparr>\<rparr>"

definition example_delete :: "string \<Rightarrow> http_request" where
  "example_delete token = example_session_request\<lparr>rq_Method := ''DELETE'', rq_Path := ''/api/posts/1'',
     rq_Header := (\<lambda>h. if h = ''X-CSRF-Token'' then token else [])\<rparr>"

abbreviation example_router :: http_handler where
  "example_router \<equiv> NewApiRouter example_matcher example_libs example_http_libs example_validators False"

lemma example_wf_server: "wf_platform (db example_server)"
proof -
  have "wf_users (db example_server)" "wf_profiles (db example_server)" "wf_friends (db example_server)"
      "wf_content (db example_server)" "wf_communities (db example_server)" "wf_members (db example_server)"
      "wf_messages (db example_server)" "wf_applications (db example_server)"
    by code_simp+
  moreover have "private_chats (db example_server)"
    by (simp add: private_chats_def example_server_def example_world_def empty_world_def
        empty_database_def)
  ultimately show ?thesis by (simp add: wf_platform_def wf_chats_def)
qed

section \<open>The database\<close>

text \<open>
  C1. The database stays well-formed. Whatever requests reach the API, through all middlewares, in
  whatever order and with whatever failing calls, and with the background merges of temporary sessions
  between them: ids, emails, likes, memberships and subscriptions stay unique, every reference points to
  a row that exists, every CHECK constraint holds, no comment replies to a deleted one, every pair of
  users has at most one relation and one chat, and every chat has exactly two members.
\<close>

theorem platform_stays_well_formed:
  assumes "bcrypt_contract (lib_auth E)" "wf_platform (db w)"
  shows "wf_platform (db (serve_api matches E H V debug events w))"
  by (rule serve_api_keeps [OF assms])

theorem platform_stays_well_formed_witness:
  "wf_platform (db (serve_api example_matcher example_libs example_http_libs example_validators False
     [Request (example_delete ''tok''), Merge_Background (example_delete ''tok'')] example_server))"
  by (rule platform_stays_well_formed [OF example_bcrypt example_wf_server])

section \<open>Access\<close>

text \<open>
  C2. Every request is authorised. Whatever calls fail, a request to the API is answered 403, 404, 405 or
  500 with nothing changed; or it is a preflight (the method OPTIONS), which the CORS middleware answers
  200 with nothing changed; or the first route whose template and methods match it runs its handler, after
  middlewares that changed nothing: on an open path in nobody's name, or in the name of the user of its
  live session. Then the path is not that of login or registration, and for an unsafe method the
  X-CSRF-Token header is the token of the session - unless \<open>debug\<close> holds, when no token is asked for.
  The process sets \<open>debug\<close> unless its environment has APP_ENV=prod; what holds with that is C6.
\<close>

theorem every_request_is_authorised:
  assumes "NewApiRouter matches E H V debug r w = (x, w')"
  shows "(quiet w w' \<and> status_of x \<in> {Some 403, Some 404, Some 405, Some 500}) \<or>
    (rq_Method r = ''OPTIONS'' \<and> quiet w w' \<and> status_of x = Some 200) \<or>
    (\<exists>m vars r' w1 x1. mux_find matches (rq_Method r) (rq_Path r) api_routes = Some (m, vars) \<and>
       quiet w w1 \<and> api_handler E H V (mx_Route m) r' w1 = (x1, w') \<and> status_of x1 = status_of x \<and>
       rq_Vars r' = vars \<and>
       ((rq_UserID r' = None \<and> open_path (rq_Path r)) \<or>
        (\<exists>sid s. rq_UserID r' = Some (se_UserID s) \<and> r_Cookie r ''session_id'' = Some sid \<and>
           session_view (lib_unmarshalSession E) w sid = Some s \<and>
           rq_Path r \<notin> {''/api/auth/login'', ''/api/auth/register''} \<and>
           (rq_Method r \<in> {''GET'', ''HEAD'', ''OPTIONS'', ''TRACE''} \<or> debug \<or>
            rq_Header r ''X-CSRF-Token'' = se_CSRFToken s))))"
proof -
  have "acts_as (session_view (lib_unmarshalSession E) w) debug r u \<longleftrightarrow>
      (u = None \<and> open_path (rq_Path r)) \<or>
        (\<exists>sid s. u = Some (se_UserID s) \<and> r_Cookie r ''session_id'' = Some sid \<and>
           session_view (lib_unmarshalSession E) w sid = Some s \<and>
           rq_Path r \<notin> {''/api/auth/login'', ''/api/auth/register''} \<and>
           (rq_Method r \<in> {''GET'', ''HEAD'', ''OPTIONS'', ''TRACE''} \<or> debug \<or>
            rq_Header r ''X-CSRF-Token'' = se_CSRFToken s))" for u
    by (auto simp: acts_as_def ForbiddenPathsWithAuth_def SafeMethods_def)
  then show ?thesis using router_run [OF assms] by presburger
qed

theorem every_request_is_authorised_witness:
  "status_of (fst (example_router (example_delete ''tok'') example_server)) = Some 200 \<and>
   \<not> open_path (rq_Path (example_delete ''tok'')) \<and> rq_Method (example_delete ''tok'') = ''DELETE'' \<and>
   (\<exists>sid s. r_Cookie (example_delete ''tok'') ''session_id'' = Some sid \<and>
      session_view example_dec example_server sid = Some s \<and>
      rq_Header (example_delete ''tok'') ''X-CSRF-Token'' = se_CSRFToken s)"
proof (intro conjI)
  let ?m = "example_router (example_delete ''tok'') example_server"
  show s: "status_of (fst ?m) = Some 200" by code_simp
  show o: "\<not> open_path (rq_Path (example_delete ''tok''))" by code_simp
  show d: "rq_Method (example_delete ''tok'') = ''DELETE''" by code_simp
  have m: "?m = (fst ?m, snd ?m)" by simp
  have "lib_unmarshalSession example_libs = example_dec" by (simp add: example_libs_def)
  then show "\<exists>sid s. r_Cookie (example_delete ''tok'') ''session_id'' = Some sid \<and>
      session_view example_dec example_server sid = Some s \<and>
      rq_Header (example_delete ''tok'') ''X-CSRF-Token'' = se_CSRFToken s"
    using every_request_is_authorised [OF m] s o d by auto
qed

text \<open>
  \<open>entitled route d u i\<close>: the operation of the route on the object \<open>i\<close> is up to \<open>u\<close>: a post or a comment
  is changed or deleted by its author, a community by its creator, the messages of a chat are read and
  written by its members. Other operations are open to every user.
\<close>

fun entitled :: "api_route \<Rightarrow> database \<Rightarrow> int32 \<Rightarrow> int32 \<Rightarrow> bool" where
  "entitled (Content_Route route) d u i = authored route d u i"
| "entitled (Community_Route route) d u i = created route d u i"
| "entitled (Chat_Route route) d u i = participates route d u i"
| "entitled _ d u i = True"

lemma not_entitled_refused:
  assumes "\<not> entitled route (db w) (ctx_userID r) i0"
    and "\<And>i. path_int32 (rq_Vars r) ''id'' = Some i \<Longrightarrow> \<not> entitled route (db w) (ctx_userID r) i"
  shows "refused w (api_handler E H V route r w)"
proof (cases "path_int32 (rq_Vars r) ''id''")
  case None
  then show ?thesis
    using assms(1) bad_id_refused bad_community_id_refused bad_chat_id_refused by (cases route) auto
next
  case (Some i)
  from assms(2) [OF this] show ?thesis
    using not_author_refused [OF refl Some] not_creator_refused [OF refl Some]
      not_member_refused [OF refl Some]
    by (cases route) simp_all
qed

text \<open>
  C7. Only the entitled act. Whatever calls fail, a request to the API either changes nothing, and is a
  preflight (the method OPTIONS) or is not answered 200; or it is handled by the first route it matches, in
  the name of nobody (on an open path) or of the user of its session (as C2 says), and the handler that
  ran did what that user is entitled to: the operation is open to every user, or the variable \<open>id\<close> of
  the path, as the handler reads it (\<open>PathInt32\<close>: in any spelling, truncated to 32 bits), names a post
  or comment of which the user is the author, a community the user created, or a chat of which the user is a
  member.
\<close>

theorem only_the_entitled_act:
  assumes "NewApiRouter matches E H V debug r w = (x, w')"
  shows "(quiet w w' \<and> (rq_Method r = ''OPTIONS'' \<or> status_of x \<noteq> Some 200)) \<or>
    (\<exists>m vars r' w1 x1. mux_find matches (rq_Method r) (rq_Path r) api_routes = Some (m, vars) \<and>
       quiet w w1 \<and> api_handler E H V (mx_Route m) r' w1 = (x1, w') \<and> status_of x1 = status_of x \<and>
       rq_Vars r' = vars \<and>
       acts_as (session_view (lib_unmarshalSession E) w) debug r (rq_UserID r') \<and>
       ((\<forall>i. entitled (mx_Route m) (db w) (ctx_userID r') i) \<or>
        (\<exists>i. path_int32 vars ''id'' = Some i \<and> entitled (mx_Route m) (db w) (ctx_userID r') i)))"
proof -
  from router_run [OF assms]
  consider "quiet w w'" "rq_Method r = ''OPTIONS'' \<or> status_of x \<noteq> Some 200"
    | m vars r' w1 x1 where "mux_find matches (rq_Method r) (rq_Path r) api_routes = Some (m, vars)"
      "quiet w w1" "api_handler E H V (mx_Route m) r' w1 = (x1, w')" "status_of x1 = status_of x"
      "rq_Vars r' = vars" "acts_as (session_view (lib_unmarshalSession E) w) debug r (rq_UserID r')"
    by fastforce
  then show ?thesis
  proof cases
    case (2 m vars r' w1 x1)
    show ?thesis
    proof (cases "(\<forall>i. entitled (mx_Route m) (db w) (ctx_userID r') i) \<or>
        (\<exists>i. path_int32 vars ''id'' = Some i \<and> entitled (mx_Route m) (db w) (ctx_userID r') i)")
      case False
      have "db w1 = db w" using 2(2) by (simp add: quiet_sel)
      with False 2(3,5) have "refused w1 (x1, w')"
        using not_entitled_refused [of "mx_Route m" w1 r' _ E H V] by auto
      then show ?thesis using 2(4) quiet_trans [OF 2(2)] by (auto simp: refused_def)
    qed (use 2 in blast)
  qed blast
qed

theorem only_the_entitled_act_witness:
  "db (snd (example_router (example_delete ''tok'') example_server)) \<noteq> db example_server \<and>
   (\<exists>m vars u. mux_find example_matcher ''DELETE'' (rq_Path (example_delete ''tok'')) api_routes = Some (m, vars) \<and>
      path_int32 vars ''id'' = Some 1 \<and> mx_Route m = Content_Route Route_DeletePost \<and>
      entitled (Content_Route Route_DeletePost) (db example_server) u 1 \<and>
      acts_as (session_view example_dec example_server) False (example_delete ''tok'') (Some u))"
proof -
  let ?m = "example_router (example_delete ''tok'') example_server"
  have s: "status_of (fst ?m) = Some 200" by code_simp
  have m: "?m = (fst ?m, snd ?m)" by simp
  have d: "rq_Method (example_delete ''tok'') = ''DELETE''" by code_simp
  have dec: "lib_unmarshalSession example_libs = example_dec" by (simp add: example_libs_def)
  obtain mr vars r' where r:
    "mux_find example_matcher ''DELETE'' (rq_Path (example_delete ''tok'')) api_routes = Some (mr, vars)"
    "acts_as (session_view example_dec example_server) False (example_delete ''tok'') (rq_UserID r')"
    "(\<forall>i. entitled (mx_Route mr) (db example_server) (ctx_userID r') i) \<or>
      (\<exists>i. path_int32 vars ''id'' = Some i \<and> entitled (mx_Route mr) (db example_server) (ctx_userID r') i)"
    using only_the_entitled_act [OF m] s d unfolding dec by auto
  have "map_option (\<lambda>(m, vars). (mx_Route m, path_int32 vars ''id''))
      (mux_find example_matcher ''DELETE'' (rq_Path (example_delete ''tok'')) api_routes) =
    Some (Content_Route Route_DeletePost, Some 1)" by code_simp
  with r(1) have i: "path_int32 vars ''id'' = Some 1" "mx_Route mr = Content_Route Route_DeletePost" by auto
  have "\<not> open_path (rq_Path (example_delete ''tok''))" by code_simp
  then obtain u where u: "rq_UserID r' = Some u"
    using r(2) by (auto simp: acts_as_def)
  have "map po_id (posts (db (snd ?m))) \<noteq> map po_id (posts (db example_server))" by code_simp
  then have "db (snd ?m) \<noteq> db example_server" by auto
  moreover have "entitled (Content_Route Route_DeletePost) (db example_server) u 1"
    using r(3) u i by (auto simp: ctx_userID_def)
  ultimately show ?thesis using r(1,2) u i by auto
qed

text \<open>
  C27. Every request to content, communities, chats and stickers is answered. No handler of these panics,
  whatever the request and whatever calls fail, and the status of the response is 200, 400, 403, 404
  or 500.
\<close>

theorem content_community_and_chat_requests_are_answered:
  "\<exists>resp w'. (case kind of
      Inl route \<Rightarrow> content_endpoint E H (val_content V) route r w
    | Inr (Inl route) \<Rightarrow> community_endpoint E H (val_Community V) route r w
    | Inr (Inr route) \<Rightarrow> chat_endpoint E H route r w) = (Ret resp, w') \<and>
     rs_Status resp \<in> {200, 400, 403, 404, 500}"
proof -
  have run: "\<exists>resp w'. m w = (Ret resp, w') \<and> rs_Status resp \<in> {200, 400, 403, 404, 500}"
    if "replies m" for m
    using that by (cases "m w"; cases "fst (m w)") (auto simp: replies_def dest!: spec [of _ w])
  show ?thesis
    using run [OF replies_content_endpoint] run [OF replies_community_endpoint]
      run [OF replies_chat_endpoint]
    by (auto split: sum.splits)
qed

section \<open>Support applications\<close>

text \<open>
  C40. Merging a temporary session moves its applications to the account: when it succeeds, the
  applications that belong to the user are, in their order, those that belonged to the user or to the
  session before, and none is left to the session. When it fails, no table has changed.
\<close>

theorem merging_a_session_keeps_its_applications:
  assumes "ApplicationService_MergeTempSession (application_main E)
      (Some \<lparr>ts_UserID = Some u, ts_TempSessionID = Some s\<rparr>) w = (r, w')"
  shows "if r = Ret ()
    then map ap_id (filter (owns_application (Some \<lparr>ts_UserID = Some u, ts_TempSessionID = None\<rparr>))
          (applications (db w'))) =
        map ap_id (filter (owns_application (Some \<lparr>ts_UserID = Some u, ts_TempSessionID = Some s\<rparr>))
          (applications (db w))) \<and>
      (\<forall>a \<in> set (applications (db w')). ap_temp_session_id a \<noteq> Some s)
    else db w' = db w"
  by (rule MergeTempSession_owner [OF assms])

definition example_application :: "int32 \<Rightarrow> int32 option \<Rightarrow> string option \<Rightarrow> application_row" where
  "example_application i u s = \<lparr>ap_id = i, ap_author_id = u, ap_temp_session_id = s, ap_text = ''help'',
     ap_category = ''auth_problem'', ap_status = ''open'', ap_created_at = 5, ap_updated_at = 5,
     ap_email_req = ''a@x'', ap_email_feedback = ''a@x''\<rparr>"

definition example_support :: world where
  "example_support = example_world\<lparr>db := (db example_world)\<lparr>applications :=
     [example_application 1 None (Some ''s''), example_application 2 (Some 1) None,
      example_application 3 None (Some ''t'')]\<rparr>\<rparr>"

theorem merging_a_session_keeps_its_applications_witness:
  "map ap_id (filter (owns_application (Some \<lparr>ts_UserID = Some 1, ts_TempSessionID = None\<rparr>))
     (applications (db (snd (ApplicationService_MergeTempSession (application_main example_libs)
        (Some \<lparr>ts_UserID = Some 1, ts_TempSessionID = Some ''s''\<rparr>) example_support))))) = [1, 2]"
proof -
  let ?m = "ApplicationService_MergeTempSession (application_main example_libs)
      (Some \<lparr>ts_UserID = Some 1, ts_TempSessionID = Some ''s''\<rparr>) example_support"
  have "fst ?m = Ret ()" by code_simp
  then have m: "?m = (Ret (), snd ?m)" by (simp add: prod_eq_iff)
  have "map ap_id (filter (owns_application (Some \<lparr>ts_UserID = Some 1, ts_TempSessionID = Some ''s''\<rparr>))
      (applications (db example_support))) = [1, 2]" by code_simp
  with merging_a_session_keeps_its_applications [OF m] show ?thesis by simp
qed

text \<open>
  An application has no owner to whom its text is up: a request that no call fails rewrites the
  text of any application, whoever sends it (the path is open, so it needs no session).
\<close>

lemma anybody_rewrites_an_application:
  assumes "no_faults w" "rq_Vars r ''id'' = Some (strconv_Itoa (sint i))"
    and "hl_decodeApplicationText H (rq_Body r) = Some t" "wf_applications (db w)"
  shows "applications (db (snd (application_endpoint E H Route_UpdateApplicationText r w))) =
    update_where (\<lambda>a. ap_id a = i) (\<lambda>a. a\<lparr>ap_text := t, ap_updated_at := clock w\<rparr>) (applications (db w))"
proof -
  obtain w' where "application_endpoint E H Route_UpdateApplicationText r w =
      (Ret (sendJSONResponse ''main updated'' http_OK), w')"
    and "applications (db w') = update_where (\<lambda>a. ap_id a = i)
      (\<lambda>a. a\<lparr>ap_text := t, ap_updated_at := clock w\<rparr>) (applications (db w))"
    using UpdateApplicationText_anybody [OF assms, of E] by blast
  then show ?thesis by (simp only: snd_conv)
qed

end
