(* ===== verification/Metrics.thy ===== *)
theory Metrics
  imports Router
begin

text \<open>
  The metrics of the servers (src/metrics/metricsHTTP.go, metricsGRPC.go). What the code does to the
  vectors of the Prometheus client is a log of calls, in their order: \<open>Inc\<close> and \<open>Dec\<close> of a counter or
  gauge and \<open>Observe\<close> of a histogram, each with the label values it passes. \<open>WithLabelValues\<close> panics on a
  wrong number of label values, and \<open>MustRegister\<close> on a name that is taken; the lemmas show that neither
  happens. Durations are those of the world's clock.
\<close>

subsection \<open>Vectors and the calls on them\<close>

datatype metric_kind = CounterVec | GaugeVec | HistogramVec

record metric_vec =
  mv_Kind :: metric_kind
  mv_Name :: string
  mv_Labels :: "string list"

datatype metric_op =
  Metric_Inc metric_vec "string list" | Metric_Dec metric_vec "string list"
| Metric_Observe metric_vec "string list" int

type_synonym metric_log = "metric_op list"

text \<open>The label values of the increments of one vector, in their order.\<close>

fun incs :: "metric_vec \<Rightarrow> metric_log \<Rightarrow> string list list" where
  "incs v [] = []"
| "incs v (Metric_Inc v' ls # ops) = (if v' = v then ls # incs v ops else incs v ops)"
| "incs v (Metric_Dec v' ls # ops) = incs v ops"
| "incs v (Metric_Observe v' ls x # ops) = incs v ops"

fun decs :: "metric_vec \<Rightarrow> metric_log \<Rightarrow> string list list" where
  "decs v [] = []"
| "decs v (Metric_Dec v' ls # ops) = (if v' = v then ls # decs v ops else decs v ops)"
| "decs v (Metric_Inc v' ls # ops) = decs v ops"
| "decs v (Metric_Observe v' ls x # ops) = decs v ops"

fun labels_fit :: "metric_op \<Rightarrow> bool" where
  "labels_fit (Metric_Inc v ls) \<longleftrightarrow> length ls = length (mv_Labels v)"
| "labels_fit (Metric_Dec v ls) \<longleftrightarrow> length ls = length (mv_Labels v)"
| "labels_fit (Metric_Observe v ls x) \<longleftrightarrow> length ls = length (mv_Labels v)"

lemma incs_append [simp]: "incs v (xs @ ys) = incs v xs @ incs v ys"
  by (induction v xs rule: incs.induct) auto

lemma decs_append [simp]: "decs v (xs @ ys) = decs v xs @ decs v ys"
  by (induction v xs rule: decs.induct) auto

subsection \<open>HTTP\<close>

record HTTPMetrics =
  hm_serviceName :: string
  hm_RPCRequestsTotal :: metric_vec
  hm_RPCRequestsDuration :: metric_vec
  hm_RPCRequestsInFlight :: metric_vec
  hm_StatusCodes :: metric_vec
  hm_HTTPRequestsTotal :: metric_vec
  hm_HTTPRequestsDuration :: metric_vec
  hm_HTTPRequestsErrors :: metric_vec

definition NewHTTPMetrics :: "string \<Rightarrow> HTTPMetrics" where
  "NewHTTPMetrics serviceName =
     \<lparr>hm_serviceName = serviceName,
      hm_RPCRequestsTotal = \<lparr>mv_Kind = CounterVec, mv_Name = ''rpc_requests_total'',
        mv_Labels = [''service'', ''status_class'']\<rparr>,
      hm_RPCRequestsDuration = \<lparr>mv_Kind = HistogramVec, mv_Name = ''rpc_request_duration_seconds'',
        mv_Labels = [''service'', ''status_class'']\<rparr>,
      hm_RPCRequestsInFlight = \<lparr>mv_Kind = GaugeVec, mv_Name = ''rpc_requests_in_flight'',
        mv_Labels = [''service'']\<rparr>,
      hm_StatusCodes = \<lparr>mv_Kind = CounterVec, mv_Name = ''http_status_codes_total'',
        mv_Labels = [''service'', ''status_class'', ''status_code'']\<rparr>,
      hm_HTTPRequestsTotal = \<lparr>mv_Kind = CounterVec, mv_Name = ''http_requests_total'',
        mv_Labels = [''method'', ''path'', ''service'', ''status_code'']\<rparr>,
      hm_HTTPRequestsDuration = \<lparr>mv_Kind = HistogramVec, mv_Name = ''http_request_duration_seconds'',
        mv_Labels = [''method'', ''path'', ''service'', ''status_code'']\<rparr>,
      hm_HTTPRequestsErrors = \<lparr>mv_Kind = CounterVec, mv_Name = ''http_requests_errors_total'',
        mv_Labels = [''method'', ''path'', ''service'', ''error_type'', ''status_code'']\<rparr>\<rparr>"

definition HTTPMetrics_vecs :: "HTTPMetrics \<Rightarrow> metric_vec list" where
  "HTTPMetrics_vecs m =
     [hm_RPCRequestsTotal m, hm_RPCRequestsDuration m, hm_RPCRequestsInFlight m, hm_StatusCodes m,
      hm_HTTPRequestsTotal m, hm_HTTPRequestsDuration m, hm_HTTPRequestsErrors m]"

definition getStatusClass :: "int32 \<Rightarrow> string" where
  "getStatusClass statusCode =
     (if sint statusCode \<ge> 200 \<and> sint statusCode < 300 then ''2xx''
      else if sint statusCode \<ge> 300 \<and> sint statusCode < 400 then ''3xx''
      else if sint statusCode \<ge> 400 \<and> sint statusCode < 500 then ''4xx''
      else if sint statusCode \<ge> 500 then ''5xx''
      else ''unknown'')"

definition getErrorType :: "int32 \<Rightarrow> string" where
  "getErrorType statusCode =
     (if statusCode = 400 then ''bad_request''
      else if statusCode = 401 then ''unauthorized''
      else if statusCode = 403 then ''forbidden''
      else if statusCode = 404 then ''not_found''
      else if statusCode = 408 then ''timeout''
      else if statusCode = 409 then ''conflict''
      else if statusCode = 422 then ''validation_error''
      else if statusCode = 429 then ''rate_limit''
      else if sint statusCode \<ge> 500 \<and> sint statusCode < 600 then ''server_error''
      else ''client_error'')"

definition HTTPMetrics_recordAllMetrics ::
    "HTTPMetrics \<Rightarrow> string \<Rightarrow> string \<Rightarrow> int32 \<Rightarrow> int \<Rightarrow> metric_log" where
  "HTTPMetrics_recordAllMetrics m meth path statusCode duration =
     (let statusStr = strconv_Itoa (sint statusCode);
          statusClass = getStatusClass statusCode;
          service = hm_serviceName m
      in [Metric_Inc (hm_RPCRequestsTotal m) [service, statusClass],
          Metric_Observe (hm_RPCRequestsDuration m) [service, statusClass] duration,
          Metric_Inc (hm_StatusCodes m) [service, statusClass, statusStr],
          Metric_Inc (hm_HTTPRequestsTotal m) [meth, path, service, statusStr],
          Metric_Observe (hm_HTTPRequestsDuration m) [meth, path, service, statusStr] duration] @
         (if sint statusCode \<ge> 400
          then [Metric_Inc (hm_HTTPRequestsErrors m)
                  [meth, path, service, getErrorType statusCode, statusStr]]
          else []))"

text \<open>
  A handler that panics leaves the middleware before the gauge is decremented: the deferred function
  sets a status nobody records and panics again. \<open>route\<close> is the template of the route that matched.
  The wrapper only sees the status that is written through it: for a connection that was taken over
  it keeps the 200 it starts with.
\<close>

definition recorded_status :: "http_response \<Rightarrow> int32" where
  "recorded_status resp = (case rs_Body resp of Upgraded _ \<Rightarrow> http_OK | _ \<Rightarrow> rs_Status resp)"

definition HTTPMetrics_HTTPMiddleware ::
    "HTTPMetrics \<Rightarrow> string option \<Rightarrow> http_handler \<Rightarrow> http_request \<Rightarrow> world \<Rightarrow>
     (http_response res \<times> world) \<times> metric_log" where
  "HTTPMetrics_HTTPMiddleware m route next r w =
     (let entered = [Metric_Inc (hm_RPCRequestsInFlight m) [hm_serviceName m]];
          (x, w') = next r w
      in case x of
           Ret resp \<Rightarrow>
             (let duration = clock w' - clock w;
                  pathTemplate = (case route of None \<Rightarrow> [] | Some t \<Rightarrow> t);
                  pathTemplate = (if pathTemplate = [] then rq_Path r else pathTemplate)
              in ((x, w'), entered @ Metric_Dec (hm_RPCRequestsInFlight m) [hm_serviceName m] #
                   HTTPMetrics_recordAllMetrics m (rq_Method r) pathTemplate (recorded_status resp) duration))
         | _ \<Rightarrow> ((x, w'), entered))"

text \<open>The wrapper that remembers the status: the first code written, 200 when only a body was.\<close>

record responseWriter =
  rw_statusCode :: int32
  rw_wroteHeader :: bool

definition responseWriter_WriteHeader :: "int32 \<Rightarrow> responseWriter \<Rightarrow> responseWriter" where
  "responseWriter_WriteHeader code rw =
     (if \<not> rw_wroteHeader rw then rw\<lparr>rw_statusCode := code, rw_wroteHeader := True\<rparr> else rw)"

definition responseWriter_Write :: "string \<Rightarrow> responseWriter \<Rightarrow> responseWriter" where
  "responseWriter_Write data rw =
     (if \<not> rw_wroteHeader rw then responseWriter_WriteHeader http_OK rw else rw)"

datatype response_call = WriteHeader int32 | Write string

fun response_calls :: "response_call list \<Rightarrow> responseWriter \<Rightarrow> responseWriter" where
  "response_calls [] rw = rw"
| "response_calls (WriteHeader code # cs) rw = response_calls cs (responseWriter_WriteHeader code rw)"
| "response_calls (Write data # cs) rw = response_calls cs (responseWriter_Write data rw)"

lemma responseWriter_first:
  "rw_statusCode (response_calls cs \<lparr>rw_statusCode = http_OK, rw_wroteHeader = False\<rparr>) =
     (case cs of WriteHeader code # _ \<Rightarrow> code | _ \<Rightarrow> http_OK)"
proof -
  have written: "rw_wroteHeader rw \<Longrightarrow> response_calls cs rw = rw" for cs rw
    by (induction cs rw rule: response_calls.induct)
       (simp_all add: responseWriter_WriteHeader_def responseWriter_Write_def)
  show ?thesis
    by (cases cs; cases "hd cs")
       (auto simp: written responseWriter_WriteHeader_def responseWriter_Write_def split: response_call.split)
qed

text \<open>The names are distinct, and every call passes as many values as the vector has labels.\<close>

lemma HTTPMetrics_registers: "distinct (map mv_Name (HTTPMetrics_vecs (NewHTTPMetrics s)))"
  by (simp add: HTTPMetrics_vecs_def NewHTTPMetrics_def)

lemma HTTPMiddleware_labels_fit:
  "list_all labels_fit (snd (HTTPMetrics_HTTPMiddleware (NewHTTPMetrics s) route next r w))"
  by (simp add: HTTPMetrics_HTTPMiddleware_def HTTPMetrics_recordAllMetrics_def NewHTTPMetrics_def Let_def
      split: prod.split res.split)

subsection \<open>gRPC\<close>

record GRPCMetrics =
  gm_serviceName :: string
  gm_RPCRequestsTotal :: metric_vec
  gm_RPCRequestsDuration :: metric_vec
  gm_RPCRequestsInFlight :: metric_vec
  gm_StatusCodes :: metric_vec
  gm_GRPCRequestsTotal :: metric_vec
  gm_GRPCRequestsDuration :: metric_vec
  gm_GRPCRequestsErrors :: metric_vec

definition NewGRPCMetrics :: "string \<Rightarrow> GRPCMetrics" where
  "NewGRPCMetrics serviceName =
     \<lparr>gm_serviceName = serviceName,
      gm_RPCRequestsTotal = \<lparr>mv_Kind = CounterVec, mv_Name = ''rpc_requests_total'',
        mv_Labels = [''service'', ''status_class'']\<rparr>,
      gm_RPCRequestsDuration = \<lparr>mv_Kind = HistogramVec, mv_Name = ''rpc_request_duration_seconds'',
        mv_Labels = [''service'', ''status_class'']\<rparr>,
      gm_RPCRequestsInFlight = \<lparr>mv_Kind = GaugeVec, mv_Name = ''rpc_requests_in_flight'',
        mv_Labels = [''service'']\<rparr>,
      gm_StatusCodes = \<lparr>mv_Kind = CounterVec, mv_Name = ''grpc_status_codes_total'',
        mv_Labels = [''service'', ''status_class'', ''grpc_code'']\<rparr>,
      gm_GRPCRequestsTotal = \<lparr>mv_Kind = CounterVec, mv_Name = ''grpc_requests_total'',
        mv_Labels = [''grpc_service'', ''grpc_method'', ''service'', ''grpc_code'']\<rparr>,
      gm_GRPCRequestsDuration = \<lparr>mv_Kind = HistogramVec, mv_Name = ''grpc_request_duration_seconds'',
        mv_Labels = [''grpc_service'', ''grpc_method'', ''service'', ''grpc_code'']\<rparr>,
      gm_GRPCRequestsErrors = \<lparr>mv_Kind = CounterVec, mv_Name = ''grpc_requests_errors_total'',
        mv_Labels = [''grpc_service'', ''grpc_method'', ''service'', ''error_type'', ''grpc_code'']\<rparr>\<rparr>"

definition GRPCMetrics_vecs :: "GRPCMetrics \<Rightarrow> metric_vec list" where
  "GRPCMetrics_vecs m =
     [gm_RPCRequestsTotal m, gm_RPCRequestsDuration m, gm_RPCRequestsInFlight m, gm_StatusCodes m,
      gm_GRPCRequestsTotal m, gm_GRPCRequestsDuration m, gm_GRPCRequestsErrors m]"

text \<open>"/auth.AuthService/Login": the last slash separates the service from the name of the call.\<close>

fun split_last_slash :: "string \<Rightarrow> (string \<times> string) option" where
  "split_last_slash [] = None"
| "split_last_slash (c # cs) =
     (case split_last_slash cs of
        Some (service, name) \<Rightarrow> Some (c # service, name)
      | None \<Rightarrow> if c = CHR ''/'' then Some ([], cs) else None)"

definition parseGRPCMethod :: "string \<Rightarrow> string \<times> string" where
  "parseGRPCMethod fullMethod =
     (let fullMethod = (case fullMethod of c # cs \<Rightarrow> if c = CHR ''/'' then cs else fullMethod
                        | [] \<Rightarrow> fullMethod)
      in case split_last_slash fullMethod of
           Some (service, name) \<Rightarrow> (service, name)
         | None \<Rightarrow> (''unknown'', ''unknown''))"

fun grpcCodeToStatusClass :: "grpc_code \<Rightarrow> string" where
  "grpcCodeToStatusClass Code_OK = ''2xx''"
| "grpcCodeToStatusClass Code_Canceled = ''4xx''"
| "grpcCodeToStatusClass Code_InvalidArgument = ''4xx''"
| "grpcCodeToStatusClass Code_NotFound = ''4xx''"
| "grpcCodeToStatusClass Code_AlreadyExists = ''4xx''"
| "grpcCodeToStatusClass Code_PermissionDenied = ''4xx''"
| "grpcCodeToStatusClass Code_Unauthenticated = ''4xx''"
| "grpcCodeToStatusClass Code_FailedPrecondition = ''4xx''"
| "grpcCodeToStatusClass Code_OutOfRange = ''4xx''"
| "grpcCodeToStatusClass Code_Unimplemented = ''4xx''"
| "grpcCodeToStatusClass Code_Aborted = ''4xx''"
| "grpcCodeToStatusClass Code_Unknown = ''5xx''"
| "grpcCodeToStatusClass Code_DeadlineExceeded = ''5xx''"
| "grpcCodeToStatusClass Code_ResourceExhausted = ''5xx''"
| "grpcCodeToStatusClass Code_Internal = ''5xx''"
| "grpcCodeToStatusClass Code_Unavailable = ''5xx''"
| "grpcCodeToStatusClass Code_DataLoss = ''5xx''"

fun grpcCodeToErrorType :: "grpc_code \<Rightarrow> string" where
  "grpcCodeToErrorType Code_Canceled = ''canceled''"
| "grpcCodeToErrorType Code_Unknown = ''unknown''"
| "grpcCodeToErrorType Code_InvalidArgument = ''invalid_argument''"
| "grpcCodeToErrorType Code_DeadlineExceeded = ''deadline_exceeded''"
| "grpcCodeToErrorType Code_NotFound = ''not_found''"
| "grpcCodeToErrorType Code_AlreadyExists = ''already_exists''"
| "grpcCodeToErrorType Code_PermissionDenied = ''permission_denied''"
| "grpcCodeToErrorType Code_ResourceExhausted = ''resource_exhausted''"
| "grpcCodeToErrorType Code_FailedPrecondition = ''failed_precondition''"
| "grpcCodeToErrorType Code_Aborted = ''aborted''"
| "grpcCodeToErrorType Code_OutOfRange = ''out_of_range''"
| "grpcCodeToErrorType Code_Unimplemented = ''unimplemented''"
| "grpcCodeToErrorType Code_Internal = ''internal''"
| "grpcCodeToErrorType Code_Unavailable = ''unavailable''"
| "grpcCodeToErrorType Code_DataLoss = ''data_loss''"
| "grpcCodeToErrorType Code_Unauthenticated = ''unauthenticated''"
| "grpcCodeToErrorType Code_OK = ''unknown_error''"

text \<open>\<open>status.Code\<close>: \<open>OK\<close> for no error, \<open>Unknown\<close> for one that is no gRPC status.\<close>

fun status_Code :: "go_error option \<Rightarrow> grpc_code" where
  "status_Code None = Code_OK"
| "status_Code (Some err) = (case status_FromError err of None \<Rightarrow> Code_Unknown | Some (c, _) \<Rightarrow> c)"

definition GRPCMetrics_recordAllMetrics ::
    "GRPCMetrics \<Rightarrow> string \<Rightarrow> string \<Rightarrow> string \<Rightarrow> string \<Rightarrow> int \<Rightarrow> go_error option \<Rightarrow> metric_log" where
  "GRPCMetrics_recordAllMetrics m grpcService grpcMethod grpcCode statusClass duration err =
     (let service = gm_serviceName m
      in [Metric_Inc (gm_RPCRequestsTotal m) [service, statusClass],
          Metric_Observe (gm_RPCRequestsDuration m) [service, statusClass] duration,
          Metric_Inc (gm_StatusCodes m) [service, statusClass, grpcCode],
          Metric_Inc (gm_GRPCRequestsTotal m) [grpcService, grpcMethod, service, grpcCode],
          Metric_Observe (gm_GRPCRequestsDuration m) [grpcService, grpcMethod, service, grpcCode] duration] @
         (case err of
            None \<Rightarrow> []
          | Some _ \<Rightarrow> [Metric_Inc (gm_GRPCRequestsErrors m)
                        [grpcService, grpcMethod, service, grpcCodeToErrorType (status_Code err), grpcCode]]))"

text \<open>The interceptor around the handler of a call; nothing recovers from a panic.\<close>

definition GRPCMetrics_UnaryServerInterceptor ::
    "GRPCMetrics \<Rightarrow> string \<Rightarrow> 'a action \<Rightarrow> world \<Rightarrow> ('a res \<times> world) \<times> metric_log" where
  "GRPCMetrics_UnaryServerInterceptor m fullMethod handler w =
     (let entered = [Metric_Inc (gm_RPCRequestsInFlight m) [gm_serviceName m]];
          (grpcService, grpcMethod) = parseGRPCMethod fullMethod;
          (x, w') = handler w;
          leave = (\<lambda>err. let grpcCode = status_Code err
             in entered @ Metric_Dec (gm_RPCRequestsInFlight m) [gm_serviceName m] #
                GRPCMetrics_recordAllMetrics m grpcService grpcMethod (code_name grpcCode)
                  (grpcCodeToStatusClass grpcCode) (clock w' - clock w) err)
      in ((x, w'), case x of Ret _ \<Rightarrow> leave None | Fail err \<Rightarrow> leave (Some err) | Panic \<Rightarrow> entered))"

definition GRPCMetrics_StreamServerInterceptor ::
    "GRPCMetrics \<Rightarrow> string \<Rightarrow> unit action \<Rightarrow> world \<Rightarrow> (unit res \<times> world) \<times> metric_log" where
  "GRPCMetrics_StreamServerInterceptor m fullMethod handler w =
     (let entered = [Metric_Inc (gm_RPCRequestsInFlight m) [gm_serviceName m]];
          (grpcService, grpcMethod) = parseGRPCMethod fullMethod;
          (x, w') = handler w;
          leave = (\<lambda>err. let grpcCode = status_Code err
             in entered @ Metric_Dec (gm_RPCRequestsInFlight m) [gm_serviceName m] #
                GRPCMetrics_recordAllMetrics m grpcService grpcMethod (code_name grpcCode)
                  (grpcCodeToStatusClass grpcCode) (clock w' - clock w) err)
      in ((x, w'), case x of Ret _ \<Rightarrow> leave None | Fail err \<Rightarrow> leave (Some err) | Panic \<Rightarrow> entered))"

definition GRPCMetrics_RecordError ::
    "GRPCMetrics \<Rightarrow> string \<Rightarrow> string \<Rightarrow> string \<Rightarrow> grpc_code \<Rightarrow> metric_log" where
  "GRPCMetrics_RecordError m grpcService grpcMethod errorType grpcCode =
     [Metric_Inc (gm_GRPCRequestsErrors m)
        [grpcService, grpcMethod, gm_serviceName m, errorType, code_name grpcCode],
      Metric_Inc (gm_RPCRequestsTotal m) [gm_serviceName m, grpcCodeToStatusClass grpcCode]]"

definition GRPCMetrics_RecordBusinessError ::
    "GRPCMetrics \<Rightarrow> string \<Rightarrow> string \<Rightarrow> string \<Rightarrow> metric_log" where
  "GRPCMetrics_RecordBusinessError m grpcService grpcMethod errorCode =
     [Metric_Inc (gm_GRPCRequestsErrors m)
        [grpcService, grpcMethod, gm_serviceName m, ''business_error'', errorCode]]"

definition GRPCMetrics_RecordTimeout :: "GRPCMetrics \<Rightarrow> string \<Rightarrow> string \<Rightarrow> metric_log" where
  "GRPCMetrics_RecordTimeout m grpcService grpcMethod =
     [Metric_Inc (gm_GRPCRequestsErrors m)
        [grpcService, grpcMethod, gm_serviceName m, ''timeout'', code_name Code_DeadlineExceeded]]"

lemma GRPCMetrics_registers: "distinct (map mv_Name (GRPCMetrics_vecs (NewGRPCMetrics s)))"
  by (simp add: GRPCMetrics_vecs_def NewGRPCMetrics_def)

lemma GRPC_labels_fit:
  "list_all labels_fit (snd (GRPCMetrics_UnaryServerInterceptor (NewGRPCMetrics s) f h w))"
  "list_all labels_fit (snd (GRPCMetrics_StreamServerInterceptor (NewGRPCMetrics s) f h' w))"
  "list_all labels_fit (GRPCMetrics_RecordError (NewGRPCMetrics s) a b t c)"
  "list_all labels_fit (GRPCMetrics_RecordBusinessError (NewGRPCMetrics s) a b t)"
  "list_all labels_fit (GRPCMetrics_RecordTimeout (NewGRPCMetrics s) a b)"
  by (auto simp: GRPCMetrics_UnaryServerInterceptor_def GRPCMetrics_StreamServerInterceptor_def
      GRPCMetrics_recordAllMetrics_def GRPCMetrics_RecordError_def GRPCMetrics_RecordBusinessError_def
      GRPCMetrics_RecordTimeout_def NewGRPCMetrics_def Let_def split: prod.split res.split)

lemma split_last_slash_None: "CHR ''/'' \<notin> set s \<Longrightarrow> split_last_slash s = None"
  by (induction s) auto

lemma split_last_slash_append:
  "CHR ''/'' \<notin> set name \<Longrightarrow> split_last_slash (service @ CHR ''/'' # name) = Some (service, name)"
  by (induction service) (simp_all add: split_last_slash_None)

lemma parseGRPCMethod_full:
  "CHR ''/'' \<notin> set name \<Longrightarrow> parseGRPCMethod (CHR ''/'' # service @ CHR ''/'' # name) = (service, name)"
  by (simp add: parseGRPCMethod_def split_last_slash_append)

end
