(* ===== verification/Serving.thy ===== *)
theory Serving
  imports Metrics Uploads Hub
begin

text \<open>
  The HTTP server of the main process (src/cmd/main/main.go): the routes beside the API (uploaded files,
  documents, the WebSocket endpoint, metrics and health), and the metrics middleware around every route
  that matches. Swagger, the Prometheus handler, the upgrade of a connection and the cleaning of paths
  by the router are third-party code: the fields of \<open>main_libs\<close>. The first two answer with a status and
  a text; \<open>mn_Upgrade\<close> is \<open>None\<close> when the connection was upgraded, and otherwise the status and the text
  of the error that was written.
\<close>

record main_libs =
  mn_cleanPath :: "string \<Rightarrow> string"
  mn_matches :: mux_matcher
  mn_swagger :: "http_request \<Rightarrow> int32 \<times> string"
  mn_promhttp :: "http_request \<Rightarrow> int32 \<times> string"
  mn_Upgrade :: "http_request \<Rightarrow> (int32 \<times> string) option"

definition text_response :: "int32 \<times> string \<Rightarrow> http_response" where
  "text_response p = \<lparr>rs_Status = fst p, rs_Cookies = [], rs_Body = RawText (snd p)\<rparr>"

subsection \<open>Uploaded files\<close>

text \<open>
  \<open>http.ServeFile\<close> of the standard library, without conditional requests and ranges: a path with an
  element \<open>..\<close> is refused, the name of an index page redirected, and the file read. Listing a directory
  is not modelled: the handler does not get there with one.
\<close>

definition containsDotDot :: "string \<Rightarrow> bool" where
  "containsDotDot v \<longleftrightarrow>
     ''..'' \<in> set (split_slash (map (\<lambda>c. if c = CHR 0x5C then CHR ''/'' else c) v))"

definition os_Open :: "string \<Rightarrow> fs_entry action" where
  "os_Open p = external (\<lambda>m. Plain (''open: '' @ m)) (\<lambda>w.
     (case filesystem w (absolute w p) of
        None \<Rightarrow> (Fail (Wrapf ''open: '' os_ErrNotExist), w)
      | Some e \<Rightarrow> (Ret e, w)))"

definition http_ServeFile :: "string \<Rightarrow> http_handler" where
  "http_ServeFile name r =
     (if containsDotDot (rq_Path r) then ret (text_response (http_BadRequest, ''invalid URL path''))
      else if strings_HasPrefix (rev (rq_Path r)) (rev ''/index.html'')
      then ret \<lparr>rs_Status = 301, rs_Cookies = [], rs_Body = NoBody\<rparr>
      else call (os_Open name)
        (\<lambda>err. if errors_Is err os_ErrNotExist
               then ret (text_response (http_NotFound, ''404 page not found''))
               else ret (text_response (http_InternalServerError, ''500 Internal Server Error'')))
        (\<lambda>f. case f of
               RegularFile data \<Rightarrow> ret \<lparr>rs_Status = http_OK, rs_Cookies = [], rs_Body = FileContent data\<rparr>
             | Directory \<Rightarrow> ret \<lparr>rs_Status = http_OK, rs_Cookies = [], rs_Body = NoBody\<rparr>))"

text \<open>The directory is made absolute when the handler is built; a failure there is a panic.\<close>

definition UploadsHandler :: "string \<Rightarrow> string \<Rightarrow> http_handler action" where
  "UploadsHandler staticDir prefix =
     (let prefix = (if \<not> strings_HasPrefix (rev prefix) ''/'' then prefix @ ''/'' else prefix)
      in call (filepath_Abs staticDir) (\<lambda>err w. (Panic, w))
      (\<lambda>absStaticDir. ret (\<lambda>r.
         call (service_Uploads absStaticDir prefix (rq_Path r)) sendJSONError
         (\<lambda>fullPath. http_ServeFile fullPath r))))"

lemma absolute_below:
  assumes "path_IsAbs dir" "path_Clean dir = dir" "dir \<noteq> ''/''" "p = dir \<or> below dir p"
  shows "absolute w p = p"
proof -
  obtain ds where ds: "dir = ''/'' @ join_slash ds" "\<forall>c \<in> set ds. plain_name c"
    using path_Clean_rooted [OF assms(1)] assms(2) by metis
  with assms(3) have "ds \<noteq> []" by auto
  have "path_IsAbs p \<and> path_Clean p = p"
    using assms(4)
  proof
    assume "below dir p"
    then obtain cs where cs: "cs \<noteq> []" "\<forall>c \<in> set cs. plain_name c" "p = dir @ ''/'' @ join_slash cs"
      by (auto simp: below_def)
    then have "p = ''/'' @ join_slash (ds @ cs)"
      using ds(1) \<open>ds \<noteq> []\<close> by (simp add: join_slash_append)
    then show ?thesis
      using path_Clean_names [of "ds @ cs"] ds(2) cs(2) by (auto simp: path_IsAbs_def)
  qed (use assms in simp)
  then show ?thesis by (simp add: absolute_def)
qed

text \<open>What is sent is a file at the directory's path or below it, and sending it changes nothing.\<close>

lemma UploadsHandler_serves:
  assumes built: "UploadsHandler staticDir prefix w0 = (Ret h, w1)"
    and dir: "dir = absolute w0 staticDir" "path_IsAbs dir" "path_Clean dir = dir" "dir \<noteq> ''/''"
    and run: "h r w = (Ret resp, w')" "rs_Body resp = FileContent data"
  shows "\<exists>p. (p = dir \<or> below dir p) \<and> filesystem w p = Some (RegularFile data) \<and> quiet w w'"
proof -
  let ?prefix = "if \<not> strings_HasPrefix (rev prefix) ''/'' then prefix @ ''/'' else prefix"
  have h: "h = (\<lambda>r. call (service_Uploads dir ?prefix (rq_Path r)) sendJSONError
      (\<lambda>fullPath. http_ServeFile fullPath r))"
    using built dir(1)
    by (auto simp: UploadsHandler_def Let_def act absolute_def tick_def split: if_splits option.splits)
  obtain x w2 where s: "service_Uploads dir ?prefix (rq_Path r) w = (x, w2)" by fastforce
  show ?thesis
  proof (cases x)
    case (Ret p)
    note ok = Uploads_Ret [OF s [unfolded Ret] dir(2-4)]
    have abs: "absolute v p = p" for v
      using absolute_below [OF dir(2-4)] ok by blast
    have "http_ServeFile p r w2 = (Ret resp, w')"
      using run(1) by (simp add: h call_def s Ret)
    then have "filesystem w2 p = Some (RegularFile data) \<and> w' = tick w2"
      using run(2) abs
      by (auto simp: http_ServeFile_def os_Open_def text_response_def act
          split: if_splits option.splits fs_entry.splits)
    moreover have "quiet w w2" using ok by blast
    ultimately have "filesystem w p = Some (RegularFile data) \<and> quiet w w'"
      using quiet_trans [OF _ quiet_tick] by (metis quiet_sel(8))
    then show ?thesis using ok by blast
  qed (use run in \<open>auto simp: h call_def s sendJSONError_status sendJSONResponse_def\<close>)
qed

subsection \<open>The WebSocket endpoint\<close>

definition WSHandler_ServeWs :: "main_libs \<Rightarrow> http_handler" where
  "WSHandler_ServeWs ML r =
     (case mn_Upgrade ML r of
        Some err \<Rightarrow> ret (text_response err)
      | None \<Rightarrow>
          let userID = ctx_userID r
          in ret \<lparr>rs_Status = 101, rs_Cookies = [], rs_Body = Upgraded userID\<rparr>)"

subsection \<open>The routes of the server\<close>

datatype main_route =
  Route_Uploads | Route_Docs | Route_Ws | Route_Api mux_route | Route_Metrics | Route_Health

text \<open>
  The first route that matches: the two prefixes, the WebSocket endpoint, which takes every method,
  the API, and the two endpoints for monitoring.
\<close>

definition main_find :: "mux_matcher \<Rightarrow> string \<Rightarrow> string \<Rightarrow>
    (main_route \<times> string \<times> (string \<Rightarrow> string option)) option" where
  "main_find matches meth path =
     (if strings_HasPrefix path ''/uploads/'' then Some (Route_Uploads, ''/uploads/'', Map.empty)
      else if strings_HasPrefix path ''/docs/'' then Some (Route_Docs, ''/docs/'', Map.empty)
      else case matches ''/api/ws'' path of
        Some vars \<Rightarrow> Some (Route_Ws, ''/api/ws'', vars)
      | None \<Rightarrow>
          (case mux_find matches meth path api_routes of
             Some (x, vars) \<Rightarrow> Some (Route_Api x, mx_Template x, vars)
           | None \<Rightarrow>
               (case matches ''/metrics'' path of
                  Some vars \<Rightarrow> if meth = ''GET'' then Some (Route_Metrics, ''/metrics'', vars) else None
                | None \<Rightarrow>
                    (case matches ''/health'' path of
                       Some vars \<Rightarrow> if meth = ''GET'' then Some (Route_Health, ''/health'', vars) else None
                     | None \<Rightarrow> None))))"

definition health_body :: string where
  "health_body = ''{\"status\": \"healthy\", \"service\": \"main-service\"}''"

fun main_handler :: "main_libs \<Rightarrow> libraries \<Rightarrow> http_libs \<Rightarrow> validators \<Rightarrow> bool \<Rightarrow> http_handler \<Rightarrow>
    main_route \<Rightarrow> http_handler" where
  "main_handler ML E H V debug uploads Route_Uploads = CorsMiddleware uploads"
| "main_handler ML E H V debug uploads Route_Docs =
     CorsMiddleware (\<lambda>r. ret (text_response (mn_swagger ML r)))"
| "main_handler ML E H V debug uploads Route_Ws = api_middlewares E H debug False (WSHandler_ServeWs ML)"
| "main_handler ML E H V debug uploads (Route_Api x) =
     api_middlewares E H debug (mx_Guarded x) (api_handler E H V (mx_Route x))"
| "main_handler ML E H V debug uploads Route_Metrics =
     CorsMiddleware (\<lambda>r. ret (text_response (mn_promhttp ML r)))"
| "main_handler ML E H V debug uploads Route_Health =
     CorsMiddleware (\<lambda>r. ret (text_response (http_OK, health_body)))"

text \<open>
  The outcome of a request, what it does to the metrics, and the clients it adds to the hub. A path
  that is not clean is redirected; without a route no middleware runs.
\<close>

abbreviation main_metrics :: HTTPMetrics where "main_metrics \<equiv> NewHTTPMetrics ''main''"

definition main_router :: "main_libs \<Rightarrow> libraries \<Rightarrow> http_libs \<Rightarrow> validators \<Rightarrow> bool \<Rightarrow> http_handler \<Rightarrow>
    http_request \<Rightarrow> world \<Rightarrow> (http_response res \<times> world) \<times> metric_log \<times> hub_event list" where
  "main_router ML E H V debug uploads r w =
     (if mn_cleanPath ML (rq_Path r) \<noteq> rq_Path r
      then ((Ret \<lparr>rs_Status = 301, rs_Cookies = [], rs_Body = NoBody\<rparr>, w), [], [])
      else case main_find (mn_matches ML) (rq_Method r) (rq_Path r) of
        Some (route, template, vars) \<Rightarrow>
          let ((x, w'), log) = HTTPMetrics_HTTPMiddleware main_metrics (Some template)
                 (main_handler ML E H V debug uploads route)
                 (r\<lparr>rq_Vars := vars, rq_UserID := None, rq_TempSession := None\<rparr>) w
          in ((x, w'), log,
              case (route, x) of
                (Route_Ws, Ret resp) \<Rightarrow> (case rs_Body resp of Upgraded u \<Rightarrow> [Add u] | _ \<Rightarrow> [])
              | _ \<Rightarrow> [])
      | None \<Rightarrow>
          if (\<exists>t \<in> set (map mx_Template api_routes @ [''/metrics'', ''/health'']).
                mn_matches ML t (rq_Path r) \<noteq> None)
          then ((Ret \<lparr>rs_Status = 405, rs_Cookies = [], rs_Body = NoBody\<rparr>, w), [], [])
          else (NotFoundHandler r w, [], []))"

subsection \<open>The metrics do not interfere\<close>

lemma HTTPMiddleware_answer: "fst (HTTPMetrics_HTTPMiddleware m t next r w) = next r w"
  by (simp add: HTTPMetrics_HTTPMiddleware_def Let_def split: prod.split res.split)

lemma main_router_api:
  assumes "mn_cleanPath ML (rq_Path r) = rq_Path r"
    and "main_find (mn_matches ML) (rq_Method r) (rq_Path r) = Some (Route_Api x, t, vars)"
  shows "fst (main_router ML E H V debug uploads r w) = NewApiRouter (mn_matches ML) E H V debug r w"
proof -
  have "mux_find (mn_matches ML) (rq_Method r) (rq_Path r) api_routes = Some (x, vars)"
    using assms(2) by (auto simp: main_find_def split: if_splits option.splits)
  then show ?thesis
    using assms
      HTTPMiddleware_answer [of main_metrics "Some t"
        "api_middlewares E H debug (mx_Guarded x) (api_handler E H V (mx_Route x))"
        "r\<lparr>rq_Vars := vars, rq_UserID := None, rq_TempSession := None\<rparr>" w]
    by (auto simp: main_router_def NewApiRouter_def split: prod.split)
qed

subsection \<open>Counting requests\<close>

text \<open>The server: one request after the other. Its answers, and everything done to the metrics.\<close>

fun main_serve :: "main_libs \<Rightarrow> libraries \<Rightarrow> http_libs \<Rightarrow> validators \<Rightarrow> bool \<Rightarrow> http_handler \<Rightarrow>
    http_request list \<Rightarrow> world \<Rightarrow> (http_request \<times> http_response res) list \<times> metric_log" where
  "main_serve ML E H V debug uploads [] w = ([], [])"
| "main_serve ML E H V debug uploads (r # rs) w =
     (let ((x, w'), log, _) = main_router ML E H V debug uploads r w;
          (outs, rest) = main_serve ML E H V debug uploads rs w'
      in ((r, x) # outs, log @ rest))"

text \<open>A request that has a route, and the statuses of those that were answered.\<close>

definition has_route :: "main_libs \<Rightarrow> http_request \<Rightarrow> bool" where
  "has_route ML r \<longleftrightarrow> mn_cleanPath ML (rq_Path r) = rq_Path r \<and>
     main_find (mn_matches ML) (rq_Method r) (rq_Path r) \<noteq> None"

fun counted :: "main_libs \<Rightarrow> (http_request \<times> http_response res) list \<Rightarrow> int32 list" where
  "counted ML [] = []"
| "counted ML ((r, Ret resp) # outs) =
     (if has_route ML r then recorded_status resp # counted ML outs else counted ML outs)"
| "counted ML ((r, x) # outs) = counted ML outs"

text \<open>What one pass through the middleware adds.\<close>

lemma main_metrics_ops:
  assumes "HTTPMetrics_HTTPMiddleware main_metrics t next r w = ((x, w'), log)"
  defines "sent \<equiv> (case x of Ret resp \<Rightarrow> [recorded_status resp] | _ \<Rightarrow> [])"
  shows "incs (hm_StatusCodes main_metrics) log =
      map (\<lambda>c. [''main'', getStatusClass c, strconv_Itoa (sint c)]) sent"
    and "incs (hm_RPCRequestsTotal main_metrics) log = map (\<lambda>c. [''main'', getStatusClass c]) sent"
    and "length (incs (hm_HTTPRequestsErrors main_metrics) log) = length (filter (\<lambda>c. 400 \<le> sint c) sent)"
    and "incs (hm_RPCRequestsInFlight main_metrics) log = [[''main'']]"
    and "decs (hm_RPCRequestsInFlight main_metrics) log = map (\<lambda>c. [''main'']) sent"
  using assms
  by (auto simp: HTTPMetrics_HTTPMiddleware_def HTTPMetrics_recordAllMetrics_def NewHTTPMetrics_def Let_def
      split: prod.splits res.splits)

lemma main_serve_metrics:
  assumes "main_serve ML E H V debug uploads rs w = (outs, log)"
  shows "incs (hm_StatusCodes main_metrics) log =
      map (\<lambda>c. [''main'', getStatusClass c, strconv_Itoa (sint c)]) (counted ML outs) \<and>
    incs (hm_RPCRequestsTotal main_metrics) log =
      map (\<lambda>c. [''main'', getStatusClass c]) (counted ML outs) \<and>
    length (incs (hm_HTTPRequestsErrors main_metrics) log) =
      length (filter (\<lambda>c. 400 \<le> sint c) (counted ML outs)) \<and>
    length (incs (hm_RPCRequestsInFlight main_metrics) log) =
      length (filter (has_route ML) (map fst outs)) \<and>
    length (decs (hm_RPCRequestsInFlight main_metrics) log) = length (counted ML outs)"
  using assms
proof (induction rs arbitrary: w outs log)
  case (Cons r rs)
  obtain x w1 log1 evs where m: "main_router ML E H V debug uploads r w = ((x, w1), log1, evs)"
    by (metis prod.exhaust)
  obtain outs2 log2 where s: "main_serve ML E H V debug uploads rs w1 = (outs2, log2)" by fastforce
  have out: "outs = (r, x) # outs2" "log = log1 @ log2"
    using Cons.prems m s by auto
  note IH = Cons.IH [OF s]
  show ?case
  proof (cases "has_route ML r")
    case False
    then have "log1 = []"
      using m by (cases "main_find (mn_matches ML) (rq_Method r) (rq_Path r)")
        (auto simp: has_route_def main_router_def split: if_splits)
    with False IH show ?thesis by (cases x) (simp_all add: out)
  next
    case True
    then obtain route t vars where f: "main_find (mn_matches ML) (rq_Method r) (rq_Path r) = Some (route, t, vars)"
      by (auto simp: has_route_def)
    have "HTTPMetrics_HTTPMiddleware main_metrics (Some t) (main_handler ML E H V debug uploads route)
        (r\<lparr>rq_Vars := vars, rq_UserID := None, rq_TempSession := None\<rparr>) w = ((x, w1), log1)"
      using m True f by (auto simp: has_route_def main_router_def split: prod.splits)
    note ops = main_metrics_ops [OF this]
    show ?thesis using True IH by (cases x) (simp_all add: out ops)
  qed
qed simp

subsection \<open>Who is connected\<close>

lemma TempSession_body:
  assumes "TempSessionMiddleware H next r w = (Ret resp, w')"
  shows "\<exists>resp1. next (r\<lparr>rq_TempSession := Some (temp_session_info H r)\<rparr>) w = (Ret resp1, w') \<and>
    rs_Body resp1 = rs_Body resp"
  using assms
  by (auto simp: TempSessionMiddleware_def with_cookies_def call_def throw_def ret_def Let_def
      split: if_splits prod.splits res.splits)

text \<open>A connection that was taken over was taken over by the next handler.\<close>

lemma AuthMiddleware_passes:
  assumes "AuthMiddleware (auth_conn E) debug next r w = (Ret resp, w')" "rq_Method r \<noteq> ''OPTIONS''"
    and "rs_Body resp = Upgraded u"
  shows "\<exists>r' w1. quiet w w1 \<and> authorised (session_view (lib_unmarshalSession E) w) debug r r' \<and>
    next r' w1 = (Ret resp, w')"
proof -
  obtain r1 w1 where l: "AuthHandler_IsLoggedIn (auth_conn E) r w = (r1, w1)" by fastforce
  note L = IsLoggedIn_session [OF l]
  show ?thesis
  proof (cases r1)
    case (Ret s)
    then show ?thesis
      using assms L
      by (auto simp: AuthMiddleware_def Let_def call_def l ret_def sendJSONResponse_def
          authorised_def split: if_splits)
  next
    case (Fail e)
    then show ?thesis
      using assms L
      by (auto simp: AuthMiddleware_def Let_def call_def l ret_def sendJSONResponse_def
          authorised_def open_path_def split: if_splits)
  qed (use L in simp)
qed

lemma ServeWs_user:
  assumes "WSHandler_ServeWs ML r w = (Ret resp, w')" "rs_Body resp = Upgraded u"
  shows "u = ctx_userID r \<and> w' = w"
  using assms by (auto simp: WSHandler_ServeWs_def text_response_def act split: option.splits)

text \<open>Hypothesis on the router: a template without variables matches only itself.\<close>

definition literal_ws_route :: "main_libs \<Rightarrow> bool" where
  "literal_ws_route ML \<longleftrightarrow> (\<forall>p. mn_matches ML ''/api/ws'' p \<noteq> None \<longrightarrow> p = ''/api/ws'')"

lemma ws_connects_session_user:
  assumes run: "main_router ML E H V debug uploads r w = ((x, w'), log, evs)" "ev \<in> set evs"
    and literal: "literal_ws_route ML"
  shows "\<exists>sid s. r_Cookie r ''session_id'' = Some sid \<and>
    session_view (lib_unmarshalSession E) w sid = Some s \<and> ev = Add (se_UserID s) \<and>
    evs = [Add (se_UserID s)] \<and> rq_Path r = ''/api/ws'' \<and> quiet w w'"
proof -
  obtain route t vars where f: "main_find (mn_matches ML) (rq_Method r) (rq_Path r) = Some (route, t, vars)"
    using run by (auto simp: main_router_def split: if_splits option.splits)
  let ?r = "r\<lparr>rq_Vars := vars, rq_UserID := None, rq_TempSession := None\<rparr>"
  have ans: "main_handler ML E H V debug uploads route ?r w = (x, w')"
    using run f HTTPMiddleware_answer [of main_metrics "Some t" "main_handler ML E H V debug uploads route" ?r w]
    by (auto simp: main_router_def split: if_splits prod.splits)
  have "\<exists>resp u. route = Route_Ws \<and> x = Ret resp \<and> rs_Body resp = Upgraded u \<and> evs = [Add u]"
    using run f
    by (auto simp: main_router_def split: if_splits prod.splits main_route.splits res.splits payload.splits)
  then obtain resp u where x: "route = Route_Ws" "x = Ret resp" "rs_Body resp = Upgraded u" "evs = [Add u]"
    by blast
  have path: "rq_Path r = ''/api/ws''"
    using f x(1) literal by (auto simp: main_find_def literal_ws_route_def split: if_splits option.splits)
  have no_options: "rq_Method ?r \<noteq> ''OPTIONS''"
    using ans x by (auto simp: api_middlewares_def CorsMiddleware_def ret_def)
  have "AuthMiddleware (auth_conn E) debug (TempSessionMiddleware H (WSHandler_ServeWs ML)) ?r w = (x, w')"
    using ans x(1) no_options by (simp add: api_middlewares_def CorsMiddleware_def)
  from AuthMiddleware_passes [OF this [unfolded x(2)] no_options x(3)]
  obtain r1 w1 where g: "quiet w w1" "authorised (session_view (lib_unmarshalSession E) w) debug ?r r1"
      "TempSessionMiddleware H (WSHandler_ServeWs ML) r1 w1 = (Ret resp, w')"
    by auto
  from TempSession_body [OF g(3)] obtain resp1 where
      "WSHandler_ServeWs ML (r1\<lparr>rq_TempSession := Some (temp_session_info H r1)\<rparr>) w1 = (Ret resp1, w')"
      "rs_Body resp1 = Upgraded u"
    using x(3) by auto
  from ServeWs_user [OF this] have u: "u = ctx_userID r1" "w' = w1"
    by (simp_all add: ctx_userID_def)
  have closed: "\<not> open_path (rq_Path ?r)" using path by (simp add: open_path_def AllowedPathsWithOutAuth_def)
  show ?thesis
    using g(1,2) closed u path x run(2) by (auto simp: authorised_def r_Cookie_def ctx_userID_def)
qed

end
