(* ===== verification/Interceptors.thy ===== *)
theory Interceptors
  imports Metrics
begin

text \<open>
  The interceptors of gRPC calls (src/internal/grpc/middleware.go) and how the processes chain them with
  the metrics (src/cmd/auth/main.go, src/cmd/friend/main.go, src/cmd/profile/main.go). A context is what
  the program keeps in it: the user id, the request id, and the fields of its logger. Metadata is a map
  from keys to values; the transport between client and server is a function \<open>wire\<close> on it.
\<close>

type_synonym metadata = "string \<Rightarrow> string list"

record grpc_context =
  gx_userID :: "int32 option"
  gx_requestID :: "string option"
  gx_logger :: "(string \<times> string) list"

subsection \<open>A number whose error is ignored\<close>

text \<open>
  \<open>strconv.Atoi\<close> as a value: 0 for what is no number, the nearest bound for one that does not fit 64
  bits. The loop ends at the first character that is no digit, or at the first digit that overflows.
\<close>

fun scan_uint64 :: "int \<Rightarrow> string \<Rightarrow> int option" where
  "scan_uint64 acc [] = Some acc"
| "scan_uint64 acc (c # cs) =
     (case digit_value c of
        None \<Rightarrow> None
      | Some d \<Rightarrow> if 10 * acc + int d \<ge> 2 ^ 64 then Some (2 ^ 64 - 1)
                  else scan_uint64 (10 * acc + int d) cs)"

definition strconv_Atoi_value :: "string \<Rightarrow> int" where
  "strconv_Atoi_value s =
     (let (neg, ds) =
        (case s of [] \<Rightarrow> (False, s)
         | c # cs \<Rightarrow> if c = CHR ''-'' then (True, cs)
                     else if c = CHR ''+'' then (False, cs) else (False, s))
      in if ds = [] then 0
         else case scan_uint64 0 ds of
           None \<Rightarrow> 0
         | Some n \<Rightarrow> if \<not> neg \<and> n \<ge> 2 ^ 63 then 2 ^ 63 - 1
                     else if neg \<and> n > 2 ^ 63 then - (2 ^ 63)
                     else if neg then - n else n)"

lemma parse_digits_le: "parse_digits a s = Some n \<Longrightarrow> a \<le> n"
  by (induction a s rule: parse_digits.induct) (auto split: option.splits)

lemma scan_uint64_parse:
  "parse_digits a s = Some n \<Longrightarrow> int n < 2 ^ 64 \<Longrightarrow> scan_uint64 (int a) s = Some (int n)"
proof (induction a s rule: parse_digits.induct)
  case (2 acc c cs)
  then obtain d where d: "digit_value c = Some d" "parse_digits (10 * acc + d) cs = Some n"
    by (auto split: option.splits)
  have "10 * acc + d \<le> n" using parse_digits_le [OF d(2)] .
  then have "10 * int acc + int d < 2 ^ 64" using "2.prems"(2) by linarith
  moreover have "scan_uint64 (int (10 * acc + d)) cs = Some (int n)"
    using "2.IH" [OF d] "2.prems"(2) .
  ultimately show ?case by (simp add: d(1))
qed simp

lemma Atoi_value:
  assumes "strconv_Atoi s = Some i"
  shows "strconv_Atoi_value s = i"
proof -
  obtain neg ds where split: "(case s of [] \<Rightarrow> (False, s)
      | c # cs \<Rightarrow> if c = CHR ''-'' then (True, cs) else if c = CHR ''+'' then (False, cs) else (False, s)) = (neg, ds)"
    by fastforce
  obtain n where n: "ds \<noteq> []" "parse_digits 0 ds = Some n" "i = (if neg then - int n else int n)"
      "- (2 ^ 63) \<le> i" "i < 2 ^ 63"
    using assms unfolding strconv_Atoi_def split
    by (auto simp: unsigned_value_def Let_def split: option.splits if_splits)
  have "scan_uint64 0 ds = Some (int n)"
    using scan_uint64_parse [OF n(2)] n(3-5) by (simp split: if_splits)
  then show ?thesis
    unfolding strconv_Atoi_value_def split using n by (cases neg) (auto simp: Let_def)
qed

subsection \<open>The interceptors\<close>

text \<open>What the handler's context holds in the main process: the request id drawn for the request by the
  logging middleware (src/internal/handler/middleware.go), and the user of the auth middleware.\<close>

definition LoggingMiddleware_context :: "string \<Rightarrow> http_request \<Rightarrow> grpc_context" where
  "LoggingMiddleware_context reqID r =
     \<lparr>gx_userID = rq_UserID r, gx_requestID = Some reqID, gx_logger = [(''requestID'', reqID)]\<rparr>"

definition ClientUnaryInterceptor :: "grpc_context \<Rightarrow> (metadata \<Rightarrow> 'a) \<Rightarrow> 'a" where
  "ClientUnaryInterceptor ctx invoker =
     (let userID = (case gx_userID ctx of None \<Rightarrow> 0 | Some u \<Rightarrow> u);
          reqID = (case gx_requestID ctx of None \<Rightarrow> [] | Some s \<Rightarrow> s);
          md = (\<lambda>_. [])(''request-id'' := [reqID], ''user-id'' := [strconv_Itoa (sint userID)])
      in invoker md)"

definition ServerUnaryInterceptor :: "metadata \<Rightarrow> (grpc_context \<Rightarrow> 'a) \<Rightarrow> 'a" where
  "ServerUnaryInterceptor md handler =
     (let reqID = (case md ''request-id'' of [] \<Rightarrow> [] | v # _ \<Rightarrow> v);
          userID = (case md ''user-id'' of [] \<Rightarrow> (0 :: int32)
                    | v # _ \<Rightarrow> word_of_int (strconv_Atoi_value v));
          ctx = \<lparr>gx_userID = Some userID, gx_requestID = None,
                 gx_logger = [(''requestID'', reqID), (''selfUserID'', strconv_Itoa (sint userID))]\<rparr>
      in handler ctx)"

text \<open>The server of a process: the metrics run inside the other interceptor.\<close>

definition grpc_server_chain ::
    "GRPCMetrics \<Rightarrow> string \<Rightarrow> metadata \<Rightarrow> (grpc_context \<Rightarrow> 'a action) \<Rightarrow> world \<Rightarrow>
     ('a res \<times> world) \<times> metric_log" where
  "grpc_server_chain m fullMethod md handler =
     ServerUnaryInterceptor md (\<lambda>ctx. GRPCMetrics_UnaryServerInterceptor m fullMethod (handler ctx))"

subsection \<open>What a call carries\<close>

text \<open>Hypothesis on the transport: the two keys arrive with their values.\<close>

definition metadata_arrives :: "(metadata \<Rightarrow> metadata) \<Rightarrow> bool" where
  "metadata_arrives wire \<longleftrightarrow>
     (\<forall>md. wire md ''request-id'' = md ''request-id'' \<and> wire md ''user-id'' = md ''user-id'')"

definition received_context :: "grpc_context \<Rightarrow> grpc_context" where
  "received_context ctx =
     (let userID = (case gx_userID ctx of None \<Rightarrow> 0 | Some u \<Rightarrow> u)
      in \<lparr>gx_userID = Some userID, gx_requestID = None,
          gx_logger = [(''requestID'', case gx_requestID ctx of None \<Rightarrow> [] | Some s \<Rightarrow> s),
                       (''selfUserID'', strconv_Itoa (sint userID))]\<rparr>)"

lemma hop_context:
  assumes "metadata_arrives wire"
  shows "ClientUnaryInterceptor ctx (\<lambda>md. ServerUnaryInterceptor (wire md) handler) = handler (received_context ctx)"
proof -
  have "strconv_Atoi_value (strconv_Itoa (sint (u :: int32))) = sint u" for u
    by (rule Atoi_value) simp
  then show ?thesis
    using assms
    by (simp add: ClientUnaryInterceptor_def ServerUnaryInterceptor_def received_context_def
        metadata_arrives_def Let_def)
qed

lemma GRPC_answer: "fst (GRPCMetrics_UnaryServerInterceptor m f h w) = h w"
  by (simp add: GRPCMetrics_UnaryServerInterceptor_def Let_def split: prod.split)

text \<open>The counter of statuses counts the code of the error that the call returns.\<close>

definition returned_code :: "'a res \<Rightarrow> grpc_code list" where
  "returned_code x = (case x of Ret _ \<Rightarrow> [Code_OK] | Fail e \<Rightarrow> [status_Code (Some e)] | Panic \<Rightarrow> [])"

lemma GRPC_counts:
  assumes "GRPCMetrics_UnaryServerInterceptor (NewGRPCMetrics s) f h w = ((x, w'), log)"
  shows "incs (gm_StatusCodes (NewGRPCMetrics s)) log =
      map (\<lambda>c. [s, grpcCodeToStatusClass c, code_name c]) (returned_code x)"
    and "incs (gm_GRPCRequestsErrors (NewGRPCMetrics s)) log = (case x of
      Fail e \<Rightarrow> [[fst (parseGRPCMethod f), snd (parseGRPCMethod f), s,
        grpcCodeToErrorType (status_Code (Some e)), code_name (status_Code (Some e))]] | _ \<Rightarrow> [])"
  using assms
  by (auto simp: GRPCMetrics_UnaryServerInterceptor_def GRPCMetrics_recordAllMetrics_def NewGRPCMetrics_def
      returned_code_def Let_def split: prod.splits res.splits)

text \<open>A context that came over one hop has no request id any more: the next hop sends an empty one.\<close>

lemma second_hop_loses_request_id:
  assumes "metadata_arrives wire"
  shows "ClientUnaryInterceptor ctx (\<lambda>md. ServerUnaryInterceptor (wire md) (\<lambda>ctx1.
      ClientUnaryInterceptor ctx1 (\<lambda>md1. ServerUnaryInterceptor (wire md1) gx_logger))) =
    [(''requestID'', []), (''selfUserID'', strconv_Itoa (sint (case gx_userID ctx of None \<Rightarrow> 0 | Some u \<Rightarrow> u)))]"
  by (simp add: hop_context [OF assms] received_context_def Let_def)

end
