(* ===== verification/Config.thy ===== *)
theory Config
  imports Prelude
begin

text \<open>
  The configuration (src/config/config.go): a record of strings computed from the environment. The
  environment is a function from names to values, after the .env file was loaded into it; a variable
  that is not set reads as the empty string.
\<close>

record Config =
  cf_Env :: string
  cf_PostgresURL :: string
  cf_RedisURL :: string
  cf_ElasticUser :: string
  cf_ElasticPassword :: string
  cf_ElasticPort :: string
  cf_ElasticIndexesPath :: string
  cf_Debug :: bool
  cf_LogLevel :: string
  cf_FrontendOrigin :: string
  cf_MigrationsPath :: string
  cf_Origin :: string
  cf_AuthService :: string
  cf_FriendService :: string
  cf_ProfileService :: string
  cf_MainService :: string

definition NewConfig :: "(string \<Rightarrow> string) \<Rightarrow> Config" where
  "NewConfig os_Getenv =
     (let dbUser = os_Getenv ''DB_USER'';
          dbPassword = os_Getenv ''DB_PASSWORD'';
          dbHost = os_Getenv ''DB_HOST'';
          dbPort = os_Getenv ''DB_PORT'';
          dbName = os_Getenv ''DB_NAME'';
          dbSSLMode = os_Getenv ''DB_SSLMODE'';
          postgresURL = ''postgres://'' @ dbUser @ '':'' @ dbPassword @ ''@'' @ dbHost @ '':'' @ dbPort @
            ''/'' @ dbName @ ''?sslmode='' @ dbSSLMode;
          redisURL = ''redis://:'' @ os_Getenv ''REDIS_PASSWORD'' @ ''@'' @ os_Getenv ''REDIS_HOST'' @ '':'' @
            os_Getenv ''REDIS_PORT'' @ ''/'' @ os_Getenv ''REDIS_DB''
      in \<lparr>cf_Env = os_Getenv ''APP_ENV'',
          cf_PostgresURL = postgresURL,
          cf_RedisURL = redisURL,
          cf_ElasticUser = os_Getenv ''ELASTIC_USER'',
          cf_ElasticPassword = os_Getenv ''ELASTIC_PASSWORD'',
          cf_ElasticPort = os_Getenv ''ELASTIC_PORT'',
          cf_ElasticIndexesPath = os_Getenv ''ELASTIC_INDEXES_PATH'',
          cf_Debug = (os_Getenv ''APP_ENV'' \<noteq> ''prod''),
          cf_LogLevel = os_Getenv ''LOG_LEVEL'',
          cf_FrontendOrigin = os_Getenv ''FRONTEND_ORIGIN'',
          cf_MigrationsPath = ''file://'' @ os_Getenv ''MIGRATIONS_PATH'',
          cf_Origin = os_Getenv ''ORIGIN'',
          cf_AuthService = ''auth:50050'',
          cf_FriendService = ''friend:50050'',
          cf_ProfileService = ''profile:50050'',
          cf_MainService = ''main:50050''\<rparr>)"

lemma NewConfig_Debug: "cf_Debug (NewConfig env) \<longleftrightarrow> env ''APP_ENV'' \<noteq> ''prod''"
  by (simp add: NewConfig_def Let_def)

text \<open>
  The logger (src/cmd/logger/logger.go) is configured from it: the encoding, the lowest level that is
  written, and where to.
\<close>

datatype log_level = DebugLevel | InfoLevel

record zap_Config =
  zap_Encoding :: string
  zap_Level :: log_level
  zap_OutputPaths :: "string list"

definition NewLogger :: "Config \<Rightarrow> zap_Config" where
  "NewLogger config =
     (let isDebug = cf_Debug config
      in if isDebug
         then \<lparr>zap_Encoding = ''console'', zap_Level = DebugLevel,
                zap_OutputPaths = [''stdout'', ''logs/main.log'']\<rparr>
         else \<lparr>zap_Encoding = ''json'', zap_Level = InfoLevel,
                zap_OutputPaths = [''stdout'', ''logs/main.log'']\<rparr>)"

end
