(* ===== verification/Startup.thy ===== *)
theory Startup
  imports Serving Interceptors Config
begin

text \<open>
  How a process starts: waiting for a gRPC server (src/cmd/grpcclient/client.go), connecting to the
  stores (src/cmd/dbconn/db.go), and the \<open>main\<close> of the HTTP process (src/cmd/main/main.go). A start ends
  with a running server, with \<open>log.Fatalf\<close> at one of its steps, or with a panic. Drivers
  and the dialing of gRPC are parameters: actions that return a connection or an error.
\<close>

datatype startup_step =
  Open_Postgres | Ping_Postgres | Elastic_Client | Elastic_Info
| Wait_Profile | Wait_Auth | Wait_Friend | Listen

datatype 'a startup = Started 'a | Fatal startup_step go_error | Crashed

subsection \<open>Waiting for a server\<close>

text \<open>
  The loop over the attempts that are left, with the last error. What it returns: the client and the
  connection, both absent after the last failure, and the error.
\<close>

fun WaitForGRPC_loop ::
    "'c action \<Rightarrow> ('c \<Rightarrow> 't) \<Rightarrow> int \<Rightarrow> nat \<Rightarrow> go_error option \<Rightarrow> (('t \<times> 'c) option \<times> go_error option) action"
  where
  "WaitForGRPC_loop dial constructor delay 0 lastErr = ret (None, lastErr)"
| "WaitForGRPC_loop dial constructor delay (Suc n) lastErr =
     call dial
       (\<lambda>err w. WaitForGRPC_loop dial constructor delay n (Some err) (w\<lparr>clock := clock w + delay\<rparr>))
       (\<lambda>conn. ret (Some (constructor conn, conn), None))"

definition WaitForGRPC ::
    "(string \<Rightarrow> 'c action) \<Rightarrow> string \<Rightarrow> ('c \<Rightarrow> 't) \<Rightarrow> int \<Rightarrow> int \<Rightarrow> (('t \<times> 'c) option \<times> go_error option) action"
  where
  "WaitForGRPC dial addr constructor retries delay =
     WaitForGRPC_loop (dial addr) constructor delay (nat retries) None"

text \<open>
  A server that answers the attempt numbered \<open>k\<close> first: the client after \<open>k\<close> pauses, or the error of
  the last attempt after all of them.
\<close>

definition refusals :: "world \<Rightarrow> nat" where
  "refusals w = length (takeWhile (\<lambda>f. f \<noteq> None) (faults w))"

lemma refusals_Cons:
  "next_fault w = Some m \<Longrightarrow> refusals w = Suc (refusals (tick w\<lparr>clock := t\<rparr>))"
  "next_fault w = None \<Longrightarrow> refusals w = 0"
  by (auto simp: refusals_def next_fault_def tick_def split: list.splits)

lemma WaitForGRPC_loop_answer:
  assumes "refusals w < n"
  shows "\<exists>w'. WaitForGRPC_loop (external Plain (ret c)) K delay n e w = (Ret (Some (K c, c), None), w') \<and>
    clock w' = clock w + int (refusals w) * delay \<and> db w' = db w"
  using assms
proof (induction n arbitrary: e w)
  case (Suc n)
  show ?case
  proof (cases "next_fault w")
    case None
    then show ?thesis by (simp add: act refusals_Cons(2) tick_def)
  next
    case (Some m)
    let ?w = "tick w\<lparr>clock := clock (tick w) + delay\<rparr>"
    have k: "refusals w = Suc (refusals ?w)" using refusals_Cons(1) [OF Some] .
    with Suc.prems have "refusals ?w < n" by simp
    from Suc.IH [OF this, of "Some (Plain m)"] show ?thesis
      using Some k by (auto simp: act tick_def algebra_simps)
  qed
qed simp

lemma WaitForGRPC_loop_gives_up:
  assumes "n \<le> refusals w" "0 < n"
  shows "\<exists>w' m. WaitForGRPC_loop (external Plain (ret c)) K delay n e w = (Ret (None, Some (Plain m)), w') \<and>
    faults w ! (n - 1) = Some m \<and> clock w' = clock w + int n * delay \<and> db w' = db w"
  using assms
proof (induction n arbitrary: e w)
  case (Suc n)
  then obtain m where m: "next_fault w = Some m"
    using refusals_Cons(2) [of w] by (cases "next_fault w") auto
  let ?w = "tick w\<lparr>clock := clock (tick w) + delay\<rparr>"
  have k: "refusals w = Suc (refusals ?w)" using refusals_Cons(1) [OF m] .
  have step: "WaitForGRPC_loop (external Plain (ret c)) K delay (Suc n) e w =
      WaitForGRPC_loop (external Plain (ret c)) K delay n (Some (Plain m)) ?w"
    using m by (simp add: act)
  show ?case
  proof (cases "n = 0")
    case True
    then show ?thesis
      using m unfolding step by (auto simp: ret_def tick_def next_fault_def split: list.splits)
  next
    case False
    have "faults w ! n = faults ?w ! (n - 1)"
      using m False by (cases "faults w"; cases n) (auto simp: next_fault_def tick_def)
    then show ?thesis
      using Suc.IH [of ?w "Some (Plain m)"] Suc.prems k False
      unfolding step by (auto simp: tick_def algebra_simps)
  qed
qed simp

text \<open>Without attempts there is neither a client nor an error.\<close>

lemma WaitForGRPC_no_retries: "retries \<le> 0 \<Longrightarrow> WaitForGRPC dial addr K retries delay w = (Ret (None, None), w)"
  by (simp add: WaitForGRPC_def ret_def)

subsection \<open>Connections\<close>

record drivers =
  dr_Open :: "string \<Rightarrow> unit action"
  dr_Ping :: "unit action"
  dr_NewClient :: "string \<Rightarrow> string \<Rightarrow> string \<Rightarrow> unit action"
  dr_Info :: "unit action"
  dr_Dial :: "string \<Rightarrow> unit action"
  dr_Listen :: "string \<Rightarrow> unit action"

type_synonym 'a start = "world \<Rightarrow> 'a startup \<times> world"

definition start_call :: "'a action \<Rightarrow> startup_step \<Rightarrow> ('a \<Rightarrow> 'b start) \<Rightarrow> 'b start" where
  "start_call m step k w =
     (case m w of
        (Ret x, w') \<Rightarrow> k x w'
      | (Fail err, w') \<Rightarrow> (Fatal step err, w')
      | (Panic, w') \<Rightarrow> (Crashed, w'))"

definition NewPostgres :: "drivers \<Rightarrow> string \<Rightarrow> 'b start \<Rightarrow> 'b start" where
  "NewPostgres dr dataSourceName k =
     start_call (dr_Open dr dataSourceName) Open_Postgres
     (\<lambda>_. start_call (dr_Ping dr) Ping_Postgres (\<lambda>_. k))"

text \<open>The pool dials when a connection is first borrowed.\<close>

record redis_pool =
  rp_MaxIdle :: nat
  rp_MaxActive :: nat
  rp_IdleTimeout :: int
  rp_DialURL :: string

definition NewRedisPool :: "string \<Rightarrow> redis_pool" where
  "NewRedisPool dataSourceName =
     \<lparr>rp_MaxIdle = 10, rp_MaxActive = 50, rp_IdleTimeout = 240, rp_DialURL = dataSourceName\<rparr>"

definition NewElastic :: "drivers \<Rightarrow> Config \<Rightarrow> 'b start \<Rightarrow> 'b start" where
  "NewElastic dr config k =
     start_call (dr_NewClient dr (''http://elasticsearch:'' @ cf_ElasticPort config)
       (cf_ElasticUser config) (cf_ElasticPassword config)) Elastic_Client
     (\<lambda>_. start_call (dr_Info dr) Elastic_Info (\<lambda>_. k))"

text \<open>\<open>if err != nil { log.Fatalf }\<close> after \<open>WaitForGRPC\<close> with ten attempts, two seconds apart.\<close>

definition connect_grpc :: "drivers \<Rightarrow> string \<Rightarrow> startup_step \<Rightarrow> 'b start \<Rightarrow> 'b start" where
  "connect_grpc dr addr step k w =
     (case WaitForGRPC (dr_Dial dr) addr (\<lambda>c. c) 10 2 w of
        (Ret (client, None), w') \<Rightarrow> k w'
      | (Ret (client, Some err), w') \<Rightarrow> (Fatal step err, w')
      | (Fail err, w') \<Rightarrow> (Fatal step err, w')
      | (Panic, w') \<Rightarrow> (Crashed, w'))"

subsection \<open>The main process\<close>

text \<open>What a started process serves requests with.\<close>

type_synonym server =
  "http_request \<Rightarrow> world \<Rightarrow> (http_response res \<times> world) \<times> metric_log \<times> hub_event list"

definition main_start ::
    "drivers \<Rightarrow> (string \<Rightarrow> string) \<Rightarrow> main_libs \<Rightarrow> libraries \<Rightarrow> http_libs \<Rightarrow> validators \<Rightarrow> server start" where
  "main_start dr os_Getenv ML E H V =
     (let config = NewConfig os_Getenv
      in NewPostgres dr (cf_PostgresURL config)
        (NewElastic dr config
        (connect_grpc dr (cf_ProfileService config) Wait_Profile
        (connect_grpc dr (cf_AuthService config) Wait_Auth
        (connect_grpc dr (cf_FriendService config) Wait_Friend
        (\<lambda>w. case UploadsHandler ''./uploads'' ''/uploads/'' w of
               (Ret uploads, w') \<Rightarrow> (Started (main_router ML E H V (cf_Debug config) uploads), w')
             | (_, w') \<Rightarrow> (Crashed, w')))))))"

lemma start_call_Started:
  "start_call m step k w = (Started x, w') \<Longrightarrow> \<exists>y w1. m w = (Ret y, w1) \<and> k y w1 = (Started x, w')"
  by (auto simp: start_call_def split: prod.splits res.splits)

lemma connect_grpc_Started:
  "connect_grpc dr addr step k w = (Started x, w') \<Longrightarrow>
   \<exists>c w1. WaitForGRPC (dr_Dial dr) addr (\<lambda>c. c) 10 2 w = (Ret (c, None), w1) \<and> k w1 = (Started x, w')"
  by (auto simp: connect_grpc_def split: prod.splits res.splits option.splits)

lemma main_start_server:
  assumes "main_start dr env ML E H V w = (Started serve, w')"
  shows "\<exists>uploads. serve = main_router ML E H V (env ''APP_ENV'' \<noteq> ''prod'') uploads"
  using assms
  by (auto simp: main_start_def NewPostgres_def NewElastic_def Let_def NewConfig_Debug
      dest!: start_call_Started connect_grpc_Started split: prod.splits res.splits)

subsection \<open>The gRPC processes\<close>

text \<open>
  What each of the other processes serves: its service, its metrics and the address it listens on. They
  wait for the processes they call: auth for profile, friend for profile and auth.
\<close>

record 's grpc_process =
  gp_service :: 's
  gp_metrics :: GRPCMetrics
  gp_address :: string

definition listen :: "drivers \<Rightarrow> string \<Rightarrow> GRPCMetrics \<Rightarrow> 's \<Rightarrow> 's grpc_process start" where
  "listen dr addr m service =
     start_call (dr_Listen dr addr) Listen
     (\<lambda>_ w. (Started \<lparr>gp_service = service, gp_metrics = m, gp_address = addr\<rparr>, w))"

definition profile_start :: "drivers \<Rightarrow> (string \<Rightarrow> string) \<Rightarrow> libraries \<Rightarrow> ProfileService grpc_process start"
  where
  "profile_start dr os_Getenv E =
     (let cfg = NewConfig os_Getenv; profileMetrics = NewGRPCMetrics ''profile-service''
      in NewPostgres dr (cf_PostgresURL cfg)
        (NewElastic dr cfg
        (listen dr (cf_ProfileService cfg) profileMetrics (profile_main E))))"

definition auth_start :: "drivers \<Rightarrow> (string \<Rightarrow> string) \<Rightarrow> libraries \<Rightarrow> AuthService grpc_process start" where
  "auth_start dr os_Getenv E =
     (let cfg = NewConfig os_Getenv; authMetrics = NewGRPCMetrics ''auth-service''
      in NewPostgres dr (cf_PostgresURL cfg)
        (NewElastic dr cfg
        (connect_grpc dr (cf_ProfileService cfg) Wait_Profile
        (listen dr (cf_AuthService cfg) authMetrics (auth_main E)))))"

definition friend_start :: "drivers \<Rightarrow> (string \<Rightarrow> string) \<Rightarrow> libraries \<Rightarrow> FriendService grpc_process start"
  where
  "friend_start dr os_Getenv E =
     (let cfg = NewConfig os_Getenv; friendMetrics = NewGRPCMetrics ''friend-service''
      in NewPostgres dr (cf_PostgresURL cfg)
        (NewElastic dr cfg
        (connect_grpc dr (cf_ProfileService cfg) Wait_Profile
        (connect_grpc dr (cf_AuthService cfg) Wait_Auth
        (listen dr (cf_FriendService cfg) friendMetrics (friend_main E))))))"

text \<open>Their HTTP side: health and metrics, on every method.\<close>

definition grpc_health :: "main_libs \<Rightarrow> http_handler" where
  "grpc_health ML r =
     (if rq_Path r = ''/health'' then ret (text_response (http_OK, ''{\"status\": \"healthy\"}''))
      else if rq_Path r = ''/metrics'' then ret (text_response (mn_promhttp ML r))
      else ret (text_response (http_NotFound, ''404 page not found'')))"

text \<open>A started process listens where the others look for it, and no two are at one address.\<close>

lemma started_processes:
  "profile_start dr env E w = (Started p, w') \<Longrightarrow>
     gp_service p = profile_main E \<and> gp_address p = cf_ProfileService (NewConfig env)"
  "auth_start dr env E w = (Started a, w') \<Longrightarrow>
     gp_service a = auth_main E \<and> gp_address a = cf_AuthService (NewConfig env)"
  "friend_start dr env E w = (Started f, w') \<Longrightarrow>
     gp_service f = friend_main E \<and> gp_address f = cf_FriendService (NewConfig env)"
  by (auto simp: profile_start_def auth_start_def friend_start_def NewPostgres_def NewElastic_def
      listen_def Let_def dest!: start_call_Started connect_grpc_Started)

lemma addresses_distinct:
  "distinct [cf_ProfileService (NewConfig env), cf_AuthService (NewConfig env),
     cf_FriendService (NewConfig env), cf_MainService (NewConfig env)]"
  by (simp add: NewConfig_def Let_def)

text \<open>Starting does not depend on the order: a server may come up after its clients have begun to wait.\<close>

lemma connect_grpc_patient:
  assumes "dr_Dial dr = (\<lambda>_. external Plain (ret ()))" "refusals w < 10"
  shows "\<exists>w'. connect_grpc dr addr step k w = k w' \<and> clock w' = clock w + 2 * int (refusals w)"
proof -
  have "refusals w < nat 10" using assms(2) by simp
  from WaitForGRPC_loop_answer [OF this, of "()" "\<lambda>c. c" 2 None] show ?thesis
    by (auto simp: connect_grpc_def WaitForGRPC_def assms(1))
qed

subsection \<open>Headers of every response\<close>

definition CorsMiddleware_headers :: "Config \<Rightarrow> (string \<times> string) list" where
  "CorsMiddleware_headers config =
     [(''Access-Control-Allow-Origin'', cf_FrontendOrigin config),
      (''Access-Control-Allow-Credentials'', ''true''),
      (''Access-Control-Allow-Headers'', ''Content-Type, Authorization, X-CSRF-Token, X-Requested-With''),
      (''Access-Control-Allow-Methods'', ''GET, POST, OPTIONS, PUT, DELETE'')]"

definition SecureMiddleware_headers :: "(string \<times> string) list" where
  "SecureMiddleware_headers =
     [(''X-Content-Type-Options'', ''nosniff''), (''X-Frame-Options'', ''DENY''),
      (''X-XSS-Protection'', ''1; mode=block''), (''Referrer-Policy'', ''no-referrer''),
      (''Permissions-Policy'', ''geolocation=(), microphone=()''),
      (''Content-Security-Policy'',
       ''default-src 'self'; script-src 'self'; style-src 'self'; object-src 'none';'')]"

text \<open>
  The headers set before the handler of a route runs. A preflight request ends in the first middleware.
\<close>

definition main_headers :: "Config \<Rightarrow> main_route \<Rightarrow> http_request \<Rightarrow> (string \<times> string) list" where
  "main_headers config route r =
     CorsMiddleware_headers config @
     (if rq_Method r = ''OPTIONS'' then []
      else case route of
        Route_Api _ \<Rightarrow> SecureMiddleware_headers
      | Route_Ws \<Rightarrow> SecureMiddleware_headers
      | _ \<Rightarrow> [])"

text \<open>Credentials are allowed to the configured origin only, on every route.\<close>

lemma main_headers_origin:
  "map_of (main_headers config route r) ''Access-Control-Allow-Origin'' = Some (cf_FrontendOrigin config)"
  "rq_Method r \<noteq> ''OPTIONS'' \<Longrightarrow> map_of (main_headers config (Route_Api x) r) ''X-Frame-Options'' = Some ''DENY''"
  by (simp_all add: main_headers_def CorsMiddleware_headers_def SecureMiddleware_headers_def)

subsection \<open>Production\<close>

text \<open>
  In production a request to the API with an unsafe method needs the token of its session: without one
  it is refusals, and nothing changes.
\<close>

lemma unsafe_needs_token:
  assumes "NewApiRouter matches E H V False r w = (x, w')"
    and "rq_Method r \<notin> set SafeMethods" "\<not> open_path (rq_Path r)"
    and token: "\<And>sid s. r_Cookie r ''session_id'' = Some sid \<Longrightarrow>
      session_view (lib_unmarshalSession E) w sid = Some s \<Longrightarrow> rq_Header r ''X-CSRF-Token'' \<noteq> se_CSRFToken s"
  shows "quiet w w' \<and> status_of x \<in> {Some 403, Some 404, Some 405, Some 500}"
proof -
  have "rq_Method r \<noteq> ''OPTIONS''" using assms(2) by (auto simp: SafeMethods_def)
  from router_guards [OF assms(1) this] show ?thesis
    using assms(2,3) token by (auto simp: acts_as_def)
qed

end
