(* ===== verification/Migrations.thy ===== *)
theory Migrations
  imports Config Errors
begin

text \<open>
  The migration program (src/cmd/migration/migrate.go). Its state is what the search engine and the
  database keep between runs: the indexes with the configuration they were created with, the version
  of the schema, and the outcome of the next calls to the engine (\<open>Some msg\<close> is a failing call without
  effect). The migrate library is a parameter; the map of configured indexes is iterated in any order.
\<close>

record 'v migration_state =
  ms_indexes :: "string \<Rightarrow> string option"
  ms_faults :: "string option list"
  ms_schema :: 'v

type_synonym ('v, 'a) migration = "'v migration_state \<Rightarrow> (go_error + 'a) \<times> 'v migration_state"

subsection \<open>Calls to the search engine\<close>

definition engine_call :: "('v, 'a) migration \<Rightarrow> ('v, 'a) migration" where
  "engine_call m st =
     (case ms_faults st of
        [] \<Rightarrow> m st
      | f # fs \<Rightarrow>
          (case f of Some msg \<Rightarrow> (Inl (Plain msg), st\<lparr>ms_faults := fs\<rparr>) | None \<Rightarrow> m (st\<lparr>ms_faults := fs\<rparr>)))"

text \<open>The status of the answer: whether the index exists; and whether creating it was an error.\<close>

definition Indices_Exists :: "string \<Rightarrow> ('v, int) migration" where
  "Indices_Exists indexName =
     engine_call (\<lambda>st. (Inr (if ms_indexes st indexName \<noteq> None then 200 else 404), st))"

definition Indices_Create :: "(string \<Rightarrow> bool) \<Rightarrow> string \<Rightarrow> string \<Rightarrow> ('v, bool) migration" where
  "Indices_Create accepts indexName body = engine_call (\<lambda>st.
     if ms_indexes st indexName \<noteq> None \<or> \<not> accepts body then (Inr True, st)
     else (Inr False, st\<lparr>ms_indexes := (ms_indexes st)(indexName \<mapsto> body)\<rparr>))"

subsection \<open>Creating the indexes\<close>

fun CreateIndexes_loop :: "(string \<Rightarrow> bool) \<Rightarrow> (string \<times> string) list \<Rightarrow> ('v, unit) migration" where
  "CreateIndexes_loop accepts [] st = (Inr (), st)"
| "CreateIndexes_loop accepts ((indexName, indexConfig) # rest) st =
     (case Indices_Exists indexName st of
        (Inl err, st') \<Rightarrow> (Inl err, st')
      | (Inr statusCode, st') \<Rightarrow>
          if statusCode = 200 then CreateIndexes_loop accepts rest st'
          else case Indices_Create accepts indexName indexConfig st' of
            (Inl err, st'') \<Rightarrow> (Inl err, st'')
          | (Inr isError, st'') \<Rightarrow>
              if isError then (Inl (Plain (''error creating index '' @ indexName)), st'')
              else CreateIndexes_loop accepts rest st'')"

text \<open>The configurations are read from a file, which is a JSON object: \<open>Inl\<close> when that fails.\<close>

definition LoadIndexConfigs ::
    "(string \<Rightarrow> go_error + string) \<Rightarrow> (string \<Rightarrow> go_error + (string \<times> string) list) \<Rightarrow> string \<Rightarrow>
     go_error + (string \<times> string) list" where
  "LoadIndexConfigs os_ReadFile unmarshal path =
     (case os_ReadFile path of
        Inl err \<Rightarrow> Inl err
      | Inr data \<Rightarrow> (case unmarshal data of Inl err \<Rightarrow> Inl err | Inr raw \<Rightarrow> Inr raw))"

definition CreateIndexes ::
    "(string \<Rightarrow> go_error + string) \<Rightarrow> (string \<Rightarrow> go_error + (string \<times> string) list) \<Rightarrow> (string \<Rightarrow> bool) \<Rightarrow>
     Config \<Rightarrow> ('v, unit) migration" where
  "CreateIndexes os_ReadFile unmarshal accepts config st =
     (case LoadIndexConfigs os_ReadFile unmarshal (cf_ElasticIndexesPath config) of
        Inl err \<Rightarrow> (Inl err, st)
      | Inr indexConfigs \<Rightarrow> CreateIndexes_loop accepts indexConfigs st)"

subsection \<open>What creating the indexes does\<close>

text \<open>The indexes that a list of configurations asks for beside those that exist.\<close>

definition with_indexes :: "(string \<times> string) list \<Rightarrow> (string \<Rightarrow> string option) \<Rightarrow> string \<Rightarrow> string option"
  where "with_indexes cs ixs = map_of cs ++ ixs"

lemma with_indexes_Cons:
  "distinct (map fst ((n, c) # cs)) \<Longrightarrow>
   with_indexes ((n, c) # cs) ixs = with_indexes cs (if ixs n = None then ixs(n \<mapsto> c) else ixs)"
  by (auto simp: with_indexes_def map_add_def fun_eq_iff split: option.splits
      dest!: map_of_SomeD)

lemma Exists_cases:
  "Indices_Exists n st = (x, st') \<Longrightarrow>
   st' = st\<lparr>ms_faults := ms_faults st'\<rparr> \<and>
   (x = Inr (if ms_indexes st n \<noteq> None then 200 else 404) \<or> (\<exists>msg. x = Inl (Plain msg) \<and> Some msg \<in> set (ms_faults st))) \<and>
   set (ms_faults st') \<subseteq> set (ms_faults st)"
  by (auto simp: Indices_Exists_def engine_call_def split: list.splits option.splits)

lemma Create_cases:
  assumes "Indices_Create accepts n c st = (x, st')"
  shows "(x = Inr False \<and> ms_indexes st n = None \<and> accepts c \<and>
        st' = st\<lparr>ms_faults := ms_faults st', ms_indexes := (ms_indexes st)(n \<mapsto> c)\<rparr>) \<or>
     (x \<noteq> Inr False \<and> st' = st\<lparr>ms_faults := ms_faults st'\<rparr> \<and>
        (ms_indexes st n \<noteq> None \<or> \<not> accepts c \<or> (\<exists>msg. Some msg \<in> set (ms_faults st))))"
    and "set (ms_faults st') \<subseteq> set (ms_faults st)"
  using assms
  by (auto simp: Indices_Create_def engine_call_def split: list.splits option.splits if_splits)

text \<open>
  A run that ends without an error has created exactly the missing indexes. One that fails has created
  some of them, with their configuration, and touched nothing else. Without failing calls, and with
  configurations that the engine accepts, a run does not fail.
\<close>

lemma CreateIndexes_loop_Ret:
  assumes "distinct (map fst cs)" "CreateIndexes_loop accepts cs st = (Inr (), st')"
  shows "ms_indexes st' = with_indexes cs (ms_indexes st) \<and> ms_schema st' = ms_schema st"
  using assms
proof (induction cs arbitrary: st)
  case (Cons p cs)
  obtain n c where p: "p = (n, c)" by fastforce
  obtain x st1 where e: "Indices_Exists n st = (x, st1)" by fastforce
  note E = Exists_cases [OF e]
  have rest: "distinct (map fst cs)" using Cons.prems(1) by simp
  have W: "with_indexes (p # cs) (ms_indexes st) = with_indexes cs
      (if ms_indexes st n = None then (ms_indexes st)(n \<mapsto> c) else ms_indexes st)"
    using with_indexes_Cons Cons.prems(1) p by blast
  have same: "ms_indexes st1 = ms_indexes st" "ms_schema st1 = ms_schema st"
    by (subst conjunct1 [OF E], simp)+
  show ?case
  proof (cases "ms_indexes st n = None")
    case False
    then have "CreateIndexes_loop accepts cs st1 = (Inr (), st')"
      using Cons.prems(2) p e E by (auto split: sum.splits)
    from Cons.IH [OF rest this] show ?thesis using False W same by auto
  next
    case True
    obtain y st2 where c: "Indices_Create accepts n c st1 = (y, st2)" by fastforce
    note C = Create_cases(1) [OF c]
    have y: "y = Inr False" "CreateIndexes_loop accepts cs st2 = (Inr (), st')"
      using Cons.prems(2) p e E True c by (auto split: sum.splits if_splits)
    then have "st2 = st1\<lparr>ms_faults := ms_faults st2, ms_indexes := (ms_indexes st1)(n \<mapsto> c)\<rparr>"
      using C by auto
    then have i2: "ms_indexes st2 = (ms_indexes st)(n \<mapsto> c) \<and> ms_schema st2 = ms_schema st"
      using same by (metis (no_types, lifting) migration_state.select_convs(1,3) migration_state.surjective
          migration_state.update_convs(1,2))
    show ?thesis
      using Cons.IH [OF rest y(2)] unfolding W conjunct1 [OF i2] conjunct2 [OF i2] if_P [OF True] .
  qed
qed (simp add: with_indexes_def)

lemma CreateIndexes_loop_grows:
  assumes "distinct (map fst cs)" "CreateIndexes_loop accepts cs st = (x, st')"
  shows "ms_indexes st \<subseteq>\<^sub>m ms_indexes st' \<and> ms_indexes st' \<subseteq>\<^sub>m with_indexes cs (ms_indexes st) \<and>
    ms_schema st' = ms_schema st"
  using assms
proof (induction cs arbitrary: st)
  case Nil
  then show ?case by (simp add: with_indexes_def)
next
  case (Cons p cs)
  obtain n c where p: "p = (n, c)" by fastforce
  obtain y st1 where e: "Indices_Exists n st = (y, st1)" by fastforce
  note E = Exists_cases [OF e]
  have rest: "distinct (map fst cs)" using Cons.prems(1) by simp
  have W: "with_indexes (p # cs) (ms_indexes st) = with_indexes cs
      (if ms_indexes st n = None then (ms_indexes st)(n \<mapsto> c) else ms_indexes st)"
    using with_indexes_Cons Cons.prems(1) p by blast
  have same: "ms_indexes st1 = ms_indexes st" "ms_schema st1 = ms_schema st"
    by (subst conjunct1 [OF E], simp)+
  have grows: "ixs \<subseteq>\<^sub>m with_indexes ds ixs" for ds ixs
    by (simp add: with_indexes_def)
  have created: "ms_indexes st \<subseteq>\<^sub>m (ms_indexes st)(n \<mapsto> c)" if "ms_indexes st n = None"
    using that by (auto simp: map_le_def)
  show ?case
  proof (cases "ms_indexes st n = None")
    case False
    then consider "st' = st1" | "CreateIndexes_loop accepts cs st1 = (x, st')"
      using Cons.prems(2) p e E by (auto split: sum.splits)
    then show ?thesis
    proof cases
      case 1
      then show ?thesis using same grows by simp
    next
      case 2
      from Cons.IH [OF rest 2] show ?thesis using False W same by auto
    qed
  next
    case True
    obtain z st2 where c: "Indices_Create accepts n c st1 = (z, st2)" by fastforce
    note C = Create_cases(1) [OF c]
    have st2: "ms_indexes st2 = (if z = Inr False then (ms_indexes st)(n \<mapsto> c) else ms_indexes st) \<and>
        ms_schema st2 = ms_schema st"
      using C same by (elim disjE conjE) (metis (no_types, lifting) migration_state.select_convs(1,3)
          migration_state.surjective migration_state.update_convs(1,2))+
    consider "st' = st1" | "st' = st2" "z \<noteq> Inr False"
      | "z = Inr False" "CreateIndexes_loop accepts cs st2 = (x, st')"
      using Cons.prems(2) p e E True c by (auto split: sum.splits if_splits)
    then show ?thesis
    proof cases
      case 1
      then show ?thesis using same grows by simp
    next
      case 2
      then show ?thesis using st2 grows by simp
    next
      case 3
      have i2: "ms_indexes st2 = (ms_indexes st)(n \<mapsto> c)" "ms_schema st2 = ms_schema st"
        using 3(1) st2 by auto
      show ?thesis
        using Cons.IH [OF rest 3(2)] map_le_trans [OF created [OF True]]
        unfolding W i2 if_P [OF True] by blast
    qed
  qed
qed

lemma CreateIndexes_loop_ok:
  assumes "set (ms_faults st) \<subseteq> {None}" "\<forall>(n, c) \<in> set cs. accepts c"
  shows "\<exists>st'. CreateIndexes_loop accepts cs st = (Inr (), st')"
  using assms
proof (induction cs arbitrary: st)
  case (Cons p cs)
  obtain n c where p: "p = (n, c)" by fastforce
  obtain y st1 where e: "Indices_Exists n st = (y, st1)" by fastforce
  note E = Exists_cases [OF e]
  have f1: "set (ms_faults st1) \<subseteq> {None}" using E Cons.prems(1) by auto
  have same: "ms_indexes st1 = ms_indexes st" by (subst conjunct1 [OF E], simp)
  have y: "y = Inr (if ms_indexes st n \<noteq> None then 200 else 404)" using E Cons.prems(1) by auto
  obtain z st2 where c: "Indices_Create accepts n c st1 = (z, st2)" by fastforce
  note C = Create_cases [OF c]
  have f2: "set (ms_faults st2) \<subseteq> {None}" using C(2) f1 by auto
  have z: "z = Inr False" if "ms_indexes st n = None"
    using C(1) that same f1 Cons.prems(2) p by auto
  show ?case
    using Cons.IH [OF f1] Cons.IH [OF f2] Cons.prems(2) y z c e p by simp
qed simp

text \<open>Runs that were cut short, each with its order of the map and its failures, and whatever they returned.\<close>

fun interrupted_runs ::
    "(string \<Rightarrow> bool) \<Rightarrow> ((string \<times> string) list \<times> string option list) list \<Rightarrow>
     'v migration_state \<Rightarrow> 'v migration_state" where
  "interrupted_runs accepts [] st = st"
| "interrupted_runs accepts ((cs, fs) # runs) st =
     interrupted_runs accepts runs (snd (CreateIndexes_loop accepts cs (st\<lparr>ms_faults := fs\<rparr>)))"

text \<open>The map of configurations in one of its orders.\<close>

definition iterates :: "(string \<rightharpoonup> string) \<Rightarrow> (string \<times> string) list \<Rightarrow> bool" where
  "iterates conf cs \<longleftrightarrow> distinct (map fst cs) \<and> map_of cs = conf"

lemma sandwich:
  assumes "m \<subseteq>\<^sub>m m'" "m' \<subseteq>\<^sub>m conf ++ m"
  shows "conf ++ m' = conf ++ (m :: string \<Rightarrow> string option)"
proof
  fix k
  have "m k = Some v \<Longrightarrow> m' k = Some v" "m' k = Some v \<Longrightarrow> (conf ++ m) k = Some v" for v
    using assms by (auto simp: map_le_def dom_def)
  then show "(conf ++ m') k = (conf ++ m) k"
    by (cases "m k"; cases "m' k") (auto simp: map_add_def)
qed

lemma interrupted_runs_between:
  assumes "list_all (\<lambda>(cs, fs). iterates conf cs) runs"
  shows "conf ++ ms_indexes (interrupted_runs accepts runs st) = conf ++ ms_indexes st \<and>
    ms_schema (interrupted_runs accepts runs st) = ms_schema st"
  using assms
proof (induction runs arbitrary: st)
  case (Cons run runs)
  obtain cs fs where run: "run = (cs, fs)" by fastforce
  obtain x st1 where l: "CreateIndexes_loop accepts cs (st\<lparr>ms_faults := fs\<rparr>) = (x, st1)" by fastforce
  have it: "distinct (map fst cs)" "map_of cs = conf"
    using Cons.prems run by (simp_all add: iterates_def)
  from CreateIndexes_loop_grows [OF it(1) l]
  have "conf ++ ms_indexes st1 = conf ++ ms_indexes st \<and> ms_schema st1 = ms_schema st"
    using sandwich [of "ms_indexes st" "ms_indexes st1" conf] it(2) by (simp add: with_indexes_def)
  then show ?case using Cons run l by simp
qed simp

subsection \<open>The program\<close>

datatype migration_exit = Rolled_Back | Applied | Fatal_Exit | Panic_Exit

abbreviation migrate_ErrNoChange :: go_error where "migrate_ErrNoChange \<equiv> Plain ''no change''"

text \<open>
  \<open>mg_New\<close>, \<open>mg_Up\<close> and \<open>mg_Down\<close> are the library's; \<open>args\<close> are the program's arguments after its name.
  Any argument but "down" applies the migrations without creating indexes.
\<close>

record 'v migrate_lib =
  mg_New :: "string \<Rightarrow> string \<Rightarrow> go_error option"
  mg_Up :: "'v \<Rightarrow> go_error option \<times> 'v"
  mg_Down :: "'v \<Rightarrow> go_error option \<times> 'v"

definition failed :: "go_error option \<Rightarrow> bool" where
  "failed err \<longleftrightarrow> (case err of None \<Rightarrow> False | Some e \<Rightarrow> \<not> errors_Is e migrate_ErrNoChange)"

definition migration_main ::
    "'v migrate_lib \<Rightarrow> (Config \<Rightarrow> ('v, unit) migration) \<Rightarrow> (string \<Rightarrow> string) \<Rightarrow> string list \<Rightarrow>
     'v migration_state \<Rightarrow> migration_exit \<times> 'v migration_state" where
  "migration_main mg create os_Getenv args st =
     (let config = NewConfig os_Getenv
      in if mg_New mg (cf_MigrationsPath config) (cf_PostgresURL config) \<noteq> None then (Panic_Exit, st)
         else case args of
           arg # _ \<Rightarrow>
             if arg = ''down''
             then let (err, v) = mg_Down mg (ms_schema st); st = st\<lparr>ms_schema := v\<rparr>
                  in if failed err then (Fatal_Exit, st) else (Rolled_Back, st)
             else let (err, v) = mg_Up mg (ms_schema st); st = st\<lparr>ms_schema := v\<rparr>
                  in if failed err then (Fatal_Exit, st) else (Applied, st)
         | [] \<Rightarrow>
             let (err, v) = mg_Up mg (ms_schema st); st = st\<lparr>ms_schema := v\<rparr>
             in if failed err then (Fatal_Exit, st)
                else case create config st of
                  (Inl err, st') \<Rightarrow> (Fatal_Exit, st')
                | (Inr _, st') \<Rightarrow> (Applied, st'))"

text \<open>With an argument the indexes are left as they are.\<close>

lemma migration_main_args:
  "migration_main mg create env (arg # args) st = (x, st') \<Longrightarrow> ms_indexes st' = ms_indexes st"
  by (auto simp: migration_main_def Let_def split: if_splits prod.splits)

end
