(* ===== verification/Tracing.thy ===== *)
theory Tracing
  imports Interceptors
begin

text \<open>
  Tracing (src/metrics/tracingHTTP.go, src/metrics/tracingGRPC.go). The processes do not install it yet.
  A span is what the code asks of the tracer for it: its name, its parent, its tags in the order in which
  they were set, and whether it was finished. Reading a parent out of headers and writing a span into
  them are the tracer's: the fields of \<open>tracer\<close>, over the contents of a carrier.
\<close>

datatype tag_value = Text_Tag string | Bool_Tag bool | Code_Tag "16 word"

record 'c span =
  sn_name :: string
  sn_parent :: "'c option"
  sn_tags :: "(string \<times> tag_value) list"
  sn_finished :: bool

text \<open>A carrier is a map of keys to values; the order of \<open>ForeachKey\<close> is that of the list.\<close>

type_synonym text_map = "(string \<times> string list) list"

record 'c tracer =
  tc_Extract :: "text_map \<Rightarrow> 'c option"
  tc_Context :: "'c span \<Rightarrow> 'c"
  tc_Inject :: "'c \<Rightarrow> (string \<times> string) list + string"

definition StartSpan :: "string \<Rightarrow> 'c option \<Rightarrow> 'c span" where
  "StartSpan name parent = \<lparr>sn_name = name, sn_parent = parent, sn_tags = [], sn_finished = False\<rparr>"

definition SetTag :: "string \<Rightarrow> tag_value \<Rightarrow> 'c span \<Rightarrow> 'c span" where
  "SetTag key val sp = sp\<lparr>sn_tags := sn_tags sp @ [(key, val)]\<rparr>"

definition Finish :: "'c span \<Rightarrow> 'c span" where
  "Finish sp = sp\<lparr>sn_finished := True\<rparr>"

text \<open>The value of a tag is the last one set.\<close>

definition tag_of :: "'c span \<Rightarrow> string \<Rightarrow> tag_value option" where
  "tag_of sp = map_of (rev (sn_tags sp))"

lemma span_ops [simp]:
  "tag_of (SetTag k v sp) k' = (if k' = k then Some v else tag_of sp k')"
  "tag_of (Finish sp) = tag_of sp" "tag_of (StartSpan n p) k = None"
  "sn_finished (Finish sp)" "sn_finished (SetTag k v sp) = sn_finished sp"
  "sn_parent (SetTag k v sp) = sn_parent sp" "sn_parent (Finish sp) = sn_parent sp"
  "sn_parent (StartSpan n p) = p"
  by (simp_all add: tag_of_def SetTag_def Finish_def StartSpan_def)

subsection \<open>HTTP\<close>

text \<open>
  \<open>headers\<close> and \<open>url\<close> are those of the request. The span is finished whatever the handler does; the
  status is set when it returns.
\<close>

definition tracing_HTTPMiddleware ::
    "'c tracer \<Rightarrow> text_map \<Rightarrow> string \<Rightarrow> http_handler \<Rightarrow> http_request \<Rightarrow> world \<Rightarrow>
     (http_response res \<times> world) \<times> 'c span" where
  "tracing_HTTPMiddleware tr headers url next r w =
     (let sp = (case tc_Extract tr headers of
                  None \<Rightarrow> StartSpan (rq_Path r) None
                | Some wireContext \<Rightarrow> StartSpan (rq_Path r) (Some wireContext));
          sp = SetTag ''span.kind'' (Text_Tag ''server'') sp;
          sp = SetTag ''http.method'' (Text_Tag (rq_Method r)) sp;
          sp = SetTag ''http.url'' (Text_Tag url) sp;
          sp = SetTag ''http.user_agent'' (Text_Tag (rq_Header r ''User-Agent'')) sp;
          (x, w') = next r w
      in case x of
           Ret resp \<Rightarrow>
             (let sp = SetTag ''http.status_code'' (Code_Tag (ucast (recorded_status resp))) sp;
                  sp = (if sint (recorded_status resp) \<ge> 400 then SetTag ''error'' (Bool_Tag True) sp else sp)
              in ((x, w'), Finish sp))
         | _ \<Rightarrow> ((x, w'), Finish sp))"

subsection \<open>gRPC servers\<close>

definition tracing_UnaryServerInterceptor ::
    "'c tracer \<Rightarrow> text_map option \<Rightarrow> string \<Rightarrow> 'a action \<Rightarrow> world \<Rightarrow> ('a res \<times> world) \<times> 'c span" where
  "tracing_UnaryServerInterceptor tr incoming fullMethod handler w =
     (let md = (case incoming of None \<Rightarrow> [] | Some md \<Rightarrow> md);
          sp = (case tc_Extract tr md of
                  None \<Rightarrow> StartSpan fullMethod None
                | Some wireContext \<Rightarrow> StartSpan fullMethod (Some wireContext));
          sp = SetTag ''span.kind'' (Text_Tag ''server'') sp;
          sp = SetTag ''grpc.method'' (Text_Tag fullMethod) sp;
          (x, w') = handler w
      in case x of
           Fail err \<Rightarrow>
             (let sp = SetTag ''grpc.status_code'' (Text_Tag (code_name (status_Code (Some err)))) sp;
                  sp = SetTag ''error'' (Bool_Tag True) sp;
                  sp = SetTag ''error.message'' (Text_Tag (Error_text err)) sp
              in ((x, w'), Finish sp))
         | Ret _ \<Rightarrow> ((x, w'), Finish (SetTag ''grpc.status_code'' (Text_Tag ''OK'') sp))
         | Panic \<Rightarrow> ((x, w'), Finish sp))"

subsection \<open>The metadata as a carrier\<close>

fun metadataTextMap_Set :: "string \<Rightarrow> string \<Rightarrow> text_map \<Rightarrow> text_map" where
  "metadataTextMap_Set key val [] = [(key, [val])]"
| "metadataTextMap_Set key val ((k, vals) # m) =
     (if k = key then (k, vals @ [val]) # m else (k, vals) # metadataTextMap_Set key val m)"

fun foreach_value :: "(string \<Rightarrow> string \<Rightarrow> 's \<Rightarrow> 's + go_error) \<Rightarrow> string \<Rightarrow> string list \<Rightarrow> 's \<Rightarrow> 's + go_error"
  where
  "foreach_value callback k [] s = Inl s"
| "foreach_value callback k (v # vals) s =
     (case callback k v s of Inr err \<Rightarrow> Inr err | Inl s' \<Rightarrow> foreach_value callback k vals s')"

fun metadataTextMap_ForeachKey ::
    "(string \<Rightarrow> string \<Rightarrow> 's \<Rightarrow> 's + go_error) \<Rightarrow> text_map \<Rightarrow> 's \<Rightarrow> 's + go_error" where
  "metadataTextMap_ForeachKey callback [] s = Inl s"
| "metadataTextMap_ForeachKey callback ((k, vals) # m) s =
     (case foreach_value callback k vals s of
        Inr err \<Rightarrow> Inr err
      | Inl s' \<Rightarrow> metadataTextMap_ForeachKey callback m s')"

text \<open>What was set is read back: every value of a key, in the order in which they were set.\<close>

definition collect :: "string \<Rightarrow> string \<Rightarrow> (string \<times> string) list \<Rightarrow> (string \<times> string) list + go_error" where
  "collect k v s = Inl (s @ [(k, v)])"

definition text_map_pairs :: "text_map \<Rightarrow> (string \<times> string) list" where
  "text_map_pairs m = concat (map (\<lambda>(k, vals). map (Pair k) vals) m)"

lemma foreach_collect: "foreach_value collect k vals s = Inl (s @ map (Pair k) vals)"
  by (induction vals arbitrary: s) (simp_all add: collect_def)

lemma ForeachKey_collect: "metadataTextMap_ForeachKey collect m s = Inl (s @ text_map_pairs m)"
  by (induction collect m s rule: metadataTextMap_ForeachKey.induct)
     (simp_all add: foreach_collect text_map_pairs_def)

lemma Set_pairs:
  "map snd (filter (\<lambda>p. fst p = k) (text_map_pairs (metadataTextMap_Set key val m))) =
   map snd (filter (\<lambda>p. fst p = k) (text_map_pairs m)) @ (if k = key then [val] else [])"
  if "distinct (map fst m)"
  using that
proof (induction key val m rule: metadataTextMap_Set.induct)
  case (2 key val k' vals m)
  have none: "filter (\<lambda>p. fst p = k') (text_map_pairs m) = []" if "k' \<notin> fst ` set m"
    using that by (force simp: text_map_pairs_def filter_empty_conv)
  have one: "filter (\<lambda>p. fst p = k) (map (Pair k') xs) = (if k = k' then map (Pair k') xs else [])" for xs
    by (induction xs) auto
  show ?case
    using 2 none one by (auto simp: text_map_pairs_def)
qed (simp add: text_map_pairs_def)

subsection \<open>gRPC clients\<close>

text \<open>
  \<open>parent\<close> is the context of the span in the caller's context. The invoker gets the metadata with what
  the tracer injected.
\<close>

definition tracing_UnaryClientInterceptor ::
    "'c tracer \<Rightarrow> 'c option \<Rightarrow> text_map option \<Rightarrow> string \<Rightarrow> string \<Rightarrow> (text_map \<Rightarrow> 'a action) \<Rightarrow> world \<Rightarrow>
     ('a res \<times> world) \<times> 'c span" where
  "tracing_UnaryClientInterceptor tr parent outgoing fullMethod addr invoker w =
     (let sp = (case parent of None \<Rightarrow> StartSpan fullMethod None
                | Some c \<Rightarrow> StartSpan fullMethod (Some c));
          sp = SetTag ''span.kind'' (Text_Tag ''client'') sp;
          sp = SetTag ''grpc.method'' (Text_Tag fullMethod) sp;
          sp = SetTag ''grpc.target'' (Text_Tag addr) sp;
          md = (case outgoing of None \<Rightarrow> [] | Some md \<Rightarrow> md);
          (carrier, sp) =
            (case tc_Inject tr (tc_Context tr sp) of
               Inl pairs \<Rightarrow> (fold (\<lambda>(k, v). metadataTextMap_Set k v) pairs md, sp)
             | Inr msg \<Rightarrow> (md, SetTag ''injection.error'' (Text_Tag msg) sp));
          (x, w') = invoker carrier w
      in case x of
           Fail err \<Rightarrow>
             (let sp = SetTag ''error'' (Bool_Tag True) sp;
                  sp = SetTag ''error.message'' (Text_Tag (Error_text err)) sp
              in ((x, w'), Finish sp))
         | _ \<Rightarrow> ((x, w'), Finish sp))"

text \<open>A traced stream: an operation that fails marks the span, and a failing receive ends it.\<close>

definition mark_error :: "go_error \<Rightarrow> 'c span \<Rightarrow> 'c span" where
  "mark_error err sp = SetTag ''error.message'' (Text_Tag (Error_text err)) (SetTag ''error'' (Bool_Tag True) sp)"

definition tracedClientStream_CloseSend :: "go_error option \<Rightarrow> 'c span \<Rightarrow> 'c span" where
  "tracedClientStream_CloseSend err sp = (case err of None \<Rightarrow> sp | Some e \<Rightarrow> mark_error e sp)"

definition tracedClientStream_RecvMsg :: "go_error option \<Rightarrow> 'c span \<Rightarrow> 'c span" where
  "tracedClientStream_RecvMsg err sp = (case err of None \<Rightarrow> sp | Some e \<Rightarrow> Finish (mark_error e sp))"

definition tracedClientStream_SendMsg :: "go_error option \<Rightarrow> 'c span \<Rightarrow> 'c span" where
  "tracedClientStream_SendMsg err sp = (case err of None \<Rightarrow> sp | Some e \<Rightarrow> mark_error e sp)"

subsection \<open>What a span tells\<close>

lemma tracing_HTTP_span:
  assumes "tracing_HTTPMiddleware tr headers url next r w = ((x, w'), sp)"
  shows "next r w = (x, w') \<and> sn_finished sp \<and> sn_parent sp = tc_Extract tr headers \<and>
    (tag_of sp ''error'' = Some (Bool_Tag True) \<longleftrightarrow>
       (\<exists>resp. x = Ret resp \<and> 400 \<le> sint (recorded_status resp)))"
  using assms
  by (auto simp: tracing_HTTPMiddleware_def Let_def split: prod.splits res.splits option.splits if_splits)

lemma tracing_server_span:
  assumes "tracing_UnaryServerInterceptor tr md f h w = ((x, w'), sp)"
  shows "h w = (x, w') \<and> sn_finished sp \<and>
    (tag_of sp ''error'' = Some (Bool_Tag True) \<longleftrightarrow> (\<exists>e. x = Fail e)) \<and>
    tag_of sp ''grpc.status_code'' = (case returned_code x of [] \<Rightarrow> None | c # _ \<Rightarrow> Some (Text_Tag (code_name c)))"
  using assms
  by (auto simp: tracing_UnaryServerInterceptor_def returned_code_def Let_def
      split: prod.splits res.splits option.splits)

lemma tracing_client_span:
  assumes "tracing_UnaryClientInterceptor tr p md f a invoker w = ((x, w'), sp)"
  shows "sn_finished sp \<and> sn_parent sp = p \<and> (tag_of sp ''error'' = Some (Bool_Tag True) \<longleftrightarrow> (\<exists>e. x = Fail e))"
  using assms
  by (auto simp: tracing_UnaryClientInterceptor_def Let_def split: prod.splits res.splits option.splits sum.splits)

end
