(* ===== verification/Operations_Properties.thy ===== *)
theory Operations_Properties
  imports Examples Startup Migrations Tracing
begin

text \<open>
  Properties of running the program: the start of the main process, its metrics, the WebSocket endpoint,
  what a call between processes carries, and the migration program, with an instance of each on a
  matcher of literal templates.
\<close>

definition example_main_libs :: main_libs where
  "example_main_libs =
     \<lparr>mn_cleanPath = (\<lambda>p. p), mn_matches = (\<lambda>t p. if t = p then Some Map.empty else None),
      mn_swagger = (\<lambda>_. (200, ''docs'')), mn_promhttp = (\<lambda>_. (200, ''metrics'')),
      mn_Upgrade = (\<lambda>_. None)\<rparr>"

definition example_main_validators :: validators where
  "example_main_validators =
     \<lparr>val_content = \<lparr>valid_PostText = (\<lambda>_. True), valid_CommentCreate = (\<lambda>_. True),
        valid_CommentUpdate = (\<lambda>_. True)\<rparr>, val_Community = (\<lambda>_. True)\<rparr>"

abbreviation example_main :: server where
  "example_main \<equiv> main_router example_main_libs example_libs example_http_libs example_main_validators
     False NotFoundHandler"

definition example_at :: "string \<Rightarrow> string \<Rightarrow> http_request" where
  "example_at meth path = example_session_request\<lparr>rq_Method := meth, rq_Path := path, rq_Header := (\<lambda>_. [])\<rparr>"


text \<open>A logout without the CSRF cookie panics, and leaves the gauge up.\<close>

theorem panic_stays_in_flight:
  "case main_serve example_main_libs example_libs example_http_libs example_main_validators True
       NotFoundHandler [example_at ''POST'' ''/api/auth/logout'', example_at ''GET'' ''/health''] example_session_world of
     (outs, log) \<Rightarrow> map (status_of \<circ> snd) outs = [None, Some 200] \<and>
       length (incs (hm_RPCRequestsInFlight main_metrics) log) = 2 \<and>
       length (decs (hm_RPCRequestsInFlight main_metrics) log) = 1"
  by code_simp

text \<open>
  C5. Only the user of a session connects. When a request adds a client to the hub, it asked for the
  WebSocket endpoint with the cookie of a live session, the client is registered for the user of that
  session, no other user's client is touched, and nothing else changes.
\<close>

theorem only_the_session_user_connects:
  assumes "literal_ws_route ML"
    and "main_router ML E H V debug uploads r w = ((x, w'), log, evs)" "ev \<in> set evs"
  shows "\<exists>sid s. r_Cookie r ''session_id'' = Some sid \<and>
    session_view (lib_unmarshalSession E) w sid = Some s \<and> rq_Path r = ''/api/ws'' \<and>
    ev = Add (se_UserID s) \<and> quiet w w' \<and>
    hub_clients (fst (hub_apply ev h)) = (hub_clients h)(se_UserID s \<mapsto> length (hub_heap h))"
  using ws_connects_session_user [OF assms(2,3,1)] by (auto simp: Hub_AddClient_def Let_def)

theorem only_the_session_user_connects_witness:
  "\<exists>sid s. r_Cookie (example_at ''GET'' ''/api/ws'') ''session_id'' = Some sid \<and>
    session_view example_dec example_session_world sid = Some s \<and>
    hub_clients (fst (hub_apply (Add 1) NewHub)) = [se_UserID s \<mapsto> 0]"
proof -
  let ?m = "example_main (example_at ''GET'' ''/api/ws'') example_session_world"
  have evs: "snd (snd ?m) = [Add 1]" by code_simp
  have m: "?m = ((fst (fst ?m), snd (fst ?m)), fst (snd ?m), snd (snd ?m))" by simp
  have l: "literal_ws_route example_main_libs"
    by (simp add: literal_ws_route_def example_main_libs_def)
  have e: "Add 1 \<in> set (snd (snd ?m))" unfolding evs by simp
  show ?thesis
    using only_the_session_user_connects [OF l m e, of NewHub]
    by (auto simp: example_libs_def NewHub_def)
qed

text \<open>
  C6. In production unsafe requests need the token. When the main process was started with \<open>APP_ENV\<close> set
  to "prod", a request to the API with an unsafe method, outside the open paths, is refusals and changes
  nothing unless it carries the CSRF token of its session.
\<close>

theorem production_checks_tokens:
  assumes "main_start dr env ML E H V w0 = (Started serve, w1)" "env ''APP_ENV'' = ''prod''"
    and "serve r w = ((x, w'), log, evs)"
    and "mn_cleanPath ML (rq_Path r) = rq_Path r"
    and "main_find (mn_matches ML) (rq_Method r) (rq_Path r) = Some (Route_Api route, t, vars)"
    and "rq_Method r \<notin> set SafeMethods" "\<not> open_path (rq_Path r)"
    and "\<And>sid s. r_Cookie r ''session_id'' = Some sid \<Longrightarrow>
      session_view (lib_unmarshalSession E) w sid = Some s \<Longrightarrow> rq_Header r ''X-CSRF-Token'' \<noteq> se_CSRFToken s"
  shows "quiet w w' \<and> status_of x \<in> {Some 403, Some 404, Some 405, Some 500}"
proof -
  obtain uploads where s: "serve = main_router ML E H V False uploads"
    using main_start_server [OF assms(1)] assms(2) by auto
  have "NewApiRouter (mn_matches ML) E H V False r w = (x, w')"
    using main_router_api [OF assms(4,5), of E H V False uploads w] assms(3) s by simp
  from unsafe_needs_token [OF this assms(6,7,8)] show ?thesis .
qed

definition example_drivers :: drivers where
  "example_drivers = \<lparr>dr_Open = (\<lambda>_. ret ()), dr_Ping = external Plain (ret ()),
     dr_NewClient = (\<lambda>_ _ _. ret ()), dr_Info = external Plain (ret ()),
     dr_Dial = (\<lambda>_. external Plain (ret ())), dr_Listen = (\<lambda>_. ret ())\<rparr>"

definition example_env :: "string \<Rightarrow> string" where
  "example_env name = (if name = ''APP_ENV'' then ''prod'' else [])"

theorem production_checks_tokens_witness:
  "case fst (main_start example_drivers example_env example_main_libs example_libs example_http_libs
      example_main_validators example_session_world) of
     Started serve \<Rightarrow> status_of (fst (fst (serve (example_at ''POST'' ''/api/posts'') example_session_world)))
       \<in> {Some 403, Some 404, Some 405, Some 500}
   | _ \<Rightarrow> False"
proof -
  let ?m = "main_start example_drivers example_env example_main_libs example_libs example_http_libs
      example_main_validators example_session_world"
  let ?r = "example_at ''POST'' ''/api/posts''"
  have "(case fst ?m of Started _ \<Rightarrow> True | _ \<Rightarrow> False)" by code_simp
  then obtain serve where st: "fst ?m = Started serve" by (cases "fst ?m") simp_all
  then have m: "?m = (Started serve, snd ?m)" by (simp add: prod_eq_iff)
  have "(case main_find (mn_matches example_main_libs) (rq_Method ?r) (rq_Path ?r) of
      Some (Route_Api _, _) \<Rightarrow> True | _ \<Rightarrow> False)" by code_simp
  then obtain route t vars where
    f: "main_find (mn_matches example_main_libs) (rq_Method ?r) (rq_Path ?r) = Some (Route_Api route, t, vars)"
    by (auto split: option.splits main_route.splits)
  have e: "example_env ''APP_ENV'' = ''prod''" by code_simp
  have c: "mn_cleanPath example_main_libs (rq_Path ?r) = rq_Path ?r" by code_simp
  have u: "rq_Method ?r \<notin> set SafeMethods" "\<not> open_path (rq_Path ?r)" by code_simp+
  have session: "session_view (lib_unmarshalSession example_libs) example_session_world ''sid''
      = Some \<lparr>se_UserID = 1, se_CSRFToken = ''tok''\<rparr>" by code_simp
  have token: "rq_Header ?r ''X-CSRF-Token'' \<noteq> se_CSRFToken s"
    if "r_Cookie ?r ''session_id'' = Some sid"
      "session_view (lib_unmarshalSession example_libs) example_session_world sid = Some s" for sid s
    using that session by (auto simp: example_at_def example_session_request_def r_Cookie_def)
  have run: "serve ?r example_session_world = ((fst (fst (serve ?r example_session_world)),
      snd (fst (serve ?r example_session_world))), fst (snd (serve ?r example_session_world)),
      snd (snd (serve ?r example_session_world)))" by simp
  show ?thesis
    using production_checks_tokens [OF m e run c f u token] by (simp add: st)
qed

text \<open>
  C39. Creating indexes can be interrupted. However many runs of the migration were cut short by failing
  calls, in whatever order each of them went through the configured indexes, a run in which no call
  fails completes them: the missing indexes exist with their configuration, and every index that was
  there before keeps its own.
\<close>

theorem interrupted_index_creation_resumes:
  assumes "list_all (\<lambda>(cs, fs). iterates conf cs) runs" "iterates conf cs"
    and "set fs \<subseteq> {None}" "\<forall>c \<in> ran conf. accepts c"
  shows "\<exists>st'. CreateIndexes_loop accepts cs ((interrupted_runs accepts runs st)\<lparr>ms_faults := fs\<rparr>) = (Inr (), st') \<and>
    ms_indexes st' = conf ++ ms_indexes st \<and> ms_schema st' = ms_schema st"
proof -
  let ?st = "(interrupted_runs accepts runs st)\<lparr>ms_faults := fs\<rparr>"
  have cs: "distinct (map fst cs)" "map_of cs = conf"
    using assms(2) by (simp_all add: iterates_def)
  have "\<forall>(n, c) \<in> set cs. accepts c"
    using assms(4) cs by (force simp: ran_def)
  then obtain st' where l: "CreateIndexes_loop accepts cs ?st = (Inr (), st')"
    using CreateIndexes_loop_ok [of ?st cs accepts] assms(3) by auto
  show ?thesis
    using CreateIndexes_loop_Ret [OF cs(1) l] interrupted_runs_between [OF assms(1), of accepts st] cs(2) l
    by (simp add: with_indexes_def)
qed

definition example_indexes :: "(string \<times> string) list" where
  "example_indexes = [(''profile'', ''{p}''), (''community_index'', ''{c}'')]"

theorem interrupted_index_creation_resumes_witness:
  "\<exists>st'. CreateIndexes_loop (\<lambda>_. True) example_indexes
      ((interrupted_runs (\<lambda>_. True) [(rev example_indexes, [None, None, Some ''timeout''])]
        \<lparr>ms_indexes = [''old'' \<mapsto> ''{o}''], ms_faults = [], ms_schema = (1 :: int)\<rparr>)\<lparr>ms_faults := []\<rparr>) = (Inr (), st') \<and>
    ms_indexes st' = map_of example_indexes ++ [''old'' \<mapsto> ''{o}''] \<and> ms_schema st' = 1"
proof -
  have it: "iterates (map_of example_indexes) example_indexes"
    "iterates (map_of example_indexes) (rev example_indexes)"
    by (auto simp: iterates_def example_indexes_def)
  have runs: "list_all (\<lambda>(cs, fs). iterates (map_of example_indexes) cs)
      [(rev example_indexes, [None, None, Some ''timeout''])]"
    using it by simp
  show ?thesis
    using interrupted_index_creation_resumes [OF runs it(1), of "[]" "\<lambda>_. True"
        "\<lparr>ms_indexes = [''old'' \<mapsto> ''{o}''], ms_faults = [], ms_schema = (1 :: int)\<rparr>"]
    by simp
qed

text \<open>
  A call between processes. The handler on the other side runs in the context of the caller's user (0
  for nobody), its logger carries the caller's request id, its outcome is returned, and the metrics of
  the called process count the code of that outcome.
\<close>

theorem identity_crosses_the_grpc_hop:
  assumes "metadata_arrives wire"
    and "ClientUnaryInterceptor ctx (\<lambda>md. grpc_server_chain (NewGRPCMetrics s) f (wire md) handler) w = ((x, w'), log)"
  shows "handler (received_context ctx) w = (x, w') \<and>
    gx_userID (received_context ctx) = Some (case gx_userID ctx of None \<Rightarrow> 0 | Some u \<Rightarrow> u) \<and>
    incs (gm_StatusCodes (NewGRPCMetrics s)) log =
      map (\<lambda>c. [s, grpcCodeToStatusClass c, code_name c]) (returned_code x)"
proof -
  have run: "GRPCMetrics_UnaryServerInterceptor (NewGRPCMetrics s) f (handler (received_context ctx)) w = ((x, w'), log)"
    using assms(2) hop_context [OF assms(1), of ctx
        "\<lambda>ctx. GRPCMetrics_UnaryServerInterceptor (NewGRPCMetrics s) f (handler ctx)"]
    by (simp add: grpc_server_chain_def)
  show ?thesis
    using GRPC_counts(1) [OF run] GRPC_answer [of "NewGRPCMetrics s" f "handler (received_context ctx)" w] run
    by (simp add: received_context_def Let_def)
qed

text \<open>
  Waiting for a server. With at least one attempt, a server that refuses the first \<open>refusals w\<close> calls is
  connected to after as many pauses if that is less than the number of attempts; otherwise the error of
  the last attempt is returned, after a pause for each of them.
\<close>

theorem waiting_for_a_server:
  assumes "0 < retries"
  shows "\<exists>w'. WaitForGRPC (\<lambda>_. external Plain (ret c)) addr K retries delay w =
      (Ret (if int (refusals w) < retries then (Some (K c, c), None)
            else (None, map_option Plain (faults w ! (nat retries - 1)))), w') \<and>
    clock w' = clock w + min (int (refusals w)) retries * delay \<and> db w' = db w"
proof (cases "int (refusals w) < retries")
  case True
  then have "refusals w < nat retries" by linarith
  from WaitForGRPC_loop_answer [OF this, of c K delay None] True show ?thesis
    by (auto simp: WaitForGRPC_def)
next
  case False
  then have "nat retries \<le> refusals w" by linarith
  moreover have "0 < nat retries" using assms by simp
  ultimately show ?thesis
    using WaitForGRPC_loop_gives_up [of "nat retries" w c K delay None] False assms
    by (auto simp: WaitForGRPC_def min_def)
qed

end
