(* ===== verification/Hub_Heartbeat.thy ===== *)
theory Hub_Heartbeat
  imports Hub
begin

text \<open>
  The heartbeat of a WebSocket connection (src/internal/service/WSClient.go): the writer pings every
  \<open>pingPeriod\<close>, and the reader gives up when no pong came for \<open>pongWait\<close>; times are in seconds.
\<close>

definition writeWait :: int where "writeWait = 10"

definition pongWait :: int where "pongWait = 60"

definition pingPeriod :: int where "pingPeriod = pongWait * 9 div 10"

text \<open>
  The read deadline after the pongs that came in, in their order. Each one that is in time moves it; with
  the first that is late the reader has already ended.
\<close>

fun read_deadline :: "int \<Rightarrow> int list \<Rightarrow> int" where
  "read_deadline deadline [] = deadline"
| "read_deadline deadline (pong # pongs) =
     (if pong < deadline then read_deadline (pong + pongWait) pongs else deadline)"

definition readPump_deadline :: "int \<Rightarrow> int list \<Rightarrow> int" where
  "readPump_deadline start pongs = read_deadline (start + pongWait) pongs"

text \<open>The answers of a peer to the first pings, each after its delay.\<close>

fun pongs_from :: "int \<Rightarrow> int list \<Rightarrow> int list" where
  "pongs_from start [] = []"
| "pongs_from start (delay # delays) = (start + pingPeriod + delay) # pongs_from (start + pingPeriod) delays"

lemma read_deadline_alive:
  assumes "\<forall>delay \<in> set delays. 0 \<le> delay \<and> delay < pongWait - pingPeriod"
    and "start + pongWait \<le> deadline"
  shows "start + int (length delays) * pingPeriod + pongWait \<le> read_deadline deadline (pongs_from start delays)"
  using assms
proof (induction delays arbitrary: start deadline)
  case (Cons delay delays)
  let ?pong = "start + pingPeriod + delay"
  have "?pong < deadline" using Cons.prems by auto
  moreover have "start + pingPeriod + int (length delays) * pingPeriod + pongWait \<le>
      read_deadline (?pong + pongWait) (pongs_from (start + pingPeriod) delays)"
    using Cons.prems by (intro Cons.IH) auto
  ultimately show ?case by (simp add: algebra_simps)
qed simp

text \<open>A peer that answers every ping within six seconds is never given up on.\<close>

lemma heartbeat_keeps_alive:
  assumes "\<forall>delay \<in> set delays. 0 \<le> delay \<and> delay < 6"
  shows "start + int (length delays) * 54 + 60 \<le> readPump_deadline start (pongs_from start delays)"
  using read_deadline_alive [of delays start "start + pongWait"] assms
  by (simp add: readPump_deadline_def pongWait_def pingPeriod_def)

text \<open>A silent peer is given up on one \<open>pongWait\<close> after its last pong.\<close>

lemma read_deadline_bound:
  "\<forall>pong \<in> set pongs. pong \<le> t \<Longrightarrow> deadline \<le> t + pongWait \<Longrightarrow> read_deadline deadline pongs \<le> t + pongWait"
  by (induction deadline pongs rule: read_deadline.induct) auto

end
