(* ===== verification/Spec2Isabelle.thy ===== *)
theory Spec2Isabelle
  imports Friend_Properties Account_Properties Hub_Properties Profile_Properties Post_Properties
    Community_Properties Chat_Properties Platform_Properties Operations_Properties Hub_Heartbeat
begin

text \<open>
  A social network in Go: a verification of its friendships, accounts and sessions, profiles and
  uploads, posts and comments, communities, chats, support applications, of the router in front of
  them, of its WebSocket hub, and of how it is started, observed and migrated. Paths are those under src/.

  \<^bold>\<open>The program.\<close> Four processes: cmd/main serves HTTP, cmd/auth, cmd/profile and cmd/friend serve
  gRPC. A request passes the router and the middlewares (cmd/main/main.go,
  internal/handler/middleware.go), reaches a handler (internal/handler), which calls a service
  (internal/service), in its own process or through a gRPC client and the handler on the other side
  (internal/grpc). Services call stores: PostgreSQL (internal/repository/db), Redis
  (internal/repository/dbRedis), the search engine (internal/repository/dbElastic) and the upload
  directory (internal/service/upload.go). Errors are values: sentinels that stores wrap, services
  translate, gRPC encodes as status codes and handlers map to HTTP statuses (domain/errors.go).

  \<^bold>\<open>Effects\<close> (Effects). A Go function with effects is an \<open>action\<close>: from a world to a value, an error or
  a panic, and the next world. \<open>call m h k\<close> is the idiom of an error check after a call. The world is
  the database, Redis, files, search indexes, clock, randomness and, as \<open>faults\<close>, the outcome of the next
  calls to the outside: a theorem on every world covers every combination of failing queries, commits,
  writes and connections. A failing call has no effect, but a failing write of a file can leave any
  beginning of the data behind (\<open>torn\<close> says how much). SQL statements are functions on the tables of
  Schema (a table is the list of its rows), with the constraints of the migration; transactions keep
  the tables to restore; a loop over rows whose \<open>rows.Err\<close> is not checked can end early without an error.

  \<^bold>\<open>The components.\<close>
  \<^item> Errors, Paginate, Strconv, Domain, Content_Domain, Chat_Domain, Mapper: domain/ and shared/mapper; the
    structs, the error translations, \<open>int32\<close> page arithmetic, \<open>strconv\<close> (the functions of the standard
    library that the source uses) and the conversions from and to protobuf messages.
  \<^item> Friend_Store, Friend_Service, Friend_Grpc, Friend_Tables, Friend_Handler: the relation of two users,
    from the table to the HTTP endpoint; \<open>friend_spec\<close> is its state machine.
  \<^item> User_Store, Session_Store, Auth_Service, Auth_Handler: registration, login, sessions, cookies, CSRF
    tokens and the middleware that guards the API.
  \<^item> Profile_Store, Elastic_Profile_Store, Uploads, Profile_Service, Profile_Tables, Profile_Handler:
    profiles, their search index and pictures, and the static file server's path check.
  \<^item> Post_Store, Comment_Store, Post_Service, Post_Handler, Post_Tables, Post_Facts, Comment_Threads: posts
    with their files and likes, comments and the threads that a deletion takes along.
  \<^item> Community_Store, Elastic_Community_Store, Community_Service, Community_Handler, Community_Tables,
    Community_Facts: communities with their pictures and search index, and the subscriptions to them.
  \<^item> Chat_Store, Message_Store, Sticker_Service, Chat_Service, Chat_Handler, Chat_Tables, Chat_Facts: chats,
    messages with attachments or stickers, last-read pointers and unread counts. Chat_Race: simultaneous
    requests for a chat, interleaved between the query and the commit of GetOrCreateChatWithUser
    (\<open>race_run\<close>), which one request alone takes as the store's operation does (\<open>alone\<close>).
  \<^item> Application_Service, Application_Handler, Application_Facts: support applications of accounts and of
    temporary sessions, and the middleware that recognises and merges the latter.
  \<^item> Hub, Hub_Pumps: internal/service/WSClient.go as a step relation: the clients map under its lock, the
    channels of 256 messages and the reader and writer of every client, interleaved step by step.
    Hub_Delivery: what a run puts into each channel, writes to each connection and loses, in order, and
    which calls to send it stems from.
    Chat_Delivery: the goroutine of a new message, which hands its events to the hub.
  \<^item> Router, Platform_Tables: the table of routes with templates, methods and middlewares, which handler
    serves a request, and the invariant of the whole database under every sequence of requests.
  \<^item> Serving: the whole server of cmd/main/main.go: uploaded files, documents, the WebSocket endpoint, the
    API, metrics and health behind the metrics middleware (\<open>main_router\<close>), and a run over a list of requests.
    Hub_Heartbeat: pings, pongs and the read deadline of a connection.
  \<^item> Metrics, Tracing, Interceptors: metrics/ and internal/grpc/middleware.go. The calls on the metric
    vectors and on spans are logs; a context is the user id, the request id and the fields of the logger,
    which cross a gRPC connection as metadata.
  \<^item> Config, Startup, Migrations: config/config.go, cmd/dbconn, cmd/grpcclient and the \<open>main\<close> functions: what
    is computed from the environment, the start of every process up to a server or \<open>log.Fatalf\<close>, with the
    retries of gRPC connections; and cmd/migration, which creates the search indexes.
  \<^item> Processes, Http: the wiring of the four \<open>main\<close> functions; requests, responses and the helpers of
    handlers. Examples: one concrete instance of every parameter, on which the witnesses run.

  A definition has the receiver's type and the method's name, as in \<open>PostService_CreatePost\<close>; a struct
  is a record, a nil pointer \<open>None\<close>, an interface a record of functions, \<open>int32\<close> and \<open>uint\<close> are words
  of 32 and 64 bits, a string its UTF-8 bytes. Services take their stores and clients as a record, as
  the constructors do. Logging and timing are left out.

  \<^bold>\<open>The interfaces.\<close> The locale \<open>friend_store\<close> states what a store of relations promises on a view of the
  world, and \<open>friendship_service\<close> what the friend service proves from it and from the auth client;
  \<open>user_store\<close>, \<open>session_store\<close> and \<open>account_service\<close> do the same for accounts. They are interpreted
  on the stores and processes of the model (in the stores' theories and in Processes), and the
  properties rest on those interpretations. \<open>owned_item\<close> (Ownership) is the contract of a check of
  ownership before an operation, interpreted for posts, comments, communities and memberships.
  \<open>friend_statements\<close>, \<open>profile_statements\<close>, \<open>account_statements\<close> (which extends it),
  \<open>content_statements\<close>, \<open>community_statements\<close>, \<open>chat_statements\<close> and \<open>application_statements\<close> say that the
  SQL statements of a component keep a predicate of the tables, and prove inside that all of its handlers
  then keep it. Those of a component are interpreted twice: on the component's well-formedness, and on the equality of
  the tables of the other components (the frame). \<open>wf_platform_frames\<close> puts the two together.

  \<^bold>\<open>The lemmas.\<close> \<open>reads m\<close>: \<open>m\<close> changes nothing but the fault schedule. \<open>keeps I m\<close>: \<open>m\<close> keeps an
  invariant of the tables, whatever fails; the collection \<open>wf_intros\<close> proves it by following the code.
  \<open>no_panic\<close>, \<open>answers\<close> and \<open>replies\<close> bound what a store, a service and a handler can return. The
  theories named Tables hold the invariants of the tables, those named Facts what the operations do,
  those named Properties the theorems with an instance of each: Platform_Properties the invariant of the
  database, access control and merged sessions; Friend_Properties, Account_Properties,
  Profile_Properties, Post_Properties, Community_Properties, Chat_Properties and Hub_Properties those of
  their component; Operations_Properties those of the running server, its start and the migrations; this theory pages, errors and messages between processes.

  \<^bold>\<open>Third-party code\<close> is a parameter: bcrypt and the validator (\<open>auth_libs\<close>, \<open>validators\<close>), the JSON codec
  of sessions, transliteration and the search engine (\<open>libraries\<close>), the decoders of query strings and
  bodies and of UUIDs (\<open>http_libs\<close>), the matching of route templates (\<open>mux_matcher\<close>), the encoding of
  events for the WebSocket, the upgrade of a connection and the two handlers of libraries (\<open>main_libs\<close>),
  drivers and dialing (\<open>drivers\<close>), the transport of metadata, the tracer, the migrate library. What the code relies on is a named hypothesis: \<open>bcrypt_contract\<close>,
  \<open>honours_filters\<close>, \<open>honours_community_filters\<close>, \<open>literal_ws_route\<close>, \<open>metadata_arrives\<close>, the round trip of the session codec, distinct fresh
  names for uploads. Each is discharged on the instance in Examples.

  \<^bold>\<open>Bounds.\<close> Recursion is structural, but for \<open>cascade_replies\<close>: deleting comments runs as many rounds
  as there are rows, which is enough because every round that does something deletes a row
  (\<open>delete_comments_doomed\<close> shows it equal to an inductive definition). Timestamps are unbounded seconds,
  rows with equal sort keys come in the order of the table, identity columns end at the largest \<open>int32\<close>,
  a count that does not fit 32 bits fails to scan.

  \<^bold>\<open>Not modelled.\<close> Requests do not interleave inside a statement or between the statements of a request
  (the hub and Chat_Race apart); the goroutines that a request leaves behind run between requests. Log
  lines are left out. \<open>http.ServeFile\<close> is
  modelled without ranges and conditional requests. The metrics do not know which requests overlap: a run
  serves one after the other. Nothing in the processes installs the tracing; its exporter
  (\<open>initTracer\<close>, which nothing calls) and the goroutine that keeps the health gauge at 1 are not modelled.
  easyjson codecs, protobuf stubs and Swagger documents are generated.
\<close>

section \<open>Pages\<close>

text \<open>
  Page bounds. Whatever a client asks for, the limit of a page is between 1 and 100, and the
  offset is the product of the page number less one and the limit, wrapped to 32 bits.
\<close>

theorem page_limit_and_offset:
  "case ValidatePaginationParams params of (offset, limit) \<Rightarrow>
     1 \<le> sint limit \<and> sint limit \<le> 100 \<and>
     sint offset = ((max 1 (sint (Page params)) - 1) * sint limit + 2 ^ 31) mod 2 ^ 32 - 2 ^ 31"
proof -
  let ?V = "ValidatePaginationParams params"
  have limit: "snd ?V = valid_limit params"
    and "fst ?V = word_of_int ((sint (valid_page params) - 1) * sint (valid_limit params))"
    by (simp_all add: ValidatePaginationParams_def Let_def)
  then have offset: "sint (fst ?V)
      = ((sint (valid_page params) - 1) * sint (valid_limit params) + 2 ^ 31) mod 2 ^ 32 - 2 ^ 31"
    by (simp only: sint_word_of_int_mod)
  have "sint (valid_page params) = max 1 (sint (Page params))"
    by (simp add: valid_page_def max_def)
  then show ?thesis
    using valid_limit_range [of params] offset by (simp add: limit case_prod_beta)
qed

text \<open>
  Pages cover a listing. As long as the offsets stay within 32 bits, the pages 1 to k of a
  listing, put together, are its first k times limit entries: no entry is skipped or shown twice.
\<close>

theorem pages_cover_the_listing:
  assumes "1 \<le> sint limit" "sint limit \<le> 100" "int k * sint limit < 2 ^ 31"
  shows "concat (map (page_window limit rows) [1..<Suc k]) = take (k * nat (sint limit)) rows"
  using assms(3)
proof (induction k)
  case (Suc k)
  have "int k * sint limit < 2 ^ 31"
    using Suc.prems assms(1) by (simp add: distrib_right)
  then have "concat (map (page_window limit rows) [1..<Suc k]) = take (k * nat (sint limit)) rows"
    by (rule Suc.IH)
  then show ?case
    using page_window_eq [OF assms(1,2), of "Suc k" rows] Suc.prems
      take_add_window [of k "nat (sint limit)" rows] by simp
qed simp

theorem pages_cover_the_listing_witness:
  "concat (map (page_window 2 [''a'', ''b'', ''c'']) [1..<Suc 2]) = [''a'', ''b'', ''c'']"
proof -
  have "concat (map (page_window 2 [''a'', ''b'', ''c'']) [1..<Suc 2])
      = take (2 * nat (sint (2 :: int32))) [''a'', ''b'', ''c'']"
    by (rule pages_cover_the_listing) simp_all
  then show ?thesis by simp
qed

text \<open>
  A page can be out of reach. Page 21474838 of size 100 wraps to a negative offset, which the
  database refuses: in every state the listing of friends fails with a database error, and the HTTP
  answer for it is 500.
\<close>

theorem wrapped_page_always_fails:
  "fst (FriendService_GetFriends (friend_main E) u \<lparr>Limit = 100, Page = 21474838\<rparr> w) = Fail ErrDB \<and>
   fst (MapErrorToHTTP (FromGrpcError (ToGrpcError ErrDB))) = http_InternalServerError"
proof
  have "sint (fst (ValidatePaginationParams \<lparr>Limit = 100, Page = 21474838\<rparr>)) < 0" by code_simp
  then show "fst (FriendService_GetFriends (friend_main E) u \<lparr>Limit = 100, Page = 21474838\<rparr> w)
      = Fail ErrDB"
    by (rule GetFriends_overflow) (simp add: friend_main_def)
qed (simp add: MapErrorToHTTP_def)

section \<open>Errors and messages between the processes\<close>

text \<open>
  What a gRPC hop does to an error. Of the program's error values, exactly three are answered
  with another HTTP status after they crossed a gRPC connection: "not exist" (400 becomes 404),
  "invalid params" (400 becomes 500) and "post not found" (404 becomes 500). A second hop changes
  nothing more, whatever the error was.
\<close>

theorem grpc_hop_preserves_status:
  "filter (\<lambda>e. fst (MapErrorToHTTP (FromGrpcError (ToGrpcError e))) \<noteq> fst (MapErrorToHTTP e)) sentinels
     = [ErrNotExist, ErrInvalidParams, ErrPostNotFound] \<and>
   FromGrpcError (ToGrpcError (FromGrpcError e)) = FromGrpcError e"
proof
  show "filter (\<lambda>e. fst (MapErrorToHTTP (FromGrpcError (ToGrpcError e))) \<noteq> fst (MapErrorToHTTP e))
      sentinels = [ErrNotExist, ErrInvalidParams, ErrPostNotFound]"
    by code_simp
  show "FromGrpcError (ToGrpcError (FromGrpcError e)) = FromGrpcError e"
    using FromGrpcError_range [of e] by auto
qed

text \<open>
  Messages survive the wire. Converting a profile, a short profile, a list or a map of them,
  uploaded files, a registration or the relation counts to its message and back gives the same value.
\<close>

theorem messages_round_trip:
  "FromProtoProfile (ToProtoProfile p) = p \<and>
   FromProtoShortProfileSlice (ToProtoShortProfileSlice sps) = sps \<and>
   FromProtoOtherShortProfileSlice (ToProtoOtherShortProfileSlice sps) = sps \<and>
   FromPbShortProfileList (Some (ToPbShortProfileList sps)) = sps \<and>
   FromProtoShortProfileMap (ToProtoShortProfileMap m) = m \<and>
   ProtoToFiles (FilesToProto fs) = fs \<and>
   ProtoToRegisterRequest (RegisterRequestToProto req) = req \<and>
   FromProtoUserRelationsCounts (ToProtoUserRelationsCounts c) = c"
  by simp

text \<open>
  Ids in paths are read modulo 2 to the 32. A path variable that spells an integer of up to 64 bits
  is accepted and its low 32 bits are the id: ids that differ by a multiple of 2 to the 32 name the same
  object.
\<close>

theorem path_id_is_truncated:
  assumes "rq_Vars r name = Some (strconv_Itoa i)" "- (2 ^ 63) \<le> i" "i < 2 ^ 63"
  shows "PathInt32 r name w = (Ret (word_of_int i), w)"
  using assms(1) Atoi_Itoa [OF assms(2,3)] by (simp add: PathInt32_def ret_def)

theorem path_id_is_truncated_witness:
  "fst (PathInt32 ((example_request 1 2)\<lparr>rq_Vars := [''id'' \<mapsto> ''4294967298'']\<rparr>) ''id'' example_world) = Ret 2"
proof -
  let ?r = "(example_request 1 2)\<lparr>rq_Vars := [''id'' \<mapsto> ''4294967298'']\<rparr>"
  have "strconv_Itoa 4294967298 = ''4294967298''"
    by (simp add: strconv_Itoa_def decimal.simps digit_def) code_simp
  then have "rq_Vars ?r ''id'' = Some (strconv_Itoa 4294967298)" by simp
  from path_id_is_truncated [OF this, of example_world] show ?thesis by simp
qed

end
